(* ===== verification/Prelude.thy ===== *)
theory Prelude
  imports Main "HOL-Library.State_Monad" "HOL-Library.Sublist"
begin

text \<open>
  What every theory of the development shares: the type synonyms of the model (times and
  durations in nanoseconds), the collections of facts its proofs name, the two ways a Go
  function returns an error (as a value of a sum type, threaded through a state monad), and
  the reasoning principles about stateful computations: running a bind, relations every step
  of a computation respects, and computations that keep a part of the state.
\<close>

section \<open>Collections of facts\<close>

named_theorems go_defs \<open>definitions of helper functions, unfolded together\<close>
named_theorems frame_intros \<open>introduction rules for state_io_rel: what a computation leaves alone\<close>
named_theorems run_simps \<open>equations for running the operations of the store\<close>

section \<open>Time\<close>

text \<open>
  A \<^verbatim>\<open>time.Time\<close> is the number of nanoseconds since Go's zero time (1 January of year 1,
  UTC), so \<^verbatim>\<open>IsZero\<close> is equality with 0; a \<^verbatim>\<open>time.Duration\<close> is a number of nanoseconds.
\<close>

type_synonym time = int
type_synonym duration = int

definition nanosecond :: duration where "nanosecond = 1"
definition second :: duration where "second = 1000000000"
definition minute :: duration where "minute = 60 * second"
definition hour :: duration where "hour = 60 * minute"

definition unix_to_internal :: int where "unix_to_internal = 62135596800"

definition time_Unix :: "int \<Rightarrow> time" where
  "time_Unix s = (s + unix_to_internal) * second"

definition unix_of :: "time \<Rightarrow> int" where
  "unix_of t = t div second - unix_to_internal"

definition time_IsZero :: "time \<Rightarrow> bool" where
  "time_IsZero t \<longleftrightarrow> t = 0"

lemma second_pos [simp]: "0 < second"
  by (simp add: second_def)

lemma unix_of_time_Unix [simp]: "unix_of (time_Unix s) = s"
  by (simp add: unix_of_def time_Unix_def second_def)

lemma unix_of_mono: "t \<le> t' \<Longrightarrow> unix_of t \<le> unix_of t'"
  by (simp add: unix_of_def second_def zdiv_mono1)

section \<open>Stateful computations\<close>

abbreviation ret :: "'a \<Rightarrow> ('s, 'a) state" where
  "ret \<equiv> State_Monad.return"

abbreviation getS :: "('s, 's) state" where
  "getS \<equiv> State_Monad.get"

definition modifyS :: "('s \<Rightarrow> 's) \<Rightarrow> ('s, unit) state" where
  "modifyS f = State (\<lambda>s. ((), f s))"

text \<open>
  \<open>check m k\<close> is Go's \<^verbatim>\<open>x, err := m; if err != nil { return err }; k(x)\<close>.
\<close>

definition check :: "('s, 'e + 'a) state \<Rightarrow> ('a \<Rightarrow> ('s, 'e + 'b) state) \<Rightarrow> ('s, 'e + 'b) state" where
  "check m k = State_Monad.bind m (\<lambda>r. case r of Inl e \<Rightarrow> ret (Inl e) | Inr x \<Rightarrow> k x)"

definition exec :: "('s, 'a) state \<Rightarrow> 's \<Rightarrow> 's" where
  "exec m s = snd (run_state m s)"

definition result :: "('s, 'a) state \<Rightarrow> 's \<Rightarrow> 'a" where
  "result m s = fst (run_state m s)"

lemma run_modifyS [simp]: "run_state (modifyS f) s = ((), f s)"
  by (simp add: modifyS_def)

lemma run_check:
  "run_state (check m k) s =
     (case run_state m s of (r, s') \<Rightarrow>
        (case r of Inl e \<Rightarrow> (Inl e, s') | Inr x \<Rightarrow> run_state (k x) s'))"
  by (auto simp: check_def split: prod.splits sum.splits)

lemma run_result_exec: "run_state m s = (result m s, exec m s)"
  by (simp add: result_def exec_def)

lemma exec_eqI: "run_state m s = (r, s') \<Longrightarrow> exec m s = s'"
  by (simp add: exec_def)

section \<open>Relations every computation respects\<close>

text \<open>
  A frame property is a relation between the state before and after, reflexive and transitive;
  a computation built by \<open>bind\<close> and \<open>check\<close> from computations that respect it respects it.
\<close>

lemma frame_return [frame_intros]: "reflp R \<Longrightarrow> state_io_rel R (ret x)"
  by (simp add: state_io_rel_def reflpD)

lemma frame_get [frame_intros]: "reflp R \<Longrightarrow> state_io_rel R getS"
  by (simp add: state_io_rel_def reflpD)

lemma frame_modify: "(\<And>s. R s (f s)) \<Longrightarrow> state_io_rel R (modifyS f)"
  by (simp add: state_io_rel_def)

lemma frame_bind [frame_intros]:
  assumes "transp R" and "state_io_rel R m" and "\<And>x. state_io_rel R (f x)"
  shows "state_io_rel R (State_Monad.bind m f)"
proof (unfold state_io_rel_def, intro allI)
  fix s
  obtain a s' where m: "run_state m s = (a, s')"
    by force
  from m assms(2) have "R s s'" by (auto simp: state_io_rel_def dest: spec [of _ s])
  moreover from assms(3) have "R s' (snd (run_state (f a) s'))"
    by (simp add: state_io_rel_def)
  ultimately show "R s (snd (run_state (State_Monad.bind m f) s))"
    using assms(1) m by (auto dest: transpD)
qed

lemma frame_check [frame_intros]:
  assumes "reflp R" and "transp R" and "state_io_rel R m" and "\<And>x. state_io_rel R (k x)"
  shows "state_io_rel R (check m k)"
  unfolding check_def
  using assms by (intro frame_bind) (auto split: sum.splits intro: frame_return)

lemma frame_if [frame_intros]:
  "(b \<Longrightarrow> state_io_rel R m) \<Longrightarrow> (\<not> b \<Longrightarrow> state_io_rel R n) \<Longrightarrow>
     state_io_rel R (if b then m else n)"
  by simp

lemma frame_case_sum [frame_intros]:
  "(\<And>a. state_io_rel R (f a)) \<Longrightarrow> (\<And>b. state_io_rel R (g b)) \<Longrightarrow>
     state_io_rel R (case x of Inl a \<Rightarrow> f a | Inr b \<Rightarrow> g b)"
  by (cases x) auto

lemma frame_case_option [frame_intros]:
  "state_io_rel R m \<Longrightarrow> (\<And>a. state_io_rel R (f a)) \<Longrightarrow>
     state_io_rel R (case x of None \<Rightarrow> m | Some a \<Rightarrow> f a)"
  by (cases x) auto

lemma frame_case_prod [frame_intros]:
  "(\<And>a b. state_io_rel R (f a b)) \<Longrightarrow> state_io_rel R (case x of (a, b) \<Rightarrow> f a b)"
  by (cases x) auto

lemma frame_let [frame_intros]:
  "(\<And>x. state_io_rel R (f x)) \<Longrightarrow> state_io_rel R (let x = a in f x)"
  by simp

lemma frame_exec: "state_io_rel R m \<Longrightarrow> R s (exec m s)"
  by (simp add: state_io_rel_def exec_def)

lemma frame_run: "state_io_rel R m \<Longrightarrow> run_state m s = (r, s') \<Longrightarrow> R s s'"
  by (auto simp: state_io_rel_def dest: spec [of _ s])

text \<open>A relation that says a projection of the state is unchanged, and one that says a
  predicate is kept, are both reflexive and transitive.\<close>

definition same :: "('s \<Rightarrow> 'a) \<Rightarrow> 's \<Rightarrow> 's \<Rightarrow> bool" where
  "same f s s' \<longleftrightarrow> f s' = f s"

definition keeps :: "('s \<Rightarrow> bool) \<Rightarrow> 's \<Rightarrow> 's \<Rightarrow> bool" where
  "keeps P s s' \<longleftrightarrow> (P s \<longrightarrow> P s')"

lemma same_refl [simp, intro]: "reflp (same f)"
  by (simp add: same_def reflp_def)

lemma same_trans [simp, intro]: "transp (same f)"
  by (simp add: same_def transp_def)

lemma keeps_refl [simp, intro]: "reflp (keeps P)"
  by (simp add: keeps_def reflp_def)

lemma keeps_trans [simp, intro]: "transp (keeps P)"
  by (auto simp: keeps_def transp_def)

lemma keeps_exec: "state_io_rel (keeps P) m \<Longrightarrow> P s \<Longrightarrow> P (exec m s)"
  by (auto simp: state_io_rel_def keeps_def exec_def)

lemma same_exec: "state_io_rel (same f) m \<Longrightarrow> f (exec m s) = f s"
  by (simp add: state_io_rel_def same_def exec_def)

section \<open>What every result satisfies\<close>

text \<open>
  \<open>yields m P\<close>: whatever the state, the value \<open>m\<close> returns satisfies \<open>P\<close>. The rules follow the
  structure of the computation, one goal per branch.
\<close>

definition yields :: "('s, 'a) state \<Rightarrow> ('a \<Rightarrow> bool) \<Rightarrow> bool" where
  "yields m P \<longleftrightarrow> (\<forall>s. P (result m s))"

lemma yieldsD: "yields m P \<Longrightarrow> P (result m s)"
  by (simp add: yields_def)

lemma yields_ret: "P x \<Longrightarrow> yields (ret x) P"
  by (simp add: yields_def result_def)

lemma yields_bind: "(\<And>x. yields (f x) P) \<Longrightarrow> yields (State_Monad.bind m f) P"
  by (simp add: yields_def result_def split_beta)

lemma yields_check:
  "(\<And>e. P (Inl e)) \<Longrightarrow> (\<And>x. yields (k x) P) \<Longrightarrow> yields (check m k) P"
  by (auto simp: yields_def result_def run_check split: prod.splits sum.splits)

lemma yields_if: "(b \<Longrightarrow> yields m P) \<Longrightarrow> (\<not> b \<Longrightarrow> yields n P) \<Longrightarrow> yields (if b then m else n) P"
  by simp

lemma yields_case_sum:
  "(\<And>a. x = Inl a \<Longrightarrow> yields (f a) P) \<Longrightarrow> (\<And>b. x = Inr b \<Longrightarrow> yields (g b) P) \<Longrightarrow>
     yields (case x of Inl a \<Rightarrow> f a | Inr b \<Rightarrow> g b) P"
  by (cases x) auto

lemma yields_case_option:
  "(x = None \<Longrightarrow> yields m P) \<Longrightarrow> (\<And>a. x = Some a \<Longrightarrow> yields (f a) P) \<Longrightarrow>
     yields (case x of None \<Rightarrow> m | Some a \<Rightarrow> f a) P"
  by (cases x) auto

lemma yields_case_prod:
  "(\<And>a b. x = (a, b) \<Longrightarrow> yields (f a b) P) \<Longrightarrow> yields (case x of (a, b) \<Rightarrow> f a b) P"
  by (cases x) auto

lemmas yields_intros = yields_ret yields_if yields_case_sum yields_case_option yields_case_prod
  yields_check yields_bind

section \<open>Lists and association lists\<close>

lemma length_filter_pos: "0 < length (filter P xs) \<longleftrightarrow> (\<exists>x \<in> set xs. P x)"
  by (induction xs) auto

end
