(* ===== verification/Schema.thy ===== *)
theory Schema
  imports GoStrings
begin

text \<open>
  The data the server keeps (internal/store/models.go) and the database that holds it: one table
  per \<^verbatim>\<open>CREATE TABLE\<close> of internal/store/migrations/migrations.go that the store still reads or
  writes, the statements the store issues on them, and the integrity the schema declares
  (primary keys, unique columns, foreign keys with \<^verbatim>\<open>ON DELETE CASCADE\<close>), which the statements
  enforce. Rows are in insertion order; \<^verbatim>\<open>LOWER\<close> and \<^verbatim>\<open>LIKE\<close> belong to the database engine
  (SQLite or PostgreSQL), so they are parameters, gathered in the record \<open>engine\<close>. Column length
  limits of the PostgreSQL schema are not modelled.
\<close>

section \<open>Errors\<close>

datatype sql_error = UniqueViolation | ForeignKeyViolation | Fault

datatype scim_error =
    ScimErrorUniqueness
  | ScimErrorResourceNotFound string
  | ScimErrorInvalidValue
  | ScimErrorInvalidFilter
  | ScimErrorInvalidPath
  | ScimErrorNoTarget
  | ScimErrorTooMany
  | ErrAdminGrant

text \<open>The sentinel errors of the packages; \<^verbatim>\<open>errors.Is\<close> on them is equality.\<close>

datatype err =
    ErrNotFound
  | ErrAlreadyExists
  | ErrSessionExpired
  | ErrConflict
  | ErrSSOSessionEnded
  | ErrPasswordChangeRequired
  | ErrInvalidIDToken
  | ErrProviderDisabled
  | ErrInvalidLogoutToken
  | ErrScim scim_error
  | ErrSQL sql_error
  | ErrOther string

section \<open>Models\<close>

record user =
  u_id :: string
  u_username :: string
  u_email :: string
  u_display_name :: string
  u_password_hash :: string
  u_role :: string
  u_status :: string
  u_sso_provider :: string
  u_sso_subject :: string
  u_scim_managed :: bool
  u_push_device_id :: string
  u_must_change_password :: bool
  u_created_at :: time
  u_updated_at :: time
  u_last_login_at :: "time option"

record session =
  s_token_hash :: string
  s_user_id :: string
  s_user_agent :: string
  s_ip_address :: string
  s_created_at :: time
  s_expires_at :: time
  s_sso_sid :: string

record group =
  g_id :: string
  g_display_name :: string
  g_external_id :: string
  g_members :: "string list"
  g_created_at :: time
  g_updated_at :: time

record audit_record =
  a_id :: int
  a_user_id :: string
  a_action :: string
  a_resource :: string
  a_details :: string
  a_ip_address :: string
  a_created_at :: time

record setting =
  k_key :: string
  k_value :: string
  k_updated_at :: time

record sso_logout =
  l_sid :: string
  l_expires_at :: time

record sso_subject_logout =
  f_provider :: string
  f_subject :: string
  f_cutoff :: time
  f_expires_at :: time

section \<open>The database\<close>

record engine =
  driver :: string
  sql_lower :: "string \<Rightarrow> string"
  sql_like :: "string \<Rightarrow> string \<Rightarrow> bool"

text \<open>\<open>username_ci\<close> says whether the index on \<^verbatim>\<open>LOWER(username)\<close> could be built. The rows of
  \<open>t_groups\<close> have no members: membership is the join table \<open>t_group_members\<close>.\<close>

record db =
  t_users :: "user list"
  t_sessions :: "session list"
  t_groups :: "group list"
  t_group_members :: "(string \<times> string) list"
  t_audit_records :: "audit_record list"
  t_audit_seq :: int
  t_server_settings :: "setting list"
  t_sso_logouts :: "sso_logout list"
  t_sso_subject_logouts :: "sso_subject_logout list"
  username_ci :: bool

type_synonym 'a query = "engine \<Rightarrow> db \<Rightarrow> (err + 'a) \<times> db"

definition empty_db :: db where
  "empty_db = \<lparr>t_users = [], t_sessions = [], t_groups = [], t_group_members = [],
     t_audit_records = [], t_audit_seq = 0, t_server_settings = [], t_sso_logouts = [],
     t_sso_subject_logouts = [], username_ci = False\<rparr>"

subsection \<open>Integrity\<close>

definition users_ok :: "engine \<Rightarrow> bool \<Rightarrow> user list \<Rightarrow> bool" where
  "users_ok E ci us \<longleftrightarrow>
     distinct (map u_id us) \<and> distinct (map u_username us) \<and>
     (ci \<longrightarrow> distinct (map (\<lambda>u. sql_lower E (u_username u)) us))"

definition sessions_ok :: "db \<Rightarrow> bool" where
  "sessions_ok d \<longleftrightarrow>
     distinct (map s_token_hash (t_sessions d)) \<and>
     s_user_id ` set (t_sessions d) \<subseteq> u_id ` set (t_users d)"

definition groups_ok :: "group list \<Rightarrow> bool" where
  "groups_ok gs \<longleftrightarrow> distinct (map g_id gs) \<and> distinct (map g_display_name gs)"

definition members_ok :: "db \<Rightarrow> bool" where
  "members_ok d \<longleftrightarrow>
     distinct (t_group_members d) \<and>
     fst ` set (t_group_members d) \<subseteq> g_id ` set (t_groups d) \<and>
     snd ` set (t_group_members d) \<subseteq> u_id ` set (t_users d)"

definition keys_ok :: "db \<Rightarrow> bool" where
  "keys_ok d \<longleftrightarrow>
     distinct (map k_key (t_server_settings d)) \<and>
     distinct (map l_sid (t_sso_logouts d)) \<and>
     distinct (map (\<lambda>f. (f_provider f, f_subject f)) (t_sso_subject_logouts d))"

definition audit_ok :: "db \<Rightarrow> bool" where
  "audit_ok d \<longleftrightarrow>
     distinct (map a_id (t_audit_records d)) \<and>
     (\<forall>r \<in> set (t_audit_records d). a_id r \<le> t_audit_seq d)"

definition wf_db :: "engine \<Rightarrow> db \<Rightarrow> bool" where
  "wf_db E d \<longleftrightarrow>
     users_ok E (username_ci d) (t_users d) \<and> sessions_ok d \<and> groups_ok (t_groups d) \<and>
     members_ok d \<and> keys_ok d \<and> audit_ok d"

subsection \<open>Statements on users\<close>

definition select_user :: "(engine \<Rightarrow> user \<Rightarrow> bool) \<Rightarrow> user query" where
  "select_user P E d =
     (case find (P E) (t_users d) of None \<Rightarrow> Inl ErrNotFound | Some u \<Rightarrow> Inr u, d)"

definition count_users :: "(engine \<Rightarrow> user \<Rightarrow> bool) \<Rightarrow> nat query" where
  "count_users P E d = (Inr (length (filter (P E) (t_users d))), d)"

definition insert_user :: "user \<Rightarrow> unit query" where
  "insert_user u E d =
     (let us = t_users d @ [u]
      in if users_ok E (username_ci d) us then (Inr (), d\<lparr>t_users := us\<rparr>)
         else (Inl (ErrSQL UniqueViolation), d))"

definition update_users :: "(user \<Rightarrow> bool) \<Rightarrow> (user \<Rightarrow> user) \<Rightarrow> nat query" where
  "update_users P f E d =
     (let us = map (\<lambda>u. if P u then f u else u) (t_users d)
      in if users_ok E (username_ci d) us
         then (Inr (length (filter P (t_users d))), d\<lparr>t_users := us\<rparr>)
         else (Inl (ErrSQL UniqueViolation), d))"

definition delete_user :: "string \<Rightarrow> nat query" where
  "delete_user i E d =
     (Inr (length (filter (\<lambda>u. u_id u = i) (t_users d))),
      d\<lparr>t_users := filter (\<lambda>u. u_id u \<noteq> i) (t_users d),
        t_sessions := filter (\<lambda>s. s_user_id s \<noteq> i) (t_sessions d),
        t_group_members := filter (\<lambda>m. snd m \<noteq> i) (t_group_members d)\<rparr>)"

subsection \<open>Statements on sessions and logout fences\<close>

definition insert_session :: "session \<Rightarrow> unit query" where
  "insert_session s E d =
     (if s_token_hash s \<in> s_token_hash ` set (t_sessions d) then (Inl (ErrSQL UniqueViolation), d)
      else if s_user_id s \<notin> u_id ` set (t_users d) then (Inl (ErrSQL ForeignKeyViolation), d)
      else (Inr (), d\<lparr>t_sessions := t_sessions d @ [s]\<rparr>))"

definition select_session :: "string \<Rightarrow> session query" where
  "select_session th E d =
     (case find (\<lambda>s. s_token_hash s = th) (t_sessions d) of
        None \<Rightarrow> Inl ErrNotFound | Some s \<Rightarrow> Inr s, d)"

definition delete_sessions :: "(db \<Rightarrow> session \<Rightarrow> bool) \<Rightarrow> unit query" where
  "delete_sessions P E d = (Inr (), d\<lparr>t_sessions := filter (\<lambda>s. \<not> P d s) (t_sessions d)\<rparr>)"

definition delete_logouts :: "(sso_logout \<Rightarrow> bool) \<Rightarrow> unit query" where
  "delete_logouts P E d = (Inr (), d\<lparr>t_sso_logouts := filter (\<lambda>l. \<not> P l) (t_sso_logouts d)\<rparr>)"

definition upsert_logout :: "string \<Rightarrow> time \<Rightarrow> unit query" where
  "upsert_logout sid until E d =
     (Inr (),
      d\<lparr>t_sso_logouts :=
          (if sid \<in> l_sid ` set (t_sso_logouts d)
           then map (\<lambda>l. if l_sid l = sid then l\<lparr>l_expires_at := until\<rparr> else l) (t_sso_logouts d)
           else t_sso_logouts d @ [\<lparr>l_sid = sid, l_expires_at = until\<rparr>])\<rparr>)"

definition delete_subject_logouts :: "(sso_subject_logout \<Rightarrow> bool) \<Rightarrow> unit query" where
  "delete_subject_logouts P E d =
     (Inr (), d\<lparr>t_sso_subject_logouts := filter (\<lambda>f. \<not> P f) (t_sso_subject_logouts d)\<rparr>)"

text \<open>\<^verbatim>\<open>ON CONFLICT (provider, subject) DO UPDATE SET ... WHERE cutoff < excluded.cutoff\<close>.\<close>

definition upsert_subject_logout :: "string \<Rightarrow> string \<Rightarrow> time \<Rightarrow> time \<Rightarrow> unit query" where
  "upsert_subject_logout p sub cutoff until E d =
     (Inr (),
      d\<lparr>t_sso_subject_logouts :=
          (if (p, sub) \<in> (\<lambda>f. (f_provider f, f_subject f)) ` set (t_sso_subject_logouts d)
           then map (\<lambda>f. if f_provider f = p \<and> f_subject f = sub \<and> f_cutoff f < cutoff
                         then f\<lparr>f_cutoff := cutoff, f_expires_at := until\<rparr> else f)
                  (t_sso_subject_logouts d)
           else t_sso_subject_logouts d @
                  [\<lparr>f_provider = p, f_subject = sub, f_cutoff = cutoff, f_expires_at = until\<rparr>])\<rparr>)"

subsection \<open>Statements on groups\<close>

definition select_group :: "(engine \<Rightarrow> group \<Rightarrow> bool) \<Rightarrow> group query" where
  "select_group P E d =
     (case find (P E) (t_groups d) of None \<Rightarrow> Inl ErrNotFound | Some g \<Rightarrow> Inr g, d)"

definition insert_group :: "group \<Rightarrow> unit query" where
  "insert_group g E d =
     (let gs = t_groups d @ [g\<lparr>g_members := []\<rparr>]
      in if groups_ok gs then (Inr (), d\<lparr>t_groups := gs\<rparr>) else (Inl (ErrSQL UniqueViolation), d))"

definition update_groups :: "(group \<Rightarrow> bool) \<Rightarrow> (group \<Rightarrow> group) \<Rightarrow> nat query" where
  "update_groups P f E d =
     (let gs = map (\<lambda>g. if P g then f g else g) (t_groups d)
      in if groups_ok gs then (Inr (length (filter P (t_groups d))), d\<lparr>t_groups := gs\<rparr>)
         else (Inl (ErrSQL UniqueViolation), d))"

definition delete_group :: "string \<Rightarrow> nat query" where
  "delete_group i E d =
     (Inr (length (filter (\<lambda>g. g_id g = i) (t_groups d))),
      d\<lparr>t_groups := filter (\<lambda>g. g_id g \<noteq> i) (t_groups d),
        t_group_members := filter (\<lambda>m. fst m \<noteq> i) (t_group_members d)\<rparr>)"

definition select_members :: "string \<Rightarrow> string list query" where
  "select_members i E d = (Inr (map snd (filter (\<lambda>m. fst m = i) (t_group_members d))), d)"

text \<open>\<^verbatim>\<open>ON CONFLICT DO NOTHING\<close> covers the primary key, not the foreign keys.\<close>

definition insert_member :: "string \<Rightarrow> string \<Rightarrow> unit query" where
  "insert_member gi ui E d =
     (if (gi, ui) \<in> set (t_group_members d) then (Inr (), d)
      else if gi \<notin> g_id ` set (t_groups d) \<or> ui \<notin> u_id ` set (t_users d)
      then (Inl (ErrSQL ForeignKeyViolation), d)
      else (Inr (), d\<lparr>t_group_members := t_group_members d @ [(gi, ui)]\<rparr>))"

definition delete_member :: "string \<Rightarrow> string \<Rightarrow> unit query" where
  "delete_member gi ui E d =
     (Inr (), d\<lparr>t_group_members := filter (\<lambda>m. m \<noteq> (gi, ui)) (t_group_members d)\<rparr>)"

subsection \<open>Statements on the audit trail and the settings\<close>

definition insert_audit :: "audit_record \<Rightarrow> unit query" where
  "insert_audit r E d =
     (Inr (), d\<lparr>t_audit_records := t_audit_records d @ [r\<lparr>a_id := t_audit_seq d + 1\<rparr>],
               t_audit_seq := t_audit_seq d + 1\<rparr>)"

definition select_setting :: "string \<Rightarrow> string query" where
  "select_setting k E d =
     (case find (\<lambda>x. k_key x = k) (t_server_settings d) of
        None \<Rightarrow> Inl ErrNotFound | Some x \<Rightarrow> Inr (k_value x), d)"

definition upsert_setting :: "string \<Rightarrow> string \<Rightarrow> time \<Rightarrow> unit query" where
  "upsert_setting k v now E d =
     (Inr (),
      d\<lparr>t_server_settings :=
          (if k \<in> k_key ` set (t_server_settings d)
           then map (\<lambda>x. if k_key x = k then x\<lparr>k_value := v, k_updated_at := now\<rparr> else x)
                  (t_server_settings d)
           else t_server_settings d @ [\<lparr>k_key = k, k_value = v, k_updated_at = now\<rparr>])\<rparr>)"

definition delete_setting :: "string \<Rightarrow> unit query" where
  "delete_setting k E d =
     (Inr (), d\<lparr>t_server_settings := filter (\<lambda>x. k_key x \<noteq> k) (t_server_settings d)\<rparr>)"

section \<open>Every statement keeps the integrity\<close>

lemmas wf_parts = wf_db_def users_ok_def sessions_ok_def groups_ok_def members_ok_def
  keys_ok_def audit_ok_def

lemma distinct_map_filterD: "distinct (map f xs) \<Longrightarrow> distinct (map f (filter P xs))"
  by (induction xs) auto

lemma map_if_same:
  assumes "\<And>x. g (f x) = g x"
  shows "map g (map (\<lambda>x. if P x then f x else x) xs) = map g xs"
  using assms by auto

lemma image_if_same:
  assumes "\<And>x. g (f x) = g x"
  shows "g ` (\<lambda>x. if P x then f x else x) ` A = g ` A"
proof -
  have "g (if P x then f x else x) = g x" for x
    using assms by simp
  then show ?thesis by (simp only: image_image)
qed

lemma filter_references:
  "f ` set xs \<subseteq> k ` set ys \<Longrightarrow>
     f ` set (filter (\<lambda>x. f x \<noteq> i) xs) \<subseteq> k ` set (filter (\<lambda>y. k y \<noteq> i) ys)"
  by auto

lemma filter_subset: "f ` set xs \<subseteq> A \<Longrightarrow> f ` set (filter P xs) \<subseteq> A"
  by auto

lemma wf_select_user: "snd (select_user P E d) = d"
  by (simp add: select_user_def)

lemma wf_insert_user: "wf_db E d \<Longrightarrow> wf_db E (snd (insert_user u E d))"
  by (auto simp: insert_user_def wf_db_def sessions_ok_def members_ok_def keys_ok_def audit_ok_def Let_def)

lemma wf_update_users:
  assumes "\<And>u. u_id (f u) = u_id u" and "wf_db E d"
  shows "wf_db E (snd (update_users P f E d))"
proof -
  let ?us = "map (\<lambda>u. if P u then f u else u) (t_users d)"
  have "u_id ` set ?us = u_id ` set (t_users d)"
    using image_if_same [of u_id f P "set (t_users d)"] assms(1) by simp
  with assms(2) show ?thesis
    by (simp add: update_users_def wf_db_def sessions_ok_def members_ok_def keys_ok_def
        audit_ok_def Let_def)
qed

lemma wf_delete_user:
  assumes "wf_db E d"
  shows "wf_db E (snd (delete_user i E d))"
proof -
  have "sessions_ok (snd (delete_user i E d))"
    using assms filter_references [of s_user_id "t_sessions d" u_id "t_users d" i]
    by (simp add: wf_db_def sessions_ok_def delete_user_def distinct_map_filterD)
  moreover have "members_ok (snd (delete_user i E d))"
    using assms filter_references [of snd "t_group_members d" u_id "t_users d" i]
      filter_subset [of fst "t_group_members d" "g_id ` set (t_groups d)" "\<lambda>m. snd m \<noteq> i"]
    by (simp add: wf_db_def members_ok_def delete_user_def)
  ultimately show ?thesis
    using assms by (simp add: wf_db_def users_ok_def keys_ok_def audit_ok_def delete_user_def
        distinct_map_filterD)
qed

lemma wf_insert_session: "wf_db E d \<Longrightarrow> wf_db E (snd (insert_session s E d))"
  by (auto simp: insert_session_def wf_db_def sessions_ok_def members_ok_def keys_ok_def audit_ok_def)

lemma wf_delete_sessions: "wf_db E d \<Longrightarrow> wf_db E (snd (delete_sessions P E d))"
  by (auto simp: delete_sessions_def wf_parts intro: distinct_map_filterD)

lemma wf_delete_logouts: "wf_db E d \<Longrightarrow> wf_db E (snd (delete_logouts P E d))"
  by (auto simp: delete_logouts_def wf_parts intro: distinct_map_filterD)

lemma wf_delete_subject_logouts: "wf_db E d \<Longrightarrow> wf_db E (snd (delete_subject_logouts P E d))"
  by (auto simp: delete_subject_logouts_def wf_parts intro: distinct_map_filterD)

lemma wf_upsert_logout: "wf_db E d \<Longrightarrow> wf_db E (snd (upsert_logout sid t E d))"
  using map_if_same [of l_sid "\<lambda>l. l\<lparr>l_expires_at := t\<rparr>" "\<lambda>l. l_sid l = sid" "t_sso_logouts d"]
  by (auto simp: upsert_logout_def wf_db_def users_ok_def sessions_ok_def groups_ok_def
      members_ok_def keys_ok_def audit_ok_def simp del: map_map)

lemma wf_upsert_subject_logout:
  "wf_db E d \<Longrightarrow> wf_db E (snd (upsert_subject_logout p s c t E d))"
  using map_if_same [of "\<lambda>f. (f_provider f, f_subject f)"
      "\<lambda>f. f\<lparr>f_cutoff := c, f_expires_at := t\<rparr>"
      "\<lambda>f. f_provider f = p \<and> f_subject f = s \<and> f_cutoff f < c" "t_sso_subject_logouts d"]
  by (auto simp: upsert_subject_logout_def wf_db_def users_ok_def sessions_ok_def groups_ok_def
      members_ok_def keys_ok_def audit_ok_def simp del: map_map)

lemma wf_insert_group: "wf_db E d \<Longrightarrow> wf_db E (snd (insert_group g E d))"
  by (auto simp: insert_group_def wf_db_def sessions_ok_def members_ok_def keys_ok_def
      audit_ok_def Let_def)

lemma wf_update_groups:
  assumes "\<And>g. g_id (f g) = g_id g" and "wf_db E d"
  shows "wf_db E (snd (update_groups P f E d))"
proof -
  let ?gs = "map (\<lambda>g. if P g then f g else g) (t_groups d)"
  have "g_id ` set ?gs = g_id ` set (t_groups d)"
    using image_if_same [of g_id f P "set (t_groups d)"] assms(1) by simp
  with assms(2) show ?thesis
    by (simp add: update_groups_def wf_db_def sessions_ok_def members_ok_def keys_ok_def
        audit_ok_def Let_def)
qed

lemma wf_delete_group:
  assumes "wf_db E d"
  shows "wf_db E (snd (delete_group i E d))"
proof -
  have "members_ok (snd (delete_group i E d))"
    using assms filter_references [of fst "t_group_members d" g_id "t_groups d" i]
      filter_subset [of snd "t_group_members d" "u_id ` set (t_users d)" "\<lambda>m. fst m \<noteq> i"]
    by (simp add: wf_db_def members_ok_def delete_group_def)
  then show ?thesis
    using assms by (simp add: wf_db_def users_ok_def groups_ok_def sessions_ok_def keys_ok_def
        audit_ok_def delete_group_def distinct_map_filterD)
qed

lemma wf_insert_member: "wf_db E d \<Longrightarrow> wf_db E (snd (insert_member g u E d))"
  by (auto simp: insert_member_def wf_parts)

lemma wf_delete_member: "wf_db E d \<Longrightarrow> wf_db E (snd (delete_member g u E d))"
  by (auto simp: delete_member_def wf_parts)

lemma wf_insert_audit: "wf_db E d \<Longrightarrow> wf_db E (snd (insert_audit r E d))"
  by (force simp: insert_audit_def wf_parts)

lemma wf_upsert_setting: "wf_db E d \<Longrightarrow> wf_db E (snd (upsert_setting k v t E d))"
  using map_if_same [of k_key "\<lambda>x. x\<lparr>k_value := v, k_updated_at := t\<rparr>" "\<lambda>x. k_key x = k"
      "t_server_settings d"]
  by (auto simp: upsert_setting_def wf_db_def users_ok_def sessions_ok_def groups_ok_def
      members_ok_def keys_ok_def audit_ok_def simp del: map_map)

lemma wf_delete_setting: "wf_db E d \<Longrightarrow> wf_db E (snd (delete_setting k E d))"
  by (auto simp: delete_setting_def wf_parts intro: distinct_map_filterD)

lemmas wf_statements = wf_insert_user wf_update_users wf_delete_user wf_insert_session
  wf_delete_sessions wf_delete_logouts wf_delete_subject_logouts wf_upsert_logout
  wf_upsert_subject_logout wf_insert_group wf_update_groups wf_delete_group wf_insert_member
  wf_delete_member wf_insert_audit wf_upsert_setting wf_delete_setting

text \<open>Rows are found by their primary key.\<close>

lemma find_SomeD: "find P xs = Some x \<Longrightarrow> x \<in> set xs \<and> P x"
  by (auto simp: find_Some_iff)

lemma find_NoneD: "find P xs = None \<Longrightarrow> x \<in> set xs \<Longrightarrow> \<not> P x"
  by (auto simp: find_None_iff)

lemma find_unique:
  "distinct (map k xs) \<Longrightarrow> x \<in> set xs \<Longrightarrow> find (\<lambda>y. k y = k x) xs = Some x"
  by (induction xs) auto

lemma users_ok_unique:
  "users_ok E ci us \<Longrightarrow> u \<in> set us \<Longrightarrow> v \<in> set us \<Longrightarrow> u_id u = u_id v \<Longrightarrow> u = v"
  by (auto simp: users_ok_def distinct_map dest: inj_onD)

lemma wf_user_unique:
  "wf_db E d \<Longrightarrow> u \<in> set (t_users d) \<Longrightarrow> v \<in> set (t_users d) \<Longrightarrow> u_id u = u_id v \<Longrightarrow> u = v"
  by (auto simp: wf_db_def dest: users_ok_unique)

lemma wf_token_unique:
  "wf_db E d \<Longrightarrow> s \<in> set (t_sessions d) \<Longrightarrow> t \<in> set (t_sessions d) \<Longrightarrow>
     s_token_hash s = s_token_hash t \<Longrightarrow> s = t"
  by (auto simp: wf_db_def sessions_ok_def distinct_map dest: inj_onD)

end
