(* ===== verification/World.thy ===== *)
theory World
  imports Schema
begin

text \<open>
  The world a store operation runs in: the database and its engine, and what the operation cannot
  decide itself, given as oracles it consults in order: the readings of \<^verbatim>\<open>time.Now\<close>, which
  statements the database refuses (a lost connection, a full disk: the errors behind every
  \<^verbatim>\<open>if err != nil\<close>), and the bytes of \<^verbatim>\<open>crypto/rand\<close>. A theorem about every world is a theorem
  about every clock, every pattern of failures and all random bytes. Every operation is a
  computation of the state monad over the world; handlers run over an extension of it.
\<close>

record world =
  w_engine :: engine
  w_db :: db
  w_clock :: "nat \<Rightarrow> time"
  w_ticks :: nat
  w_fault :: "nat \<Rightarrow> bool"
  w_stmts :: nat
  w_rand :: "nat \<Rightarrow> nat \<Rightarrow> char"
  w_draws :: nat

type_synonym ('a, 'z) io = "('z world_scheme, 'a) state"
type_synonym ('a, 'z) res = "('z world_scheme, err + 'a) state"

section \<open>The primitive effects\<close>

definition time_Now :: "(time, 'z) io" where
  "time_Now = State (\<lambda>w. (w_clock w (w_ticks w), w\<lparr>w_ticks := Suc (w_ticks w)\<rparr>))"

definition random_bytes :: "nat \<Rightarrow> (string, 'z) io" where
  "random_bytes n =
     State (\<lambda>w. (map (w_rand w (w_draws w)) [0..<n], w\<lparr>w_draws := Suc (w_draws w)\<rparr>))"

text \<open>One statement: refused by the database, or run on it.\<close>

definition stmt :: "'a query \<Rightarrow> ('a, 'z) res" where
  "stmt q = State (\<lambda>w.
     let w1 = w\<lparr>w_stmts := Suc (w_stmts w)\<rparr>
     in if w_fault w (w_stmts w) then (Inl (ErrSQL Fault), w1)
        else (fst (q (w_engine w) (w_db w)), w1\<lparr>w_db := snd (q (w_engine w) (w_db w))\<rparr>))"

definition no_op :: "unit query" where
  "no_op E d = (Inr (), d)"

definition restore_db :: "db \<Rightarrow> (unit, 'z) io" where
  "restore_db d = modifyS (\<lambda>w. w\<lparr>w_db := d\<rparr>)"

text \<open>
  \<^verbatim>\<open>BeginTx ... defer tx.Rollback() ... return tx.Commit()\<close>: the body's error, or a failing
  commit (whose error \<open>ce\<close> maps as the caller does), leaves the database as it was.
\<close>

definition transaction :: "(err \<Rightarrow> err) \<Rightarrow> ('a, 'z) res \<Rightarrow> ('a, 'z) res" where
  "transaction ce body =
     check (stmt no_op) (\<lambda>_. do {
       w \<leftarrow> getS;
       r \<leftarrow> body;
       case r of
         Inl e \<Rightarrow> do { restore_db (w_db w); ret (Inl e) }
       | Inr x \<Rightarrow> do {
           c \<leftarrow> stmt no_op;
           case c of
             Inl e \<Rightarrow> do { restore_db (w_db w); ret (Inl (ce e)) }
           | Inr _ \<Rightarrow> ret (Inr x) } })"

section \<open>Running the effects\<close>

lemma run_time_Now [simp]:
  "run_state time_Now w = (w_clock w (w_ticks w), w\<lparr>w_ticks := Suc (w_ticks w)\<rparr>)"
  by (simp add: time_Now_def)

lemma run_random_bytes [simp]:
  "run_state (random_bytes n) w =
     (map (w_rand w (w_draws w)) [0..<n], w\<lparr>w_draws := Suc (w_draws w)\<rparr>)"
  by (simp add: random_bytes_def)

lemma run_stmt:
  "run_state (stmt q) w =
     (if w_fault w (w_stmts w) then (Inl (ErrSQL Fault), w\<lparr>w_stmts := Suc (w_stmts w)\<rparr>)
      else (fst (q (w_engine w) (w_db w)),
            w\<lparr>w_stmts := Suc (w_stmts w), w_db := snd (q (w_engine w) (w_db w))\<rparr>))"
  by (simp add: stmt_def Let_def)

lemma run_restore_db [simp]: "run_state (restore_db d) w = ((), w\<lparr>w_db := d\<rparr>)"
  by (simp add: restore_db_def)

definition healthy :: "'z world_scheme \<Rightarrow> bool" where
  "healthy w \<longleftrightarrow> (\<forall>i. \<not> w_fault w i)"

lemma run_stmt_healthy:
  "healthy w \<Longrightarrow> run_state (stmt q) w =
     (fst (q (w_engine w) (w_db w)),
      w\<lparr>w_stmts := Suc (w_stmts w), w_db := snd (q (w_engine w) (w_db w))\<rparr>)"
  by (simp add: run_stmt healthy_def)

lemma healthy_update [simp]:
  "healthy (w\<lparr>w_db := d\<rparr>) = healthy w"
  "healthy (w\<lparr>w_stmts := n\<rparr>) = healthy w"
  "healthy (w\<lparr>w_ticks := n\<rparr>) = healthy w"
  "healthy (w\<lparr>w_draws := n\<rparr>) = healthy w"
  by (simp_all add: healthy_def)

lemma run_transaction:
  "run_state (transaction ce body) w =
     (if w_fault w (w_stmts w) then (Inl (ErrSQL Fault), w\<lparr>w_stmts := Suc (w_stmts w)\<rparr>)
      else case run_state body (w\<lparr>w_stmts := Suc (w_stmts w)\<rparr>) of
        (Inl e, w2) \<Rightarrow> (Inl e, w2\<lparr>w_db := w_db w\<rparr>)
      | (Inr x, w2) \<Rightarrow>
          if w_fault w2 (w_stmts w2)
          then (Inl (ce (ErrSQL Fault)), w2\<lparr>w_stmts := Suc (w_stmts w2), w_db := w_db w\<rparr>)
          else (Inr x, w2\<lparr>w_stmts := Suc (w_stmts w2)\<rparr>))"
  by (auto simp: transaction_def run_check run_stmt no_op_def split: prod.splits sum.splits)

lemma transaction_error:
  "run_state (transaction ce body) w = (Inl e, w') \<Longrightarrow> w_db w' = w_db w"
  by (auto simp: run_transaction split: if_splits prod.splits sum.splits)

lemma transaction_ok:
  assumes "run_state (transaction ce body) w = (Inr x, w')"
  obtains w2 where "run_state body (w\<lparr>w_stmts := Suc (w_stmts w)\<rparr>) = (Inr x, w2)"
    and "w' = w2\<lparr>w_stmts := Suc (w_stmts w2)\<rparr>"
  using assms by (auto simp: run_transaction split: if_splits prod.splits sum.splits)

section \<open>Atomic operations\<close>

text \<open>
  The contract of a store method that runs in one transaction or one statement: an error means
  nothing was written.
\<close>

locale atomic_op =
  fixes m :: "('a, 'z) res"
  assumes error_unchanged: "run_state m w = (Inl e, w') \<Longrightarrow> w_db w' = w_db w"
begin

lemma changed_means_ok:
  "run_state m w = (r, w') \<Longrightarrow> w_db w' \<noteq> w_db w \<Longrightarrow> \<exists>x. r = Inr x"
  using error_unchanged by (cases r) auto

end

section \<open>Frames on the database\<close>

text \<open>
  A relation on databases that every statement of an operation respects is respected by the
  operation, whatever fails: the transaction either keeps its statements or none. The locale holds
  for any reflexive and transitive relation; it is interpreted for each frame property.
\<close>

definition db_rel :: "(engine \<Rightarrow> db \<Rightarrow> db \<Rightarrow> bool) \<Rightarrow> 'z world_scheme \<Rightarrow> 'z world_scheme \<Rightarrow> bool" where
  "db_rel Q w w' \<longleftrightarrow> w_engine w' = w_engine w \<and> Q (w_engine w) (w_db w) (w_db w')"

locale db_frame =
  fixes Q :: "engine \<Rightarrow> db \<Rightarrow> db \<Rightarrow> bool"
  assumes Q_refl: "Q E d d"
    and Q_trans: "Q E d d' \<Longrightarrow> Q E d' d'' \<Longrightarrow> Q E d d''"
begin

lemma rel_refl [simp, intro]: "reflp (db_rel Q)"
  by (simp add: reflp_def db_rel_def Q_refl)

lemma rel_trans [simp, intro]: "transp (db_rel Q)"
  by (auto simp: transp_def db_rel_def intro: Q_trans)

lemma rel_ret: "state_io_rel (db_rel Q) (ret x)"
  by (rule frame_return) simp

lemma rel_get: "state_io_rel (db_rel Q) getS"
  by (rule frame_get) simp

lemma rel_now: "state_io_rel (db_rel Q) time_Now"
  by (simp add: state_io_rel_def db_rel_def Q_refl)

lemma rel_random: "state_io_rel (db_rel Q) (random_bytes n)"
  by (simp add: state_io_rel_def db_rel_def Q_refl)

lemma rel_bind:
  "state_io_rel (db_rel Q) m \<Longrightarrow> (\<And>x. state_io_rel (db_rel Q) (f x)) \<Longrightarrow>
     state_io_rel (db_rel Q) (State_Monad.bind m f)"
  by (rule frame_bind) simp_all

lemma rel_check:
  "state_io_rel (db_rel Q) m \<Longrightarrow> (\<And>x. state_io_rel (db_rel Q) (f x)) \<Longrightarrow>
     state_io_rel (db_rel Q) (check m f)"
  by (rule frame_check) simp_all

lemma rel_stmt: "(\<And>E d. Q E d (snd (q E d))) \<Longrightarrow> state_io_rel (db_rel Q) (stmt q)"
  by (simp add: state_io_rel_def db_rel_def run_stmt Q_refl)

lemma rel_read: "(\<And>E d. snd (q E d) = d) \<Longrightarrow> state_io_rel (db_rel Q) (stmt q)"
  by (rule rel_stmt) (simp add: Q_refl)

lemma rel_transaction:
  fixes body :: "('a, 'z) res"
  assumes "state_io_rel (db_rel Q) body"
  shows "state_io_rel (db_rel Q) (transaction ce body)"
proof (unfold state_io_rel_def, intro allI)
  fix w :: "'z world_scheme"
  obtain r w2 where b: "run_state body (w\<lparr>w_stmts := Suc (w_stmts w)\<rparr>) = (r, w2)"
    by force
  with assms have "db_rel Q (w\<lparr>w_stmts := Suc (w_stmts w)\<rparr>) w2"
    by (rule frame_run)
  with b show "db_rel Q w (snd (run_state (transaction ce body) w))"
    by (auto simp: run_transaction db_rel_def Q_refl split: sum.splits)
qed

lemmas rel_intros = rel_ret rel_get rel_now rel_random rel_bind rel_check rel_transaction
  frame_if frame_case_sum frame_case_option frame_case_prod frame_let

end

text \<open>A predicate that statements keep, as such a relation.\<close>

definition kept :: "(engine \<Rightarrow> db \<Rightarrow> bool) \<Rightarrow> engine \<Rightarrow> db \<Rightarrow> db \<Rightarrow> bool" where
  "kept P E d d' \<longleftrightarrow> (P E d \<longrightarrow> P E d')"

definition unchanged :: "(db \<Rightarrow> 'a) \<Rightarrow> engine \<Rightarrow> db \<Rightarrow> db \<Rightarrow> bool" where
  "unchanged f E d d' \<longleftrightarrow> f d' = f d"

interpretation kept_wf: db_frame "kept wf_db"
  by unfold_locales (auto simp: kept_def)

lemma kept_wf_statement: "(wf_db E d \<Longrightarrow> wf_db E (snd (q E d))) \<Longrightarrow> kept wf_db E d (snd (q E d))"
  by (simp add: kept_def)

lemma db_rel_exec: "state_io_rel (db_rel Q) m \<Longrightarrow> Q (w_engine w) (w_db w) (w_db (exec m w))"
  by (auto simp: db_rel_def dest: frame_exec [where s = w])

lemma db_rel_engine: "state_io_rel (db_rel Q) m \<Longrightarrow> w_engine (exec m w) = w_engine w"
  by (auto simp: db_rel_def dest: frame_exec [where s = w])

section \<open>What an operation never changes\<close>

text \<open>The oracles and the engine are fixed; only the database and the counters move.\<close>

definition oracles :: "'z world_scheme \<Rightarrow> engine \<times> (nat \<Rightarrow> time) \<times> (nat \<Rightarrow> bool) \<times> (nat \<Rightarrow> nat \<Rightarrow> char) \<times> 'z" where
  "oracles w = (w_engine w, w_clock w, w_fault w, w_rand w, world.more w)"

lemma oracles_now [frame_intros]: "state_io_rel (same oracles) time_Now"
  by (simp add: state_io_rel_def same_def oracles_def)

lemma oracles_random [frame_intros]: "state_io_rel (same oracles) (random_bytes n)"
  by (simp add: state_io_rel_def same_def oracles_def)

lemma oracles_stmt [frame_intros]: "state_io_rel (same oracles) (stmt q)"
  by (simp add: state_io_rel_def same_def oracles_def run_stmt)

lemma oracles_restore [frame_intros]: "state_io_rel (same oracles) (restore_db d)"
  by (simp add: state_io_rel_def same_def oracles_def)

lemma oracles_transaction [frame_intros]:
  "state_io_rel (same oracles) body \<Longrightarrow> state_io_rel (same oracles) (transaction ce body)"
  unfolding transaction_def by (intro frame_intros same_refl same_trans) auto

end
