(* ===== verification/UserStore.thy ===== *)
theory UserStore
  imports World "HOL-Library.List_Lexorder" "HOL-Library.Product_Lexorder"
begin

text \<open>
  The user store of internal/store/sqlstore.go (type userStore and SQLStore.withPassword). A Go
  method that writes into the \<^verbatim>\<open>*User\<close> it was given returns the written user here. \<^verbatim>\<open>RowsAffected\<close>
  is the number of rows the statement matched; the drivers used never fail in it.
\<close>

section \<open>Errors of the drivers\<close>

text \<open>
  \<^verbatim>\<open>uniqueErr\<close> looks for "UNIQUE" or "duplicate key" in the driver's message: the two spellings of
  a unique-constraint violation.
\<close>

definition uniqueErr :: "err \<Rightarrow> err" where
  "uniqueErr e = (if e = ErrSQL UniqueViolation then ErrAlreadyExists else e)"

definition map_err :: "(err \<Rightarrow> err) \<Rightarrow> ('a, 'z) res \<Rightarrow> ('a, 'z) res" where
  "map_err f m = do { r \<leftarrow> m; ret (case r of Inl e \<Rightarrow> Inl (f e) | Inr x \<Rightarrow> Inr x) }"

definition get_driver :: "(string, 'z) io" where
  "get_driver = do { w \<leftarrow> getS; ret (driver (w_engine w)) }"

section \<open>Writing a user\<close>

definition same_name :: "string \<Rightarrow> engine \<Rightarrow> user \<Rightarrow> bool" where
  "same_name n E u \<longleftrightarrow> sql_lower E (u_username u) = sql_lower E n"

definition checkUsernameFree :: "string \<Rightarrow> string \<Rightarrow> (unit, 'z) res" where
  "checkUsernameFree username i = do {
     drv \<leftarrow> get_driver;
     check (if drv = ''postgres'' then stmt no_op else ret (Inr ())) (\<lambda>_.
     check (stmt (count_users (\<lambda>E u. u_id u = i \<and> same_name username E u))) (\<lambda>own.
     if 0 < own then ret (Inr ())
     else check (stmt (count_users (\<lambda>E u. same_name username E u \<and> u_id u \<noteq> i))) (\<lambda>n.
       if 0 < n then ret (Inl ErrAlreadyExists) else ret (Inr ()))))
   }"

definition stamp_times :: "time \<Rightarrow> user \<Rightarrow> user" where
  "stamp_times now u =
     u\<lparr>u_created_at := (if time_IsZero (u_created_at u) then now else u_created_at u),
       u_updated_at := (if time_IsZero (u_updated_at u) then now else u_updated_at u)\<rparr>"

definition createUser :: "user \<Rightarrow> (user, 'z) res" where
  "createUser user = do {
     now \<leftarrow> time_Now;
     let u = stamp_times now user;
     check (transaction uniqueErr (
       check (checkUsernameFree (u_username u) '''') (\<lambda>_.
       map_err uniqueErr (stmt (insert_user u))))) (\<lambda>_. ret (Inr u))
   }"

definition set_user_row :: "user \<Rightarrow> user \<Rightarrow> user" where
  "set_user_row u r =
     r\<lparr>u_username := u_username u, u_email := u_email u, u_display_name := u_display_name u,
       u_password_hash := u_password_hash u, u_role := u_role u, u_status := u_status u,
       u_sso_provider := u_sso_provider u, u_sso_subject := u_sso_subject u,
       u_push_device_id := u_push_device_id u, u_must_change_password := u_must_change_password u,
       u_updated_at := u_updated_at u, u_last_login_at := u_last_login_at u\<rparr>"

definition updateUser :: "user \<Rightarrow> (user, 'z) res" where
  "updateUser user = do {
     now \<leftarrow> time_Now;
     let u = user\<lparr>u_updated_at := now\<rparr>;
     check (transaction uniqueErr (
       check (checkUsernameFree (u_username u) (u_id u)) (\<lambda>_.
       check (map_err uniqueErr (stmt (update_users (\<lambda>r. u_id r = u_id u) (set_user_row u)))) (\<lambda>rows.
       if rows = 0 then ret (Inl ErrNotFound) else ret (Inr ()))))) (\<lambda>_. ret (Inr u))
   }"

section \<open>Compare-and-swap updates of the profile\<close>

definition profileSet :: "user \<Rightarrow> user \<Rightarrow> user" where
  "profileSet u r =
     r\<lparr>u_username := u_username u, u_email := u_email u, u_display_name := u_display_name u,
       u_role := u_role u, u_status := u_status u, u_updated_at := u_updated_at u\<rparr>"

definition updateProfile ::
  "user \<Rightarrow> string \<Rightarrow> string \<Rightarrow> bool \<Rightarrow> nat query \<Rightarrow> (unit, 'z) res" where
  "updateProfile user prevRole prevStatus checkName q =
     transaction id (
       check (if checkName then checkUsernameFree (u_username user) (u_id user) else ret (Inr ())) (\<lambda>_.
       check (map_err uniqueErr (stmt q)) (\<lambda>rows.
       if rows = 0
       then check (stmt (count_users (\<lambda>E r. u_id r = u_id user))) (\<lambda>n.
              if n = 0 then ret (Inl ErrNotFound) else ret (Inl ErrConflict))
       else if u_role user \<noteq> prevRole \<or> u_status user \<noteq> prevStatus
       then stmt (delete_sessions (\<lambda>d s. s_user_id s = u_id user))
       else ret (Inr ()))))"

definition profile_where :: "user \<Rightarrow> string \<Rightarrow> string \<Rightarrow> user \<Rightarrow> bool" where
  "profile_where u prevRole prevStatus r \<longleftrightarrow>
     u_id r = u_id u \<and> u_role r = prevRole \<and> u_status r = prevStatus"

definition updateUserProfile :: "user \<Rightarrow> string \<Rightarrow> string \<Rightarrow> (user, 'z) res" where
  "updateUserProfile user prevRole prevStatus = do {
     now \<leftarrow> time_Now;
     let u = user\<lparr>u_updated_at := now\<rparr>;
     check (updateProfile u prevRole prevStatus True
              (update_users (profile_where u prevRole prevStatus) (profileSet u)))
       (\<lambda>_. ret (Inr u))
   }"

definition updateSCIMProfile :: "user \<Rightarrow> string \<Rightarrow> string \<Rightarrow> string \<Rightarrow> (user, 'z) res" where
  "updateSCIMProfile user prevRole prevStatus prevSubject = do {
     now \<leftarrow> time_Now;
     let u = user\<lparr>u_updated_at := now\<rparr>;
     check (updateProfile u prevRole prevStatus True
              (update_users
                (\<lambda>r. profile_where u prevRole prevStatus r \<and> u_sso_subject r = prevSubject)
                (\<lambda>r. (profileSet u r)\<lparr>u_sso_subject :=
                   (if u_sso_provider r = ''scim'' then u_sso_subject u else u_sso_subject r)\<rparr>)))
       (\<lambda>_. ret (Inr u))
   }"

definition takeOverForSCIM :: "user \<Rightarrow> string \<Rightarrow> string \<Rightarrow> (user, 'z) res" where
  "takeOverForSCIM user prevRole prevStatus = do {
     now \<leftarrow> time_Now;
     let u = user\<lparr>u_updated_at := now\<rparr>;
     check (updateProfile u prevRole prevStatus True
              (update_users
                (\<lambda>r. profile_where u prevRole prevStatus r \<and> u_sso_provider r = ''kysignon'' \<and>
                     u_sso_subject r = u_sso_subject u \<and> u_scim_managed r = False)
                (\<lambda>r. (profileSet u r)\<lparr>u_scim_managed := True\<rparr>)))
       (\<lambda>_. ret (Inr (u\<lparr>u_scim_managed := True\<rparr>)))
   }"

definition updateUserRole :: "user \<Rightarrow> string \<Rightarrow> (user, 'z) res" where
  "updateUserRole user prevRole = do {
     now \<leftarrow> time_Now;
     let u = user\<lparr>u_updated_at := now\<rparr>;
     check (updateProfile u prevRole (u_status u) False
              (update_users (profile_where u prevRole (u_status u))
                (\<lambda>r. r\<lparr>u_role := u_role u, u_updated_at := u_updated_at u\<rparr>)))
       (\<lambda>_. ret (Inr u))
   }"

definition linkSSOIdentity :: "string \<Rightarrow> string \<Rightarrow> string \<Rightarrow> string \<Rightarrow> (unit, 'z) res" where
  "linkSSOIdentity i subject fromProvider toProvider = do {
     now \<leftarrow> time_Now;
     check (stmt (update_users
              (\<lambda>r. u_id r = i \<and> u_sso_subject r = subject \<and> u_sso_provider r = fromProvider)
              (\<lambda>r. r\<lparr>u_sso_provider := toProvider, u_updated_at := now\<rparr>))) (\<lambda>rows.
     if rows = 0 then ret (Inl ErrConflict) else ret (Inr ()))
   }"

definition deleteUser :: "string \<Rightarrow> (unit, 'z) res" where
  "deleteUser i =
     check (stmt (delete_user i)) (\<lambda>rows.
     if rows = 0 then ret (Inl ErrNotFound) else ret (Inr ()))"

section \<open>Reading users\<close>

definition getUserByID :: "string \<Rightarrow> (user, 'z) res" where
  "getUserByID i = stmt (select_user (\<lambda>E u. u_id u = i))"

definition getUserByUsername :: "string \<Rightarrow> (user, 'z) res" where
  "getUserByUsername n = stmt (select_user (same_name n))"

definition getUserByEmail :: "string \<Rightarrow> (user, 'z) res" where
  "getUserByEmail e = stmt (select_user (\<lambda>E u. sql_lower E (u_email u) = sql_lower E e))"

definition getUserBySSO :: "string \<Rightarrow> string \<Rightarrow> (user, 'z) res" where
  "getUserBySSO provider subject =
     stmt (select_user (\<lambda>E u. u_sso_provider u = provider \<and> u_sso_subject u = subject))"

definition user_order :: "user \<Rightarrow> int \<times> string" where
  "user_order u = (- u_created_at u, u_id u)"

definition list_where :: "string \<Rightarrow> bool \<Rightarrow> engine \<Rightarrow> user \<Rightarrow> bool" where
  "list_where search scimOnly E u \<longleftrightarrow>
     (scimOnly \<longrightarrow> u_scim_managed u) \<and>
     (trim_space search \<noteq> '''' \<longrightarrow>
        (let like = ''%'' @ to_lower (trim_space search) @ ''%''
         in sql_like E (sql_lower E (u_username u)) like \<or>
            sql_like E (sql_lower E (u_display_name u)) like \<or>
            sql_like E (sql_lower E (u_email u)) like))"

definition page :: "int \<Rightarrow> int \<Rightarrow> 'a list \<Rightarrow> 'a list" where
  "page offset limit xs = take (nat limit) (drop (nat offset) xs)"

definition select_users_page ::
  "(engine \<Rightarrow> user \<Rightarrow> bool) \<Rightarrow> int \<Rightarrow> int \<Rightarrow> user list query" where
  "select_users_page P offset limit E d =
     (Inr (page offset limit (sort_key user_order (filter (P E) (t_users d)))), d)"

definition listUsers_where :: "int \<Rightarrow> int \<Rightarrow> string \<Rightarrow> bool \<Rightarrow> (user list \<times> nat, 'z) res" where
  "listUsers_where offset limit search scimOnly = (
     let limit = (if limit \<le> 0 then 50 else limit);
         offset = (if offset < 0 then 0 else offset)
     in check (stmt (count_users (list_where search scimOnly))) (\<lambda>total.
        check (stmt (select_users_page (list_where search scimOnly) offset limit)) (\<lambda>users.
        ret (Inr (users, total)))))"

definition listUsers :: "int \<Rightarrow> int \<Rightarrow> string \<Rightarrow> (user list \<times> nat, 'z) res" where
  "listUsers offset limit search = listUsers_where offset limit search False"

definition listSCIMUsers :: "int \<Rightarrow> int \<Rightarrow> string \<Rightarrow> (user list \<times> nat, 'z) res" where
  "listSCIMUsers offset limit search = listUsers_where offset limit search True"

definition countUsers :: "(nat, 'z) res" where
  "countUsers = stmt (count_users (\<lambda>E u. True))"

section \<open>Passwords\<close>

definition withPassword :: "string \<Rightarrow> string \<Rightarrow> ('a, 'z) res \<Rightarrow> ('a, 'z) res" where
  "withPassword userID expectedHash body =
     transaction id (
       check (stmt (update_users
                (\<lambda>r. u_id r = userID \<and> u_password_hash r = expectedHash \<and> u_status r = ''active'')
                (\<lambda>r. r))) (\<lambda>n.
       if n \<noteq> 1 then ret (Inl ErrNotFound) else body))"

definition new_audit :: "string \<Rightarrow> string \<Rightarrow> string \<Rightarrow> string \<Rightarrow> string \<Rightarrow> time \<Rightarrow> audit_record" where
  "new_audit userID action resource details ip at =
     \<lparr>a_id = 0, a_user_id = userID, a_action = action, a_resource = resource,
      a_details = details, a_ip_address = ip, a_created_at = at\<rparr>"

definition revokePasswordGrants :: "string \<Rightarrow> string \<Rightarrow> string \<Rightarrow> time \<Rightarrow> (unit, 'z) res" where
  "revokePasswordGrants userID details ip now =
     check (stmt (delete_sessions (\<lambda>d s. s_user_id s = userID))) (\<lambda>_.
     stmt (insert_audit (new_audit userID ''auth.password_changed'' ''user'' details ip now)))"

definition completePasswordChange ::
  "string \<Rightarrow> string \<Rightarrow> string \<Rightarrow> string \<Rightarrow> (unit, 'z) res" where
  "completePasswordChange userID oldHash newHash ip =
     withPassword userID oldHash (do {
       now \<leftarrow> time_Now;
       check (stmt (update_users
                (\<lambda>r. u_id r = userID \<and> u_sso_provider r = ''local'')
                (\<lambda>r. r\<lparr>u_password_hash := newHash, u_must_change_password := False,
                       u_updated_at := now\<rparr>))) (\<lambda>n.
       if n \<noteq> 1 then ret (Inl ErrNotFound)
       else revokePasswordGrants userID ''password changed; sessions revoked'' ip now)
     })"

definition resetAdminPassword :: "string \<Rightarrow> string \<Rightarrow> (unit, 'z) res" where
  "resetAdminPassword userID newHash =
     transaction id (do {
       now \<leftarrow> time_Now;
       check (stmt (update_users
                (\<lambda>r. u_id r = userID \<and> u_sso_provider r = ''local'')
                (\<lambda>r. r\<lparr>u_password_hash := newHash, u_must_change_password := True,
                       u_status := ''active'', u_role := ''admin'', u_updated_at := now\<rparr>))) (\<lambda>n.
       if n \<noteq> 1 then ret (Inl ErrNotFound)
       else revokePasswordGrants userID ''operator reset; sessions revoked'' '''' now)
     })"

end
