(* ===== verification/SessionStore.thy ===== *)
theory SessionStore
  imports UserStore
begin

text \<open>
  The session store of internal/store/sqlstore.go (type sessionStore): sessions, and the two kinds
  of logout fence that stop a sign-in still in flight when the identity provider ends it.
\<close>

section \<open>Operations\<close>

definition deleteSession :: "string \<Rightarrow> (unit, 'z) res" where
  "deleteSession th = stmt (delete_sessions (\<lambda>d s. s_token_hash s = th))"

definition deleteUserSessions :: "string \<Rightarrow> (unit, 'z) res" where
  "deleteUserSessions userID = stmt (delete_sessions (\<lambda>d s. s_user_id s = userID))"

definition cleanExpiredSessions :: "(unit, 'z) res" where
  "cleanExpiredSessions = do {
     now \<leftarrow> time_Now;
     stmt (delete_sessions (\<lambda>d s. s_expires_at s < now)) }"

text \<open>The two counts of the fence query: a live fence on the sid, and a live fence on the
  provider subject of the user, whose cutoff is after the session's credentials.\<close>

definition sid_fenced :: "string \<Rightarrow> time \<Rightarrow> db \<Rightarrow> nat" where
  "sid_fenced sid now d =
     length (filter (\<lambda>l. l_sid l = sid \<and> l_sid l \<noteq> '''' \<and> l_expires_at l > now) (t_sso_logouts d))"

definition subject_fenced :: "string \<Rightarrow> time \<Rightarrow> time \<Rightarrow> db \<Rightarrow> nat" where
  "subject_fenced userID created now d =
     length (filter (\<lambda>(f, u). u_sso_provider u = f_provider f \<and> u_sso_subject u = f_subject f \<and>
                              u_id u = userID \<and> f_cutoff f > created \<and> f_expires_at f > now)
              (List.product (t_sso_subject_logouts d) (t_users d)))"

definition count_fences :: "session \<Rightarrow> time \<Rightarrow> nat query" where
  "count_fences s now E d =
     (Inr (sid_fenced (s_sso_sid s) now d +
           subject_fenced (s_user_id s) (s_created_at s) now d), d)"

text \<open>
  The statements of \<^verbatim>\<open>CreateSession\<close> and \<^verbatim>\<open>EndSSOSession\<close> are named one by one: two requests
  interleave between them.
\<close>

definition grant_session :: "session \<Rightarrow> string \<Rightarrow> (unit, 'z) res" where
  "grant_session sess expectedPasswordHash =
     withPassword (s_user_id sess) expectedPasswordHash (stmt (insert_session sess))"

definition read_fences :: "session \<Rightarrow> (nat, 'z) res" where
  "read_fences sess = do { now \<leftarrow> time_Now; stmt (count_fences sess now) }"

definition createSession :: "session \<Rightarrow> string \<Rightarrow> (unit, 'z) res" where
  "createSession sess expectedPasswordHash =
     check (grant_session sess expectedPasswordHash) (\<lambda>_. do {
       fenced \<leftarrow> read_fences sess;
       case fenced of
         Inl e \<Rightarrow> do { _ \<leftarrow> deleteSession (s_token_hash sess); ret (Inl e) }
       | Inr n \<Rightarrow>
           if 0 < n
           then do { _ \<leftarrow> deleteSession (s_token_hash sess); ret (Inl ErrSSOSessionEnded) }
           else ret (Inr ()) })"

definition purge_fences :: "(unit, 'z) res" where
  "purge_fences = do { now \<leftarrow> time_Now; stmt (delete_logouts (\<lambda>l. l_expires_at l \<le> now)) }"

definition set_fence :: "string \<Rightarrow> time \<Rightarrow> (unit, 'z) res" where
  "set_fence sid fenceUntil = stmt (upsert_logout sid fenceUntil)"

definition end_sid :: "string \<Rightarrow> (unit, 'z) res" where
  "end_sid sid = stmt (delete_sessions (\<lambda>d s. s_sso_sid s = sid))"

definition endSSOSession :: "string \<Rightarrow> time \<Rightarrow> (unit, 'z) res" where
  "endSSOSession sid fenceUntil =
     check purge_fences (\<lambda>_. check (set_fence sid fenceUntil) (\<lambda>_. end_sid sid))"

definition of_subject :: "db \<Rightarrow> string \<Rightarrow> string \<Rightarrow> string \<Rightarrow> bool" where
  "of_subject d provider subject userID \<longleftrightarrow>
     list_ex (\<lambda>u. u_id u = userID \<and> u_sso_provider u = provider \<and> u_sso_subject u = subject)
       (t_users d)"

definition endSSOSubject :: "string \<Rightarrow> string \<Rightarrow> time \<Rightarrow> time \<Rightarrow> (unit, 'z) res" where
  "endSSOSubject provider subject cutoff fenceUntil = do {
     now \<leftarrow> time_Now;
     check (stmt (delete_subject_logouts (\<lambda>f. f_expires_at f \<le> now))) (\<lambda>_.
     check (stmt (upsert_subject_logout provider subject cutoff fenceUntil)) (\<lambda>_.
     stmt (delete_sessions (\<lambda>d s. s_created_at s < cutoff \<and>
             of_subject d provider subject (s_user_id s)))))
   }"

definition getSession :: "string \<Rightarrow> (session, 'z) res" where
  "getSession th =
     check (stmt (select_session th)) (\<lambda>sess. do {
       now \<leftarrow> time_Now;
       if now > s_expires_at sess
       then do { _ \<leftarrow> deleteSession th; ret (Inl ErrSessionExpired) }
       else ret (Inr sess) })"

end
