(* ===== verification/GroupStore.thy ===== *)
theory GroupStore
  imports SessionStore
begin

text \<open>
  The group store, the audit store and the settings store of internal/store/sqlstore.go (types
  groupStore, auditStore, settingsStore). A scan error inside a row loop is not modelled: every
  column scanned has the type the schema declares.
\<close>

section \<open>Groups\<close>

definition stamp_group :: "time \<Rightarrow> group \<Rightarrow> group" where
  "stamp_group now g =
     g\<lparr>g_created_at := (if time_IsZero (g_created_at g) then now else g_created_at g),
       g_updated_at := (if time_IsZero (g_updated_at g) then now else g_updated_at g)\<rparr>"

definition createGroup :: "group \<Rightarrow> (group, 'z) res" where
  "createGroup grp = do {
     now \<leftarrow> time_Now;
     let g = stamp_group now grp;
     check (map_err uniqueErr (stmt (insert_group g))) (\<lambda>_. ret (Inr g))
   }"

definition getMembers :: "string \<Rightarrow> (string list, 'z) res" where
  "getMembers groupID = stmt (select_members groupID)"

definition with_members :: "group \<Rightarrow> (group, 'z) res" where
  "with_members g = check (getMembers (g_id g)) (\<lambda>ms. ret (Inr (g\<lparr>g_members := ms\<rparr>)))"

definition getGroupByID :: "string \<Rightarrow> (group, 'z) res" where
  "getGroupByID i = check (stmt (select_group (\<lambda>E g. g_id g = i))) with_members"

definition getGroupByName :: "string \<Rightarrow> (group, 'z) res" where
  "getGroupByName n =
     check (stmt (select_group (\<lambda>E g. sql_lower E (g_display_name g) = sql_lower E n))) with_members"

definition updateGroup :: "group \<Rightarrow> (group, 'z) res" where
  "updateGroup grp = do {
     now \<leftarrow> time_Now;
     let g = grp\<lparr>g_updated_at := now\<rparr>;
     check (map_err uniqueErr (stmt (update_groups (\<lambda>r. g_id r = g_id g)
              (\<lambda>r. r\<lparr>g_display_name := g_display_name g, g_external_id := g_external_id g,
                     g_updated_at := g_updated_at g\<rparr>)))) (\<lambda>rows.
     if rows = 0 then ret (Inl ErrNotFound) else ret (Inr g))
   }"

definition deleteGroup :: "string \<Rightarrow> (unit, 'z) res" where
  "deleteGroup i =
     check (stmt (delete_group i)) (\<lambda>rows.
     if rows = 0 then ret (Inl ErrNotFound) else ret (Inr ()))"

definition select_groups_page :: "int \<Rightarrow> int \<Rightarrow> group list query" where
  "select_groups_page offset limit E d =
     (Inr (page offset limit (sort_key g_display_name (t_groups d))), d)"

definition count_groups :: "nat query" where
  "count_groups E d = (Inr (length (t_groups d)), d)"

text \<open>\<^verbatim>\<open>members, _ := g.getMembers(...)\<close>: a failed read leaves the group without members.\<close>

fun fill_members :: "group list \<Rightarrow> (group list, 'z) io" where
  "fill_members [] = ret []"
| "fill_members (g # gs) = do {
     r \<leftarrow> getMembers (g_id g);
     rest \<leftarrow> fill_members gs;
     ret (g\<lparr>g_members := (case r of Inl e \<Rightarrow> [] | Inr ms \<Rightarrow> ms)\<rparr> # rest)
   }"

definition listGroups :: "int \<Rightarrow> int \<Rightarrow> (group list \<times> nat, 'z) res" where
  "listGroups offset limit = (
     let limit = (if limit \<le> 0 then 50 else limit);
         offset = (if offset < 0 then 0 else offset)
     in check (stmt count_groups) (\<lambda>total.
        check (stmt (select_groups_page offset limit)) (\<lambda>gs. do {
          gs \<leftarrow> fill_members gs;
          ret (Inr (gs, total)) })))"

definition addGroupMember :: "string \<Rightarrow> string \<Rightarrow> (unit, 'z) res" where
  "addGroupMember groupID userID = stmt (insert_member groupID userID)"

definition removeGroupMember :: "string \<Rightarrow> string \<Rightarrow> (unit, 'z) res" where
  "removeGroupMember groupID userID = stmt (delete_member groupID userID)"

definition select_user_groups :: "string \<Rightarrow> group list query" where
  "select_user_groups userID E d =
     (Inr (sort_key g_display_name
        (map fst (filter (\<lambda>(g, m). g_id g = fst m \<and> snd m = userID)
           (List.product (t_groups d) (t_group_members d))))), d)"

definition getUserGroups :: "string \<Rightarrow> (group list, 'z) res" where
  "getUserGroups userID = stmt (select_user_groups userID)"

section \<open>The audit trail\<close>

definition logAudit :: "audit_record \<Rightarrow> (unit, 'z) res" where
  "logAudit r =
     (if time_IsZero (a_created_at r)
      then do { now \<leftarrow> time_Now; stmt (insert_audit (r\<lparr>a_created_at := now\<rparr>)) }
      else stmt (insert_audit r))"

definition select_audit_page :: "int \<Rightarrow> int \<Rightarrow> audit_record list query" where
  "select_audit_page offset limit E d =
     (Inr (page offset limit (sort_key (\<lambda>r. - a_created_at r) (t_audit_records d))), d)"

definition count_audit :: "nat query" where
  "count_audit E d = (Inr (length (t_audit_records d)), d)"

definition listAuditRecords :: "int \<Rightarrow> int \<Rightarrow> (audit_record list \<times> nat, 'z) res" where
  "listAuditRecords offset limit = (
     let limit = (if limit \<le> 0 then 50 else limit);
         offset = (if offset < 0 then 0 else offset)
     in check (stmt count_audit) (\<lambda>total.
        check (stmt (select_audit_page offset limit)) (\<lambda>rs. ret (Inr (rs, total)))))"

section \<open>Settings\<close>

definition getSetting :: "string \<Rightarrow> (string, 'z) res" where
  "getSetting key = stmt (select_setting key)"

definition setSetting :: "string \<Rightarrow> string \<Rightarrow> (unit, 'z) res" where
  "setSetting key val = do { now \<leftarrow> time_Now; stmt (upsert_setting key val now) }"

definition deleteSetting :: "string \<Rightarrow> (unit, 'z) res" where
  "deleteSetting key = stmt (delete_setting key)"

definition select_settings :: "(string \<times> string) list query" where
  "select_settings E d = (Inr (map (\<lambda>x. (k_key x, k_value x)) (t_server_settings d)), d)"

definition getAllSettings :: "((string \<times> string) list, 'z) res" where
  "getAllSettings = stmt select_settings"

end
