(* ===== verification/StoreFrames.thy ===== *)
theory StoreFrames
  imports GroupStore
begin

text \<open>
  Footprints of the store's operations: an operation respects every reflexive and transitive
  relation on databases that the statements it issues respect. Each frame property of the
  development is one of these facts at an interpretation of the locale \<open>db_frame\<close>.
\<close>

context db_frame begin

lemma rel_map_err: "state_io_rel (db_rel Q) m \<Longrightarrow> state_io_rel (db_rel Q) (map_err f m)"
  unfolding map_err_def by (intro rel_intros)

lemma rel_no_op: "state_io_rel (db_rel Q) (stmt no_op)"
  by (rule rel_read) (simp add: no_op_def)

lemma rel_driver: "state_io_rel (db_rel Q) get_driver"
  unfolding get_driver_def by (intro rel_intros)

lemma rel_reads:
  "state_io_rel (db_rel Q) (stmt (count_users P))"
  "state_io_rel (db_rel Q) (stmt (select_user P))"
  "state_io_rel (db_rel Q) (stmt (select_users_page P a b))"
  "state_io_rel (db_rel Q) (stmt (select_session th))"
  "state_io_rel (db_rel Q) (stmt (count_fences s now))"
  "state_io_rel (db_rel Q) (stmt (select_group G))"
  "state_io_rel (db_rel Q) (stmt (select_members gi))"
  "state_io_rel (db_rel Q) (stmt (select_groups_page a b))"
  "state_io_rel (db_rel Q) (stmt count_groups)"
  "state_io_rel (db_rel Q) (stmt (select_user_groups ui))"
  "state_io_rel (db_rel Q) (stmt (select_audit_page a b))"
  "state_io_rel (db_rel Q) (stmt count_audit)"
  "state_io_rel (db_rel Q) (stmt (select_setting k))"
  "state_io_rel (db_rel Q) (stmt select_settings)"
  by (rule rel_read, simp add: count_users_def select_user_def select_users_page_def
      select_session_def count_fences_def select_group_def select_members_def
      select_groups_page_def count_groups_def select_user_groups_def select_audit_page_def
      count_audit_def select_setting_def select_settings_def)+

lemma rel_checkUsernameFree: "state_io_rel (db_rel Q) (checkUsernameFree n i)"
  unfolding checkUsernameFree_def by (intro rel_intros rel_driver rel_reads rel_no_op)

lemma rel_createUser:
  assumes "\<And>u E d. Q E d (snd (insert_user u E d))"
  shows "state_io_rel (db_rel Q) (createUser u)"
  unfolding createUser_def Let_def
  by (intro rel_intros rel_checkUsernameFree rel_map_err rel_stmt assms)

lemma rel_updateUser:
  assumes "\<And>u E d. Q E d (snd (update_users (\<lambda>r. u_id r = u_id u) (set_user_row u) E d))"
  shows "state_io_rel (db_rel Q) (updateUser u)"
  unfolding updateUser_def Let_def
  by (intro rel_intros rel_checkUsernameFree rel_map_err rel_stmt assms)

lemma rel_updateProfile:
  assumes "\<And>E d. Q E d (snd (q E d))" and "\<And>P E d. Q E d (snd (delete_sessions P E d))"
  shows "state_io_rel (db_rel Q) (updateProfile u r s c q)"
  unfolding updateProfile_def
  by (intro rel_intros rel_checkUsernameFree rel_map_err rel_reads rel_stmt assms)

text \<open>The four compare-and-swap updates and the identity link write single user rows.\<close>

lemma rel_updateUserProfile:
  assumes "\<And>P u E d. Q E d (snd (update_users P (profileSet u) E d))"
    and "\<And>P E d. Q E d (snd (delete_sessions P E d))"
  shows "state_io_rel (db_rel Q) (updateUserProfile u r s)"
  unfolding updateUserProfile_def Let_def
  by (intro rel_intros rel_updateProfile assms)

lemma rel_updateSCIMProfile:
  assumes "\<And>u E d. Q E d (snd (update_users
      (\<lambda>x. profile_where u r s x \<and> u_sso_subject x = p)
      (\<lambda>x. (profileSet u x)\<lparr>u_sso_subject :=
         (if u_sso_provider x = ''scim'' then u_sso_subject u else u_sso_subject x)\<rparr>) E d))"
    and "\<And>P E d. Q E d (snd (delete_sessions P E d))"
  shows "state_io_rel (db_rel Q) (updateSCIMProfile u r s p)"
  unfolding updateSCIMProfile_def Let_def
  by (intro rel_intros rel_updateProfile assms)

lemma rel_takeOverForSCIM:
  assumes "\<And>u E d. Q E d (snd (update_users
      (\<lambda>x. profile_where u r s x \<and> u_sso_provider x = ''kysignon'' \<and>
           u_sso_subject x = u_sso_subject u \<and> u_scim_managed x = False)
      (\<lambda>x. (profileSet u x)\<lparr>u_scim_managed := True\<rparr>) E d))"
    and "\<And>P E d. Q E d (snd (delete_sessions P E d))"
  shows "state_io_rel (db_rel Q) (takeOverForSCIM u r s)"
  unfolding takeOverForSCIM_def Let_def
  by (intro rel_intros rel_updateProfile assms)

lemma rel_updateUserRole:
  assumes "\<And>P (u :: user) E d. Q E d (snd (update_users P
      (\<lambda>x. x\<lparr>u_role := u_role u, u_updated_at := u_updated_at u\<rparr>) E d))"
    and "\<And>P E d. Q E d (snd (delete_sessions P E d))"
  shows "state_io_rel (db_rel Q) (updateUserRole u r)"
  unfolding updateUserRole_def Let_def
  by (intro rel_intros rel_updateProfile assms)

lemma rel_linkSSOIdentity:
  assumes "\<And>now E d. Q E d (snd (update_users
      (\<lambda>r. u_id r = i \<and> u_sso_subject r = sub \<and> u_sso_provider r = from)
      (\<lambda>r. r\<lparr>u_sso_provider := to, u_updated_at := now\<rparr>) E d))"
  shows "state_io_rel (db_rel Q) (linkSSOIdentity i sub from to)"
  unfolding linkSSOIdentity_def by (intro rel_intros rel_stmt assms)

lemma rel_deleteUser:
  assumes "\<And>E d. Q E d (snd (delete_user i E d))"
  shows "state_io_rel (db_rel Q) (deleteUser i)"
  unfolding deleteUser_def by (intro rel_intros rel_stmt assms)

lemma rel_user_reads:
  "state_io_rel (db_rel Q) (getUserByID i)"
  "state_io_rel (db_rel Q) (getUserByUsername i)"
  "state_io_rel (db_rel Q) (getUserByEmail i)"
  "state_io_rel (db_rel Q) (getUserBySSO p i)"
  "state_io_rel (db_rel Q) countUsers"
  unfolding getUserByID_def getUserByUsername_def getUserByEmail_def getUserBySSO_def
    countUsers_def by (intro rel_reads)+

lemma rel_listUsers:
  "state_io_rel (db_rel Q) (listUsers a b s)"
  "state_io_rel (db_rel Q) (listSCIMUsers a b s)"
  unfolding listUsers_def listSCIMUsers_def listUsers_where_def Let_def
  by (intro rel_intros rel_reads)+

lemma rel_withPassword:
  assumes "\<And>P E d. Q E d (snd (update_users P (\<lambda>r. r) E d))" and "state_io_rel (db_rel Q) m"
  shows "state_io_rel (db_rel Q) (withPassword u h m)"
  unfolding withPassword_def by (intro rel_intros rel_stmt assms)

lemma rel_revokePasswordGrants:
  assumes "\<And>P E d. Q E d (snd (delete_sessions P E d))"
    and "\<And>r E d. Q E d (snd (insert_audit r E d))"
  shows "state_io_rel (db_rel Q) (revokePasswordGrants u s ip now)"
  unfolding revokePasswordGrants_def by (intro rel_intros rel_stmt assms)

lemma rel_completePasswordChange:
  assumes "\<And>P E d. Q E d (snd (update_users P (\<lambda>r. r) E d))"
    and "\<And>now E d. Q E d (snd (update_users (\<lambda>r. u_id r = u \<and> u_sso_provider r = ''local'')
         (\<lambda>r. r\<lparr>u_password_hash := h', u_must_change_password := False, u_updated_at := now\<rparr>) E d))"
    and "\<And>P E d. Q E d (snd (delete_sessions P E d))"
    and "\<And>r E d. Q E d (snd (insert_audit r E d))"
  shows "state_io_rel (db_rel Q) (completePasswordChange u h h' ip)"
  unfolding completePasswordChange_def
  by (intro rel_withPassword rel_intros rel_revokePasswordGrants rel_stmt assms)

lemma rel_resetAdminPassword:
  assumes "\<And>now E d. Q E d (snd (update_users (\<lambda>r. u_id r = u \<and> u_sso_provider r = ''local'')
         (\<lambda>r. r\<lparr>u_password_hash := h', u_must_change_password := True,
                u_status := ''active'', u_role := ''admin'', u_updated_at := now\<rparr>) E d))"
    and "\<And>P E d. Q E d (snd (delete_sessions P E d))"
    and "\<And>r E d. Q E d (snd (insert_audit r E d))"
  shows "state_io_rel (db_rel Q) (resetAdminPassword u h')"
  unfolding resetAdminPassword_def
  by (intro rel_intros rel_revokePasswordGrants rel_stmt assms)

lemma rel_deletes:
  assumes "\<And>P E d. Q E d (snd (delete_sessions P E d))"
  shows "state_io_rel (db_rel Q) (deleteSession th)"
    and "state_io_rel (db_rel Q) (deleteUserSessions u)"
    and "state_io_rel (db_rel Q) cleanExpiredSessions"
  unfolding deleteSession_def deleteUserSessions_def cleanExpiredSessions_def
  by (intro rel_intros rel_stmt assms)+

lemma rel_createSession:
  assumes "\<And>P E d. Q E d (snd (update_users P (\<lambda>r. r) E d))"
    and "\<And>E d. Q E d (snd (insert_session s E d))"
    and "\<And>P E d. Q E d (snd (delete_sessions P E d))"
  shows "state_io_rel (db_rel Q) (createSession s h)"
  unfolding createSession_def grant_session_def read_fences_def
  by (intro rel_intros rel_withPassword rel_deletes rel_reads rel_stmt assms)

lemma rel_endSSOSession:
  assumes "\<And>P E d. Q E d (snd (delete_logouts P E d))"
    and "\<And>E d. Q E d (snd (upsert_logout sid until E d))"
    and "\<And>P E d. Q E d (snd (delete_sessions P E d))"
  shows "state_io_rel (db_rel Q) (endSSOSession sid until)"
  unfolding endSSOSession_def purge_fences_def set_fence_def end_sid_def by (intro rel_intros rel_stmt assms)

lemma rel_endSSOSubject:
  assumes "\<And>P E d. Q E d (snd (delete_subject_logouts P E d))"
    and "\<And>E d. Q E d (snd (upsert_subject_logout p s c until E d))"
    and "\<And>P E d. Q E d (snd (delete_sessions P E d))"
  shows "state_io_rel (db_rel Q) (endSSOSubject p s c until)"
  unfolding endSSOSubject_def by (intro rel_intros rel_stmt assms)

lemma rel_getSession:
  assumes "\<And>P E d. Q E d (snd (delete_sessions P E d))"
  shows "state_io_rel (db_rel Q) (getSession th)"
  unfolding getSession_def by (intro rel_intros rel_reads rel_deletes assms)

lemma rel_createGroup:
  assumes "\<And>g E d. Q E d (snd (insert_group g E d))"
  shows "state_io_rel (db_rel Q) (createGroup g)"
  unfolding createGroup_def Let_def by (intro rel_intros rel_map_err rel_stmt assms)

lemma rel_updateGroup:
  assumes "\<And>P (g :: group) E d. Q E d (snd (update_groups P (\<lambda>r. r\<lparr>g_display_name := g_display_name g,
       g_external_id := g_external_id g, g_updated_at := g_updated_at g\<rparr>) E d))"
  shows "state_io_rel (db_rel Q) (updateGroup g)"
  unfolding updateGroup_def Let_def by (intro rel_intros rel_map_err rel_stmt assms)

lemma rel_deleteGroup:
  assumes "\<And>E d. Q E d (snd (delete_group i E d))"
  shows "state_io_rel (db_rel Q) (deleteGroup i)"
  unfolding deleteGroup_def by (intro rel_intros rel_stmt assms)

lemma rel_fill_members: "state_io_rel (db_rel Q) (fill_members gs)"
  by (induction gs) (auto simp: getMembers_def intro!: rel_intros rel_reads)

lemma rel_group_reads:
  "state_io_rel (db_rel Q) (getGroupByID i)"
  "state_io_rel (db_rel Q) (getGroupByName i)"
  "state_io_rel (db_rel Q) (listGroups a b)"
  "state_io_rel (db_rel Q) (getUserGroups i)"
  unfolding getGroupByID_def getGroupByName_def listGroups_def getUserGroups_def
    with_members_def getMembers_def Let_def
  by (intro rel_intros rel_reads rel_fill_members)+

lemma rel_member_writes:
  assumes "\<And>gi ui E d. Q E d (snd (insert_member gi ui E d))"
    and "\<And>gi ui E d. Q E d (snd (delete_member gi ui E d))"
  shows "state_io_rel (db_rel Q) (addGroupMember g u)"
    and "state_io_rel (db_rel Q) (removeGroupMember g u)"
  unfolding addGroupMember_def removeGroupMember_def by (intro rel_stmt assms)+

lemma rel_logAudit:
  assumes "\<And>r E d. Q E d (snd (insert_audit r E d))"
  shows "state_io_rel (db_rel Q) (logAudit r)"
  unfolding logAudit_def by (intro rel_intros rel_stmt assms)

lemma rel_settings:
  assumes "\<And>k v t E d. Q E d (snd (upsert_setting k v t E d))"
    and "\<And>k E d. Q E d (snd (delete_setting k E d))"
  shows "state_io_rel (db_rel Q) (setSetting k v)"
    and "state_io_rel (db_rel Q) (deleteSetting k)"
  unfolding setSetting_def deleteSetting_def by (intro rel_intros rel_stmt assms)+

lemma rel_other_reads:
  "state_io_rel (db_rel Q) (getSetting k)"
  "state_io_rel (db_rel Q) getAllSettings"
  "state_io_rel (db_rel Q) (listAuditRecords a b)"
  unfolding getSetting_def getAllSettings_def listAuditRecords_def Let_def
  by (intro rel_intros rel_reads)+

end

end
