(* ===== verification/StoreInvariants.thy ===== *)
theory StoreInvariants
  imports StoreFrames
begin

text \<open>
  The store's invariants over every sequence of its operations, whatever the database refuses in
  between: the declared integrity (primary keys, unique columns, foreign keys), and at most one
  account per name in any letter case, which no index guarantees on an installation whose data
  predates it.
\<close>

section \<open>Name checks\<close>

definition ci_unique :: "engine \<Rightarrow> db \<Rightarrow> bool" where
  "ci_unique E d \<longleftrightarrow> distinct (map (\<lambda>u. sql_lower E (u_username u)) (t_users d))"

definition ids_nonempty :: "db \<Rightarrow> bool" where
  "ids_nonempty d \<longleftrightarrow> (\<forall>u \<in> set (t_users d). u_id u \<noteq> '''')"

definition store_inv :: "engine \<Rightarrow> db \<Rightarrow> bool" where
  "store_inv E d \<longleftrightarrow> wf_db E d \<and> ci_unique E d \<and> ids_nonempty d"

definition name_free :: "string \<Rightarrow> string \<Rightarrow> engine \<Rightarrow> db \<Rightarrow> bool" where
  "name_free n i E d \<longleftrightarrow>
     (\<exists>u \<in> set (t_users d). u_id u = i \<and> same_name n E u) \<or>
     (\<forall>u \<in> set (t_users d). same_name n E u \<longrightarrow> u_id u = i)"

lemma run_count_users:
  "count_users P E d = (Inr (length (filter (P E) (t_users d))), d)"
  by (simp add: count_users_def)

lemma checkUsernameFree_cases:
  assumes "run_state (checkUsernameFree n i) w = (r, w')"
  shows "w_db w' = w_db w" and "w_engine w' = w_engine w"
    and "r = Inr x \<Longrightarrow> name_free n i (w_engine w) (w_db w)"
  using assms
  by (auto simp: checkUsernameFree_def get_driver_def run_check run_stmt count_users_def no_op_def
      name_free_def length_filter_pos filter_empty_conv
      split: if_splits sum.splits prod.splits)

lemma checkUsernameFree_healthy:
  assumes "healthy w"
  shows "result (checkUsernameFree n i) w =
    (if name_free n i (w_engine w) (w_db w) then Inr () else Inl ErrAlreadyExists)"
  using assms
  by (auto simp: result_def checkUsernameFree_def get_driver_def run_check run_stmt_healthy
      count_users_def no_op_def name_free_def length_filter_pos filter_empty_conv)

lemma ci_update:
  assumes wf: "wf_db E d" and ci: "ci_unique E d" and free: "name_free n i E d"
    and P: "\<And>r. P r \<Longrightarrow> u_id r = i" and f: "\<And>r. u_username (f r) = n"
  shows "ci_unique E (d\<lparr>t_users := map (\<lambda>r. if P r then f r else r) (t_users d)\<rparr>)"
proof -
  let ?g = "\<lambda>r. sql_lower E (u_username (if P r then f r else r))"
  let ?l = "\<lambda>r. sql_lower E (u_username r)"
  have d: "distinct (t_users d)"
    using wf by (auto simp: wf_db_def users_ok_def distinct_map)
  have inj: "inj_on ?l (set (t_users d))"
    using ci by (auto simp: ci_unique_def distinct_map)
  have apart: "sql_lower E n \<noteq> ?l s"
    if r: "r \<in> set (t_users d)" "P r" and s: "s \<in> set (t_users d)" "\<not> P s" for r s
  proof
    assume eq: "sql_lower E n = ?l s"
    have "s \<noteq> r" using r s by auto
    have "u_id s \<noteq> i"
      using wf_user_unique [OF wf s(1) r(1)] P [OF r(2)] \<open>s \<noteq> r\<close> by auto
    with free eq s(1) obtain t where t: "t \<in> set (t_users d)" "u_id t = i" "?l t = sql_lower E n"
      by (fastforce simp: name_free_def same_name_def)
    from t(1,3) s(1) eq inj have "t = s" by (auto dest: inj_onD)
    with t(2) \<open>u_id s \<noteq> i\<close> show False by simp
  qed
  have "inj_on ?g (set (t_users d))"
  proof (rule inj_onI)
    fix r s
    assume rs: "r \<in> set (t_users d)" "s \<in> set (t_users d)" and eq: "?g r = ?g s"
    show "r = s"
    proof (cases "P r"; cases "P s")
      assume "P r" "P s"
      then show ?thesis using wf_user_unique [OF wf rs] P by simp
    next
      assume "P r" "\<not> P s"
      then show ?thesis using apart [of r s] rs eq f by simp
    next
      assume "\<not> P r" "P s"
      then show ?thesis using apart [of s r] rs eq f by simp
    next
      assume "\<not> P r" "\<not> P s"
      then show ?thesis using inj rs eq by (auto dest: inj_onD)
    qed
  qed
  with d show ?thesis by (simp add: ci_unique_def distinct_map comp_def inj_on_def)
qed

section \<open>The statements and the invariant\<close>

interpretation kept_inv: db_frame "kept store_inv"
  by unfold_locales (auto simp: kept_def)

lemma inv_update_same_name:
  assumes "\<And>u. u_id (f u) = u_id u" and "\<And>u. u_username (f u) = u_username u"
  shows "kept store_inv E d (snd (update_users P f E d))"
proof -
  have "ci_unique E (d\<lparr>t_users := map (\<lambda>u. if P u then f u else u) (t_users d)\<rparr>) = ci_unique E d"
    using map_if_same [of "\<lambda>u. sql_lower E (u_username u)" f P "t_users d"] assms(2)
    by (simp add: ci_unique_def del: map_map)
  moreover have "ids_nonempty d \<Longrightarrow>
      ids_nonempty (d\<lparr>t_users := map (\<lambda>u. if P u then f u else u) (t_users d)\<rparr>)"
    using assms(1) by (auto simp: ids_nonempty_def)
  ultimately show ?thesis
    using wf_update_users [of f E d P, OF assms(1)]
    by (auto simp: kept_def store_inv_def update_users_def Let_def split: if_splits)
qed

lemma inv_no_users:
  assumes "wf_db E d \<Longrightarrow> wf_db E (snd (q E d))" and "t_users (snd (q E d)) = t_users d"
  shows "kept store_inv E d (snd (q E d))"
  using assms by (auto simp: kept_def store_inv_def ci_unique_def ids_nonempty_def)

lemma inv_delete_user: "kept store_inv E d (snd (delete_user i E d))"
  using wf_delete_user [of E d i]
  by (auto simp: kept_def store_inv_def ci_unique_def ids_nonempty_def delete_user_def
      intro: distinct_map_filterD)

lemma inv_statements:
  "kept store_inv E d (snd (insert_session s E d))"
  "kept store_inv E d (snd (delete_sessions P E d))"
  "kept store_inv E d (snd (delete_logouts L E d))"
  "kept store_inv E d (snd (upsert_logout sid t E d))"
  "kept store_inv E d (snd (delete_subject_logouts F E d))"
  "kept store_inv E d (snd (upsert_subject_logout p b c t E d))"
  "kept store_inv E d (snd (insert_group g E d))"
  "kept store_inv E d (snd (delete_group i E d))"
  "kept store_inv E d (snd (insert_member gi ui E d))"
  "kept store_inv E d (snd (delete_member gi ui E d))"
  "kept store_inv E d (snd (insert_audit r E d))"
  "kept store_inv E d (snd (upsert_setting k v t E d))"
  "kept store_inv E d (snd (delete_setting k E d))"
  by (rule inv_no_users [OF wf_insert_session], simp, simp add: insert_session_def)
    (rule inv_no_users [OF wf_delete_sessions], simp, simp add: delete_sessions_def,
     rule inv_no_users [OF wf_delete_logouts], simp, simp add: delete_logouts_def,
     rule inv_no_users [OF wf_upsert_logout], simp, simp add: upsert_logout_def,
     rule inv_no_users [OF wf_delete_subject_logouts], simp, simp add: delete_subject_logouts_def,
     rule inv_no_users [OF wf_upsert_subject_logout], simp, simp add: upsert_subject_logout_def,
     rule inv_no_users [OF wf_insert_group], simp, simp add: insert_group_def Let_def,
     rule inv_no_users [OF wf_delete_group], simp, simp add: delete_group_def,
     rule inv_no_users [OF wf_insert_member], simp, simp add: insert_member_def,
     rule inv_no_users [OF wf_delete_member], simp, simp add: delete_member_def,
     rule inv_no_users [OF wf_insert_audit], simp, simp add: insert_audit_def,
     rule inv_no_users [OF wf_upsert_setting], simp, simp add: upsert_setting_def,
     rule inv_no_users [OF wf_delete_setting], simp, simp add: delete_setting_def)

lemma inv_update_group:
  "kept store_inv E d (snd (update_groups P
     (\<lambda>r. r\<lparr>g_display_name := a, g_external_id := b, g_updated_at := c\<rparr>) E d))"
  by (rule inv_no_users [OF wf_update_groups]) (simp_all add: update_groups_def Let_def)

section \<open>The operations that choose a name\<close>

lemma inv_named_update:
  assumes "store_inv E d" and "name_free n i E d"
    and "\<And>r. P r \<Longrightarrow> u_id r = i" and "\<And>r. u_username (f r) = n" and "\<And>r. u_id (f r) = u_id r"
  shows "store_inv E (snd (update_users P f E d))"
proof -
  have "wf_db E (snd (update_users P f E d))"
    using wf_update_users [of f E d P] assms(1,5) by (simp add: store_inv_def)
  moreover have "ci_unique E (snd (update_users P f E d))"
    using assms ci_update [of E d n i P f]
    by (auto simp: store_inv_def update_users_def Let_def)
  moreover have "ids_nonempty (snd (update_users P f E d))"
    using assms by (auto simp: store_inv_def update_users_def ids_nonempty_def Let_def)
  ultimately show ?thesis by (simp add: store_inv_def)
qed

lemma inv_insert_user:
  assumes "store_inv E d" and "name_free (u_username u) '''' E d" and "u_id u \<noteq> ''''"
  shows "store_inv E (snd (insert_user u E d))"
proof -
  have "\<forall>r \<in> set (t_users d). \<not> same_name (u_username u) E r"
    using assms(1,2) by (auto simp: name_free_def store_inv_def ids_nonempty_def)
  then have "ci_unique E (d\<lparr>t_users := t_users d @ [u]\<rparr>)"
    using assms(1) by (force simp: store_inv_def ci_unique_def same_name_def)
  then show ?thesis
    using assms wf_insert_user [of E d u]
    by (auto simp: store_inv_def ids_nonempty_def insert_user_def Let_def split: if_splits)
qed

text \<open>
  A write inside the transaction that checked its name: the invariant holds afterwards when the
  write keeps it on every database where the name is free.
\<close>

lemma inv_named_transaction:
  fixes k :: "('a, 'z) res"
  assumes eng: "\<And>w. w_engine (exec k w) = w_engine w"
    and inv: "\<And>w. store_inv (w_engine w) (w_db w) \<Longrightarrow> name_free n i (w_engine w) (w_db w) \<Longrightarrow>
                store_inv (w_engine w) (w_db (exec k w))"
  shows "state_io_rel (db_rel (kept store_inv))
           (transaction ce (check (checkUsernameFree n i) (\<lambda>_. k)))"
proof (unfold state_io_rel_def, intro allI)
  fix w :: "'z world_scheme"
  let ?w1 = "w\<lparr>w_stmts := Suc (w_stmts w)\<rparr>"
  obtain r w2 where c: "run_state (checkUsernameFree n i) ?w1 = (r, w2)" by force
  note cc = checkUsernameFree_cases [OF c]
  show "db_rel (kept store_inv) w
      (snd (run_state (transaction ce (check (checkUsernameFree n i) (\<lambda>_. k))) w))"
    using cc eng [of w2] inv [of w2]
    by (auto simp: run_transaction run_check c db_rel_def kept_def exec_def
        split: prod.splits sum.splits)
qed

lemma db_rel_keptD:
  "db_rel (kept P) w w' \<Longrightarrow> w_engine w = E \<Longrightarrow> P E (w_db w) \<Longrightarrow> P E (w_db w')"
  by (auto simp: db_rel_def kept_def)

lemma exec_checked_stmt:
  assumes rest: "\<And>x. state_io_rel (db_rel (kept store_inv)) (rest x)"
  shows "w_engine (exec (check (map_err f (stmt q)) rest) w) = w_engine w"
    and "store_inv (w_engine w) (snd (q (w_engine w) (w_db w))) \<Longrightarrow>
      store_inv (w_engine w) (w_db w) \<Longrightarrow>
      store_inv (w_engine w) (w_db (exec (check (map_err f (stmt q)) rest) w))"
proof -
  have r: "db_rel (kept store_inv) w1 (snd (run_state (rest x) w1))" for x w1
    using rest by (simp add: state_io_rel_def)
  show "w_engine (exec (check (map_err f (stmt q)) rest) w) = w_engine w"
    by (cases "fst (q (w_engine w) (w_db w))")
      (simp_all add: exec_def map_err_def run_check run_stmt r [unfolded db_rel_def])
  show "store_inv (w_engine w) (w_db (exec (check (map_err f (stmt q)) rest) w))"
    if "store_inv (w_engine w) (snd (q (w_engine w) (w_db w)))" "store_inv (w_engine w) (w_db w)"
    using that
    by (cases "fst (q (w_engine w) (w_db w))")
      (simp_all add: exec_def map_err_def run_check run_stmt r [THEN db_rel_keptD])
qed

lemma inv_named_stmt:
  assumes "\<And>x. state_io_rel (db_rel (kept store_inv)) (rest x)"
    and "\<And>E d. store_inv E d \<Longrightarrow> name_free n i E d \<Longrightarrow> store_inv E (snd (q E d))"
  shows "state_io_rel (db_rel (kept store_inv))
    (transaction ce (check (checkUsernameFree n i) (\<lambda>_. check (map_err f (stmt q)) rest)))"
  using assms
  by (intro inv_named_transaction exec_checked_stmt)

lemma check_ret: "check m (\<lambda>x. ret (Inr ())) = m"
  by (rule state.expand, rule ext)
    (auto simp: run_check split: prod.splits sum.splits)

lemma inv_createUser:
  assumes "u_id u \<noteq> ''''"
  shows "state_io_rel (db_rel (kept store_inv)) (createUser u)"
proof -
  have *: "state_io_rel (db_rel (kept store_inv))
      (transaction uniqueErr (check (checkUsernameFree (u_username v) '''')
        (\<lambda>_. map_err uniqueErr (stmt (insert_user v)))))" if "u_id v \<noteq> ''''" for v
    using inv_named_stmt [of "\<lambda>x. ret (Inr ())" "u_username v" "''''" "insert_user v" uniqueErr uniqueErr]
      inv_insert_user [OF _ _ that]
    by (simp add: check_ret kept_inv.rel_ret)
  then show ?thesis
    using assms unfolding createUser_def Let_def
    by (intro kept_inv.rel_bind kept_inv.rel_now kept_inv.rel_check kept_inv.rel_ret *)
      (simp add: stamp_times_def)
qed

lemma inv_updateUser: "state_io_rel (db_rel (kept store_inv)) (updateUser u)"
  unfolding updateUser_def Let_def
  by (intro kept_inv.rel_now kept_inv.rel_bind kept_inv.rel_check inv_named_stmt
      kept_inv.rel_ret frame_if inv_named_update) (auto simp: set_user_row_def)

lemma inv_updateProfile:
  assumes "\<And>E d. store_inv E d \<Longrightarrow> name_free (u_username u) (u_id u) E d \<Longrightarrow>
      store_inv E (snd (q E d))"
  shows "state_io_rel (db_rel (kept store_inv)) (updateProfile u r s True q)"
  unfolding updateProfile_def if_True
  by (intro inv_named_stmt assms kept_inv.rel_intros kept_inv.rel_reads kept_inv.rel_stmt
      inv_statements)

lemma inv_profile_updates:
  "state_io_rel (db_rel (kept store_inv)) (updateUserProfile u r s)"
  "state_io_rel (db_rel (kept store_inv)) (updateSCIMProfile u r s p)"
  "state_io_rel (db_rel (kept store_inv)) (takeOverForSCIM u r s)"
  unfolding updateUserProfile_def updateSCIMProfile_def takeOverForSCIM_def Let_def
  by (intro kept_inv.rel_now kept_inv.rel_bind kept_inv.rel_check inv_updateProfile
      kept_inv.rel_ret inv_named_update; auto simp: profileSet_def profile_where_def)+

lemma inv_keep_name:
  "state_io_rel (db_rel (kept store_inv)) (updateUserRole u r)"
  "state_io_rel (db_rel (kept store_inv)) (linkSSOIdentity i sub from to)"
  "state_io_rel (db_rel (kept store_inv)) (completePasswordChange i h h' ip)"
  "state_io_rel (db_rel (kept store_inv)) (resetAdminPassword i h')"
  "state_io_rel (db_rel (kept store_inv)) (createSession s h)"
  by (intro kept_inv.rel_updateUserRole kept_inv.rel_linkSSOIdentity
      kept_inv.rel_completePasswordChange kept_inv.rel_resetAdminPassword
      kept_inv.rel_createSession inv_update_same_name inv_statements; simp)+

lemmas inv_operations = inv_updateUser inv_profile_updates inv_keep_name
  kept_inv.rel_deleteUser [OF inv_delete_user]
  kept_inv.rel_deletes [OF inv_statements(2)]
  kept_inv.rel_endSSOSession [OF inv_statements(3) inv_statements(4) inv_statements(2)]
  kept_inv.rel_endSSOSubject [OF inv_statements(5) inv_statements(6) inv_statements(2)]
  kept_inv.rel_getSession [OF inv_statements(2)]
  kept_inv.rel_createGroup [OF inv_statements(7)]
  kept_inv.rel_updateGroup [OF inv_update_group]
  kept_inv.rel_deleteGroup [OF inv_statements(8)]
  kept_inv.rel_member_writes [OF inv_statements(9) inv_statements(10)]
  kept_inv.rel_logAudit [OF inv_statements(11)]
  kept_inv.rel_settings [OF inv_statements(12) inv_statements(13)]

section \<open>Every operation, in any order\<close>

text \<open>
  One call of a method of the \<^verbatim>\<open>Store\<close> interface. The reads change nothing but are calls too: they
  consume oracles. An account is only ever created under a generated id, which is never empty.
\<close>

inductive store_step :: "'z world_scheme \<Rightarrow> 'z world_scheme \<Rightarrow> bool" where
  step_createUser: "u_id u \<noteq> '''' \<Longrightarrow> store_step w (exec (createUser u) w)"
| step_updateUser: "store_step w (exec (updateUser u) w)"
| step_updateUserProfile: "store_step w (exec (updateUserProfile u r s) w)"
| step_updateSCIMProfile: "store_step w (exec (updateSCIMProfile u r s p) w)"
| step_takeOverForSCIM: "store_step w (exec (takeOverForSCIM u r s) w)"
| step_updateUserRole: "store_step w (exec (updateUserRole u r) w)"
| step_linkSSOIdentity: "store_step w (exec (linkSSOIdentity i sub from to) w)"
| step_deleteUser: "store_step w (exec (deleteUser i) w)"
| step_getUserByID: "store_step w (exec (getUserByID i) w)"
| step_getUserByUsername: "store_step w (exec (getUserByUsername i) w)"
| step_getUserByEmail: "store_step w (exec (getUserByEmail i) w)"
| step_getUserBySSO: "store_step w (exec (getUserBySSO p i) w)"
| step_listUsers: "store_step w (exec (listUsers a b q) w)"
| step_listSCIMUsers: "store_step w (exec (listSCIMUsers a b q) w)"
| step_countUsers: "store_step w (exec countUsers w)"
| step_completePasswordChange: "store_step w (exec (completePasswordChange i h h' ip) w)"
| step_resetAdminPassword: "store_step w (exec (resetAdminPassword i h') w)"
| step_createSession: "store_step w (exec (createSession sess h) w)"
| step_getSession: "store_step w (exec (getSession th) w)"
| step_deleteSession: "store_step w (exec (deleteSession th) w)"
| step_deleteUserSessions: "store_step w (exec (deleteUserSessions i) w)"
| step_cleanExpiredSessions: "store_step w (exec cleanExpiredSessions w)"
| step_endSSOSession: "store_step w (exec (endSSOSession sid until) w)"
| step_endSSOSubject: "store_step w (exec (endSSOSubject p sub c until) w)"
| step_createGroup: "store_step w (exec (createGroup g) w)"
| step_getGroupByID: "store_step w (exec (getGroupByID i) w)"
| step_getGroupByName: "store_step w (exec (getGroupByName i) w)"
| step_updateGroup: "store_step w (exec (updateGroup g) w)"
| step_deleteGroup: "store_step w (exec (deleteGroup i) w)"
| step_listGroups: "store_step w (exec (listGroups a b) w)"
| step_addGroupMember: "store_step w (exec (addGroupMember gi ui) w)"
| step_removeGroupMember: "store_step w (exec (removeGroupMember gi ui) w)"
| step_getUserGroups: "store_step w (exec (getUserGroups i) w)"
| step_logAudit: "store_step w (exec (logAudit r) w)"
| step_listAuditRecords: "store_step w (exec (listAuditRecords a b) w)"
| step_getSetting: "store_step w (exec (getSetting k) w)"
| step_setSetting: "store_step w (exec (setSetting k v) w)"
| step_deleteSetting: "store_step w (exec (deleteSetting k) w)"
| step_getAllSettings: "store_step w (exec getAllSettings w)"

lemmas inv_exec = inv_operations [THEN frame_exec] inv_createUser [THEN frame_exec]
  kept_inv.rel_user_reads [THEN frame_exec] kept_inv.rel_listUsers [THEN frame_exec]
  kept_inv.rel_group_reads [THEN frame_exec] kept_inv.rel_other_reads [THEN frame_exec]

lemma store_step_rel: "store_step w w' \<Longrightarrow> db_rel (kept store_inv) w w'"
  by (induction rule: store_step.induct) (rule inv_exec; assumption?)+

lemma store_steps_rel: "store_step\<^sup>*\<^sup>* w w' \<Longrightarrow> db_rel (kept store_inv) w w'"
  by (induction rule: rtranclp_induct)
    (auto dest!: store_step_rel simp: db_rel_def kept_def)

lemma store_inv_empty: "store_inv E (empty_db\<lparr>username_ci := b\<rparr>)"
  by (simp add: store_inv_def wf_parts ci_unique_def ids_nonempty_def empty_db_def)

end
