(* ===== verification/StoreContracts.thy ===== *)
theory StoreContracts
  imports StoreInvariants
begin

text \<open>
  What a caller of the store may rely on, operation by operation: writes are all or nothing, a
  compare-and-swap of a profile writes exactly the row it read or fails, a change of role, status
  or password revokes the sessions in the same transaction, an expired session is never returned.
\<close>

section \<open>All or nothing\<close>

definition atomic :: "('a, 'z) res \<Rightarrow> bool" where
  "atomic m \<longleftrightarrow> (\<forall>w e w'. run_state m w = (Inl e, w') \<longrightarrow> w_db w' = w_db w)"

lemma atomicD: "atomic m \<Longrightarrow> run_state m w = (Inl e, w') \<Longrightarrow> w_db w' = w_db w"
  by (auto simp: atomic_def)

lemma atomic_transaction: "atomic (transaction ce m)"
  by (auto simp: atomic_def dest: transaction_error)

lemma atomic_then_ret: "atomic m \<Longrightarrow> atomic (check m (\<lambda>x. ret (Inr (f x))))"
  by (auto simp: atomic_def run_check split: prod.splits sum.splits)

lemma atomic_now: "(\<And>t. atomic (f t)) \<Longrightarrow> atomic (State_Monad.bind time_Now f)"
  unfolding atomic_def by fastforce

lemma update_users_error:
  "fst (update_users P f E d) = Inl e \<Longrightarrow> snd (update_users P f E d) = d"
  by (auto simp: update_users_def Let_def split: if_splits)

lemma update_users_none:
  "fst (update_users P f E d) = Inr 0 \<Longrightarrow> snd (update_users P f E d) = d"
proof -
  assume a: "fst (update_users P f E d) = Inr 0"
  then have "filter P (t_users d) = []"
    by (auto simp: update_users_def Let_def split: if_splits)
  then have "map (\<lambda>u. if P u then f u else u) (t_users d) = t_users d"
    by (auto simp: filter_empty_conv intro: map_idI)
  with a show ?thesis by (simp add: update_users_def Let_def)
qed

lemma atomic_linkSSOIdentity: "atomic (linkSSOIdentity i s f t)"
  unfolding linkSSOIdentity_def
  by (rule atomic_now)
    (auto simp: atomic_def run_check run_stmt update_users_error update_users_none
      split: prod.splits sum.splits if_splits)

lemmas atomic_intros = atomic_now atomic_then_ret atomic_transaction

lemma atomic_user_writes:
  "atomic (createUser u)" "atomic (updateUser u)" "atomic (updateUserProfile u r s)"
  "atomic (updateSCIMProfile u r s p)" "atomic (takeOverForSCIM u r s)"
  "atomic (updateUserRole u r)" "atomic (completePasswordChange i h h' ip)"
  "atomic (resetAdminPassword i h')"
  unfolding createUser_def updateUser_def updateUserProfile_def updateSCIMProfile_def
    takeOverForSCIM_def updateUserRole_def updateProfile_def completePasswordChange_def
    withPassword_def resetAdminPassword_def Let_def
  by (intro atomic_intros)+

text \<open>The contract of \<open>atomic_op\<close>, for the methods that write users.\<close>

interpretation createUser_op: atomic_op "createUser u" for u
  by unfold_locales (rule atomicD [OF atomic_user_writes(1)])

interpretation updateUser_op: atomic_op "updateUser u" for u
  by unfold_locales (rule atomicD [OF atomic_user_writes(2)])

interpretation updateUserProfile_op: atomic_op "updateUserProfile u r s" for u r s
  by unfold_locales (rule atomicD [OF atomic_user_writes(3)])

interpretation updateSCIMProfile_op: atomic_op "updateSCIMProfile u r s p" for u r s p
  by unfold_locales (rule atomicD [OF atomic_user_writes(4)])

interpretation takeOverForSCIM_op: atomic_op "takeOverForSCIM u r s" for u r s
  by unfold_locales (rule atomicD [OF atomic_user_writes(5)])

interpretation updateUserRole_op: atomic_op "updateUserRole u r" for u r
  by unfold_locales (rule atomicD [OF atomic_user_writes(6)])

interpretation completePasswordChange_op: atomic_op "completePasswordChange i h h' ip" for i h h' ip
  by unfold_locales (rule atomicD [OF atomic_user_writes(7)])

interpretation resetAdminPassword_op: atomic_op "resetAdminPassword i h'" for i h'
  by unfold_locales (rule atomicD [OF atomic_user_writes(8)])

interpretation linkSSOIdentity_op: atomic_op "linkSSOIdentity i s f t" for i s f t
  by unfold_locales (rule atomicD [OF atomic_linkSSOIdentity])

section \<open>Compare and swap\<close>

text \<open>
  What a successful compare-and-swap leaves: the rows the statement matched rewritten, and the
  sessions of the account gone when its role or status changed.
\<close>

definition cas_db :: "(user \<Rightarrow> bool) \<Rightarrow> (user \<Rightarrow> user) \<Rightarrow> bool \<Rightarrow> string \<Rightarrow> db \<Rightarrow> db" where
  "cas_db P f revoke i d =
     d\<lparr>t_users := map (\<lambda>r. if P r then f r else r) (t_users d),
       t_sessions := (if revoke then filter (\<lambda>s. s_user_id s \<noteq> i) (t_sessions d)
                      else t_sessions d)\<rparr>"

lemma update_users_ok:
  "fst (update_users P f E d) = Inr n \<Longrightarrow>
     snd (update_users P f E d) = d\<lparr>t_users := map (\<lambda>r. if P r then f r else r) (t_users d)\<rparr> \<and>
     n = length (filter P (t_users d))"
  by (auto simp: update_users_def Let_def split: if_splits)

lemma updateProfile_result:
  assumes "run_state (updateProfile u pr ps c (update_users P f)) w = (r, w')"
  shows "case r of
      Inl e \<Rightarrow> w_db w' = w_db w
    | Inr _ \<Rightarrow> (\<exists>x \<in> set (t_users (w_db w)). P x) \<and>
        w_db w' = cas_db P f (u_role u \<noteq> pr \<or> u_status u \<noteq> ps) (u_id u) (w_db w)"
proof (cases r)
  case (Inl e)
  then show ?thesis
    using transaction_error assms unfolding updateProfile_def by fastforce
next
  case (Inr x)
  let ?b = "check (if c then checkUsernameFree (u_username u) (u_id u) else ret (Inr ())) (\<lambda>_.
       check (map_err uniqueErr (stmt (update_users P f))) (\<lambda>rows.
       if rows = 0
       then check (stmt (count_users (\<lambda>E r. u_id r = u_id u))) (\<lambda>n.
              if n = 0 then ret (Inl ErrNotFound) else ret (Inl ErrConflict))
       else if u_role u \<noteq> pr \<or> u_status u \<noteq> ps
       then stmt (delete_sessions (\<lambda>d s. s_user_id s = u_id u))
       else ret (Inr ())))"
  obtain w2 where b: "run_state ?b (w\<lparr>w_stmts := Suc (w_stmts w)\<rparr>) = (Inr x, w2)"
    and w': "w' = w2\<lparr>w_stmts := Suc (w_stmts w2)\<rparr>"
    using assms unfolding updateProfile_def Inr by (elim transaction_ok)
  let ?w1 = "w\<lparr>w_stmts := Suc (w_stmts w)\<rparr>"
  obtain y w3 where n: "run_state (if c then checkUsernameFree (u_username u) (u_id u)
      else ret (Inr ())) ?w1 = (Inr y, w3)"
    using b by (auto simp: run_check split: prod.splits sum.splits)
  have w3: "w_db w3 = w_db w" "w_engine w3 = w_engine w"
    using n checkUsernameFree_cases [of "u_username u" "u_id u" ?w1 "Inr y" w3]
    by (auto split: if_splits)
  obtain rows where q: "fst (update_users P f (w_engine w) (w_db w)) = Inr rows"
    and rows: "rows \<noteq> 0"
    using b by (auto simp: run_check n w3 map_err_def run_stmt count_users_def
        split: prod.splits sum.splits if_splits)
  have len: "rows = length (filter P (t_users (w_db w)))"
    and db: "snd (update_users P f (w_engine w) (w_db w)) =
       (w_db w)\<lparr>t_users := map (\<lambda>r. if P r then f r else r) (t_users (w_db w))\<rparr>"
    using update_users_ok [OF q] by simp_all
  have "w_db w2 = cas_db P f (u_role u \<noteq> pr \<or> u_status u \<noteq> ps) (u_id u) (w_db w)"
    using b q rows by (auto simp: run_check n w3 map_err_def run_stmt db cas_db_def
        delete_sessions_def split: if_splits)
  then show ?thesis
    using Inr w' rows len by (auto simp: length_filter_pos [symmetric])
qed

lemma case_resultE:
  assumes "case r of Inl e \<Rightarrow> P | Inr x \<Rightarrow> Q x"
  obtains e where "r = Inl e" P | x where "r = Inr x" "Q x"
  using assms by (cases r) auto

section \<open>The writers of users, decided\<close>

lemma distinct_map_factor: "distinct (map (\<lambda>x. f (g x)) xs) \<Longrightarrow> distinct (map g xs)"
  by (induction xs) auto

lemma named_users_ok:
  assumes inv: "store_inv E d" and free: "name_free n i E d"
    and P: "\<And>r. P r \<Longrightarrow> u_id r = i" and f: "\<And>r. u_username (f r) = n" "\<And>r. u_id (f r) = u_id r"
  shows "users_ok E (username_ci d) (map (\<lambda>r. if P r then f r else r) (t_users d))"
proof -
  let ?us = "map (\<lambda>r. if P r then f r else r) (t_users d)"
  have ci: "distinct (map (\<lambda>u. sql_lower E (u_username u)) ?us)"
    using ci_update [of E d n i P f] assms
    by (simp add: store_inv_def ci_unique_def del: map_map)
  then have "distinct (map u_username ?us)"
    by (rule distinct_map_factor)
  moreover have "distinct (map u_id ?us)"
    using map_if_same [of u_id f P "t_users d"] inv f(2)
    by (simp add: store_inv_def wf_db_def users_ok_def del: map_map)
  ultimately show ?thesis using ci by (simp add: users_ok_def del: map_map)
qed

lemma run_checkUsernameFree_healthy:
  assumes "healthy w"
  obtains w1 where
    "run_state (checkUsernameFree n i) w =
       (if name_free n i (w_engine w) (w_db w) then Inr () else Inl ErrAlreadyExists, w1)"
    "w_db w1 = w_db w" "w_engine w1 = w_engine w" "healthy w1"
proof -
  obtain r w1 where run: "run_state (checkUsernameFree n i) w = (r, w1)" by force
  have r: "r = (if name_free n i (w_engine w) (w_db w) then Inr () else Inl ErrAlreadyExists)"
    using checkUsernameFree_healthy [OF assms, of n i] run by (simp add: result_def)
  have "healthy w1"
    using run assms
    by (auto simp: checkUsernameFree_def get_driver_def run_check run_stmt_healthy count_users_def
        no_op_def split: if_splits)
  with checkUsernameFree_cases(1,2) [OF run] show thesis
    by (intro that [OF run [unfolded r]])
qed

lemma updateProfile_decided:
  assumes h: "healthy w" and inv: "store_inv (w_engine w) (w_db w)"
    and P: "\<And>r. P r \<Longrightarrow> u_id r = u_id u"
    and f: "\<And>r. u_username (f r) = u_username u" "\<And>r. u_id (f r) = u_id r"
  shows "result (updateProfile u pr ps True (update_users P f)) w =
    (if \<not> name_free (u_username u) (u_id u) (w_engine w) (w_db w) then Inl ErrAlreadyExists
     else case find (\<lambda>r. u_id r = u_id u) (t_users (w_db w)) of
       None \<Rightarrow> Inl ErrNotFound
     | Some r \<Rightarrow> if P r then Inr () else Inl ErrConflict)"
proof -
  let ?w1 = "w\<lparr>w_stmts := Suc (w_stmts w)\<rparr>"
  let ?d = "w_db w" and ?us = "t_users (w_db w)" and ?E = "w_engine w"
  obtain w2 where c: "run_state (checkUsernameFree (u_username u) (u_id u)) ?w1 =
       (if name_free (u_username u) (u_id u) ?E ?d then Inr () else Inl ErrAlreadyExists, w2)"
    and w2: "w_db w2 = ?d" "w_engine w2 = ?E" "healthy w2"
    using run_checkUsernameFree_healthy [of ?w1] h by auto
  have upd: "update_users P f ?E ?d = (Inr (length (filter P ?us)),
       ?d\<lparr>t_users := map (\<lambda>r. if P r then f r else r) ?us\<rparr>)"
    if "name_free (u_username u) (u_id u) ?E ?d"
    using named_users_ok [OF inv that P f] by (simp add: update_users_def)
  have idm: "map (\<lambda>r. if P r then f r else r) ?us = ?us" if "filter P ?us = []"
    using that by (auto simp: filter_empty_conv intro: map_idI)
  show ?thesis
  proof (cases "find (\<lambda>r. u_id r = u_id u) ?us")
    case None
    then have "filter P ?us = []" "filter (\<lambda>r. u_id r = u_id u) ?us = []"
      using P by (auto simp: find_None_iff filter_empty_conv)
    note this idm [OF this(1)]
    then show ?thesis
      using None h w2 upd
      by (simp add: result_def updateProfile_def run_transaction run_check c map_err_def
          run_stmt_healthy count_users_def healthy_def)
  next
    case (Some r)
    then have r: "r \<in> set ?us" "u_id r = u_id u" by (auto dest: find_SomeD)
    have ne: "filter (\<lambda>r. u_id r = u_id u) ?us \<noteq> []" using r by (auto simp: filter_empty_conv)
    have "(filter P ?us = []) = (\<not> P r)"
      using r P wf_user_unique [of ?E ?d] inv
      by (fastforce simp: filter_empty_conv store_inv_def)
    then show ?thesis
      using Some h w2 upd ne idm
      by (cases "P r")
        (simp_all add: result_def updateProfile_def run_transaction run_check c map_err_def
          run_stmt_healthy count_users_def delete_sessions_def healthy_def)
  qed
qed

section \<open>A concrete installation\<close>

text \<open>
  A small database and a world that never fails, at which the properties with hypotheses are
  evaluated.
\<close>

definition demo_engine :: engine where
  "demo_engine = \<lparr>driver = ''sqlite'', sql_lower = to_lower, sql_like = (\<lambda>s p. s = p)\<rparr>"

definition demo_user :: "string \<Rightarrow> string \<Rightarrow> user" where
  "demo_user i n =
     \<lparr>u_id = i, u_username = n, u_email = '''', u_display_name = n, u_password_hash = ''h1'',
      u_role = ''user'', u_status = ''active'', u_sso_provider = ''local'', u_sso_subject = '''',
      u_scim_managed = False, u_push_device_id = '''', u_must_change_password = False,
      u_created_at = 1, u_updated_at = 1, u_last_login_at = None\<rparr>"

definition demo_session :: "string \<Rightarrow> string \<Rightarrow> string \<Rightarrow> session" where
  "demo_session th ui sid =
     \<lparr>s_token_hash = th, s_user_id = ui, s_user_agent = '''', s_ip_address = '''',
      s_created_at = 1, s_expires_at = 100, s_sso_sid = sid\<rparr>"

definition demo_db :: db where
  "demo_db = empty_db\<lparr>t_users := [demo_user ''u1'' ''ann'', demo_user ''u2'' ''bob''],
     t_sessions := [demo_session ''t1'' ''u1'' '''']\<rparr>"

definition demo_world :: "db \<Rightarrow> world" where
  "demo_world d =
     \<lparr>w_engine = demo_engine, w_db = d, w_clock = (\<lambda>i. 10), w_ticks = 0,
      w_fault = (\<lambda>i. False), w_stmts = 0, w_rand = (\<lambda>i j. CHR ''0''), w_draws = 0\<rparr>"

lemma demo_lower [simp]:
  "to_lower ''ann'' = ''ann''" "to_lower ''bob'' = ''bob''"
  by code_simp+

lemma demo_healthy [simp]: "healthy (demo_world d)"
  by (simp add: healthy_def demo_world_def)

lemma demo_world_simps [simp]:
  "w_db (demo_world d) = d" "w_engine (demo_world d) = demo_engine"
  "w_clock (demo_world d) i = 10" "w_fault (demo_world d) i = False"
  "w_stmts (demo_world d) = 0" "w_ticks (demo_world d) = 0" "w_draws (demo_world d) = 0"
  by (simp_all add: demo_world_def)

lemma demo_inv [simp]: "store_inv demo_engine demo_db"
  by (simp add: store_inv_def wf_parts ci_unique_def ids_nonempty_def demo_db_def empty_db_def
      demo_engine_def demo_user_def demo_session_def)

lemma demo_world_inv: "store_inv (w_engine (demo_world demo_db)) (w_db (demo_world demo_db))"
  by simp

section \<open>Properties of the writers of users\<close>

text \<open>
  C1: whatever operations of the store run, in whatever order, with any clock, any failures and
  any random bytes, starting from the empty database: ids, tokens, names and keys stay unique,
  every session and membership refers to an existing account and group, and no two accounts have
  names that differ only in letter case.
\<close>

theorem store_integrity:
  assumes "store_step\<^sup>*\<^sup>* w w'" and "w_db w = empty_db\<lparr>username_ci := b\<rparr>"
  shows "store_inv (w_engine w') (w_db w')"
  using store_steps_rel [OF assms(1)] assms(2) store_inv_empty [of "w_engine w" b]
  by (simp add: db_rel_def kept_def)

theorem store_integrity_witness:
  "store_inv demo_engine (w_db (exec (createUser (demo_user ''u1'' ''ann''))
     (demo_world (empty_db\<lparr>username_ci := True\<rparr>)))) \<and>
   length (t_users (w_db (exec (createUser (demo_user ''u1'' ''ann''))
     (demo_world (empty_db\<lparr>username_ci := True\<rparr>))))) = 1"
proof
  let ?w = "demo_world (empty_db\<lparr>username_ci := True\<rparr>)"
  let ?w' = "exec (createUser (demo_user ''u1'' ''ann'')) ?w"
  have "store_step ?w ?w'" by (rule step_createUser) (simp add: demo_user_def)
  then have "store_step\<^sup>*\<^sup>* ?w ?w'" by (rule r_into_rtranclp)
  from store_integrity [OF this] have "store_inv (w_engine ?w') (w_db ?w')" by simp
  then show "store_inv demo_engine (w_db ?w')"
    using store_step_rel [OF \<open>store_step ?w ?w'\<close>] by (simp add: db_rel_def)
  show "length (t_users (w_db ?w')) = 1"
    by (simp add: exec_def createUser_def Let_def run_check run_transaction run_stmt map_err_def
        checkUsernameFree_def get_driver_def count_users_def insert_user_def users_ok_def
        stamp_times_def time_IsZero_def demo_engine_def demo_user_def empty_db_def same_name_def)
qed

text \<open>
  The profile update on a working database decides exactly: a name another account holds in
  any letter case is refused, a missing account is not found, an account whose role or status is
  no longer the one the caller read is a conflict, and otherwise the update succeeds (no
  unique-constraint violation is left to happen).
\<close>

lemma updateUserProfile_decided:
  assumes "healthy w" and "store_inv (w_engine w) (w_db w)"
  shows "result (updateUserProfile u pr ps) w =
    (if \<not> name_free (u_username u) (u_id u) (w_engine w) (w_db w) then Inl ErrAlreadyExists
     else case find (\<lambda>r. u_id r = u_id u) (t_users (w_db w)) of
       None \<Rightarrow> Inl ErrNotFound
     | Some r \<Rightarrow> if u_role r = pr \<and> u_status r = ps
                then Inr (u\<lparr>u_updated_at := w_clock w (w_ticks w)\<rparr>) else Inl ErrConflict)"
proof -
  let ?v = "u\<lparr>u_updated_at := w_clock w (w_ticks w)\<rparr>"
  let ?w = "w\<lparr>w_ticks := Suc (w_ticks w)\<rparr>"
  note dec = updateProfile_decided [of ?w "profile_where ?v pr ps" ?v "profileSet ?v" pr ps]
  show ?thesis
    using dec assms
    by (auto simp: updateUserProfile_def Let_def result_def run_check profile_where_def
        profileSet_def split: prod.splits sum.splits option.splits if_splits dest: find_SomeD)
qed

text \<open>
  In every world, faults included, the profile update either fails and leaves the database as
  it was, or succeeds and leaves exactly the account's name, email, display name, role, status and
  update time rewritten on the row whose role and status were the ones read, with every session of
  the account deleted in the same transaction if its role or status changed.
\<close>

lemma updateUserProfile_effect:
  "case run_state (updateUserProfile u pr ps) w of
     (Inl e, w') \<Rightarrow> w_db w' = w_db w
   | (Inr v, w') \<Rightarrow>
       v = u\<lparr>u_updated_at := w_clock w (w_ticks w)\<rparr> \<and>
       (\<exists>r \<in> set (t_users (w_db w)). profile_where u pr ps r) \<and>
       w_db w' = cas_db (profile_where u pr ps) (profileSet v)
                   (\<not> (u_role u = pr \<and> u_status u = ps)) (u_id u) (w_db w)"
proof -
  let ?v = "u\<lparr>u_updated_at := w_clock w (w_ticks w)\<rparr>"
  have P: "profile_where ?v pr ps = profile_where u pr ps"
    by (simp add: fun_eq_iff profile_where_def)
  show ?thesis
    using updateProfile_result [of ?v pr ps True "profile_where ?v pr ps" "profileSet ?v"
        "w\<lparr>w_ticks := Suc (w_ticks w)\<rparr>"]
    by (auto simp: updateUserProfile_def Let_def run_check P split: prod.splits sum.splits)
qed

section \<open>Passwords\<close>

interpretation kept_users: db_frame "unchanged t_users"
  by unfold_locales (auto simp: unchanged_def)

text \<open>The row a password-derived grant needs: still active, still with the hash verified.\<close>

definition grants :: "string \<Rightarrow> string \<Rightarrow> user \<Rightarrow> bool" where
  "grants i h r \<longleftrightarrow> u_id r = i \<and> u_password_hash r = h \<and> u_status r = ''active''"

lemma update_users_id:
  "fst (update_users P (\<lambda>r. r) E d) = Inr n \<Longrightarrow> n = length (filter P (t_users d))"
  "snd (update_users P (\<lambda>r. r) E d) = d"
  by (auto simp: update_users_def Let_def split: if_splits)

lemma length_filter_one: "1 = length (filter P xs) \<Longrightarrow> \<exists>x \<in> set xs. P x"
  using filter_empty_conv [of P xs] by fastforce

lemma withPassword_ok:
  assumes "run_state (withPassword i h body) w = (Inr x, w')"
  obtains w1 w2 where "\<exists>r \<in> set (t_users (w_db w)). grants i h r"
    and "run_state body w1 = (Inr x, w2)" and "w_db w1 = w_db w" and "w_engine w1 = w_engine w"
    and "w_ticks w1 = w_ticks w" and "w_clock w1 = w_clock w"
    and "w' = w2\<lparr>w_stmts := Suc (w_stmts w2)\<rparr>"
proof -
  let ?q = "update_users (\<lambda>r. u_id r = i \<and> u_password_hash r = h \<and> u_status r = ''active'') (\<lambda>r. r)"
  let ?b = "check (stmt ?q) (\<lambda>n. if n \<noteq> 1 then ret (Inl ErrNotFound) else body)"
  obtain w2 where b: "run_state ?b (w\<lparr>w_stmts := Suc (w_stmts w)\<rparr>) = (Inr x, w2)"
    and w': "w' = w2\<lparr>w_stmts := Suc (w_stmts w2)\<rparr>"
    using assms unfolding withPassword_def by (rule transaction_ok)
  have q: "fst (?q (w_engine w) (w_db w)) = Inr 1"
    and body: "run_state body (w\<lparr>w_stmts := Suc (Suc (w_stmts w))\<rparr>) = (Inr x, w2)"
    using b by (auto simp: run_check run_stmt update_users_id split: if_splits sum.splits)
  have "1 = length (filter (grants i h) (t_users (w_db w)))"
    using update_users_id(1) [OF q] by (simp add: grants_def [abs_def])
  from length_filter_one [OF this]
  show thesis
    using body w' by (intro that [of "w\<lparr>w_stmts := Suc (Suc (w_stmts w))\<rparr>" w2]) simp_all
qed

lemma revokePasswordGrants_ok:
  assumes "run_state (revokePasswordGrants i details ip now) w = (Inr x, w')"
  shows "w_db w' = (w_db w)\<lparr>
      t_sessions := filter (\<lambda>s. s_user_id s \<noteq> i) (t_sessions (w_db w)),
      t_audit_records := t_audit_records (w_db w) @
        [(new_audit i ''auth.password_changed'' ''user'' details ip now)
           \<lparr>a_id := t_audit_seq (w_db w) + 1\<rparr>],
      t_audit_seq := t_audit_seq (w_db w) + 1\<rparr>"
  using assms
  by (auto simp: revokePasswordGrants_def run_check run_stmt delete_sessions_def insert_audit_def
      split: if_splits)

definition new_password_db ::
  "string \<Rightarrow> (user \<Rightarrow> user) \<Rightarrow> string \<Rightarrow> string \<Rightarrow> time \<Rightarrow> db \<Rightarrow> db" where
  "new_password_db i f details ip now d =
     (cas_db (\<lambda>r. u_id r = i \<and> u_sso_provider r = ''local'') f True i d)\<lparr>
       t_audit_records := t_audit_records d @
         [(new_audit i ''auth.password_changed'' ''user'' details ip now)
            \<lparr>a_id := t_audit_seq d + 1\<rparr>],
       t_audit_seq := t_audit_seq d + 1\<rparr>"

text \<open>
  A password change either leaves the database as it was, or happened on a local active account
  that still had the password hash the caller verified, and then, in one transaction, wrote the
  new hash, cleared the must-change flag, deleted every session of the account and recorded the
  change in the audit trail.
\<close>

lemma completePasswordChange_effect:
  "case run_state (completePasswordChange i h h' ip) w of
     (Inl e, w') \<Rightarrow> w_db w' = w_db w
   | (Inr _, w') \<Rightarrow>
       (\<exists>r \<in> set (t_users (w_db w)). grants i h r) \<and>
       (\<exists>r \<in> set (t_users (w_db w)). u_id r = i \<and> u_sso_provider r = ''local'') \<and>
       (let now = w_clock w (w_ticks w)
        in w_db w' = new_password_db i
             (\<lambda>r. r\<lparr>u_password_hash := h', u_must_change_password := False, u_updated_at := now\<rparr>)
             ''password changed; sessions revoked'' ip now (w_db w))"
proof (cases "run_state (completePasswordChange i h h' ip) w")
  case (Pair r w')
  show ?thesis
  proof (cases r)
    case (Inl e)
    with Pair completePasswordChange_op.error_unchanged show ?thesis by auto
  next
    case (Inr x)
    let ?now = "w_clock w (w_ticks w)"
    let ?P = "\<lambda>r. u_id r = i \<and> u_sso_provider r = ''local''"
    let ?f = "\<lambda>r. r\<lparr>u_password_hash := h', u_must_change_password := False, u_updated_at := ?now\<rparr>"
    note run = Pair [unfolded completePasswordChange_def Inr]
    from run obtain w1 w2 where g: "\<exists>r \<in> set (t_users (w_db w)). grants i h r"
      and b: "run_state (do {
         now \<leftarrow> time_Now;
         check (stmt (update_users ?P
                (\<lambda>r. r\<lparr>u_password_hash := h', u_must_change_password := False,
                       u_updated_at := now\<rparr>))) (\<lambda>n.
         if n \<noteq> 1 then ret (Inl ErrNotFound)
         else revokePasswordGrants i ''password changed; sessions revoked'' ip now) }) w1 = (Inr x, w2)"
      and w1: "w_db w1 = w_db w" "w_engine w1 = w_engine w" "w_ticks w1 = w_ticks w"
        "w_clock w1 = w_clock w"
      and w': "w' = w2\<lparr>w_stmts := Suc (w_stmts w2)\<rparr>"
      by (rule withPassword_ok)
    let ?w3 = "w1\<lparr>w_ticks := Suc (w_ticks w), w_stmts := Suc (w_stmts w1),
      w_db := snd (update_users ?P ?f (w_engine w) (w_db w))\<rparr>"
    have q: "fst (update_users ?P ?f (w_engine w) (w_db w)) = Inr 1"
      using b w1 by (auto simp: run_check run_stmt split: if_splits sum.splits)
    have rv: "run_state (revokePasswordGrants i ''password changed; sessions revoked'' ip ?now) ?w3
        = (Inr x, w2)"
      using b w1 by (auto simp: run_check run_stmt split: if_splits sum.splits)
    have "\<exists>r \<in> set (t_users (w_db w)). ?P r"
      using update_users_ok [OF q] by (auto intro: length_filter_one)
    then show ?thesis
      using Pair Inr g w' revokePasswordGrants_ok [OF rv] update_users_ok [OF q]
      by (simp add: new_password_db_def cas_db_def Let_def)
  qed
qed

section \<open>Sessions\<close>

text \<open>
  A session is created only for an active account that still has the password hash the caller
  verified, and only if no live logout fence covers it when the call ends; nothing else changes.
\<close>

lemma createSession_effect:
  "case run_state (createSession s h) w of
     (Inl e, w') \<Rightarrow> t_users (w_db w') = t_users (w_db w)
   | (Inr _, w') \<Rightarrow>
       (\<exists>r \<in> set (t_users (w_db w)). grants (s_user_id s) h r) \<and>
       s_token_hash s \<notin> s_token_hash ` set (t_sessions (w_db w)) \<and>
       w_db w' = (w_db w)\<lparr>t_sessions := t_sessions (w_db w) @ [s]\<rparr> \<and>
       sid_fenced (s_sso_sid s) (w_clock w (w_ticks w)) (w_db w) = 0 \<and>
       subject_fenced (s_user_id s) (s_created_at s) (w_clock w (w_ticks w)) (w_db w) = 0"
proof (cases "run_state (createSession s h) w")
  case (Pair r w')
  show ?thesis
  proof (cases r)
    case (Inl e)
    have "db_rel (unchanged t_users) w w'"
    proof (rule frame_run [OF kept_users.rel_createSession Pair])
    qed (auto simp: unchanged_def update_users_id insert_session_def delete_sessions_def)
    with Pair Inl show ?thesis by (simp add: db_rel_def unchanged_def)
  next
    case (Inr x)
    then obtain y w1 where g: "run_state (withPassword (s_user_id s) h (stmt (insert_session s))) w = (Inr y, w1)"
      and f: "w_db w' = w_db w1" "fst (count_fences s (w_clock w1 (w_ticks w1)) (w_engine w1) (w_db w1)) = Inr 0"
      using Pair by (fastforce simp: createSession_def grant_session_def read_fences_def run_check run_stmt count_fences_def
          split: prod.splits sum.splits if_splits)
    from g obtain w2 w3 where ok: "\<exists>r \<in> set (t_users (w_db w)). grants (s_user_id s) h r"
      and b: "run_state (stmt (insert_session s)) w2 = (Inr y, w3)"
      and w2: "w_db w2 = w_db w" "w_engine w2 = w_engine w" "w_ticks w2 = w_ticks w"
        "w_clock w2 = w_clock w"
      and w1: "w1 = w3\<lparr>w_stmts := Suc (w_stmts w3)\<rparr>"
      by (rule withPassword_ok)
    show ?thesis
      using Pair Inr ok b w1 w2 f
      by (auto simp: run_stmt insert_session_def count_fences_def sid_fenced_def
          subject_fenced_def split: if_splits)
  qed
qed

text \<open>
  Looking a session up never returns one that has expired at the time of the call, nor one
  with another token; it deletes at most the session it was asked for.
\<close>

lemma getSession_effect:
  "case run_state (getSession th) w of
     (Inl e, w') \<Rightarrow> t_sessions (w_db w') = t_sessions (w_db w) \<or>
       e = ErrSessionExpired \<and>
       t_sessions (w_db w') = filter (\<lambda>s. s_token_hash s \<noteq> th) (t_sessions (w_db w))
   | (Inr s, w') \<Rightarrow> w_db w' = w_db w \<and> s \<in> set (t_sessions (w_db w)) \<and> s_token_hash s = th \<and>
       w_clock w (w_ticks w) \<le> s_expires_at s"
  by (auto simp: getSession_def deleteSession_def run_check run_stmt select_session_def
      delete_sessions_def split: prod.splits sum.splits option.splits if_splits dest: find_SomeD)

end
