(* ===== verification/SessionSpec.thy ===== *)
theory SessionSpec
  imports StoreContracts
begin

text \<open>
  What the session store of internal/store/sqlstore.go is: a table from token hashes to sessions, one
  from sids and one from subjects of the identity provider to logout fences. On a database that
  refuses nothing every sequence of its operations answers and does what the tables do.
\<close>

section \<open>Looking up rows\<close>

definition lookup :: "('a \<Rightarrow> 'k) \<Rightarrow> 'a list \<Rightarrow> 'k \<Rightarrow> 'a option" where
  "lookup key xs k = find (\<lambda>x. key x = k) xs"

definition keep_if :: "('v \<Rightarrow> bool) \<Rightarrow> ('k \<Rightarrow> 'v option) \<Rightarrow> 'k \<Rightarrow> 'v option" where
  "keep_if P m k = (case m k of None \<Rightarrow> None | Some v \<Rightarrow> if P v then Some v else None)"

lemma lookup_None: "lookup key xs k = None \<longleftrightarrow> k \<notin> key ` set xs"
  by (auto simp: lookup_def find_None_iff)

lemma lookup_Some: "lookup key xs k = Some x \<Longrightarrow> x \<in> set xs \<and> key x = k"
  by (auto simp: lookup_def dest: find_SomeD)

lemma lookup_in: "distinct (map key xs) \<Longrightarrow> x \<in> set xs \<Longrightarrow> lookup key xs (key x) = Some x"
  by (induction xs) (auto simp: lookup_def image_iff)

lemma lookup_filter_at:
  "distinct (map key xs) \<Longrightarrow> lookup key (filter P xs) k = keep_if P (lookup key xs) k"
proof (induction xs)
  case (Cons x xs)
  then have "lookup key xs (key x) = None" by (auto simp: lookup_None)
  with Cons show ?case by (auto simp: lookup_def keep_if_def)
qed (simp add: lookup_def keep_if_def)

lemma lookup_filter:
  "distinct (map key xs) \<Longrightarrow> lookup key (filter P xs) = keep_if P (lookup key xs)"
  by (rule ext) (rule lookup_filter_at)

lemma lookup_append:
  "key x \<notin> key ` set xs \<Longrightarrow> lookup key (xs @ [x]) = (lookup key xs)(key x \<mapsto> x)"
  by (induction xs) (auto simp: lookup_def fun_eq_iff)

lemma lookup_map:
  "(\<And>x. key (f x) = key x) \<Longrightarrow> lookup key (map f xs) k = map_option f (lookup key xs k)"
  by (induction xs) (auto simp: lookup_def)

section \<open>The tables\<close>

record session_tables =
  tb_sessions :: "string \<Rightarrow> session option"
  tb_sids :: "string \<Rightarrow> time option"
  tb_subjects :: "string \<times> string \<Rightarrow> (time \<times> time) option"

definition subject_of :: "sso_subject_logout \<Rightarrow> string \<times> string" where
  "subject_of f = (f_provider f, f_subject f)"

definition tables_of :: "db \<Rightarrow> session_tables" where
  "tables_of d =
     \<lparr>tb_sessions = lookup s_token_hash (t_sessions d),
      tb_sids = (\<lambda>k. map_option l_expires_at (lookup l_sid (t_sso_logouts d) k)),
      tb_subjects = (\<lambda>k. map_option (\<lambda>f. (f_cutoff f, f_expires_at f))
                           (lookup subject_of (t_sso_subject_logouts d) k))\<rparr>"

text \<open>A fence stands against a session.\<close>

definition barred :: "user list \<Rightarrow> session_tables \<Rightarrow> session \<Rightarrow> time \<Rightarrow> bool" where
  "barred us T s now \<longleftrightarrow>
     (s_sso_sid s \<noteq> '''' \<and> (case tb_sids T (s_sso_sid s) of None \<Rightarrow> False | Some e \<Rightarrow> e > now)) \<or>
     list_ex (\<lambda>u. u_id u = s_user_id s \<and>
       (case tb_subjects T (u_sso_provider u, u_sso_subject u) of
          None \<Rightarrow> False | Some (cutoff, e) \<Rightarrow> cutoff > s_created_at s \<and> e > now)) us"

datatype session_call =
    CreateSession session string
  | GetSession string
  | DeleteSession string
  | DeleteUserSessions string
  | CleanExpiredSessions
  | EndSSOSession string time
  | EndSSOSubject string string time time

fun run_call :: "session_call \<Rightarrow> (session option, 'z) res" where
  "run_call (CreateSession s h) = check (createSession s h) (\<lambda>_. ret (Inr None))"
| "run_call (GetSession t) = check (getSession t) (\<lambda>s. ret (Inr (Some s)))"
| "run_call (DeleteSession t) = check (deleteSession t) (\<lambda>_. ret (Inr None))"
| "run_call (DeleteUserSessions i) = check (deleteUserSessions i) (\<lambda>_. ret (Inr None))"
| "run_call CleanExpiredSessions = check cleanExpiredSessions (\<lambda>_. ret (Inr None))"
| "run_call (EndSSOSession sid until) = check (endSSOSession sid until) (\<lambda>_. ret (Inr None))"
| "run_call (EndSSOSubject p sub c until) = check (endSSOSubject p sub c until) (\<lambda>_. ret (Inr None))"

text \<open>
  The same calls on the tables: \<open>us\<close> are the accounts, \<open>clock n\<close> the next reading of the clock. The
  answer comes with the number of the reading after it.
\<close>

fun spec_call :: "user list \<Rightarrow> (nat \<Rightarrow> time) \<Rightarrow> session_call \<Rightarrow> nat \<times> session_tables \<Rightarrow>
    (err + session option) \<times> nat \<times> session_tables" where
  "spec_call us clock (CreateSession s h) (n, T) =
     (if \<not> list_ex (grants (s_user_id s) h) us then (Inl ErrNotFound, n, T)
      else if tb_sessions T (s_token_hash s) \<noteq> None then (Inl (ErrSQL UniqueViolation), n, T)
      else if barred us T s (clock n) then (Inl ErrSSOSessionEnded, Suc n, T)
      else (Inr None, Suc n, T\<lparr>tb_sessions := (tb_sessions T)(s_token_hash s \<mapsto> s)\<rparr>))"
| "spec_call us clock (GetSession t) (n, T) =
     (case tb_sessions T t of
        None \<Rightarrow> (Inl ErrNotFound, n, T)
      | Some s \<Rightarrow>
          if clock n > s_expires_at s
          then (Inl ErrSessionExpired, Suc n, T\<lparr>tb_sessions := (tb_sessions T)(t := None)\<rparr>)
          else (Inr (Some s), Suc n, T))"
| "spec_call us clock (DeleteSession t) (n, T) =
     (Inr None, n, T\<lparr>tb_sessions := (tb_sessions T)(t := None)\<rparr>)"
| "spec_call us clock (DeleteUserSessions i) (n, T) =
     (Inr None, n, T\<lparr>tb_sessions := keep_if (\<lambda>s. s_user_id s \<noteq> i) (tb_sessions T)\<rparr>)"
| "spec_call us clock CleanExpiredSessions (n, T) =
     (Inr None, Suc n, T\<lparr>tb_sessions := keep_if (\<lambda>s. clock n \<le> s_expires_at s) (tb_sessions T)\<rparr>)"
| "spec_call us clock (EndSSOSession sid until) (n, T) =
     (Inr None, Suc n,
      T\<lparr>tb_sids := (keep_if (\<lambda>e. clock n < e) (tb_sids T))(sid \<mapsto> until),
        tb_sessions := keep_if (\<lambda>s. s_sso_sid s \<noteq> sid) (tb_sessions T)\<rparr>)"
| "spec_call us clock (EndSSOSubject p sub c until) (n, T) =
     (let F = keep_if (\<lambda>(c, e). clock n < e) (tb_subjects T);
          mark = (case F (p, sub) of None \<Rightarrow> (c, until) | Some (c', e) \<Rightarrow> if c' < c then (c, until) else (c', e))
      in (Inr None, Suc n,
          T\<lparr>tb_subjects := F((p, sub) \<mapsto> mark),
            tb_sessions := keep_if (\<lambda>s. \<not> (s_created_at s < c \<and>
              list_ex (\<lambda>u. u_id u = s_user_id s \<and> u_sso_provider u = p \<and> u_sso_subject u = sub) us))
              (tb_sessions T)\<rparr>))"

section \<open>Statements on the tables\<close>

lemma tables_sessions [simp]:
  "tables_of (d\<lparr>t_sessions := ss\<rparr>) = (tables_of d)\<lparr>tb_sessions := lookup s_token_hash ss\<rparr>"
  "tb_sessions (tables_of d) = lookup s_token_hash (t_sessions d)"
  by (simp_all add: tables_of_def)

lemma wf_lookups:
  assumes "wf_db E d"
  shows "distinct (map s_token_hash (t_sessions d))" and "distinct (map l_sid (t_sso_logouts d))"
    and "distinct (map subject_of (t_sso_subject_logouts d))" and "distinct (map u_id (t_users d))"
  using assms by (simp_all add: wf_parts subject_of_def [abs_def])

lemma delete_sessions_tables:
  "wf_db E d \<Longrightarrow> tables_of (snd (delete_sessions P E d)) =
     (tables_of d)\<lparr>tb_sessions := keep_if (\<lambda>s. \<not> P d s) (tb_sessions (tables_of d))\<rparr>"
  by (simp add: delete_sessions_def lookup_filter wf_lookups)

lemma keep_token:
  "distinct (map s_token_hash ss) \<Longrightarrow>
     keep_if (\<lambda>s. s_token_hash s \<noteq> t) (lookup s_token_hash ss) = (lookup s_token_hash ss)(t := None)"
  by (auto simp: keep_if_def fun_eq_iff split: option.split dest: lookup_Some)

lemma keep_if_map_option:
  "(\<lambda>k. map_option f (keep_if (\<lambda>x. P (f x)) m k)) = keep_if P (\<lambda>k. map_option f (m k))"
  by (auto simp: keep_if_def fun_eq_iff split: option.split)

lemma delete_logouts_tables:
  "wf_db E d \<Longrightarrow> tables_of (snd (delete_logouts (\<lambda>l. l_expires_at l \<le> now) E d)) =
     (tables_of d)\<lparr>tb_sids := keep_if (\<lambda>e. now < e) (tb_sids (tables_of d))\<rparr>"
  using keep_if_map_option [of l_expires_at "\<lambda>e. now < e"]
  by (simp add: delete_logouts_def tables_of_def lookup_filter wf_lookups not_le)

text \<open>An update in place, seen through the lookup.\<close>

lemma lookup_update:
  assumes "\<And>x. key (f x) = key x" and "k0 \<in> key ` set xs"
    and "\<And>x. key x = k0 \<Longrightarrow> g (f x) = new (g x)" and "\<And>x. key x \<noteq> k0 \<Longrightarrow> g (f x) = g x"
  shows "map_option g (lookup key (map f xs) k) =
    (if k = k0 then map_option new (map_option g (lookup key xs k0)) else map_option g (lookup key xs k))"
proof (cases "lookup key xs k")
  case (Some x)
  then show ?thesis using assms(3,4) lookup_Some [OF Some] by (auto simp: lookup_map [of key f, OF assms(1)])
qed (auto simp: lookup_map [of key f, OF assms(1)])

lemma lookup_present: "k \<in> key ` set xs \<Longrightarrow> \<exists>x. lookup key xs k = Some x"
  using lookup_None [of key xs k] by auto

lemma upsert_logout_tables:
  "tables_of (snd (upsert_logout sid until E d)) =
     (tables_of d)\<lparr>tb_sids := (tb_sids (tables_of d))(sid \<mapsto> until)\<rparr>"
proof (cases "sid \<in> l_sid ` set (t_sso_logouts d)")
  case True
  then obtain x where "lookup l_sid (t_sso_logouts d) sid = Some x" using lookup_present by metis
  moreover have "map_option l_expires_at (lookup l_sid
      (map (\<lambda>l. if l_sid l = sid then l\<lparr>l_expires_at := until\<rparr> else l) (t_sso_logouts d)) k) =
    (if k = sid then map_option (\<lambda>e. until) (map_option l_expires_at (lookup l_sid (t_sso_logouts d) sid))
     else map_option l_expires_at (lookup l_sid (t_sso_logouts d) k))" for k
    by (rule lookup_update) (simp_all add: True)
  ultimately show ?thesis using True by (auto simp: upsert_logout_def tables_of_def fun_eq_iff)
next
  case False
  then have "lookup l_sid (t_sso_logouts d @ [\<lparr>l_sid = sid, l_expires_at = until\<rparr>]) =
      (lookup l_sid (t_sso_logouts d))(sid \<mapsto> \<lparr>l_sid = sid, l_expires_at = until\<rparr>)"
    using lookup_append [of l_sid "\<lparr>l_sid = sid, l_expires_at = until\<rparr>"] by simp
  with False show ?thesis by (auto simp: upsert_logout_def tables_of_def fun_eq_iff)
qed

lemma delete_subject_logouts_tables:
  "wf_db E d \<Longrightarrow> tables_of (snd (delete_subject_logouts (\<lambda>f. f_expires_at f \<le> now) E d)) =
     (tables_of d)\<lparr>tb_subjects := keep_if (\<lambda>(c, e). now < e) (tb_subjects (tables_of d))\<rparr>"
  using keep_if_map_option [of "\<lambda>f. (f_cutoff f, f_expires_at f)" "\<lambda>(c, e). now < e"]
  by (simp add: delete_subject_logouts_def tables_of_def lookup_filter wf_lookups not_le)

lemma upsert_subject_unfold:
  "snd (upsert_subject_logout p sub c until E d) = d\<lparr>t_sso_subject_logouts :=
     (if (p, sub) \<in> subject_of ` set (t_sso_subject_logouts d)
      then map (\<lambda>f. if f_provider f = p \<and> f_subject f = sub \<and> f_cutoff f < c
                    then f\<lparr>f_cutoff := c, f_expires_at := until\<rparr> else f) (t_sso_subject_logouts d)
      else t_sso_subject_logouts d @
        [\<lparr>f_provider = p, f_subject = sub, f_cutoff = c, f_expires_at = until\<rparr>])\<rparr>"
  unfolding upsert_subject_logout_def subject_of_def [abs_def] by simp

lemma upsert_subject_logout_tables:
  "tables_of (snd (upsert_subject_logout p sub c until E d)) =
     (tables_of d)\<lparr>tb_subjects := (tb_subjects (tables_of d))((p, sub) \<mapsto>
        (case tb_subjects (tables_of d) (p, sub) of
           None \<Rightarrow> (c, until) | Some (c', e) \<Rightarrow> if c' < c then (c, until) else (c', e)))\<rparr>"
proof (cases "(p, sub) \<in> subject_of ` set (t_sso_subject_logouts d)")
  case True
  let ?fs = "t_sso_subject_logouts d"
  let ?u = "\<lambda>f. if f_provider f = p \<and> f_subject f = sub \<and> f_cutoff f < c
      then f\<lparr>f_cutoff := c, f_expires_at := until\<rparr> else f"
  obtain x where "lookup subject_of ?fs (p, sub) = Some x" using lookup_present [OF True] by blast
  moreover have "map_option (\<lambda>f. (f_cutoff f, f_expires_at f)) (lookup subject_of (map ?u ?fs) k) =
    (if k = (p, sub)
     then map_option (\<lambda>(c', e). if c' < c then (c, until) else (c', e))
       (map_option (\<lambda>f. (f_cutoff f, f_expires_at f)) (lookup subject_of ?fs (p, sub)))
     else map_option (\<lambda>f. (f_cutoff f, f_expires_at f)) (lookup subject_of ?fs k))" for k
    by (rule lookup_update) (use True in \<open>auto simp: subject_of_def\<close>)
  ultimately show ?thesis
    using True by (auto simp: upsert_subject_unfold tables_of_def fun_eq_iff)
next
  case False
  let ?f = "\<lparr>f_provider = p, f_subject = sub, f_cutoff = c, f_expires_at = until\<rparr>"
  have "lookup subject_of (t_sso_subject_logouts d @ [?f]) = (lookup subject_of (t_sso_subject_logouts d))((p, sub) \<mapsto> ?f)"
    using False lookup_append [of subject_of ?f] by (simp add: subject_of_def)
  moreover have "lookup subject_of (t_sso_subject_logouts d) (p, sub) = None"
    using False by (simp add: lookup_None)
  ultimately show ?thesis
    using False by (auto simp: upsert_subject_unfold tables_of_def fun_eq_iff)
qed

section \<open>The fences\<close>

lemma lookup_ex:
  "distinct (map key xs) \<Longrightarrow>
     (\<exists>x \<in> set xs. key x = k \<and> P x) \<longleftrightarrow> (case lookup key xs k of None \<Rightarrow> False | Some x \<Rightarrow> P x)"
  using lookup_in [of key xs] by (auto simp: lookup_None dest: lookup_Some split: option.split)

lemma barred_counts:
  assumes wf: "wf_db E d"
  shows "barred (t_users d) (tables_of d) s now \<longleftrightarrow>
    0 < sid_fenced (s_sso_sid s) now d + subject_fenced (s_user_id s) (s_created_at s) now d"
proof -
  have sid: "(0 < sid_fenced (s_sso_sid s) now d) =
      (s_sso_sid s \<noteq> '''' \<and> (\<exists>l \<in> set (t_sso_logouts d). l_sid l = s_sso_sid s \<and> l_expires_at l > now))"
    by (auto simp: sid_fenced_def filter_empty_conv)
  have "(0 < subject_fenced (s_user_id s) (s_created_at s) now d) =
      (\<exists>u \<in> set (t_users d). u_id u = s_user_id s \<and>
        (\<exists>f \<in> set (t_sso_subject_logouts d). subject_of f = (u_sso_provider u, u_sso_subject u) \<and>
           f_cutoff f > s_created_at s \<and> f_expires_at f > now))"
    by (simp add: subject_fenced_def filter_empty_conv subject_of_def) metis
  with sid show ?thesis
    unfolding lookup_ex [OF wf_lookups(2) [OF wf]] lookup_ex [OF wf_lookups(3) [OF wf]]
    by (auto simp: barred_def tables_of_def list_ex_iff split: option.split)
qed

section \<open>The simulation\<close>

lemma deletes_succeed:
  "fst (delete_sessions P E d) = Inr ()" "fst (delete_logouts L E d) = Inr ()"
  "fst (delete_subject_logouts F E d) = Inr ()" "fst (upsert_logout sid until E d) = Inr ()"
  "fst (upsert_subject_logout p sub c until E d) = Inr ()"
  by (simp_all add: delete_sessions_def delete_logouts_def delete_subject_logouts_def
      upsert_logout_def upsert_subject_logout_def)

text \<open>What the calls run in, and do not change.\<close>

definition runs_on :: "user list \<Rightarrow> (nat \<Rightarrow> time) \<Rightarrow> 'z world_scheme \<Rightarrow> bool" where
  "runs_on us clock w \<longleftrightarrow>
     healthy w \<and> wf_db (w_engine w) (w_db w) \<and> t_users (w_db w) = us \<and> w_clock w = clock"

definition seen :: "'z world_scheme \<Rightarrow> nat \<times> session_tables" where
  "seen w = (w_ticks w, tables_of (w_db w))"

lemma same_tables:
  "tb_sessions (tables_of d) = m \<Longrightarrow> (tables_of d)\<lparr>tb_sessions := m\<rparr> = tables_of d"
  by auto

lemma granting_rows:
  assumes "distinct (map u_id us)"
  shows "length (filter (grants i h) us) = (if list_ex (grants i h) us then 1 else 0)"
  using assms
proof (induction us)
  case (Cons u us)
  have "filter (grants i h) us = []" if "grants i h u"
    using that Cons.prems by (auto simp: filter_empty_conv grants_def image_iff)
  with Cons show ?case by auto
qed simp

lemma run_withPassword_healthy:
  assumes "healthy w" and "wf_db (w_engine w) (w_db w)"
  shows "run_state (withPassword i h (stmt q)) w =
    (if \<not> list_ex (grants i h) (t_users (w_db w)) then (Inl ErrNotFound, w\<lparr>w_stmts := w_stmts w + 2\<rparr>)
     else case q (w_engine w) (w_db w) of
       (Inl e, d') \<Rightarrow> (Inl e, w\<lparr>w_stmts := w_stmts w + 3\<rparr>)
     | (Inr x, d') \<Rightarrow> (Inr x, w\<lparr>w_stmts := w_stmts w + 4, w_db := d'\<rparr>))"
proof -
  have "users_ok (w_engine w) (username_ci (w_db w)) (t_users (w_db w))"
    using assms(2) by (simp add: wf_db_def)
  moreover note granting_rows [OF wf_lookups(4) [OF assms(2)], of i h]
  ultimately show ?thesis
    using assms(1)
    by (simp add: withPassword_def run_transaction run_check run_stmt_healthy update_users_def Let_def
        healthy_def grants_def [abs_def] run_stmt split: prod.split sum.split)
qed

lemma run_call_frames:
  "state_io_rel (db_rel (kept wf_db)) (run_call c)" "state_io_rel (db_rel (unchanged t_users)) (run_call c)"
  "state_io_rel (same oracles) (run_call c)"
proof -
  show "state_io_rel (db_rel (kept wf_db)) (run_call c)"
    by (cases c; simp only: run_call.simps)
      (intro kept_wf.rel_intros kept_wf.rel_createSession kept_wf.rel_getSession kept_wf.rel_deletes
        kept_wf.rel_endSSOSession kept_wf.rel_endSSOSubject kept_wf_statement wf_update_users
        wf_insert_session wf_delete_sessions wf_delete_logouts wf_upsert_logout
        wf_delete_subject_logouts wf_upsert_subject_logout refl; assumption)+
  show "state_io_rel (db_rel (unchanged t_users)) (run_call c)"
    by (cases c; simp only: run_call.simps)
      (intro kept_users.rel_intros kept_users.rel_createSession kept_users.rel_getSession
        kept_users.rel_deletes kept_users.rel_endSSOSession kept_users.rel_endSSOSubject;
        simp add: unchanged_def update_users_id insert_session_def delete_sessions_def
          delete_logouts_def upsert_logout_def delete_subject_logouts_def upsert_subject_logout_def)+
  show "state_io_rel (same oracles) (run_call c)"
    by (cases c; simp only: run_call.simps getSession_def deleteSession_def deleteUserSessions_def
        cleanExpiredSessions_def endSSOSession_def purge_fences_def set_fence_def end_sid_def
        endSSOSubject_def createSession_def grant_session_def withPassword_def read_fences_def)
      (intro frame_intros same_refl same_trans)+
qed

lemma run_call_runs_on:
  assumes "runs_on us clock w" and "run_state (run_call c) w = (r, w')"
  shows "runs_on us clock w'"
proof -
  have "oracles w' = oracles w" using frame_run [OF run_call_frames(3) assms(2)] by (simp add: same_def)
  moreover have "t_users (w_db w') = t_users (w_db w)" "wf_db (w_engine w) (w_db w) \<longrightarrow> wf_db (w_engine w) (w_db w')"
    using frame_run [OF run_call_frames(2) assms(2)] frame_run [OF run_call_frames(1) assms(2)]
    by (simp_all add: db_rel_def unchanged_def kept_def)
  ultimately show ?thesis
    using assms(1) by (simp add: runs_on_def oracles_def healthy_def)
qed

lemma sim_create:
  assumes "runs_on us clock w" and "run_state (run_call (CreateSession s h)) w = (r, w')"
  shows "(r, seen w') = spec_call us clock (CreateSession s h) (seen w)"
proof -
  have w: "healthy w" "wf_db (w_engine w) (w_db w)" "t_users (w_db w) = us" "w_clock w = clock"
    using assms(1) by (simp_all add: runs_on_def)
  let ?d = "w_db w" and ?t = "s_token_hash s"
  have user: "s_user_id s \<in> u_id ` set us" if "list_ex (grants (s_user_id s) h) us"
    using that by (force simp: list_ex_iff grants_def)
  have free: "lookup s_token_hash (t_sessions ?d) ?t = None \<longleftrightarrow> ?t \<notin> s_token_hash ` set (t_sessions ?d)"
    by (rule lookup_None)
  have bar: "barred us (tables_of ?d) s (clock (w_ticks w)) \<longleftrightarrow>
      0 < sid_fenced (s_sso_sid s) (clock (w_ticks w)) ?d + subject_fenced (s_user_id s) (s_created_at s) (clock (w_ticks w)) ?d"
    using barred_counts [OF w(2)] w(3) by simp
  show ?thesis
  proof (cases "list_ex (grants (s_user_id s) h) us \<and> ?t \<notin> s_token_hash ` set (t_sessions ?d)")
    case False
    then show ?thesis
      using assms(2) w user free run_withPassword_healthy [OF w(1,2), of "s_user_id s" h "insert_session s"]
      by (auto simp: createSession_def grant_session_def run_check insert_session_def seen_def
          split: if_splits)
  next
    case True
    let ?d' = "?d\<lparr>t_sessions := t_sessions ?d @ [s]\<rparr>"
    have counts: "sid_fenced i n ?d' = sid_fenced i n ?d" "subject_fenced u c n ?d' = subject_fenced u c n ?d" for i n u c
      by (simp_all add: sid_fenced_def subject_fenced_def)
    have others: "filter (\<lambda>x. s_token_hash x \<noteq> ?t) (t_sessions ?d) = t_sessions ?d"
      using True by (intro filter_True ballI notI) (metis image_eqI)
    have grant: "run_state (grant_session s h) w = (Inr (), w\<lparr>w_stmts := w_stmts w + 4, w_db := ?d'\<rparr>)"
      using True user w run_withPassword_healthy [OF w(1,2), of "s_user_id s" h "insert_session s"]
      by (simp add: grant_session_def insert_session_def)
    show ?thesis
      using assms(2) w True free bar
      by (auto simp: createSession_def grant run_check read_fences_def run_stmt_healthy count_fences_def
          counts deleteSession_def delete_sessions_def others seen_def lookup_append split: if_splits)
  qed
qed

lemma sim_get:
  assumes "runs_on us clock w" and "run_state (run_call (GetSession t)) w = (r, w')"
  shows "(r, seen w') = spec_call us clock (GetSession t) (seen w)"
proof -
  have w: "healthy w" "wf_db (w_engine w) (w_db w)" "t_users (w_db w) = us" "w_clock w = clock"
    using assms(1) by (simp_all add: runs_on_def)
  show ?thesis
  proof (cases "lookup s_token_hash (t_sessions (w_db w)) t")
    case None
    then show ?thesis
      using assms(2) w
      by (auto simp: getSession_def run_check run_stmt_healthy select_session_def seen_def lookup_def)
  next
    case (Some s)
    then show ?thesis
      using assms(2) w keep_token [OF wf_lookups(1) [OF w(2)], of t]
      by (auto simp: getSession_def deleteSession_def run_check run_stmt_healthy select_session_def seen_def
          deletes_succeed delete_sessions_tables lookup_def [symmetric] split: if_splits)
  qed
qed

lemma sim_end_sid:
  assumes "runs_on us clock w" and "run_state (run_call (EndSSOSession sid until)) w = (r, w')"
  shows "(r, seen w') = spec_call us clock (EndSSOSession sid until) (seen w)"
proof -
  have w: "healthy w" "wf_db (w_engine w) (w_db w)" "w_clock w = clock"
    using assms(1) by (simp_all add: runs_on_def)
  let ?E = "w_engine w" and ?now = "clock (w_ticks w)"
  let ?d1 = "snd (delete_logouts (\<lambda>l. l_expires_at l \<le> ?now) ?E (w_db w))"
  let ?d2 = "snd (upsert_logout sid until ?E ?d1)"
  have wf: "wf_db ?E ?d2" by (intro wf_upsert_logout wf_delete_logouts w(2))
  have "seen w' = (Suc (w_ticks w), tables_of (snd (delete_sessions (\<lambda>d s. s_sso_sid s = sid) ?E ?d2)))"
    and "r = Inr None"
    using assms(2) w
    by (auto simp: endSSOSession_def purge_fences_def set_fence_def end_sid_def run_check
        run_stmt_healthy deletes_succeed seen_def)
  then show ?thesis
    by (simp add: delete_sessions_tables [OF wf] upsert_logout_tables
        delete_logouts_tables [OF w(2)] seen_def del: tables_sessions(2))
qed

lemma sim_end_subject:
  assumes "runs_on us clock w" and "run_state (run_call (EndSSOSubject p sub since until)) w = (r, w')"
  shows "(r, seen w') = spec_call us clock (EndSSOSubject p sub since until) (seen w)"
proof -
  have w: "healthy w" "wf_db (w_engine w) (w_db w)" "t_users (w_db w) = us" "w_clock w = clock"
    using assms(1) by (simp_all add: runs_on_def)
  let ?E = "w_engine w" and ?now = "clock (w_ticks w)"
  let ?d1 = "snd (delete_subject_logouts (\<lambda>f. f_expires_at f \<le> ?now) ?E (w_db w))"
  let ?d2 = "snd (upsert_subject_logout p sub since until ?E ?d1)"
  let ?P = "\<lambda>d s. s_created_at s < since \<and> of_subject d p sub (s_user_id s)"
  have wf: "wf_db ?E ?d2" by (intro wf_upsert_subject_logout wf_delete_subject_logouts w(2))
  have us: "t_users ?d2 = us"
    using w(3) by (simp add: upsert_subject_unfold delete_subject_logouts_def)
  have "seen w' = (Suc (w_ticks w), tables_of (snd (delete_sessions ?P ?E ?d2)))" and "r = Inr None"
    using assms(2) w
    by (auto simp: endSSOSubject_def run_check run_stmt_healthy deletes_succeed seen_def)
  then show ?thesis
    by (simp add: delete_sessions_tables [OF wf] upsert_subject_logout_tables Let_def
        delete_subject_logouts_tables [OF w(2)] seen_def of_subject_def us del: tables_sessions(2))
qed

lemma sim_call:
  assumes "runs_on us clock w" and "run_state (run_call c) w = (r, w')"
  shows "(r, seen w') = spec_call us clock c (seen w)"
proof -
  have w: "healthy w" "wf_db (w_engine w) (w_db w)" "w_clock w = clock"
    using assms(1) by (simp_all add: runs_on_def)
  note delete_simps = run_check run_stmt_healthy deletes_succeed delete_sessions_tables seen_def
  show ?thesis
  proof (cases c)
    case (DeleteSession t)
    then show ?thesis
      using assms(2) w keep_token [OF wf_lookups(1) [OF w(2)], of t]
      by (auto simp: deleteSession_def delete_simps)
  next
    case (DeleteUserSessions i)
    then show ?thesis using assms(2) w by (auto simp: deleteUserSessions_def delete_simps)
  next
    case CleanExpiredSessions
    then show ?thesis
      using assms(2) w by (auto simp: cleanExpiredSessions_def delete_simps not_less)
  qed (use assms in \<open>blast dest: sim_create sim_get sim_end_sid sim_end_subject\<close>)+
qed

section \<open>Refinement\<close>

fun run_calls :: "session_call list \<Rightarrow> ((err + session option) list, 'z) io" where
  "run_calls [] = ret []"
| "run_calls (c # cs) = do { r \<leftarrow> run_call c; rs \<leftarrow> run_calls cs; ret (r # rs) }"

fun spec_calls :: "user list \<Rightarrow> (nat \<Rightarrow> time) \<Rightarrow> session_call list \<Rightarrow> nat \<times> session_tables \<Rightarrow>
    (err + session option) list \<times> nat \<times> session_tables" where
  "spec_calls us clock [] T = ([], T)"
| "spec_calls us clock (c # cs) T =
     (let (r, T') = spec_call us clock c T; (rs, T'') = spec_calls us clock cs T' in (r # rs, T''))"

lemma sim_calls:
  assumes "runs_on us clock w" and "run_state (run_calls cs) w = (rs, w')"
  shows "spec_calls us clock cs (seen w) = (rs, seen w')"
  using assms
proof (induction cs arbitrary: w rs w')
  case (Cons c cs)
  obtain r w1 where c: "run_state (run_call c) w = (r, w1)" by force
  obtain rs' w2 where cs: "run_state (run_calls cs) w1 = (rs', w2)" by force
  show ?case
    using Cons.IH [OF run_call_runs_on [OF Cons.prems(1) c] cs] sim_call [OF Cons.prems(1) c] c cs
      Cons.prems(2)
    by (auto simp: Let_def split: prod.splits)
qed simp

text \<open>
  C8: the session store is a table from token hashes to sessions beside two tables of logout fences:
  on a well-formed database that refuses nothing, any sequence of its seven operations gives the
  answers the tables give, reads the clock as often, and leaves the rows of the tables it leaves.
\<close>

theorem session_store_refines:
  assumes "healthy w" and "wf_db (w_engine w) (w_db w)"
  shows "case run_state (run_calls cs) w of (rs, w') \<Rightarrow>
    (rs, w_ticks w', tables_of (w_db w')) =
      spec_calls (t_users (w_db w)) (w_clock w) cs (w_ticks w, tables_of (w_db w))"
proof -
  have on: "runs_on (t_users (w_db w)) (w_clock w) w" using assms by (simp add: runs_on_def)
  obtain rs w' where run: "run_state (run_calls cs) w = (rs, w')" by force
  show ?thesis using sim_calls [OF on run] run by (simp add: seen_def)
qed

theorem session_store_refines_witness:
  "result (run_calls [GetSession ''t1'', DeleteSession ''t1'', GetSession ''t1'']) (demo_world demo_db) =
     [Inr (Some (demo_session ''t1'' ''u1'' '''')), Inr None, Inl ErrNotFound]"
proof -
  let ?cs = "[GetSession ''t1'', DeleteSession ''t1'', GetSession ''t1'']"
  let ?w = "demo_world demo_db"
  obtain rs w' where run: "run_state (run_calls ?cs) ?w = (rs, w')" by force
  have "case run_state (run_calls ?cs) ?w of (rs, w') \<Rightarrow> (rs, w_ticks w', tables_of (w_db w')) =
      spec_calls (t_users (w_db ?w)) (w_clock ?w) ?cs (w_ticks ?w, tables_of (w_db ?w))"
    using demo_inv by (intro session_store_refines) (simp_all add: store_inv_def)
  then have "rs = fst (spec_calls (t_users (w_db ?w)) (w_clock ?w) ?cs (w_ticks ?w, tables_of (w_db ?w)))"
    unfolding run prod.case by (metis fst_conv)
  moreover have "fst (spec_calls (t_users (w_db ?w)) (w_clock ?w) ?cs (w_ticks ?w, tables_of (w_db ?w))) =
      [Inr (Some (demo_session ''t1'' ''u1'' '''')), Inr None, Inl ErrNotFound]"
    by (simp add: lookup_def demo_db_def demo_session_def)
  ultimately show ?thesis unfolding result_def run fst_conv by (rule trans)
qed

end
