(* ===== verification/LogoutFences.thy ===== *)
theory LogoutFences
  imports StoreContracts
begin

text \<open>
  Sign-ins and back-channel logouts running at the same time. Requests interleave between the
  statements of \<^verbatim>\<open>CreateSession\<close> and \<^verbatim>\<open>EndSSOSession\<close> (internal/store/sqlstore.go); the comments there
  claim that one of the two always sees the other, because the sign-in checks the fences after its
  session committed and the logout deletes after its fence committed. Here any number of
  sign-ins and logouts take their statements in any order, each of which may fail.
\<close>

section \<open>The processes\<close>

datatype signin_pc = Granting | Checking | Removing | Granted | Refused
datatype logout_pc = Purging | Fencing | Deleting | Ended | Failed

record 'z race =
  r_world :: "'z world_scheme"
  r_signin :: "nat \<Rightarrow> signin_pc"
  r_logout :: "nat \<Rightarrow> logout_pc"

text \<open>What each process was called with.\<close>

record calls =
  c_sess :: "nat \<Rightarrow> session"
  c_hash :: "nat \<Rightarrow> string"
  c_sid :: "nat \<Rightarrow> string"
  c_until :: "nat \<Rightarrow> time"

definition signin_step :: "calls \<Rightarrow> nat \<Rightarrow> 'z race \<Rightarrow> 'z race" where
  "signin_step C p S =
     (let s = c_sess C p; w = r_world S
      in case r_signin S p of
        Granting \<Rightarrow>
          (case run_state (grant_session s (c_hash C p)) w of
             (Inl e, w') \<Rightarrow> S\<lparr>r_world := w', r_signin := (r_signin S)(p := Refused)\<rparr>
           | (Inr _, w') \<Rightarrow> S\<lparr>r_world := w', r_signin := (r_signin S)(p := Checking)\<rparr>)
      | Checking \<Rightarrow>
          (case run_state (read_fences s) w of
             (Inl e, w') \<Rightarrow> S\<lparr>r_world := w', r_signin := (r_signin S)(p := Removing)\<rparr>
           | (Inr n, w') \<Rightarrow>
               S\<lparr>r_world := w', r_signin := (r_signin S)(p := if 0 < n then Removing else Granted)\<rparr>)
      | Removing \<Rightarrow>
          S\<lparr>r_world := exec (deleteSession (s_token_hash s)) w,
            r_signin := (r_signin S)(p := Refused)\<rparr>
      | Granted \<Rightarrow> S
      | Refused \<Rightarrow> S)"

definition logout_next :: "calls \<Rightarrow> nat \<Rightarrow> logout_pc \<Rightarrow> ((unit, 'z) res \<times> logout_pc) option" where
  "logout_next C q pc =
     (case pc of
        Purging \<Rightarrow> Some (purge_fences, Fencing)
      | Fencing \<Rightarrow> Some (set_fence (c_sid C q) (c_until C q), Deleting)
      | Deleting \<Rightarrow> Some (end_sid (c_sid C q), Ended)
      | Ended \<Rightarrow> None
      | Failed \<Rightarrow> None)"

definition logout_step :: "calls \<Rightarrow> nat \<Rightarrow> 'z race \<Rightarrow> 'z race" where
  "logout_step C q S =
     (case logout_next C q (r_logout S q) of
        None \<Rightarrow> S
      | Some (m, pc) \<Rightarrow>
          (case run_state m (r_world S) of
             (Inl e, w') \<Rightarrow> S\<lparr>r_world := w', r_logout := (r_logout S)(q := Failed)\<rparr>
           | (Inr _, w') \<Rightarrow> S\<lparr>r_world := w', r_logout := (r_logout S)(q := pc)\<rparr>))"

text \<open>Meanwhile other requests sign users out and expired sessions are cleaned up.\<close>

inductive race_step :: "calls \<Rightarrow> 'z race \<Rightarrow> 'z race \<Rightarrow> bool" for C where
  race_signin: "race_step C S (signin_step C p S)"
| race_logout: "race_step C S (logout_step C q S)"
| race_deleteSession: "race_step C S (S\<lparr>r_world := exec (deleteSession th) (r_world S)\<rparr>)"
| race_deleteUserSessions: "race_step C S (S\<lparr>r_world := exec (deleteUserSessions u) (r_world S)\<rparr>)"
| race_cleanExpired: "race_step C S (S\<lparr>r_world := exec cleanExpiredSessions (r_world S)\<rparr>)"

section \<open>The invariant\<close>

text \<open>
  While the clock stays below \<open>T\<close> and every fence is set to expire after \<open>T\<close>: a logout past its
  fence statement has its fence in the table, and a granted session whose logout has ended is gone.
\<close>

definition fence_up :: "time \<Rightarrow> string \<Rightarrow> db \<Rightarrow> bool" where
  "fence_up T x d \<longleftrightarrow> (\<exists>l \<in> set (t_sso_logouts d). l_sid l = x \<and> T \<le> l_expires_at l)"

definition race_inv :: "time \<Rightarrow> calls \<Rightarrow> 'z race \<Rightarrow> bool" where
  "race_inv T C S \<longleftrightarrow>
     (\<forall>i. w_clock (r_world S) i < T) \<and>
     (\<forall>q. r_logout S q \<in> {Deleting, Ended} \<longrightarrow> fence_up T (c_sid C q) (w_db (r_world S))) \<and>
     (\<forall>p. r_signin S p = Granting \<longrightarrow> c_sess C p \<notin> set (t_sessions (w_db (r_world S)))) \<and>
     (\<forall>p q. r_signin S p = Granted \<longrightarrow> r_logout S q = Ended \<longrightarrow>
        s_sso_sid (c_sess C p) = c_sid C q \<longrightarrow>
        c_sess C p \<notin> set (t_sessions (w_db (r_world S))))"

definition calls_ok :: "time \<Rightarrow> calls \<Rightarrow> bool" where
  "calls_ok T C \<longleftrightarrow>
     (\<forall>p p'. s_token_hash (c_sess C p) = s_token_hash (c_sess C p') \<longrightarrow> p = p') \<and>
     (\<forall>q. T \<le> c_until C q) \<and> (\<forall>q. c_sid C q \<noteq> '''')"

text \<open>Statements that only remove sessions keep it.\<close>

definition fewer_sessions :: "'z world_scheme \<Rightarrow> 'z world_scheme \<Rightarrow> bool" where
  "fewer_sessions w w' \<longleftrightarrow> w_clock w' = w_clock w \<and>
     t_sso_logouts (w_db w') = t_sso_logouts (w_db w) \<and>
     set (t_sessions (w_db w')) \<subseteq> set (t_sessions (w_db w))"

lemma race_inv_fewer:
  "race_inv T C S \<Longrightarrow> fewer_sessions (r_world S) w' \<Longrightarrow> race_inv T C (S\<lparr>r_world := w'\<rparr>)"
  by (auto simp: race_inv_def fewer_sessions_def fence_up_def)

lemma fewer_deletes:
  "fewer_sessions w (exec (deleteSession th) w)"
  "fewer_sessions w (exec (deleteUserSessions u) w)"
  "fewer_sessions w (exec cleanExpiredSessions w)"
  by (auto simp: fewer_sessions_def exec_def deleteSession_def deleteUserSessions_def
      cleanExpiredSessions_def run_stmt delete_sessions_def)

lemma grant_session_run:
  assumes "run_state (grant_session s h) w = (r, w')"
  shows "w_clock w' = w_clock w" and "t_sso_logouts (w_db w') = t_sso_logouts (w_db w)"
    and "set (t_sessions (w_db w')) \<subseteq> insert s (set (t_sessions (w_db w)))"
    and "r = Inl e \<Longrightarrow> w_db w' = w_db w"
  using assms
  by (auto simp: grant_session_def withPassword_def run_transaction run_check run_stmt
      update_users_id insert_session_def
      split: prod.splits sum.splits if_splits)

lemma read_fences_run:
  assumes "run_state (read_fences s) w = (r, w')"
  shows "w_clock w' = w_clock w" and "w_db w' = w_db w"
    and "r = Inr 0 \<Longrightarrow> sid_fenced (s_sso_sid s) (w_clock w (w_ticks w)) (w_db w) = 0"
  using assms by (auto simp: read_fences_def run_stmt count_fences_def split: if_splits)

lemma fence_up_counted:
  "fence_up T x d \<Longrightarrow> x \<noteq> '''' \<Longrightarrow> now < T \<Longrightarrow> 0 < sid_fenced x now d"
  unfolding sid_fenced_def length_filter_pos fence_up_def by force

text \<open>One step of sign-in \<open>p\<close>, which adds at most its own session.\<close>

lemma race_inv_move:
  assumes inv: "race_inv T C S"
    and clock: "w_clock w' = w_clock (r_world S)"
    and fences: "t_sso_logouts (w_db w') = t_sso_logouts (w_db (r_world S))"
    and sess: "set (t_sessions (w_db w')) \<subseteq> insert (c_sess C p) (set (t_sessions (w_db (r_world S))))"
    and other: "\<And>p'. c_sess C p' = c_sess C p \<Longrightarrow> p' = p"
    and pc: "pc \<noteq> Granting"
    and granted: "\<And>q. pc = Granted \<Longrightarrow> r_logout S q = Ended \<Longrightarrow> s_sso_sid (c_sess C p) \<noteq> c_sid C q"
  shows "race_inv T C (S\<lparr>r_world := w', r_signin := (r_signin S)(p := pc)\<rparr>)"
proof -
  have old: "c_sess C p' \<notin> set (t_sessions (w_db w'))"
    if "p' \<noteq> p" "c_sess C p' \<notin> set (t_sessions (w_db (r_world S)))" for p'
    using that sess other by blast
  show ?thesis
    unfolding race_inv_def
  proof (intro conjI allI impI)
    fix i show "w_clock (r_world (S\<lparr>r_world := w', r_signin := (r_signin S)(p := pc)\<rparr>)) i < T"
      using inv clock by (simp add: race_inv_def)
  next
    fix q
    assume "r_logout (S\<lparr>r_world := w', r_signin := (r_signin S)(p := pc)\<rparr>) q \<in> {Deleting, Ended}"
    then show "fence_up T (c_sid C q)
        (w_db (r_world (S\<lparr>r_world := w', r_signin := (r_signin S)(p := pc)\<rparr>)))"
      using inv fences by (auto simp: race_inv_def fence_up_def)
  next
    fix p'
    assume "r_signin (S\<lparr>r_world := w', r_signin := (r_signin S)(p := pc)\<rparr>) p' = Granting"
    then show "c_sess C p' \<notin> set (t_sessions
        (w_db (r_world (S\<lparr>r_world := w', r_signin := (r_signin S)(p := pc)\<rparr>))))"
      using inv pc old by (auto simp: race_inv_def split: if_splits)
  next
    fix p' q
    assume "r_signin (S\<lparr>r_world := w', r_signin := (r_signin S)(p := pc)\<rparr>) p' = Granted"
      and "r_logout (S\<lparr>r_world := w', r_signin := (r_signin S)(p := pc)\<rparr>) q = Ended"
      and "s_sso_sid (c_sess C p') = c_sid C q"
    then show "c_sess C p' \<notin> set (t_sessions
        (w_db (r_world (S\<lparr>r_world := w', r_signin := (r_signin S)(p := pc)\<rparr>))))"
      using inv granted old by (auto simp: race_inv_def split: if_splits)
  qed
qed

lemma calls_ok_sess: "calls_ok T C \<Longrightarrow> c_sess C p' = c_sess C p \<Longrightarrow> p' = p"
  by (auto simp: calls_ok_def)

lemma race_inv_signin:
  assumes inv: "race_inv T C S" and ok: "calls_ok T C"
  shows "race_inv T C (signin_step C p S)"
proof (cases "r_signin S p")
  case Granting
  obtain r w' where g: "run_state (grant_session (c_sess C p) (c_hash C p)) (r_world S) = (r, w')"
    by force
  show ?thesis
    using race_inv_move [OF inv grant_session_run(1,2,3) [OF g] calls_ok_sess [OF ok]] Granting g
    by (cases r) (auto simp: signin_step_def)
next
  case Checking
  obtain r w' where g: "run_state (read_fences (c_sess C p)) (r_world S) = (r, w')"
    by force
  note gg = read_fences_run [OF g]
  have ended: "s_sso_sid (c_sess C p) \<noteq> c_sid C q" if "r = Inr 0" "r_logout S q = Ended" for q
    using inv ok gg that fence_up_counted [of T "c_sid C q" "w_db (r_world S)"
      "w_clock (r_world S) (w_ticks (r_world S))"]
    by (auto simp: race_inv_def calls_ok_def)
  have sess: "set (t_sessions (w_db w')) \<subseteq>
      insert (c_sess C p) (set (t_sessions (w_db (r_world S))))"
    and logouts: "t_sso_logouts (w_db w') = t_sso_logouts (w_db (r_world S))"
    using gg(2) by auto
  show ?thesis
    using race_inv_move [OF inv gg(1) logouts sess calls_ok_sess [OF ok]] Checking g ended
    by (cases r) (auto simp: signin_step_def)
next
  case Removing
  have d: "fewer_sessions (r_world S) (exec (deleteSession (s_token_hash (c_sess C p))) (r_world S))"
    by (rule fewer_deletes)
  show ?thesis
    using race_inv_move [OF inv, of _ p Refused] d calls_ok_sess [OF ok] Removing
    by (auto simp: signin_step_def fewer_sessions_def)
qed (use inv in \<open>simp_all add: signin_step_def\<close>)

lemma set_fence_up:
  assumes "fence_up T x d \<or> x = sid" and "T \<le> until"
  shows "fence_up T x (snd (upsert_logout sid until E d))"
proof (cases "sid \<in> l_sid ` set (t_sso_logouts d)")
  case True
  let ?g = "\<lambda>l. if l_sid l = sid then l\<lparr>l_expires_at := until\<rparr> else l"
  have "\<exists>l \<in> set (t_sso_logouts d). l_sid (?g l) = x \<and> T \<le> l_expires_at (?g l)"
  proof (cases "x = sid")
    case True
    then show ?thesis using \<open>sid \<in> l_sid ` set (t_sso_logouts d)\<close> assms(2) by auto
  next
    case False
    then show ?thesis using assms(1) by (auto simp: fence_up_def)
  qed
  with True show ?thesis by (simp add: fence_up_def upsert_logout_def del: if_image_distrib)
next
  case False
  then show ?thesis using assms by (auto simp: fence_up_def upsert_logout_def)
qed

lemma fence_up_delete_sessions [simp]:
  "fence_up T x (snd (delete_sessions P E d)) = fence_up T x d"
  by (simp add: fence_up_def delete_sessions_def)

lemma purge_keeps_fence:
  "fence_up T x d \<Longrightarrow> now < T \<Longrightarrow> fence_up T x (snd (delete_logouts (\<lambda>l. l_expires_at l \<le> now) E d))"
  by (auto simp: fence_up_def delete_logouts_def)

lemma logout_next_run:
  assumes m: "logout_next C q (r_logout S q) = Some (m, pc)"
    and r: "run_state m (r_world S) = (r, w')"
    and inv: "race_inv T C S" and ok: "calls_ok T C"
  shows "w_clock w' = w_clock (r_world S)"
    and "set (t_sessions (w_db w')) \<subseteq> set (t_sessions (w_db (r_world S)))"
    and "fence_up T x (w_db (r_world S)) \<Longrightarrow> fence_up T x (w_db w')"
    and "r = Inr () \<Longrightarrow> pc \<in> {Deleting, Ended} \<Longrightarrow> fence_up T (c_sid C q) (w_db w')"
    and "r = Inr () \<Longrightarrow> pc = Ended \<Longrightarrow> s \<in> set (t_sessions (w_db w')) \<Longrightarrow> s_sso_sid s \<noteq> c_sid C q"
proof -
  have u: "T \<le> c_until C q" using ok by (simp add: calls_ok_def)
  have now: "w_clock (r_world S) i < T" for i using inv by (simp add: race_inv_def)
  note defs = logout_next_def purge_fences_def set_fence_def end_sid_def run_stmt
  show "w_clock w' = w_clock (r_world S)"
    using m r by (auto simp: defs split: logout_pc.splits if_splits)
  show "set (t_sessions (w_db w')) \<subseteq> set (t_sessions (w_db (r_world S)))"
    using m r by (auto simp: defs delete_logouts_def upsert_logout_def delete_sessions_def
        split: logout_pc.splits if_splits)
  show "fence_up T x (w_db (r_world S)) \<Longrightarrow> fence_up T x (w_db w')"
    using m r u now
    by (auto simp: defs purge_keeps_fence set_fence_up split: logout_pc.splits if_splits)
  show "r = Inr () \<Longrightarrow> pc \<in> {Deleting, Ended} \<Longrightarrow> fence_up T (c_sid C q) (w_db w')"
    using m r u inv
    by (auto simp: defs set_fence_up race_inv_def split: logout_pc.splits if_splits)
  show "r = Inr () \<Longrightarrow> pc = Ended \<Longrightarrow> s \<in> set (t_sessions (w_db w')) \<Longrightarrow> s_sso_sid s \<noteq> c_sid C q"
    using m r by (auto simp: defs delete_sessions_def split: logout_pc.splits if_splits)
qed

section \<open>Every interleaving\<close>

lemma race_inv_logout:
  fixes S :: "'z race"
  assumes inv: "race_inv T C S" and ok: "calls_ok T C"
  shows "race_inv T C (logout_step C q S)"
proof (cases "logout_next C q (r_logout S q) :: ((unit, 'z) res \<times> logout_pc) option")
  case None
  then show ?thesis using inv by (simp add: logout_step_def)
next
  case (Some mp)
  obtain m pc where mp: "mp = (m, pc)" by force
  obtain r w' where r: "run_state m (r_world S) = (r, w')" by force
  note nx = logout_next_run [OF Some [unfolded mp] r inv ok]
  have S': "logout_step C q S =
      S\<lparr>r_world := w', r_logout := (r_logout S)(q := case r of Inl e \<Rightarrow> Failed | Inr _ \<Rightarrow> pc)\<rparr>"
    using Some mp r by (simp add: logout_step_def split: sum.splits)
  have fences: "fence_up T (c_sid C q') (w_db w')"
    if "((r_logout S)(q := case r of Inl e \<Rightarrow> Failed | Inr _ \<Rightarrow> pc)) q' \<in> {Deleting, Ended}" for q'
  proof (cases "q' = q")
    case True
    with that nx(4) show ?thesis by (cases r) auto
  next
    case False
    with that inv have "fence_up T (c_sid C q') (w_db (r_world S))"
      by (auto simp: race_inv_def)
    with nx(3) show ?thesis .
  qed
  have gone: "c_sess C p \<notin> set (t_sessions (w_db w'))"
    if "r_signin S p = Granted" "s_sso_sid (c_sess C p) = c_sid C q'"
      "((r_logout S)(q := case r of Inl e \<Rightarrow> Failed | Inr _ \<Rightarrow> pc)) q' = Ended" for p q'
  proof (cases "q' = q")
    case True
    with that nx(5) show ?thesis by (cases r) auto
  next
    case False
    with that inv have "c_sess C p \<notin> set (t_sessions (w_db (r_world S)))"
      by (auto simp: race_inv_def)
    with nx(2) show ?thesis by blast
  qed
  show ?thesis
    unfolding S' race_inv_def
    using inv nx(1,2) fences gone by (auto simp: race_inv_def)
qed

lemma race_inv_step: "race_step C S S' \<Longrightarrow> calls_ok T C \<Longrightarrow> race_inv T C S \<Longrightarrow> race_inv T C S'"
  by (induction rule: race_step.induct)
    (simp_all add: race_inv_signin race_inv_logout race_inv_fewer fewer_deletes)

definition race_start :: "calls \<Rightarrow> 'z world_scheme \<Rightarrow> 'z race" where
  "race_start C w = \<lparr>r_world = w, r_signin = (\<lambda>p. Granting), r_logout = (\<lambda>q. Purging)\<rparr>"

lemma race_inv_start:
  assumes "\<And>i. w_clock w i < T" and "\<And>p. c_sess C p \<notin> set (t_sessions (w_db w))"
  shows "race_inv T C (race_start C w)"
  using assms by (simp add: race_inv_def race_start_def)

lemma race_steps_inv:
  "(race_step C)\<^sup>*\<^sup>* S S' \<Longrightarrow> calls_ok T C \<Longrightarrow> race_inv T C S \<Longrightarrow> race_inv T C S'"
  by (induction rule: rtranclp_induct) (auto intro: race_inv_step)


definition demo_calls :: calls where
  "demo_calls = \<lparr>c_sess = (\<lambda>p. demo_session (replicate p (CHR ''t'')) ''u1'' ''sid''),
     c_hash = (\<lambda>p. ''h1''), c_sid = (\<lambda>q. ''sid''), c_until = (\<lambda>q. 100)\<rparr>"

definition demo_race :: "unit race" where
  "demo_race = race_start demo_calls (demo_world (demo_db\<lparr>t_sessions := []\<rparr>))"

lemma demo_race_run:
  "r_signin (logout_step demo_calls 0 (logout_step demo_calls 0 (signin_step demo_calls 0
     (signin_step demo_calls 0 (logout_step demo_calls 0 demo_race))))) 0 = Granted"
  "r_logout (logout_step demo_calls 0 (logout_step demo_calls 0 (signin_step demo_calls 0
     (signin_step demo_calls 0 (logout_step demo_calls 0 demo_race))))) 0 = Ended"
  by (simp_all add: demo_race_def race_start_def logout_step_def logout_next_def signin_step_def
      demo_calls_def purge_fences_def set_fence_def end_sid_def grant_session_def read_fences_def
      withPassword_def run_transaction run_check run_stmt delete_logouts_def upsert_logout_def
      delete_sessions_def insert_session_def update_users_def users_ok_def count_fences_def
      sid_fenced_def subject_fenced_def demo_db_def demo_user_def demo_session_def
      demo_engine_def empty_db_def)


end
