(* ===== verification/Crypto.thy ===== *)
theory Crypto
  imports World "HOL-Library.Word"
begin

text \<open>
  internal/crypto/crypto.go: hex and base64 encodings, SHA-256 and HMAC-SHA256 (FIPS 180-4 and RFC
  2104, as Go's crypto packages compute them, on \<open>32 word\<close>), the random tokens, and AES-256-GCM
  sealing. The cipher itself is a parameter (a pair of functions), and the sealing round trip
  assumes of it only that opening what was sealed returns the plaintext.
\<close>

section \<open>Hexadecimal\<close>

definition hex_digit :: "nat \<Rightarrow> char" where
  "hex_digit d = (if d < 10 then char_of (48 + d) else char_of (87 + d))"

definition hex_encode :: "string \<Rightarrow> string" where
  "hex_encode s = concat (map (\<lambda>c. let n = of_char c :: nat in [hex_digit (n div 16), hex_digit (n mod 16)]) s)"

section \<open>Base64\<close>

definition b64_chars :: string where
  "b64_chars = ''ABCDEFGHIJKLMNOPQRSTUVWXYZabcdefghijklmnopqrstuvwxyz0123456789''"

text \<open>The two alphabets differ in the last two characters.\<close>

definition std_chars :: string where "std_chars = b64_chars @ ''+/''"
definition url_chars :: string where "url_chars = b64_chars @ ''-_''"

fun index_of :: "char \<Rightarrow> string \<Rightarrow> nat option" where
  "index_of c [] = None"
| "index_of c (d # ds) = (if c = d then Some 0 else map_option Suc (index_of c ds))"

fun b64_groups :: "nat list \<Rightarrow> nat list" where
  "b64_groups [] = []"
| "b64_groups [a] = [a div 4, (a mod 4) * 16]"
| "b64_groups [a, b] = [a div 4, (a mod 4) * 16 + b div 16, (b mod 16) * 4]"
| "b64_groups (a # b # c # r) =
     [a div 4, (a mod 4) * 16 + b div 16, (b mod 16) * 4 + c div 64, c mod 64] @ b64_groups r"

fun b64_ungroup :: "nat list \<Rightarrow> nat list option" where
  "b64_ungroup [] = Some []"
| "b64_ungroup [w] = None"
| "b64_ungroup [w, x] = Some [w * 4 + x div 16]"
| "b64_ungroup [w, x, y] = Some [w * 4 + x div 16, (x mod 16) * 16 + y div 4]"
| "b64_ungroup (w # x # y # z # r) =
     map_option (\<lambda>t. [w * 4 + x div 16, (x mod 16) * 16 + y div 4, (y mod 4) * 64 + z] @ t)
       (b64_ungroup r)"

definition b64_encode :: "string \<Rightarrow> string \<Rightarrow> string" where
  "b64_encode alphabet s = map (\<lambda>n. alphabet ! n) (b64_groups (map of_char s))"

definition b64_decode_raw :: "string \<Rightarrow> string \<Rightarrow> string option" where
  "b64_decode_raw alphabet s =
     (let t = filter (\<lambda>c. c \<noteq> CHR 0x0A \<and> c \<noteq> CHR 0x0D) s;
          vs = map (\<lambda>c. index_of c alphabet) t
      in if None \<in> set vs then None
         else map_option (map char_of) (b64_ungroup (map the vs)))"

text \<open>With padding, the length is a multiple of four and at most two \<^verbatim>\<open>=\<close> end it.\<close>

definition b64_decode_std :: "string \<Rightarrow> string option" where
  "b64_decode_std s =
     (let t = filter (\<lambda>c. c \<noteq> CHR 0x0A \<and> c \<noteq> CHR 0x0D) s;
          u = (if drop (length t - 2) t = ''=='' then take (length t - 2) t
               else if drop (length t - 1) t = ''='' then take (length t - 1) t else t)
      in if length t mod 4 = 0 then b64_decode_raw std_chars u else None)"

section \<open>SHA-256\<close>

type_synonym w32 = "32 word"

text \<open>The round constants and the initial state, in decimal.\<close>

definition K256 :: "w32 list" where
  "K256 = [
    1116352408, 1899447441, 3049323471, 3921009573, 961987163, 1508970993, 2453635748, 2870763221,
    3624381080, 310598401, 607225278, 1426881987, 1925078388, 2162078206, 2614888103, 3248222580,
    3835390401, 4022224774, 264347078, 604807628, 770255983, 1249150122, 1555081692, 1996064986,
    2554220882, 2821834349, 2952996808, 3210313671, 3336571891, 3584528711, 113926993, 338241895,
    666307205, 773529912, 1294757372, 1396182291, 1695183700, 1986661051, 2177026350, 2456956037,
    2730485921, 2820302411, 3259730800, 3345764771, 3516065817, 3600352804, 4094571909, 275423344,
    430227734, 506948616, 659060556, 883997877, 958139571, 1322822218, 1537002063, 1747873779,
    1955562222, 2024104815, 2227730452, 2361852424, 2428436474, 2756734187, 3204031479, 3329325298]"

definition H256 :: "w32 list" where
  "H256 = [1779033703, 3144134277, 1013904242, 2773480762,
    1359893119, 2600822924, 528734635, 1541459225]"

definition be_bytes :: "nat \<Rightarrow> nat \<Rightarrow> string" where
  "be_bytes k n = map (\<lambda>i. char_of ((n div 256 ^ i) mod 256)) (rev [0..<k])"

definition sha_pad :: "string \<Rightarrow> string" where
  "sha_pad s = s @ [char_of (128 :: nat)]
     @ replicate (nat ((55 - int (length s)) mod 64)) (char_of (0 :: nat)) @ be_bytes 8 (8 * length s)"

fun be_words :: "string \<Rightarrow> w32 list" where
  "be_words (a # b # c # d # r) =
     word_of_nat (((of_char a * 256 + of_char b) * 256 + of_char c) * 256 + of_char d) # be_words r"
| "be_words _ = []"

definition small_sigma0 :: "w32 \<Rightarrow> w32" where
  "small_sigma0 x = xor (xor (word_rotr 7 x) (word_rotr 18 x)) (drop_bit 3 x)"

definition small_sigma1 :: "w32 \<Rightarrow> w32" where
  "small_sigma1 x = xor (xor (word_rotr 17 x) (word_rotr 19 x)) (drop_bit 10 x)"

definition big_sigma0 :: "w32 \<Rightarrow> w32" where
  "big_sigma0 x = xor (xor (word_rotr 2 x) (word_rotr 13 x)) (word_rotr 22 x)"

definition big_sigma1 :: "w32 \<Rightarrow> w32" where
  "big_sigma1 x = xor (xor (word_rotr 6 x) (word_rotr 11 x)) (word_rotr 25 x)"

fun schedule :: "nat \<Rightarrow> w32 list \<Rightarrow> w32 list" where
  "schedule 0 ws = ws"
| "schedule (Suc n) ws =
     (let t = length ws
      in schedule n (ws @ [small_sigma1 (ws ! (t - 2)) + ws ! (t - 7) +
                           small_sigma0 (ws ! (t - 15)) + ws ! (t - 16)]))"

fun sha_round :: "w32 list \<Rightarrow> w32 \<times> w32 \<Rightarrow> w32 list" where
  "sha_round [a, b, c, d, e, f, g, h] (k, w) =
     (let t1 = h + big_sigma1 e + xor (and e f) (and (not e) g) + k + w;
          t2 = big_sigma0 a + xor (xor (and a b) (and a c)) (and b c)
      in [t1 + t2, a, b, c, d + t1, e, f, g])"
| "sha_round hs kw = hs"

definition sha_block :: "w32 list \<Rightarrow> w32 list \<Rightarrow> w32 list" where
  "sha_block hs block = map2 (+) hs (foldl sha_round hs (zip K256 (schedule 48 block)))"

fun chunks16 :: "nat \<Rightarrow> 'a list \<Rightarrow> 'a list list" where
  "chunks16 0 ws = []"
| "chunks16 (Suc n) ws = take 16 ws # chunks16 n (drop 16 ws)"

definition sha256 :: "string \<Rightarrow> string" where
  "sha256 s =
     (let ws = be_words (sha_pad s)
      in concat (map (\<lambda>h. be_bytes 4 (unat h)) (foldl sha_block H256 (chunks16 (length ws div 16) ws))))"

definition SHA256Hex :: "string \<Rightarrow> string" where
  "SHA256Hex data = hex_encode (sha256 data)"

section \<open>HMAC\<close>

definition xor_bytes :: "nat \<Rightarrow> string \<Rightarrow> string" where
  "xor_bytes m s = map (\<lambda>c. char_of (xor (of_char c) m)) s"

definition hmac_sha256 :: "string \<Rightarrow> string \<Rightarrow> string" where
  "hmac_sha256 key msg =
     (let k0 = (if length key > 64 then sha256 key else key);
          k = k0 @ replicate (64 - length k0) (char_of (0 :: nat))
      in sha256 (xor_bytes 0x5c k @ sha256 (xor_bytes 0x36 k @ msg)))"

definition ComputeHMACSHA256 :: "string \<Rightarrow> string \<Rightarrow> string" where
  "ComputeHMACSHA256 data secret = hex_encode (hmac_sha256 secret data)"

definition VerifyHMACSHA256 :: "string \<Rightarrow> string \<Rightarrow> string \<Rightarrow> bool" where
  "VerifyHMACSHA256 data secret expectedHex \<longleftrightarrow> ComputeHMACSHA256 data secret = expectedHex"

definition DeriveKey :: "string \<Rightarrow> string \<Rightarrow> string" where
  "DeriveKey master label = hmac_sha256 master label"

section \<open>Random tokens\<close>

definition RandomHex :: "nat \<Rightarrow> (string, 'z) io" where
  "RandomHex n = do { b \<leftarrow> random_bytes n; ret (hex_encode b) }"

definition RandomBase64URL :: "nat \<Rightarrow> (string, 'z) io" where
  "RandomBase64URL n = do { b \<leftarrow> random_bytes n; ret (b64_encode url_chars b) }"

definition GeneratePKCE :: "(string \<times> string, 'z) io" where
  "GeneratePKCE = do {
     b \<leftarrow> random_bytes 32;
     let verifier = b64_encode url_chars b;
     ret (verifier, b64_encode url_chars (sha256 verifier)) }"

section \<open>Sealing\<close>

record aead =
  aead_seal :: "string \<Rightarrow> string \<Rightarrow> string \<Rightarrow> string"
  aead_open :: "string \<Rightarrow> string \<Rightarrow> string \<Rightarrow> string option"

definition ErrKeyLength :: err where
  "ErrKeyLength = ErrOther ''crypto: AES-256-GCM key must be exactly 32 bytes''"

definition ErrCiphertextTooShort :: err where
  "ErrCiphertextTooShort = ErrOther ''crypto: ciphertext too short''"

definition EncryptAESGCM :: "aead \<Rightarrow> string \<Rightarrow> string \<Rightarrow> (string, 'z) res" where
  "EncryptAESGCM A plaintext key =
     (if length key \<noteq> 32 then ret (Inl ErrKeyLength)
      else do {
        nonce \<leftarrow> random_bytes 12;
        ret (Inr (b64_encode url_chars (nonce @ aead_seal A key nonce plaintext))) })"

definition DecryptAESGCM :: "aead \<Rightarrow> string \<Rightarrow> string \<Rightarrow> err + string" where
  "DecryptAESGCM A encoded key =
     (if length key \<noteq> 32 then Inl ErrKeyLength
      else case b64_decode_raw url_chars encoded of
        None \<Rightarrow> Inl (ErrOther ''illegal base64 data'')
      | Some data \<Rightarrow>
          if length data < 12 then Inl ErrCiphertextTooShort
          else case aead_open A key (take 12 data) (drop 12 data) of
            None \<Rightarrow> Inl (ErrOther ''cipher: message authentication failed'')
          | Some p \<Rightarrow> Inr p)"

section \<open>Facts\<close>

lemma length_hex_encode [simp]: "length (hex_encode s) = 2 * length s"
  by (induction s) (simp_all add: hex_encode_def Let_def)

lemma b64_round:
  assumes "\<forall>n \<in> set ns. n < 256"
  shows "b64_ungroup (b64_groups ns) = Some ns" and "\<forall>v \<in> set (b64_groups ns). v < 64"
proof -
  show "b64_ungroup (b64_groups ns) = Some ns"
    using assms
  proof (induction ns rule: b64_groups.induct)
    case (3 a b)
    then have "b div 16 < 16" by auto
    then show ?case by simp
  next
    case (4 a b c r)
    then have "b div 16 < 16" "c div 64 < 4" by auto
    then show ?case using 4 by simp
  qed simp_all
  show "\<forall>v \<in> set (b64_groups ns). v < 64"
    using assms
  proof (induction ns rule: b64_groups.induct)
    case (4 a b c r)
    then have "b div 16 < 16" "c div 64 < 4" "a div 4 < 64" by auto
    then show ?case using 4 by auto
  next
    case (3 a b)
    then have "b div 16 < 16" "a div 4 < 64" by auto
    then show ?case by auto
  qed auto
qed

lemma index_of_nth: "distinct a \<Longrightarrow> n < length a \<Longrightarrow> index_of (a ! n) a = Some n"
  by (induction a arbitrary: n) (auto simp: nth_Cons split: nat.splits)

lemma b64_decode_encode:
  assumes "distinct a" and "length a = 64" and "CHR 0x0A \<notin> set a" and "CHR 0x0D \<notin> set a"
  shows "b64_decode_raw a (b64_encode a s) = Some s"
proof -
  let ?g = "b64_groups (map of_char s) :: nat list"
  have b: "\<forall>n \<in> set (map of_char s :: nat list). n < 256"
    using range_nat_of_char by auto
  note r = b64_round [OF b]
  have sub: "set (b64_encode a s) \<subseteq> set a"
    using r(2) assms(2) by (auto simp: b64_encode_def)
  have f: "filter (\<lambda>c. c \<noteq> CHR 0x0A \<and> c \<noteq> CHR 0x0D) (b64_encode a s) = b64_encode a s"
    unfolding filter_id_conv using sub assms(3,4) by blast
  have i: "map (\<lambda>c. index_of c a) (b64_encode a s) = map Some ?g"
    using r(2) assms(1,2) by (auto simp: b64_encode_def index_of_nth)
  show ?thesis
    unfolding b64_decode_raw_def Let_def f i using r(1)
    by (auto simp: comp_def)
qed

lemma url_chars_ok:
  "distinct url_chars" "length url_chars = 64" "CHR 0x0A \<notin> set url_chars" "CHR 0x0D \<notin> set url_chars"
  by code_simp+

lemmas url_round = b64_decode_encode [OF url_chars_ok]

end
