(* ===== verification/NetIP.thy ===== *)
theory NetIP
  imports GoStrings "HOL-Library.Word"
begin

text \<open>
  The parts of Go's net/netip and net that the source uses: addresses (\<^verbatim>\<open>netip.Addr\<close>: 32 or 128
  bits, an IPv6 zone), their parser and printer, prefixes, and \<^verbatim>\<open>net.SplitHostPort\<close>.
\<close>

section \<open>Addresses\<close>

datatype addr = V4 "32 word" | V6 "128 word" string

definition Is4In6 :: "addr \<Rightarrow> bool" where
  "Is4In6 a = (case a of V4 x \<Rightarrow> False | V6 x z \<Rightarrow> drop_bit 32 x = 0xffff)"

definition Is6 :: "addr \<Rightarrow> bool" where
  "Is6 a = (case a of V4 x \<Rightarrow> False | V6 x z \<Rightarrow> True)"

definition Unmap :: "addr \<Rightarrow> addr" where
  "Unmap a = (case a of V4 x \<Rightarrow> a | V6 x z \<Rightarrow> if Is4In6 a then V4 (ucast x) else a)"

definition BitLen :: "addr \<Rightarrow> nat" where
  "BitLen a = (case a of V4 x \<Rightarrow> 32 | V6 x z \<Rightarrow> 128)"

section \<open>Parsing\<close>

definition v4_octet :: "string \<Rightarrow> nat option" where
  "v4_octet s =
     (if s = [] \<or> (length s > 1 \<and> hd s = CHR ''0'') then None
      else case digits_val 0 s of
        None \<Rightarrow> None | Some n \<Rightarrow> if n \<le> 255 then Some n else None)"

definition v4_octets :: "string \<Rightarrow> nat list option" where
  "v4_octets s =
     (let os = map v4_octet (split_on (CHR ''.'') s)
      in if length os = 4 \<and> None \<notin> set os then Some (map the os) else None)"

definition of_octets :: "nat list \<Rightarrow> nat" where
  "of_octets os = foldl (\<lambda>n b. n * 256 + b) 0 os"

definition parseIPv4 :: "string \<Rightarrow> addr option" where
  "parseIPv4 s = map_option (\<lambda>os. V4 (word_of_nat (of_octets os))) (v4_octets s)"

text \<open>A group: one to four hex digits. Returns its value and what follows.\<close>

fun hex_group :: "nat \<Rightarrow> nat \<Rightarrow> string \<Rightarrow> (nat \<times> nat \<times> string)" where
  "hex_group k acc [] = (k, acc, [])"
| "hex_group k acc (c # cs) =
     (case hex_val c of None \<Rightarrow> (k, acc, c # cs) | Some d \<Rightarrow> hex_group (Suc k) (16 * acc + d) cs)"

text \<open>
  The loop of \<^verbatim>\<open>parseIPv6\<close>: \<open>n\<close> groups may still come (Go's \<open>i < 16\<close> counts bytes), \<open>bs\<close> are the
  bytes read and \<open>el\<close> the position of the \<^verbatim>\<open>::\<close>.
\<close>

fun v6_loop :: "nat \<Rightarrow> nat list \<Rightarrow> nat option \<Rightarrow> string \<Rightarrow> (nat list \<times> nat option) option" where
  "v6_loop 0 bs el s = (if s = [] then Some (bs, el) else None)"
| "v6_loop (Suc n) bs el s =
     (case hex_group 0 0 s of (k, acc, t) \<Rightarrow>
        if k = 0 \<or> k > 4 then None
        else if t \<noteq> [] \<and> hd t = CHR ''.'' then
          (if el = None \<and> length bs \<noteq> 12 then None
           else if length bs + 4 > 16 then None
           else map_option (\<lambda>os. (bs @ os, el)) (v4_octets s))
        else let bs = bs @ [acc div 256, acc mod 256] in
          (case t of
             [] \<Rightarrow> Some (bs, el)
           | [c] \<Rightarrow> None
           | c # d # r \<Rightarrow>
               if c \<noteq> CHR '':'' then None
               else if d = CHR '':'' then
                 (if el \<noteq> None then None
                  else if r = [] then Some (bs, Some (length bs))
                  else v6_loop n bs (Some (length bs)) r)
               else v6_loop n bs el (d # r)))"

definition v6_expand :: "nat list \<Rightarrow> nat option \<Rightarrow> nat list option" where
  "v6_expand bs el =
     (if length bs < 16
      then (case el of
              None \<Rightarrow> None
            | Some e \<Rightarrow> Some (take e bs @ replicate (16 - length bs) 0 @ drop e bs))
      else if el \<noteq> None then None else Some bs)"

definition parseIPv6 :: "string \<Rightarrow> addr option" where
  "parseIPv6 inp =
     (case cut_on (CHR ''%'') inp of (s, zone, found) \<Rightarrow>
        if found \<and> zone = [] then None
        else
          (let lead = has_prefix s ''::''; t = (if lead then drop 2 s else s)
           in if lead \<and> t = [] then Some (V6 0 zone)
              else case v6_loop 8 [] (if lead then Some 0 else None) t of
                None \<Rightarrow> None
              | Some (bs, el) \<Rightarrow>
                  map_option (\<lambda>os. V6 (word_of_nat (of_octets os)) zone) (v6_expand bs el)))"

fun ParseAddr_from :: "string \<Rightarrow> string \<Rightarrow> addr option" where
  "ParseAddr_from s [] = None"
| "ParseAddr_from s (c # cs) =
     (if c = CHR ''.'' then parseIPv4 s
      else if c = CHR '':'' then parseIPv6 s
      else if c = CHR ''%'' then None
      else ParseAddr_from s cs)"

definition ParseAddr :: "string \<Rightarrow> addr option" where
  "ParseAddr s = ParseAddr_from s s"

section \<open>Printing\<close>

definition octets_of :: "nat \<Rightarrow> nat \<Rightarrow> nat list" where
  "octets_of k n = map (\<lambda>i. (n div 256 ^ i) mod 256) (rev [0..<k])"

definition groups_of :: "128 word \<Rightarrow> nat list" where
  "groups_of x = map (\<lambda>i. (unat x div 65536 ^ i) mod 65536) (rev [0..<8])"

fun hex_str :: "nat \<Rightarrow> string" where
  "hex_str n = (if n < 16 then [''0123456789abcdef'' ! n]
                else hex_str (n div 16) @ [''0123456789abcdef'' ! (n mod 16)])"

declare hex_str.simps [simp del]

definition v4_string :: "32 word \<Rightarrow> string" where
  "v4_string x = join_with ''.'' (map nat_str (octets_of 4 (unat x)))"

definition zero_run :: "nat list \<Rightarrow> nat \<Rightarrow> nat" where
  "zero_run gs i = length (takeWhile (\<lambda>g. g = 0) (drop i gs))"

text \<open>The longest run of at least two zero groups, the first of them on a tie.\<close>

definition longest_zeros :: "nat list \<Rightarrow> (nat \<times> nat) option" where
  "longest_zeros gs =
     foldl (\<lambda>best i. let l = zero_run gs i in
              if l \<ge> 2 \<and> l > (case best of None \<Rightarrow> 0 | Some (s, k) \<Rightarrow> k) then Some (i, l) else best)
       None [0..<8]"

definition string6 :: "128 word \<Rightarrow> string" where
  "string6 x =
     (let gs = groups_of x
      in case longest_zeros gs of
           None \<Rightarrow> join_with '':'' (map hex_str gs)
         | Some (i, l) \<Rightarrow>
             join_with '':'' (map hex_str (take i gs)) @ ''::'' @
             join_with '':'' (map hex_str (drop (i + l) gs)))"

definition zone_suffix :: "string \<Rightarrow> string" where
  "zone_suffix z = (if z = [] then [] else ''%'' @ z)"

definition addr_String :: "addr \<Rightarrow> string" where
  "addr_String a =
     (case a of
        V4 x \<Rightarrow> v4_string x
      | V6 x z \<Rightarrow> (if Is4In6 a then ''::ffff:'' @ v4_string (ucast x) else string6 x) @ zone_suffix z)"

section \<open>Prefixes\<close>

record prefix =
  p_addr :: addr
  p_bits :: nat

definition without_zone :: "addr \<Rightarrow> addr" where
  "without_zone a = (case a of V4 x \<Rightarrow> V4 x | V6 x z \<Rightarrow> V6 x [])"

definition PrefixFrom :: "addr \<Rightarrow> nat \<Rightarrow> prefix" where
  "PrefixFrom a b = \<lparr>p_addr = without_zone a, p_bits = b\<rparr>"

definition Masked :: "prefix \<Rightarrow> prefix" where
  "Masked p =
     p\<lparr>p_addr := (case p_addr p of
        V4 x \<Rightarrow> V4 (push_bit (32 - p_bits p) (drop_bit (32 - p_bits p) x))
      | V6 x z \<Rightarrow> V6 (push_bit (128 - p_bits p) (drop_bit (128 - p_bits p) x)) z)\<rparr>"

definition Prefix_Contains :: "prefix \<Rightarrow> addr \<Rightarrow> bool" where
  "Prefix_Contains p a =
     (case (p_addr p, a) of
        (V4 x, V4 y) \<Rightarrow> drop_bit (32 - p_bits p) (xor y x) = 0
      | (V6 x z, V6 y z') \<Rightarrow> z' = [] \<and> drop_bit (128 - p_bits p) (xor y x) = 0
      | _ \<Rightarrow> False)"

definition Prefix_String :: "prefix \<Rightarrow> string" where
  "Prefix_String p = addr_String (p_addr p) @ ''/'' @ nat_str (p_bits p)"

definition cut_last :: "char \<Rightarrow> string \<Rightarrow> (string \<times> string) option" where
  "cut_last c s =
     (case cut_on c (rev s) of (b, a, found) \<Rightarrow> if found then Some (rev a, rev b) else None)"

definition ParsePrefix :: "string \<Rightarrow> prefix option" where
  "ParsePrefix s =
     (case cut_last (CHR ''/'') s of
        None \<Rightarrow> None
      | Some (host, bitsStr) \<Rightarrow>
          (case ParseAddr host of
             None \<Rightarrow> None
           | Some a \<Rightarrow>
               if without_zone a \<noteq> a then None
               else if length bitsStr > 1 \<and> \<not> (hd bitsStr \<in> set ''123456789'') then None
               else (case atoi bitsStr of
                       None \<Rightarrow> None
                     | Some b \<Rightarrow> if b < 0 \<or> b > int (BitLen a) then None
                                 else Some (PrefixFrom a (nat b)))))"

section \<open>Host and port\<close>

definition SplitHost :: "string \<Rightarrow> string option" where
  "SplitHost hp =
     (case cut_last (CHR '':'') hp of
        None \<Rightarrow> None
      | Some (bef, port) \<Rightarrow>
          if hp \<noteq> [] \<and> hd hp = CHR ''['' then
            (case cut_on (CHR '']'') hp of (opened, rest, found) \<Rightarrow>
               if \<not> found then None
               else if bef \<noteq> opened @ '']'' then None
               else let host = drop 1 opened in
                 if CHR ''['' \<in> set (drop 1 hp) \<or> CHR '']'' \<in> set rest then None else Some host)
          else if CHR '':'' \<in> set bef then None
          else if CHR ''['' \<in> set hp \<or> CHR '']'' \<in> set hp then None
          else Some bef)"

section \<open>Facts\<close>

lemma Unmap_idem [simp]: "Unmap (Unmap a) = Unmap a"
  by (auto simp: Unmap_def split: addr.splits)

lemma Unmap_not_mapped: "\<not> Is4In6 (Unmap a)"
  by (auto simp: Unmap_def Is4In6_def split: addr.splits)

lemma drop_bit_xor_0:
  fixes x y :: "'a::len word"
  shows "drop_bit n (xor x y) = 0 \<longleftrightarrow> drop_bit n x = drop_bit n y"
  by (auto simp: bit_eq_iff bit_simps)

lemma xor_0_iff [simp]: "xor x y = 0 \<longleftrightarrow> x = y" for x y :: "'a::len word"
  using drop_bit_xor_0 [of 0 x y] by simp

lemma contains_self: "Prefix_Contains (PrefixFrom a b) (without_zone a)"
  by (cases a) (simp_all add: PrefixFrom_def Prefix_Contains_def without_zone_def)

section \<open>Reading back a printed IPv4 address\<close>

lemma v4_octet_nat_str: "n \<le> 255 \<Longrightarrow> v4_octet (nat_str n) = Some n"
  using nat_str_leading [of n] by (auto simp: v4_octet_def digits_val_nat_str)

lemma of_octets_octets: "n < 2 ^ 32 \<Longrightarrow> of_octets (octets_of 4 n) = n"
proof -
  assume n: "n < 2 ^ 32"
  define a b c where "a = n div 256" and "b = a div 256" and "c = b div 256"
  have "n = a * 256 + n mod 256" "a = b * 256 + a mod 256" "b = c * 256 + b mod 256"
    by (simp_all add: a_def b_def c_def)
  moreover have "c < 256" using n by (simp add: a_def b_def c_def div_mult2_eq [symmetric])
  moreover have "octets_of 4 n = [c mod 256, b mod 256, a mod 256, n mod 256]"
    by (simp add: octets_of_def upt_conv_Cons a_def b_def c_def div_mult2_eq [symmetric])
  ultimately show ?thesis by (simp add: of_octets_def)
qed

lemma v4_octets_string:
  assumes "length os = 4" and "\<forall>n \<in> set os. n \<le> 255"
  shows "v4_octets (join_with ''.'' (map nat_str os)) = Some os"
proof -
  have "split_on (CHR ''.'') (join_with [CHR ''.''] (map nat_str os)) = map nat_str os"
    using assms by (intro split_on_join) (auto simp: nat_str_no)
  moreover have "map v4_octet (map nat_str os) = map Some os"
    using assms by (simp add: v4_octet_nat_str)
  ultimately show ?thesis using assms by (auto simp: v4_octets_def comp_def v4_octet_nat_str intro: map_idI)
qed

lemma ParseAddr_from_dot:
  "\<forall>c \<in> set p. c \<noteq> CHR ''.'' \<and> c \<noteq> CHR '':'' \<and> c \<noteq> CHR ''%'' \<Longrightarrow>
     ParseAddr_from s (p @ CHR ''.'' # t) = parseIPv4 s"
  by (induction p) auto

lemma ParseAddr_V4_String [simp]: "ParseAddr (addr_String (V4 x)) = Some (V4 x)"
proof -
  let ?os = "octets_of 4 (unat x)"
  have len: "length ?os = 4" and small: "\<forall>n \<in> set ?os. n \<le> 255"
    by (auto simp: octets_of_def less_Suc_eq_le [symmetric])
  then obtain a b c d where os: "?os = [a, b, c, d]"
    by (auto simp: eval_nat_numeral length_Suc_conv)
  have "unat x < 2 ^ 32" using unsigned_less [of x] by simp
  then have "parseIPv4 (v4_string x) = Some (V4 x)"
    using v4_octets_string [OF len small] of_octets_octets [of "unat x"]
    by (simp add: parseIPv4_def v4_string_def)
  moreover have "ParseAddr_from (v4_string x) (v4_string x) = parseIPv4 (v4_string x)"
    unfolding v4_string_def os
    by (simp, rule ParseAddr_from_dot) (auto simp: nat_str_no)
  ultimately show ?thesis by (simp add: ParseAddr_def addr_String_def)
qed

text \<open>Evaluation of the parser on literals.\<close>

lemmas addr_eval = ParseAddr_def parseIPv4_def v4_octets_def v4_octet_def digit_val_def of_octets_def
  parseIPv6_def hex_val_def v6_expand_def has_prefix_def

lemmas v6_loop_numeral = v6_loop.simps(2) [of "pred_numeral k" for k, folded numeral_eq_Suc]

lemmas replicate_numeral' = replicate_Suc [of "pred_numeral k" for k, folded numeral_eq_Suc]

lemma addr_eval_examples:
  "ParseAddr ''10.0.0.1'' = Some (V4 0x0A000001)"
  "ParseAddr ''10.0.0.2'' = Some (V4 0x0A000002)"
  "ParseAddr ''7.7.7.7'' = Some (V4 0x07070707)"
  "ParseAddr ''9.9.9.9'' = Some (V4 0x09090909)"
  "ParseAddr ''2001:db8::1'' = Some (V6 0x20010db8000000000000000000000001 [])"
  "ParseAddr ''2001:db8::2:1'' = Some (V6 0x20010db8000000000000000000020001 [])"
  by (simp_all add: addr_eval v6_loop_numeral replicate_numeral')

end
