(* ===== verification/Paths.thy ===== *)
theory Paths
  imports GoStrings
begin

text \<open>
  Go's path/filepath on Unix, lexically: \<^verbatim>\<open>Clean\<close>, \<^verbatim>\<open>Join\<close>, \<^verbatim>\<open>Dir\<close>, \<^verbatim>\<open>IsAbs\<close>.
\<close>

definition path_IsAbs :: "string \<Rightarrow> bool" where
  "path_IsAbs p = has_prefix p ''/''"

text \<open>The elements kept, last first: \<^verbatim>\<open>..\<close> removes one, or stays when there is none to remove.\<close>

fun clean_step :: "bool \<Rightarrow> string list \<Rightarrow> string \<Rightarrow> string list" where
  "clean_step rooted out e =
     (if e = [] \<or> e = ''.'' then out
      else if e = ''..'' then
        (case out of
           [] \<Rightarrow> if rooted then [] else [''..'']
         | o1 # os \<Rightarrow> if o1 = ''..'' then ''..'' # out else os)
      else e # out)"

definition path_Clean :: "string \<Rightarrow> string" where
  "path_Clean p =
     (let rooted = path_IsAbs p;
          out = rev (foldl (clean_step rooted) [] (split_on (CHR ''/'') p));
          body = join_with ''/'' out
      in if rooted then ''/'' @ body else if body = [] then ''.'' else body)"

definition path_Join :: "string list \<Rightarrow> string" where
  "path_Join es =
     (let ne = filter (\<lambda>e. e \<noteq> []) es in if ne = [] then [] else path_Clean (join_with ''/'' ne))"

definition path_Dir :: "string \<Rightarrow> string" where
  "path_Dir p = path_Clean (rev (dropWhile (\<lambda>c. c \<noteq> CHR ''/'') (rev p)))"


text \<open>\<^verbatim>\<open>filepath.IsLocal\<close>: relative, not empty, and not leading out of the directory.\<close>

definition path_IsLocal :: "string \<Rightarrow> bool" where
  "path_IsLocal p =
     (if path_IsAbs p \<or> p = '''' then False
      else (let q = (if list_ex (\<lambda>e. e = ''.'' \<or> e = ''..'') (split_on (CHR ''/'') p)
                     then path_Clean p else p)
            in q \<noteq> ''..'' \<and> \<not> has_prefix q ''../''))"

end
