(* ===== verification/Http.thy ===== *)
theory Http
  imports GoStrings
begin

text \<open>
  What the handlers read of an \<^verbatim>\<open>*http.Request\<close> and write of a response. Header names are in
  canonical form, one entry per header line, in the order received; the query is decoded; a request
  body is modelled where it is read, already decoded. A cookie a handler sets is a value the handler
  returns.
\<close>

record request =
  rq_method :: string
  rq_path :: string
  rq_host :: string
  rq_query :: "(string \<times> string) list"
  rq_headers :: "(string \<times> string) list"
  rq_cookies :: "(string \<times> string) list"
  rq_remote_addr :: string

definition header_values :: "request \<Rightarrow> string \<Rightarrow> string list" where
  "header_values r n = map snd (filter (\<lambda>h. fst h = n) (rq_headers r))"

fun first_or_empty :: "string list \<Rightarrow> string" where
  "first_or_empty [] = []"
| "first_or_empty (v # vs) = v"

definition header_get :: "request \<Rightarrow> string \<Rightarrow> string" where
  "header_get r n = first_or_empty (header_values r n)"

definition query_get :: "request \<Rightarrow> string \<Rightarrow> string" where
  "query_get r n = first_or_empty (map snd (filter (\<lambda>q. fst q = n) (rq_query r)))"

definition request_cookie :: "request \<Rightarrow> string \<Rightarrow> string option" where
  "request_cookie r n = map_of (rq_cookies r) n"

text \<open>\<^verbatim>\<open>if cookie, err := r.Cookie(n); err == nil && cookie.Value != ""\<close>: the value, or empty.\<close>

definition cookie_value :: "request \<Rightarrow> string \<Rightarrow> string" where
  "cookie_value r n = (case request_cookie r n of None \<Rightarrow> [] | Some v \<Rightarrow> v)"

record cookie =
  ck_name :: string
  ck_value :: string
  ck_path :: string
  ck_expires :: "int option"
  ck_max_age :: int
  ck_http_only :: bool
  ck_secure :: bool
  ck_domain :: string

end
