(* ===== verification/ClientAddress.thy ===== *)
theory ClientAddress
  imports NetIP Http
begin

text \<open>
  internal/auth/clientip.go: which address a request is attributed to, and the key a rate limit
  counts it under.
\<close>

section \<open>Definitions\<close>

definition isTrusted :: "addr \<Rightarrow> prefix list \<Rightarrow> bool" where
  "isTrusted a trusted = list_ex (\<lambda>p. Prefix_Contains p a) trusted"

definition parseForwardedEntry :: "string \<Rightarrow> addr option" where
  "parseForwardedEntry entry =
     (case ParseAddr entry of
        Some a \<Rightarrow> Some (Unmap a)
      | None \<Rightarrow>
          (case SplitHost entry of
             None \<Rightarrow> None
           | Some host \<Rightarrow> map_option Unmap (ParseAddr host)))"

definition peerIP :: "request \<Rightarrow> string" where
  "peerIP r =
     (let host = (case SplitHost (rq_remote_addr r) of
                    Some h \<Rightarrow> h
                  | None \<Rightarrow> trim_by (\<lambda>c. c \<in> set ''[]'') (rq_remote_addr r))
      in case ParseAddr host of Some a \<Rightarrow> addr_String (Unmap a) | None \<Rightarrow> host)"

text \<open>The loop of \<^verbatim>\<open>ClientIP\<close>, over the entries from the right.\<close>

fun walk :: "prefix list \<Rightarrow> string \<Rightarrow> string list \<Rightarrow> string" where
  "walk trusted peer [] = peer"
| "walk trusted peer (p # ps) =
     (case parseForwardedEntry (trim_space p) of
        None \<Rightarrow> peer
      | Some a \<Rightarrow> if \<not> isTrusted a trusted then addr_String a else walk trusted peer ps)"

definition ClientIP :: "request \<Rightarrow> prefix list \<Rightarrow> string" where
  "ClientIP r trusted =
     (let peer = peerIP r
      in case ParseAddr peer of
           None \<Rightarrow> peer
         | Some a \<Rightarrow>
             if \<not> isTrusted a trusted then peer
             else walk trusted peer
                    (rev (split_on (CHR '','') (join_with '','' (header_values r ''X-Forwarded-For'')))))"

definition RateLimitKey :: "string \<Rightarrow> string" where
  "RateLimitKey ip =
     (case ParseAddr ip of
        None \<Rightarrow> ip
      | Some a \<Rightarrow> if \<not> Is6 a \<or> Is4In6 a then ip else Prefix_String (Masked (PrefixFrom a 64)))"

section \<open>Properties\<close>

definition trusted_entry :: "prefix list \<Rightarrow> string \<Rightarrow> bool" where
  "trusted_entry trusted s \<longleftrightarrow>
     (case parseForwardedEntry (trim_space s) of None \<Rightarrow> False | Some a \<Rightarrow> isTrusted a trusted)"

lemma walk_trusted:
  "list_all (trusted_entry trusted) ps \<Longrightarrow> walk trusted peer (ps @ qs) = walk trusted peer qs"
  by (induction ps) (auto simp: trusted_entry_def split: option.splits)

text \<open>
  A peer that is not a trusted proxy speaks only for itself: whatever headers it sends, the
  request is attributed to its transport address.
\<close>

lemma ClientIP_untrusted_peer:
  assumes "case ParseAddr (peerIP r) of None \<Rightarrow> True | Some a \<Rightarrow> \<not> isTrusted a trusted"
  shows "ClientIP (r\<lparr>rq_headers := hs\<rparr>) trusted = peerIP r"
proof -
  have "peerIP (r\<lparr>rq_headers := hs\<rparr>) = peerIP r" by (simp add: peerIP_def Let_def split: option.splits)
  with assms show ?thesis by (simp add: ClientIP_def Let_def split: option.splits)
qed

definition demo_request :: "string \<Rightarrow> string list \<Rightarrow> request" where
  "demo_request peer xff =
     \<lparr>rq_method = ''POST'', rq_path = ''/api/auth/login'', rq_host = ''h'', rq_query = [],
      rq_headers = map (\<lambda>v. (''X-Forwarded-For'', v)) xff, rq_cookies = [], rq_remote_addr = peer\<rparr>"

definition demo_proxy :: prefix where
  "demo_proxy = \<lparr>p_addr = V4 0x0A000000, p_bits = 8\<rparr>"

lemma demo_peers:
  "peerIP (demo_request ''9.9.9.9:80'' xff) = addr_String (V4 0x09090909)"
  "peerIP (demo_request ''10.0.0.1:80'' xff) = addr_String (V4 0x0A000001)"
  by (simp_all add: peerIP_def demo_request_def SplitHost_def cut_last_def addr_eval_examples
      Unmap_def)

lemma demo_trusted [simp]:
  "isTrusted (V4 0x09090909) [demo_proxy] = False"
  "isTrusted (V4 0x07070707) [demo_proxy] = False"
  "isTrusted (V4 0x0A000001) [demo_proxy] = True"
  "isTrusted (V4 0x0A000002) [demo_proxy] = True"
  by (simp_all add: isTrusted_def Prefix_Contains_def demo_proxy_def drop_bit_xor_0 drop_bit_eq_div)



text \<open>
  All addresses of one IPv6 /64 share one rate-limit key, so rotating addresses inside the block
  buys no fresh window.
\<close>

lemma RateLimitKey_same_block:
  assumes "ParseAddr s = Some (V6 x z)" and "ParseAddr t = Some (V6 y z')"
    and "\<not> Is4In6 (V6 x z)" and "\<not> Is4In6 (V6 y z')" and "drop_bit 64 x = drop_bit 64 y"
  shows "RateLimitKey s = RateLimitKey t"
  using assms by (simp add: RateLimitKey_def Is6_def Masked_def PrefixFrom_def without_zone_def)

text \<open>A printed IPv4 address parses back to itself.\<close>

lemma addr_String_roundtrip: "ParseAddr (addr_String (V4 x)) = Some (V4 x)"
  by simp

end
