(* ===== verification/Sessions.thy ===== *)
theory Sessions
  imports Crypto Config ClientAddress StoreContracts
begin

text \<open>
  internal/auth/session.go: issuing, authenticating and revoking sessions. The cookies a call sets
  are part of its result.
\<close>

section \<open>Cookies\<close>

definition SessionCookieName :: string where "SessionCookieName = ''ky_session''"
definition CSRFCookieName :: string where "CSRFCookieName = ''ky_csrf''"
definition HeaderCSRF :: string where "HeaderCSRF = ''X-CSRF-Token''"

definition CookieName :: "string \<Rightarrow> bool \<Rightarrow> string" where
  "CookieName n host = (if host then ''__Host-'' @ n else n)"

definition session_cookie ::
  "security_config \<Rightarrow> string \<Rightarrow> string \<Rightarrow> time \<Rightarrow> bool \<Rightarrow> cookie" where
  "session_cookie cfg n val expires http_only =
     \<lparr>ck_name = CookieName n (c_host_cookies cfg), ck_value = val, ck_path = ''/'',
      ck_expires = Some expires, ck_max_age = 0, ck_http_only = http_only,
      ck_secure = c_cookie_secure cfg, ck_domain = c_cookie_domain cfg\<rparr>"

section \<open>Issuing\<close>

definition issue ::
  "security_config \<Rightarrow> request \<Rightarrow> user \<Rightarrow> time \<Rightarrow> string \<Rightarrow> (session \<times> string \<times> cookie list, 'z) res"
where
  "issue cfg r u authenticatedAt sid = do {
     rawToken \<leftarrow> RandomHex 32;
     let tokenHash = SHA256Hex rawToken;
     let ttl = (if c_session_ttl cfg \<le> 0 then 7 * 24 * hour else c_session_ttl cfg);
     now \<leftarrow> time_Now;
     let sess = \<lparr>s_token_hash = tokenHash, s_user_id = u_id u,
                 s_user_agent = header_get r ''User-Agent'',
                 s_ip_address = ClientIP r (c_trusted_proxies cfg),
                 s_created_at = authenticatedAt, s_expires_at = now + ttl, s_sso_sid = sid\<rparr>;
     check (createSession sess (u_password_hash u)) (\<lambda>_. do {
       csrfToken \<leftarrow> RandomHex 24;
       ret (Inr (sess, rawToken,
         [session_cookie cfg SessionCookieName rawToken (s_expires_at sess) True,
          session_cookie cfg CSRFCookieName csrfToken (s_expires_at sess) False])) })
   }"

definition IssueSession ::
  "security_config \<Rightarrow> request \<Rightarrow> user \<Rightarrow> (session \<times> string \<times> cookie list, 'z) res" where
  "IssueSession cfg r u = do { now \<leftarrow> time_Now; issue cfg r u now '''' }"

definition IssueSSOSession ::
  "security_config \<Rightarrow> request \<Rightarrow> user \<Rightarrow> string \<Rightarrow> time \<Rightarrow> (session \<times> string \<times> cookie list, 'z) res"
where
  "IssueSSOSession cfg r u sid issuedAt = issue cfg r u issuedAt sid"

section \<open>Authenticating\<close>

definition bearer_token :: "request \<Rightarrow> string" where
  "bearer_token r =
     (let h = header_get r ''Authorization''
      in if has_prefix h ''Bearer '' then trim_prefix h ''Bearer '' else '''')"

definition session_token :: "security_config \<Rightarrow> request \<Rightarrow> string" where
  "session_token cfg r =
     (if bearer_token r = ''''
      then cookie_value r (CookieName SessionCookieName (c_host_cookies cfg)) else bearer_token r)"

text \<open>What a session whose user must change the password may still reach.\<close>

definition restricted_route :: "request \<Rightarrow> bool" where
  "restricted_route r \<longleftrightarrow>
     (rq_method r = ''GET'' \<and> rq_path r = ''/api/auth/me'') \<or>
     (rq_method r = ''POST'' \<and>
        (rq_path r = ''/api/auth/change-password'' \<or> rq_path r = ''/api/auth/logout''))"

definition AuthenticateRequest :: "security_config \<Rightarrow> request \<Rightarrow> (user \<times> session, 'z) res" where
  "AuthenticateRequest cfg r = (
     let rawToken = session_token cfg r; tokenHash = SHA256Hex rawToken
     in if rawToken = '''' then ret (Inl ErrNotFound)
        else check (getSession tokenHash) (\<lambda>sess.
          check (getUserByID (s_user_id sess)) (\<lambda>u.
          if u_status u \<noteq> ''active''
          then do { _ \<leftarrow> deleteSession tokenHash; ret (Inl ErrNotFound) }
          else check (getSession tokenHash) (\<lambda>_.
            if u_must_change_password u \<and> \<not> restricted_route r
            then ret (Inl ErrPasswordChangeRequired)
            else ret (Inr (u, sess))))))"

definition ValidateCSRF :: "request \<Rightarrow> bool \<Rightarrow> bool" where
  "ValidateCSRF r host =
     (case request_cookie r (CookieName CSRFCookieName host) of
        None \<Rightarrow> False
      | Some v \<Rightarrow>
          if v = '''' then False
          else length (header_get r HeaderCSRF) = length v \<and> header_get r HeaderCSRF = v)"

definition RevokeSession :: "security_config \<Rightarrow> request \<Rightarrow> (cookie list, 'z) io" where
  "RevokeSession cfg r = do {
     let rawToken = session_token cfg r;
     _ \<leftarrow> (if rawToken \<noteq> '''' then deleteSession (SHA256Hex rawToken) else ret (Inr ()));
     ret [session_cookie cfg SessionCookieName '''' (time_Unix 0) True,
          session_cookie cfg CSRFCookieName '''' (time_Unix 0) False]
   }"

section \<open>Properties\<close>

lemma getSession_ok:
  "run_state (getSession th) w = (Inr s, w') \<Longrightarrow>
     w_db w' = w_db w \<and> w_engine w' = w_engine w \<and> w_clock w' = w_clock w \<and>
     s \<in> set (t_sessions (w_db w)) \<and>
     s_token_hash s = th \<and> w_clock w (w_ticks w) \<le> s_expires_at s"
  by (auto simp: getSession_def deleteSession_def run_check run_stmt select_session_def
      split: prod.splits sum.splits option.splits if_splits dest: find_SomeD)

lemma getUserByID_ok:
  "run_state (getUserByID i) w = (Inr u, w') \<Longrightarrow>
     w_db w' = w_db w \<and> w_engine w' = w_engine w \<and> w_clock w' = w_clock w \<and> w_ticks w' = w_ticks w \<and>
     u \<in> set (t_users (w_db w)) \<and> u_id u = i"
  by (auto simp: getUserByID_def run_stmt select_user_def
      split: option.splits if_splits dest: find_SomeD)

lemma AuthenticateRequest_ok:
  assumes "run_state (AuthenticateRequest cfg r) w = (Inr (u, s), w')"
  shows "w_db w' = w_db w" and "session_token cfg r \<noteq> ''''"
    and "s_token_hash s = SHA256Hex (session_token cfg r)"
    and "s \<in> set (t_sessions (w_db w))" and "w_clock w (w_ticks w) \<le> s_expires_at s"
    and "u \<in> set (t_users (w_db w))" and "u_id u = s_user_id s" and "u_status u = ''active''"
    and "u_must_change_password u \<Longrightarrow> restricted_route r"
  using assms
  by (auto simp: AuthenticateRequest_def Let_def run_check split: if_splits prod.splits sum.splits
      dest!: getSession_ok getUserByID_ok)

lemma AuthenticateRequest_users:
  assumes "run_state (AuthenticateRequest cfg r) w = (x, w')"
  shows "t_users (w_db w') = t_users (w_db w)"
proof -
  have "state_io_rel (db_rel (unchanged t_users)) (AuthenticateRequest cfg r)"
    unfolding AuthenticateRequest_def Let_def
    by (intro kept_users.rel_intros kept_users.rel_getSession kept_users.rel_user_reads
        kept_users.rel_deletes) (simp_all add: unchanged_def delete_sessions_def)
  from frame_run [OF this assms] show ?thesis by (simp add: db_rel_def unchanged_def)
qed

text \<open>
  C29: a request is authenticated only by an unexpired session in the table whose token hashes to the
  stored hash, as the active account that session belongs to; an account that must change its
  password passes only on the routes that let it do so. Nothing is written when it passes.
\<close>

theorem AuthenticateRequest_sound:
  "case run_state (AuthenticateRequest cfg r) w of
     (Inl e, w') \<Rightarrow> t_users (w_db w') = t_users (w_db w)
   | (Inr (u, s), w') \<Rightarrow>
       w_db w' = w_db w \<and> session_token cfg r \<noteq> '''' \<and>
       s_token_hash s = SHA256Hex (session_token cfg r) \<and>
       s \<in> set (t_sessions (w_db w)) \<and> w_clock w (w_ticks w) \<le> s_expires_at s \<and>
       u \<in> set (t_users (w_db w)) \<and> u_id u = s_user_id s \<and> u_status u = ''active'' \<and>
       (if u_must_change_password u then restricted_route r else True)"
proof (cases "run_state (AuthenticateRequest cfg r) w")
  case (Pair res w')
  show ?thesis
  proof (cases res)
    case (Inl e)
    from AuthenticateRequest_users [OF Pair] Pair Inl show ?thesis by simp
  next
    case (Inr us)
    obtain u s where us: "us = (u, s)" by force
    note ok = AuthenticateRequest_ok [OF Pair [unfolded Inr us]]
    show ?thesis using Pair Inr us ok by simp
  qed
qed

lemma RandomHex_run:
  "run_state (RandomHex n) w = (hex_encode (map (w_rand w (w_draws w)) [0..<n]),
     w\<lparr>w_draws := Suc (w_draws w)\<rparr>)"
  by (simp add: RandomHex_def)

lemma oracles_createSession: "state_io_rel (same oracles) (createSession s h)"
  unfolding createSession_def grant_session_def withPassword_def read_fences_def deleteSession_def
  by (intro frame_intros same_refl same_trans)

lemma oracles_fields:
  "oracles w' = oracles w \<Longrightarrow> w_clock w' = w_clock w \<and> w_fault w' = w_fault w \<and> w_engine w' = w_engine w"
  by (simp add: oracles_def)

lemma issue_ok:
  assumes "run_state (issue cfg r u at sid) w = (Inr (s, tok, cks), w')"
  shows "tok \<noteq> ''''" and "s_token_hash s = SHA256Hex tok" and "s_user_id s = u_id u"
    and "w_clock w' = w_clock w" and "w_fault w' = w_fault w"
    and "w_db w' = (w_db w)\<lparr>t_sessions := t_sessions (w_db w) @ [s]\<rparr>"
    and "\<exists>r \<in> set (t_users (w_db w)). grants (u_id u) (u_password_hash u) r"
    and "s_token_hash s \<notin> s_token_hash ` set (t_sessions (w_db w))"
    and "s_sso_sid s = sid" and "s_created_at s = at"
    and "\<exists>c \<in> set cks. ck_name c = CookieName SessionCookieName (c_host_cookies cfg) \<and>
           ck_value c = tok \<and> ck_http_only c \<and> ck_secure c = c_cookie_secure cfg"
    and "\<exists>csrf. cks = [session_cookie cfg SessionCookieName tok (s_expires_at s) True,
           session_cookie cfg CSRFCookieName csrf (s_expires_at s) False]"
proof -
  let ?tok = "hex_encode (map (w_rand w (w_draws w)) [0..<32])"
  let ?w1 = "w\<lparr>w_draws := Suc (w_draws w), w_ticks := Suc (w_ticks w)\<rparr>"
  obtain w2 csrf where c: "run_state (createSession s (u_password_hash u)) ?w1 = (Inr (), w2)"
    and w': "w' = w2\<lparr>w_draws := Suc (w_draws w2)\<rparr>" and tok: "tok = ?tok"
    and s: "s_token_hash s = SHA256Hex ?tok" "s_user_id s = u_id u" "s_sso_sid s = sid" "s_created_at s = at"
    and cks: "cks = [session_cookie cfg SessionCookieName ?tok (s_expires_at s) True,
      session_cookie cfg CSRFCookieName csrf (s_expires_at s) False]"
    using assms by (auto simp: issue_def Let_def RandomHex_run run_check split: prod.splits sum.splits)
  have f: "w_clock w2 = w_clock w \<and> w_fault w2 = w_fault w"
    using frame_run [OF oracles_createSession c] oracles_fields [of w2 ?w1] by (simp add: same_def)
  note e = createSession_effect [where s = s and h = "u_password_hash u" and w = ?w1, unfolded c]
  have "?tok \<noteq> []" by (rule length_greater_0_conv [THEN iffD1]) simp
  then show "tok \<noteq> ''''" by (simp only: tok not_False_eq_True)
  show "s_token_hash s = SHA256Hex tok" "s_user_id s = u_id u" "s_sso_sid s = sid" "s_created_at s = at"
    using s tok by simp_all
  show "w_clock w' = w_clock w" "w_fault w' = w_fault w" using f w' by simp_all
  show "w_db w' = (w_db w)\<lparr>t_sessions := t_sessions (w_db w) @ [s]\<rparr>"
    "\<exists>r \<in> set (t_users (w_db w)). grants (u_id u) (u_password_hash u) r"
    "s_token_hash s \<notin> s_token_hash ` set (t_sessions (w_db w))"
    using e w' s(2) by simp_all
  show "\<exists>c \<in> set cks. ck_name c = CookieName SessionCookieName (c_host_cookies cfg) \<and>
           ck_value c = tok \<and> ck_http_only c \<and> ck_secure c = c_cookie_secure cfg"
    using cks tok by (auto simp: session_cookie_def)
  show "\<exists>csrf. cks = [session_cookie cfg SessionCookieName tok (s_expires_at s) True,
           session_cookie cfg CSRFCookieName csrf (s_expires_at s) False]"
    using cks tok by blast
qed

lemma find_token:
  "t \<notin> s_token_hash ` set xs \<Longrightarrow> s_token_hash s = t \<Longrightarrow>
     find (\<lambda>x. s_token_hash x = t) (xs @ [s]) = Some s"
  by (induction xs) auto

lemma find_deleted:
  "find (\<lambda>x. s_token_hash x = t) (filter (\<lambda>s. s_token_hash s \<noteq> t) xs) = None"
  by (simp add: find_None_iff)

text \<open>
  A session that was issued works: the next request that sends the token back, as a cookie or a
  bearer token, before the session expires and while the account is active, is authenticated as
  the account and with the session that was issued.
\<close>

lemma issued_session_authenticates:
  assumes issue: "run_state (IssueSession cfg r u) w = (Inr (s, tok, cks), w')"
    and healthy: "healthy w" and wf: "wf_db (w_engine w) (w_db w)"
    and row: "v \<in> set (t_users (w_db w))" "u_id v = u_id u" "u_status v = ''active''"
    and pw: "\<not> u_must_change_password v"
    and sent: "session_token cfg r' = tok"
    and time: "w_clock w' (w_ticks w') \<le> s_expires_at s" "w_clock w' (Suc (w_ticks w')) \<le> s_expires_at s"
  shows "result (AuthenticateRequest cfg r') w' = Inr (v, s)"
proof -
  have i: "run_state (issue cfg r u (w_clock w (w_ticks w)) '''') (w\<lparr>w_ticks := Suc (w_ticks w)\<rparr>)
      = (Inr (s, tok, cks), w')"
    using issue by (simp add: IssueSession_def)
  note ok = issue_ok [OF i]
  have h: "healthy w'" using healthy ok(5) by (simp add: healthy_def)
  have sess: "find (\<lambda>x. s_token_hash x = SHA256Hex tok) (t_sessions (w_db w')) = Some s"
    using ok(2,6,8) find_token [of "SHA256Hex tok" "t_sessions (w_db w)" s] by simp
  have user: "find (\<lambda>x. u_id x = u_id u) (t_users (w_db w')) = Some v"
    using find_unique [of u_id "t_users (w_db w)" v] wf row ok(6)
    by (simp add: wf_db_def users_ok_def)
  show ?thesis
    using h sess user sent ok(1,3) time pw row(3)
    by (simp add: AuthenticateRequest_def result_def getSession_def getUserByID_def run_check
        run_stmt_healthy select_session_def select_user_def Let_def)
qed

text \<open>
  Signing out ends the session: on a working database the request that signed out is no longer
  authenticated, and both cookies are cleared under the names they were set with.
\<close>

lemma RevokeSession_ends:
  assumes "healthy w" and "session_token cfg r' = session_token cfg r"
  shows "result (AuthenticateRequest cfg r') (exec (RevokeSession cfg r) w) = Inl ErrNotFound \<and>
    map ck_value (result (RevokeSession cfg r) w) = ['''', ''''] \<and>
    map ck_name (result (RevokeSession cfg r) w) =
      [CookieName SessionCookieName (c_host_cookies cfg), CookieName CSRFCookieName (c_host_cookies cfg)]"
  using assms
  by (simp add: RevokeSession_def AuthenticateRequest_def Let_def exec_def result_def run_check
      deleteSession_def getSession_def run_stmt_healthy delete_sessions_def select_session_def
      session_cookie_def find_deleted)

definition demo_security :: security_config where
  "demo_security = \<lparr>c_session_secret = ''0123456789abcdef'', c_encryption_key = '''',
     c_cookie_secure = True, c_cookie_domain = '''', c_host_cookies = True, c_session_ttl = 60,
     c_trusted_proxies = []\<rparr>"

definition demo_token :: string where
  "demo_token = hex_encode (replicate 32 (CHR ''0''))"

lemma map_replicate_upt: "map (\<lambda>j. c) [0..<n] = replicate n c"
  by (simp add: map_replicate_const)

end
