(* ===== verification/AuthRace.thy ===== *)
theory AuthRace
  imports Sessions
begin

text \<open>
  Authentication while other requests run. \<^verbatim>\<open>AuthenticateRequest\<close> reads the session, then the user,
  then the session again; between the reads any operation of the store may run, a password change
  among them. The comment in internal/auth/session.go claims that an old session cannot inherit a
  flag the change cleared. (\<^verbatim>\<open>UpdateUser\<close>, which writes a whole row, has no caller in the server.)
\<close>

section \<open>What other requests do\<close>

text \<open>Tokens are random, so nobody else creates a session with the token \<open>t\<close>.\<close>

inductive other_step :: "string \<Rightarrow> 'z world_scheme \<Rightarrow> 'z world_scheme \<Rightarrow> bool" for t where
  other_createUser: "u_id u \<noteq> '''' \<Longrightarrow> other_step t w (exec (createUser u) w)"
| other_updateUserProfile: "other_step t w (exec (updateUserProfile u r s) w)"
| other_updateSCIMProfile: "other_step t w (exec (updateSCIMProfile u r s p) w)"
| other_takeOverForSCIM: "other_step t w (exec (takeOverForSCIM u r s) w)"
| other_updateUserRole: "other_step t w (exec (updateUserRole u r) w)"
| other_linkSSOIdentity: "other_step t w (exec (linkSSOIdentity i sub from to) w)"
| other_deleteUser: "other_step t w (exec (deleteUser i) w)"
| other_completePasswordChange: "other_step t w (exec (completePasswordChange i h h' ip) w)"
| other_resetAdminPassword: "other_step t w (exec (resetAdminPassword i h') w)"
| other_createSession: "s_token_hash sess \<noteq> t \<Longrightarrow> other_step t w (exec (createSession sess h) w)"
| other_getSession: "other_step t w (exec (getSession th) w)"
| other_deleteSession: "other_step t w (exec (deleteSession th) w)"
| other_deleteUserSessions: "other_step t w (exec (deleteUserSessions i) w)"
| other_cleanExpired: "other_step t w (exec cleanExpiredSessions w)"
| other_endSSOSession: "other_step t w (exec (endSSOSession sid until) w)"
| other_endSSOSubject: "other_step t w (exec (endSSOSubject p sub c until) w)"
| other_getUserByID: "other_step t w (exec (getUserByID i) w)"
| other_getUserByUsername: "other_step t w (exec (getUserByUsername i) w)"
| other_logAudit: "other_step t w (exec (logAudit r) w)"

inductive_cases other_stepE: "other_step t w w'"

section \<open>The flag stays while the session does\<close>

definition must_change :: "db \<Rightarrow> string \<Rightarrow> bool" where
  "must_change d i \<longleftrightarrow> (\<exists>u \<in> set (t_users d). u_id u = i \<and> u_must_change_password u)"

definition flag_kept :: "string \<Rightarrow> engine \<Rightarrow> db \<Rightarrow> db \<Rightarrow> bool" where
  "flag_kept t E d d' \<longleftrightarrow>
     (\<forall>s \<in> set (t_sessions d'). s_token_hash s = t \<longrightarrow>
        s \<in> set (t_sessions d) \<and> (must_change d (s_user_id s) \<longrightarrow> must_change d' (s_user_id s)))"

interpretation kept_flag: db_frame "flag_kept t" for t
  by unfold_locales (auto simp: flag_kept_def)

lemma flag_update_users:
  assumes "\<And>r. u_id (f r) = u_id r"
    and "\<And>r. u_must_change_password r \<Longrightarrow> u_must_change_password (f r)"
  shows "flag_kept t E d (snd (update_users P f E d))"
proof -
  have "must_change (d\<lparr>t_users := map (\<lambda>u. if P u then f u else u) (t_users d)\<rparr>) i"
    if m: "must_change d i" for i
  proof -
    obtain u where "u \<in> set (t_users d)" "u_id u = i" "u_must_change_password u"
      using m by (auto simp: must_change_def)
    then show ?thesis
      using assms unfolding must_change_def
      by (intro bexI [of _ "if P u then f u else u"]) auto
  qed
  then show ?thesis
    by (auto simp: flag_kept_def update_users_def Let_def)
qed

lemma flag_statements:
  "flag_kept t E d (snd (insert_user u E d))"
  "flag_kept t E d (snd (delete_user i E d))"
  "s_token_hash s \<noteq> t \<Longrightarrow> flag_kept t E d (snd (insert_session s E d))"
  "flag_kept t E d (snd (delete_sessions S E d))"
  "flag_kept t E d (snd (delete_logouts L E d))"
  "flag_kept t E d (snd (upsert_logout sid until E d))"
  "flag_kept t E d (snd (delete_subject_logouts F E d))"
  "flag_kept t E d (snd (upsert_subject_logout p b c until E d))"
  "flag_kept t E d (snd (insert_audit r E d))"
  by (auto simp: flag_kept_def must_change_def insert_user_def Let_def delete_user_def
      insert_session_def delete_sessions_def delete_logouts_def upsert_logout_def
      delete_subject_logouts_def upsert_subject_logout_def insert_audit_def)

lemma flag_completePasswordChange:
  "state_io_rel (db_rel (flag_kept t)) (completePasswordChange i h h' ip)"
proof (unfold state_io_rel_def db_rel_def, intro allI conjI)
  fix w :: "'z world_scheme"
  show "w_engine (snd (run_state (completePasswordChange i h h' ip) w)) = w_engine w"
    using frame_exec [OF inv_keep_name(3) [of i h h' ip], of w] by (simp add: db_rel_def exec_def)
  show "flag_kept t (w_engine w) (w_db w) (w_db (snd (run_state (completePasswordChange i h h' ip) w)))"
    using completePasswordChange_effect [where i = i and h = h and h' = h' and ip = ip and w = w]
    by (auto simp: flag_kept_def must_change_def new_password_db_def cas_db_def Let_def
        split: prod.splits sum.splits)
qed

lemma flag_operations:
  "state_io_rel (db_rel (flag_kept t)) (createUser u)"
  "state_io_rel (db_rel (flag_kept t)) (updateUserProfile u r s)"
  "state_io_rel (db_rel (flag_kept t)) (updateSCIMProfile u r s p)"
  "state_io_rel (db_rel (flag_kept t)) (takeOverForSCIM u r s)"
  "state_io_rel (db_rel (flag_kept t)) (updateUserRole u r)"
  "state_io_rel (db_rel (flag_kept t)) (linkSSOIdentity i sub from to)"
  "state_io_rel (db_rel (flag_kept t)) (deleteUser i)"
  "state_io_rel (db_rel (flag_kept t)) (resetAdminPassword i h')"
  "state_io_rel (db_rel (flag_kept t)) (getSession th)"
  "state_io_rel (db_rel (flag_kept t)) (deleteSession th)"
  "state_io_rel (db_rel (flag_kept t)) (deleteUserSessions i)"
  "state_io_rel (db_rel (flag_kept t)) cleanExpiredSessions"
  "state_io_rel (db_rel (flag_kept t)) (endSSOSession sid until)"
  "state_io_rel (db_rel (flag_kept t)) (endSSOSubject p sub c until)"
  "state_io_rel (db_rel (flag_kept t)) (logAudit a)"
  by (intro kept_flag.rel_createUser kept_flag.rel_updateUserProfile kept_flag.rel_updateSCIMProfile
      kept_flag.rel_takeOverForSCIM kept_flag.rel_updateUserRole kept_flag.rel_linkSSOIdentity
      kept_flag.rel_deleteUser kept_flag.rel_resetAdminPassword kept_flag.rel_getSession
      kept_flag.rel_deletes kept_flag.rel_endSSOSession kept_flag.rel_endSSOSubject
      kept_flag.rel_logAudit flag_update_users flag_statements; simp add: profileSet_def)+

lemma flag_createSession:
  "s_token_hash s \<noteq> t \<Longrightarrow> state_io_rel (db_rel (flag_kept t)) (createSession s h)"
  by (intro kept_flag.rel_createSession flag_update_users flag_statements) auto

lemma other_step_flag: "other_step t w w' \<Longrightarrow> db_rel (flag_kept t) w w'"
  by (erule other_stepE; simp only:; (rule flag_operations [THEN frame_exec]
      flag_completePasswordChange [THEN frame_exec] kept_flag.rel_user_reads [THEN frame_exec]
      flag_createSession [THEN frame_exec]); assumption?)

lemma other_steps_flag: "(other_step t)\<^sup>*\<^sup>* w w' \<Longrightarrow> db_rel (flag_kept t) w w'"
  by (induction rule: rtranclp_induct)
    (auto dest!: other_step_flag simp: db_rel_def intro: kept_flag.Q_refl kept_flag.Q_trans)

lemma other_step_store: "other_step t w w' \<Longrightarrow> store_step w w'"
  by (erule other_stepE; simp only:; (rule store_step.intros); assumption?)

lemma other_steps_inv:
  "(other_step t)\<^sup>*\<^sup>* w w' \<Longrightarrow> store_inv (w_engine w) (w_db w) \<Longrightarrow> store_inv (w_engine w') (w_db w')"
  using store_steps_rel [of w w'] mono_rtranclp [of "other_step t" store_step] other_step_store
  by (fastforce simp: db_rel_def kept_def)

section \<open>The authentication as a machine\<close>

text \<open>
  Each statement of \<^verbatim>\<open>AuthenticateRequest\<close> is a step of its own: the session, the account, the
  deletion of a disabled account's session, the session again.
\<close>

datatype auth_pc =
    FirstLook
  | ReadAccount session
  | DropSession
  | SecondLook session user
  | Decided "err + user \<times> session"

record 'z auth =
  au_world :: "'z world_scheme"
  au_pc :: auth_pc

definition first_next :: "err + session \<Rightarrow> auth_pc" where
  "first_next x = (case x of Inl e \<Rightarrow> Decided (Inl e) | Inr s \<Rightarrow> ReadAccount s)"

definition account_next :: "session \<Rightarrow> err + user \<Rightarrow> auth_pc" where
  "account_next s x =
     (case x of
        Inl e \<Rightarrow> Decided (Inl e)
      | Inr u \<Rightarrow> if u_status u \<noteq> ''active'' then DropSession else SecondLook s u)"

definition second_next :: "request \<Rightarrow> session \<Rightarrow> user \<Rightarrow> err + session \<Rightarrow> auth_pc" where
  "second_next r s u x =
     (case x of
        Inl e \<Rightarrow> Decided (Inl e)
      | Inr _ \<Rightarrow>
          Decided (if u_must_change_password u \<and> \<not> restricted_route r
                   then Inl ErrPasswordChangeRequired else Inr (u, s)))"

inductive auth_step :: "request \<Rightarrow> string \<Rightarrow> 'z auth \<Rightarrow> 'z auth \<Rightarrow> bool" for r t where
  step_first: "run_state (getSession t) w = (x, w') \<Longrightarrow>
    auth_step r t \<lparr>au_world = w, au_pc = FirstLook\<rparr> \<lparr>au_world = w', au_pc = first_next x\<rparr>"
| step_account: "run_state (getUserByID (s_user_id s)) w = (y, w') \<Longrightarrow>
    auth_step r t \<lparr>au_world = w, au_pc = ReadAccount s\<rparr> \<lparr>au_world = w', au_pc = account_next s y\<rparr>"
| step_drop: "run_state (deleteSession t) w = (z, w') \<Longrightarrow>
    auth_step r t \<lparr>au_world = w, au_pc = DropSession\<rparr>
      \<lparr>au_world = w', au_pc = Decided (Inl ErrNotFound)\<rparr>"
| step_second: "run_state (getSession t) w = (x, w') \<Longrightarrow>
    auth_step r t \<lparr>au_world = w, au_pc = SecondLook s u\<rparr>
      \<lparr>au_world = w', au_pc = second_next r s u x\<rparr>"

inductive_cases auth_stepE: "auth_step r t S S'"

text \<open>Any operations of other requests run between two steps.\<close>

inductive auth_run :: "request \<Rightarrow> string \<Rightarrow> 'z auth \<Rightarrow> 'z auth \<Rightarrow> bool" for r t S where
  auth_start: "auth_run r t S S"
| auth_own: "auth_run r t S T \<Longrightarrow> auth_step r t T U \<Longrightarrow> auth_run r t S U"
| auth_other: "auth_run r t S T \<Longrightarrow> other_step t (au_world T) w \<Longrightarrow>
    auth_run r t S (T\<lparr>au_world := w\<rparr>)"

text \<open>Left alone, the machine does what \<open>AuthenticateRequest\<close> does.\<close>

lemma auth_machine_is_AuthenticateRequest:
  assumes "session_token cfg r \<noteq> ''''"
  shows "case run_state (AuthenticateRequest cfg r) w of (x, w') \<Rightarrow>
    auth_run r (SHA256Hex (session_token cfg r)) \<lparr>au_world = w, au_pc = FirstLook\<rparr>
      \<lparr>au_world = w', au_pc = Decided x\<rparr>"
proof -
  let ?t = "SHA256Hex (session_token cfg r)" and ?S = "\<lparr>au_world = w, au_pc = FirstLook\<rparr>"
  note own = auth_own [where r = r and t = ?t]
  note auth = AuthenticateRequest_def Let_def run_check
  obtain x1 w1 where g1: "run_state (getSession ?t) w = (x1, w1)" by force
  note run1 = own [OF auth_start step_first [OF g1]]
  show ?thesis
  proof (cases x1)
    case (Inl e)
    then show ?thesis using run1 g1 assms by (simp add: auth first_next_def)
  next
    case s: (Inr s)
    obtain x2 w2 where g2: "run_state (getUserByID (s_user_id s)) w1 = (x2, w2)" by force
    have "first_next x1 = ReadAccount s" by (simp add: s first_next_def)
    note run2 = own [OF run1 [unfolded this] step_account [OF g2]]
    show ?thesis
    proof (cases x2)
      case (Inl e)
      then show ?thesis using run2 g1 g2 s assms by (simp add: auth account_next_def)
    next
      case u: (Inr u)
      show ?thesis
      proof (cases "u_status u = ''active''")
        case False
        obtain x3 w3 where g3: "run_state (deleteSession ?t) w2 = (x3, w3)" by force
        have "account_next s x2 = DropSession" by (simp add: u False account_next_def)
        note run3 = own [OF run2 [unfolded this] step_drop [OF g3]]
        then show ?thesis using g1 g2 g3 s u False assms by (simp add: auth)
      next
        case True
        obtain x3 w3 where g3: "run_state (getSession ?t) w2 = (x3, w3)" by force
        have "account_next s x2 = SecondLook s u" by (simp add: u True account_next_def)
        note run3 = own [OF run2 [unfolded this] step_second [OF g3]]
        then show ?thesis using g1 g2 g3 s u True assms
          by (cases x3; cases "u_must_change_password u \<and> \<not> restricted_route r")
            (auto simp: auth second_next_def)
      qed
    qed
  qed
qed

section \<open>No session inherits a cleared flag\<close>

text \<open>
  What holds at every point of a run that began in \<open>d0\<close>: as long as the session is there, an account
  already read was read with the flag \<open>d0\<close> has for it.
\<close>

definition flag_seen :: "string \<Rightarrow> db \<Rightarrow> db \<Rightarrow> session \<Rightarrow> user \<Rightarrow> bool" where
  "flag_seen t d0 d s u \<longleftrightarrow>
     ((\<exists>s' \<in> set (t_sessions d). s_token_hash s' = t) \<longrightarrow> must_change d0 (s_user_id s) \<longrightarrow>
        u_must_change_password u)"

definition auth_ok :: "request \<Rightarrow> string \<Rightarrow> db \<Rightarrow> db \<Rightarrow> auth_pc \<Rightarrow> bool" where
  "auth_ok r t d0 d pc \<longleftrightarrow>
     (case pc of
        ReadAccount s \<Rightarrow> s \<in> set (t_sessions d0) \<and> s_token_hash s = t
      | SecondLook s u \<Rightarrow> flag_seen t d0 d s u
      | Decided (Inr (u, s)) \<Rightarrow> must_change d0 (s_user_id s) \<longrightarrow> restricted_route r
      | _ \<Rightarrow> True)"

lemma flag_seen_later:
  "flag_kept t E d d' \<Longrightarrow> flag_seen t d0 d s u \<Longrightarrow> flag_seen t d0 d' s u"
  by (auto simp: flag_kept_def flag_seen_def)

lemma auth_ok_later: "flag_kept t E d d' \<Longrightarrow> auth_ok r t d0 d pc \<Longrightarrow> auth_ok r t d0 d' pc"
  by (auto simp: auth_ok_def flag_seen_later split: auth_pc.splits sum.splits)

lemma account_read_flag:
  assumes inv: "store_inv E d" "store_inv E d0" and kept: "flag_kept t E d0 d"
    and s: "s \<in> set (t_sessions d0)" "s_token_hash s = t"
    and u: "u \<in> set (t_users d)" "u_id u = s_user_id s"
  shows "flag_seen t d0 d s u"
  unfolding flag_seen_def
proof (intro impI)
  assume "\<exists>s' \<in> set (t_sessions d). s_token_hash s' = t" and must: "must_change d0 (s_user_id s)"
  then obtain s' where s': "s' \<in> set (t_sessions d)" "s_token_hash s' = t" by blast
  then have "s' \<in> set (t_sessions d0)" using kept by (auto simp: flag_kept_def)
  then have "s' = s" using inv(2) s s' wf_token_unique [of E d0 s' s] by (simp add: store_inv_def)
  with s' kept must have "must_change d (s_user_id s)" by (auto simp: flag_kept_def)
  then obtain v where "v \<in> set (t_users d)" "u_id v = s_user_id s" "u_must_change_password v"
    by (auto simp: must_change_def)
  with u inv(1) wf_user_unique [of E d v u] show "u_must_change_password u"
    by (simp add: store_inv_def)
qed

lemma auth_step_ok:
  assumes "auth_step r t S S'" and "auth_ok r t d0 (w_db (au_world S)) (au_pc S)"
    and "store_inv (w_engine (au_world S)) (w_db (au_world S))"
    and "store_inv (w_engine (au_world S)) d0"
    and "flag_kept t (w_engine (au_world S)) d0 (w_db (au_world S))"
  shows "auth_ok r t d0 (w_db (au_world S')) (au_pc S')"
  using assms(1)
proof (cases rule: auth_step.cases)
  case (step_first w x w')
  then show ?thesis
    using assms(5) by (auto simp: auth_ok_def first_next_def flag_kept_def split: sum.splits
        dest!: getSession_ok)
next
  case (step_account s w y w')
  then show ?thesis
    using assms account_read_flag [of "w_engine w" "w_db w" d0 t s]
    by (auto simp: auth_ok_def account_next_def split: sum.splits dest!: getUserByID_ok)
next
  case (step_drop w z w')
  then show ?thesis by (simp add: auth_ok_def)
next
  case (step_second w x w' s u)
  then show ?thesis
    using assms(2) by (auto simp: auth_ok_def second_next_def flag_seen_def split: sum.splits
        dest!: getSession_ok)
qed

lemma auth_step_other: "auth_step r t S S' \<Longrightarrow> other_step t (au_world S) (au_world S')"
  by (erule auth_step.cases; simp) (metis exec_eqI other_getSession other_getUserByID other_deleteSession)+

lemma auth_run_ok:
  assumes "auth_run r t S T" and "au_pc S = FirstLook"
    and inv: "store_inv (w_engine (au_world S)) (w_db (au_world S))"
  shows "db_rel (flag_kept t) (au_world S) (au_world T) \<and>
    store_inv (w_engine (au_world T)) (w_db (au_world T)) \<and>
    auth_ok r t (w_db (au_world S)) (w_db (au_world T)) (au_pc T)"
  using assms(1)
proof (induction)
  case auth_start
  then show ?case using assms(2,3) by (simp add: auth_ok_def db_rel_def kept_flag.Q_refl)
next
  case (auth_own T U)
  note step = auth_step_other [OF auth_own.hyps(2)]
  have "auth_ok r t (w_db (au_world S)) (w_db (au_world U)) (au_pc U)"
    using auth_step_ok [OF auth_own.hyps(2), of "w_db (au_world S)"] auth_own.IH inv
    by (simp add: db_rel_def)
  then show ?case
    using auth_own.IH other_step_flag [OF step] other_steps_inv [OF r_into_rtranclp, OF step]
    by (auto simp: db_rel_def intro: kept_flag.Q_trans)
next
  case (auth_other T w)
  note step = auth_other.hyps(2)
  have "auth_ok r t (w_db (au_world S)) (w_db w) (au_pc T)"
    using auth_ok_later other_step_flag [OF step] auth_other.IH by (simp add: db_rel_def) blast
  then show ?case
    using auth_other.IH other_step_flag [OF step] other_steps_inv [OF r_into_rtranclp, OF step]
    by (auto simp: db_rel_def intro: kept_flag.Q_trans)
qed

text \<open>
  C28: whatever other requests do between the statements of an authentication, a password change
  included, a session whose account had to change its password when the request began is never
  authenticated beyond the routes that let it do so.
\<close>

theorem no_inherited_flag:
  assumes "store_inv (w_engine w0) (w_db w0)"
    and "auth_run r (SHA256Hex (session_token cfg r)) \<lparr>au_world = w0, au_pc = FirstLook\<rparr>
           \<lparr>au_world = w, au_pc = Decided (Inr (u, s))\<rparr>"
    and "must_change (w_db w0) (s_user_id s)"
  shows "restricted_route r"
  using auth_run_ok [OF assms(2)] assms(1,3) by (simp add: auth_ok_def)

text \<open>The initial password is being changed: the session may reach the change, and nothing else.\<close>

definition race_db :: db where
  "race_db = demo_db\<lparr>t_users := [(demo_user ''u1'' ''ann'')\<lparr>u_must_change_password := True\<rparr>],
     t_sessions := [demo_session (SHA256Hex ''tok'') ''u1'' '''']\<rparr>"

definition race_request :: request where
  "race_request = \<lparr>rq_method = ''POST'', rq_path = ''/api/auth/change-password'', rq_host = ''h'',
     rq_query = [], rq_headers = [(''Authorization'', ''Bearer tok'')], rq_cookies = [],
     rq_remote_addr = ''9.9.9.9:80''\<rparr>"

lemma race_db_inv: "store_inv demo_engine race_db"
  by (simp add: store_inv_def wf_parts ci_unique_def ids_nonempty_def race_db_def demo_db_def
      empty_db_def demo_engine_def demo_user_def demo_session_def)

lemma race_token [simp]: "session_token demo_security race_request = ''tok''"
  by (simp add: session_token_def bearer_token_def race_request_def header_get_def
      header_values_def has_prefix_def trim_prefix_def)

lemma race_authenticates:
  "\<exists>w. run_state (AuthenticateRequest demo_security race_request) (demo_world race_db) =
     (Inr ((demo_user ''u1'' ''ann'')\<lparr>u_must_change_password := True\<rparr>,
           demo_session (SHA256Hex ''tok'') ''u1'' ''''), w)"
  by (simp add: AuthenticateRequest_def Let_def getSession_def getUserByID_def run_check run_stmt
      select_session_def select_user_def race_db_def demo_db_def demo_session_def demo_user_def
      demo_world_def restricted_route_def) (simp add: race_request_def)

theorem no_inherited_flag_witness: "restricted_route race_request"
proof -
  obtain w where "run_state (AuthenticateRequest demo_security race_request) (demo_world race_db) =
     (Inr ((demo_user ''u1'' ''ann'')\<lparr>u_must_change_password := True\<rparr>,
           demo_session (SHA256Hex ''tok'') ''u1'' ''''), w)"
    using race_authenticates by blast
  then have run: "auth_run race_request (SHA256Hex (session_token demo_security race_request))
      \<lparr>au_world = demo_world race_db, au_pc = FirstLook\<rparr>
      \<lparr>au_world = w, au_pc = Decided (Inr ((demo_user ''u1'' ''ann'')\<lparr>u_must_change_password := True\<rparr>,
           demo_session (SHA256Hex ''tok'') ''u1'' ''''))\<rparr>"
    using auth_machine_is_AuthenticateRequest [of demo_security race_request "demo_world race_db"]
    by simp
  show ?thesis
  proof (rule no_inherited_flag [OF _ run])
    show "store_inv (w_engine (demo_world race_db)) (w_db (demo_world race_db))"
      by (simp add: demo_world_def race_db_inv)
    show "must_change (w_db (demo_world race_db)) (s_user_id (demo_session (SHA256Hex ''tok'') ''u1'' ''''))"
      by (simp add: must_change_def demo_world_def race_db_def demo_user_def demo_session_def)
  qed
qed

end
