(* ===== verification/ServerState.thy ===== *)
theory ServerState
  imports Crypto Config StoreContracts "HOL-Library.AList"
begin

text \<open>
  The state the server keeps in memory beside its database, as an extension of the world: the
  rate limiter of internal/api/server.go and the spent proof-of-work salts of internal/auth/pow.go.
  Go randomises map iteration; the entry a full limiter gives up is an oracle's choice.
\<close>

section \<open>Records\<close>

record attempt_window =
  aw_count :: int
  aw_reset :: time

record pow_spent =
  sp_salts :: "(string \<times> int) list"
  sp_prune_at :: nat

record server = world +
  sv_attempts :: "(string \<times> attempt_window) list"
  sv_spent :: pow_spent
  sv_victim :: "nat \<Rightarrow> nat"
  sv_victims :: nat

type_synonym ('a, 'z) sio = "('z server_scheme, 'a) state"
type_synonym ('a, 'z) sres = "('z server_scheme, err + 'a) state"

section \<open>The rate limiter\<close>

definition attemptsCap :: nat where "attemptsCap = 10000"

definition no_window :: attempt_window where
  "no_window = \<lparr>aw_count = 0, aw_reset = 0\<rparr>"

definition bumpWindow :: "attempt_window \<Rightarrow> time \<Rightarrow> duration \<Rightarrow> attempt_window" where
  "bumpWindow entry now window =
     (let e = (if now > aw_reset entry then \<lparr>aw_count = 0, aw_reset = now + window\<rparr> else entry)
      in e\<lparr>aw_count := aw_count e + 1\<rparr>)"

definition remove_nth :: "nat \<Rightarrow> 'a list \<Rightarrow> 'a list" where
  "remove_nth i xs = take i xs @ drop (Suc i) xs"

definition makeRoom ::
  "time \<Rightarrow> nat \<Rightarrow> (string \<times> attempt_window) list \<Rightarrow> (string \<times> attempt_window) list" where
  "makeRoom now victim attempts =
     (let live = filter (\<lambda>(k, w). \<not> now > aw_reset w) attempts
      in if length live \<ge> attemptsCap then remove_nth (victim mod length live) live else live)"

definition allow_at ::
  "time \<Rightarrow> nat \<Rightarrow> string \<Rightarrow> int \<Rightarrow> duration \<Rightarrow> (string \<times> attempt_window) list \<Rightarrow>
     bool \<times> (string \<times> attempt_window) list" where
  "allow_at now victim key limit window attempts =
     (let roomy = (if map_of attempts key = None \<and> length attempts \<ge> attemptsCap
                   then makeRoom now victim attempts else attempts);
          old = (case map_of roomy key of None \<Rightarrow> no_window | Some w \<Rightarrow> w);
          entry = bumpWindow old now window
      in (aw_count entry \<le> limit, AList.update key entry roomy))"

definition allowAttempt :: "string \<Rightarrow> int \<Rightarrow> duration \<Rightarrow> (bool, 'z) sio" where
  "allowAttempt key limit window = do {
     now \<leftarrow> time_Now;
     s \<leftarrow> getS;
     let (ok, attempts) = allow_at now (sv_victim s (sv_victims s)) key limit window (sv_attempts s);
     modifyS (\<lambda>s. s\<lparr>sv_attempts := attempts, sv_victims := Suc (sv_victims s)\<rparr>);
     ret ok
   }"

definition attemptsExhausted :: "string \<Rightarrow> int \<Rightarrow> (bool, 'z) sio" where
  "attemptsExhausted key limit = do {
     s \<leftarrow> getS;
     case map_of (sv_attempts s) key of
       None \<Rightarrow> ret False
     | Some w \<Rightarrow> do { now \<leftarrow> time_Now; ret (now < aw_reset w \<and> limit \<le> aw_count w) }
   }"

subsection \<open>Properties of the limiter\<close>

definition limiter_ok :: "(string \<times> attempt_window) list \<Rightarrow> bool" where
  "limiter_ok attempts \<longleftrightarrow> distinct (map fst attempts) \<and> length attempts \<le> attemptsCap"

lemma remove_nth_simps [simp]:
  "remove_nth i [] = []" "remove_nth 0 (x # xs) = xs"
  "remove_nth (Suc i) (x # xs) = x # remove_nth i xs"
  by (simp_all add: remove_nth_def)

lemma set_remove_nth: "set (remove_nth i xs) \<subseteq> set xs"
proof (induction xs arbitrary: i)
  case (Cons x xs)
  then show ?case by (cases i) auto
qed simp

lemma distinct_remove_nth: "distinct (map f xs) \<Longrightarrow> distinct (map f (remove_nth i xs))"
proof (induction xs arbitrary: i)
  case (Cons x xs)
  have "f x \<notin> f ` set (remove_nth j xs)" for j
    using Cons.prems set_remove_nth [of j xs] by auto
  then show ?case using Cons by (cases i) simp_all
qed simp

lemma length_remove_nth: "i < length xs \<Longrightarrow> length (remove_nth i xs) = length xs - 1"
  by (simp add: remove_nth_def)

lemma makeRoom_ok:
  assumes "limiter_ok attempts"
  shows "distinct (map fst (makeRoom now v attempts))" and "length (makeRoom now v attempts) < attemptsCap"
proof -
  let ?live = "filter (\<lambda>(k, w). \<not> now > aw_reset w) attempts"
  have d: "distinct (map fst ?live)"
    using assms by (simp add: limiter_ok_def distinct_map_filter)
  have l: "length ?live \<le> attemptsCap"
    using assms by (auto simp: limiter_ok_def intro: order_trans [OF length_filter_le])
  show "distinct (map fst (makeRoom now v attempts))"
    using d by (simp add: makeRoom_def Let_def distinct_remove_nth)
  have "0 < attemptsCap" by (simp add: attemptsCap_def)
  then show "length (makeRoom now v attempts) < attemptsCap"
    using l by (auto simp: makeRoom_def Let_def length_remove_nth)
qed

lemma length_update_le: "length (AList.update k v al) \<le> Suc (length al)"
  by (induction al) auto

lemma length_update_known: "map_of al k \<noteq> None \<Longrightarrow> length (AList.update k v al) = length al"
  by (induction al) auto

lemma allow_at_ok:
  assumes ok: "limiter_ok attempts"
  shows "limiter_ok (snd (allow_at now v key limit window attempts))"
proof -
  let ?roomy = "if map_of attempts key = None \<and> length attempts \<ge> attemptsCap
    then makeRoom now v attempts else attempts"
  have d: "distinct (map fst ?roomy)"
    using ok makeRoom_ok [OF ok] by (simp add: limiter_ok_def)
  have "length (AList.update key e ?roomy) \<le> attemptsCap" for e
  proof (cases "map_of ?roomy key = None")
    case True
    then have "length ?roomy < attemptsCap"
      using ok makeRoom_ok(2) [OF ok, of now v] by (auto simp: limiter_ok_def not_le split: if_splits)
    with length_update_le [of key e ?roomy] show ?thesis by simp
  next
    case False
    then have "length (AList.update key e ?roomy) = length ?roomy"
      by (rule length_update_known)
    moreover have "length ?roomy \<le> attemptsCap"
      using ok makeRoom_ok(2) [OF ok, of now v] by (simp add: limiter_ok_def)
    ultimately show ?thesis by simp
  qed
  with d show ?thesis
    by (simp add: limiter_ok_def allow_at_def Let_def distinct_update)
qed

text \<open>
  Until the map is full nothing is evicted, so within one window the answers to a key count up.
\<close>

definition counted :: "string \<Rightarrow> int \<Rightarrow> time \<Rightarrow> (string \<times> attempt_window) list \<Rightarrow> bool" where
  "counted key n until attempts \<longleftrightarrow>
     (case map_of attempts key of
        None \<Rightarrow> False | Some w \<Rightarrow> aw_count w = n \<and> aw_reset w = until)"

fun allow_all ::
  "(time \<times> nat \<times> string \<times> int \<times> duration) list \<Rightarrow> (string \<times> attempt_window) list \<Rightarrow>
     bool list \<times> (string \<times> attempt_window) list" where
  "allow_all [] attempts = ([], attempts)"
| "allow_all ((now, v, key, limit, window) # cs) attempts =
     (let (ok, a1) = allow_at now v key limit window attempts; (oks, a2) = allow_all cs a1
      in (ok # oks, a2))"

lemma allow_at_other:
  assumes "length attempts < attemptsCap" and "k \<noteq> key"
  shows "map_of (snd (allow_at now v k limit window attempts)) key = map_of attempts key"
  using assms by (simp add: allow_at_def Let_def update_conv')

lemma allow_at_length:
  "length attempts < attemptsCap \<Longrightarrow>
     length (snd (allow_at now v k limit window attempts)) \<le> Suc (length attempts)"
  by (simp add: allow_at_def Let_def length_update_le)

lemma allow_at_same:
  assumes "counted key n until attempts" and "now \<le> until"
  shows "counted key (n + 1) until (snd (allow_at now v key limit window attempts))"
    and "fst (allow_at now v key limit window attempts) = (n + 1 \<le> limit)"
  using assms
  by (auto simp: counted_def allow_at_def Let_def update_conv' bumpWindow_def split: option.splits)

definition granted :: "string \<Rightarrow> (time \<times> nat \<times> string \<times> int \<times> duration) list \<Rightarrow> bool list \<Rightarrow> nat" where
  "granted key cs oks = length (filter (\<lambda>(c, ok). ok \<and> fst (snd (snd c)) = key) (zip cs oks))"

lemma allow_all_counted:
  assumes "counted key n until attempts" and "length attempts + length cs \<le> attemptsCap"
    and "list_all (\<lambda>c. fst c \<le> until) cs"
    and "list_all (\<lambda>c. fst (snd (snd c)) = key \<longrightarrow> fst (snd (snd (snd c))) = limit) cs"
  shows "int (granted key cs (fst (allow_all cs attempts))) \<le> max 0 (limit - n)"
  using assms
proof (induction cs arbitrary: n attempts)
  case Nil
  then show ?case by (simp add: granted_def)
next
  case (Cons c cs)
  obtain now v k l window where c: "c = (now, v, k, l, window)" by (metis prod_cases5)
  obtain ok a1 where a1: "allow_at now v k l window attempts = (ok, a1)" by force
  have len: "length a1 + length cs \<le> attemptsCap"
    using Cons.prems(2) allow_at_length [of attempts now v k l window] a1 by simp
  have g: "granted key (c # cs) (fst (allow_all (c # cs) attempts)) =
      (if ok \<and> k = key then 1 else 0) + granted key cs (fst (allow_all cs a1))"
    by (simp add: c a1 granted_def split: prod.split)
  show ?case
  proof (cases "k = key")
    case True
    have "counted key (n + 1) until a1" "ok = (n + 1 \<le> limit)"
      using allow_at_same [OF Cons.prems(1), of now v l window] Cons.prems(3,4) a1 c True
      by simp_all
    with Cons.IH [of "n + 1" a1] len Cons.prems(3,4) show ?thesis
      unfolding g using c True by auto
  next
    case False
    have "map_of a1 key = map_of attempts key"
      using allow_at_other [of attempts k key now v l window] Cons.prems(2) False a1 by simp
    then have "counted key n until a1" using Cons.prems(1) by (simp add: counted_def)
    with Cons.IH [of n a1] len Cons.prems(3,4) show ?thesis
      unfolding g using c False by auto
  qed
qed

text \<open>
  C36: while the table has room (nothing is evicted), all the calls for one key within one window,
  whatever other keys are counted in between, are granted at most \<open>limit\<close> times.
\<close>

theorem limiter_bounds_attempts:
  assumes "length attempts + Suc (length cs) \<le> attemptsCap"
    and "case map_of attempts key of None \<Rightarrow> True | Some w \<Rightarrow> aw_reset w < t0"
    and "0 < t0" and "0 \<le> window" and "0 \<le> limit"
    and "list_all (\<lambda>c. fst c \<le> t0 + window) cs"
    and "list_all (\<lambda>c. fst (snd (snd c)) = key \<longrightarrow> fst (snd (snd (snd c))) = limit) cs"
  shows "int (granted key ((t0, v, key, limit, window) # cs)
    (fst (allow_all ((t0, v, key, limit, window) # cs) attempts))) \<le> limit"
proof -
  obtain ok a1 where a1: "allow_at t0 v key limit window attempts = (ok, a1)" by force
  have "counted key 1 (t0 + window) a1" and ok: "ok = (1 \<le> limit)"
    using a1 assms(1-4)
    by (auto simp: allow_at_def Let_def counted_def update_conv' bumpWindow_def no_window_def
        split: option.splits)
  from allow_all_counted [OF this(1), of cs limit] assms allow_at_length [of attempts t0 v key limit window] a1
  have "int (granted key cs (fst (allow_all cs a1))) \<le> max 0 (limit - 1)" by simp
  then show ?thesis
    using ok assms(5) by (auto simp: a1 granted_def split: prod.splits)
qed

theorem limiter_bounds_attempts_witness:
  "int (granted ''k'' [(5, 0, ''k'', 1, 60), (6, 0, ''j'', 9, 60), (7, 0, ''k'', 1, 60)]
     (fst (allow_all [(5, 0, ''k'', 1, 60), (6, 0, ''j'', 9, 60), (7, 0, ''k'', 1, 60)] []))) \<le> 1"
  by (rule limiter_bounds_attempts) (simp_all add: attemptsCap_def)

lemma run_allowAttempt:
  "run_state (allowAttempt key limit window) s =
     (let (ok, attempts) = allow_at (w_clock s (w_ticks s)) (sv_victim s (sv_victims s)) key limit
                             window (sv_attempts s)
      in (ok, s\<lparr>w_ticks := Suc (w_ticks s), sv_attempts := attempts,
                sv_victims := Suc (sv_victims s)\<rparr>))"
  by (simp add: allowAttempt_def split: prod.split)

text \<open>
  The limiter's table never exceeds its cap and never holds a key twice, whatever keys callers
  make it count: a full table gives up an entry, and no caller is ever refused for want of room.
\<close>

lemma limiter_bounded:
  assumes "limiter_ok (sv_attempts s)"
  shows "limiter_ok (sv_attempts (exec (allowAttempt key limit window) s))"
  using allow_at_ok [OF assms] by (simp add: exec_def run_allowAttempt split_beta)

definition demo_server :: "db \<Rightarrow> server" where
  "demo_server d = world.extend (demo_world d)
     \<lparr>sv_attempts = [], sv_spent = \<lparr>sp_salts = [], sp_prune_at = 1024\<rparr>, sv_victim = (\<lambda>i. 0),
      sv_victims = 0\<rparr>"

section \<open>Spent puzzles\<close>

definition prune :: "int \<Rightarrow> pow_spent \<Rightarrow> pow_spent" where
  "prune now p =
     (if length (sp_salts p) \<ge> sp_prune_at p
      then (let live = filter (\<lambda>(s, e). \<not> e < now) (sp_salts p)
            in \<lparr>sp_salts = live, sp_prune_at = max 1024 (2 * length live)\<rparr>)
      else p)"

definition spend_at :: "int \<Rightarrow> string \<Rightarrow> int \<Rightarrow> pow_spent \<Rightarrow> bool \<times> pow_spent" where
  "spend_at now salt expiresAt p =
     (if (case map_of (sp_salts p) salt of None \<Rightarrow> False | Some e \<Rightarrow> now \<le> e) then (False, p)
      else (let q = prune now p
            in (True, q\<lparr>sp_salts := AList.update salt expiresAt (sp_salts q)\<rparr>)))"

definition spend :: "string \<Rightarrow> int \<Rightarrow> (bool, 'z) sio" where
  "spend salt expiresAt = do {
     t \<leftarrow> time_Now;
     s \<leftarrow> getS;
     let (ok, p) = spend_at (unix_of t) salt expiresAt (sv_spent s);
     modifyS (\<lambda>s. s\<lparr>sv_spent := p\<rparr>);
     ret ok }"

text \<open>Once a salt is recorded it stays recorded until its expiry has passed.\<close>

definition is_spent :: "string \<Rightarrow> int \<Rightarrow> int \<Rightarrow> pow_spent \<Rightarrow> bool" where
  "is_spent salt e now p \<longleftrightarrow> e < now \<or> map_of (sp_salts p) salt = Some e"

lemma map_of_filter_values:
  "distinct (map fst xs) \<Longrightarrow>
     map_of (filter (\<lambda>(k, v). P v) xs) s =
       (case map_of xs s of None \<Rightarrow> None | Some v \<Rightarrow> if P v then Some v else None)"
proof (induction xs)
  case (Cons x xs)
  have "map_of xs (fst x) = None" using Cons.prems by (simp add: map_of_eq_None_iff)
  then show ?case using Cons by (cases x) (auto split: option.splits)
qed simp

lemma map_of_prune:
  "distinct (map fst (sp_salts p)) \<Longrightarrow>
     map_of (sp_salts (prune now p)) s = (case map_of (sp_salts p) s of
        None \<Rightarrow> None
      | Some e \<Rightarrow> if length (sp_salts p) \<ge> sp_prune_at p \<and> e < now then None else Some e)"
  by (auto simp: prune_def Let_def map_of_filter_values split: option.splits)

end
