(* ===== verification/Json.thy ===== *)
theory Json
  imports Prelude GoStrings
begin

text \<open>
  JSON values, as Go decodes them into \<^verbatim>\<open>any\<close> and encodes them from maps: an object is the list of
  its members, in the order a \<^verbatim>\<open>range\<close> over the Go map happens to visit them (Go randomises it, so
  every order is possible); its keys are distinct. A number is an integer literal, or another
  literal kept as text.
\<close>

datatype json =
    JNull
  | JBool bool
  | JNum int
  | JFloat string
  | JStr string
  | JList "json list"
  | JObj "(string \<times> json) list"

definition json_get :: "(string \<times> json) list \<Rightarrow> string \<Rightarrow> json option" where
  "json_get m k = map_of m k"

text \<open>Go's \<^verbatim>\<open>v.(string)\<close>.\<close>

definition as_string :: "json \<Rightarrow> string option" where
  "as_string j = (case j of JStr s \<Rightarrow> Some s | _ \<Rightarrow> None)"

text \<open>A field tagged \<^verbatim>\<open>omitempty\<close>.\<close>

definition omit_empty :: "string \<Rightarrow> string \<Rightarrow> (string \<times> json) list" where
  "omit_empty k s = (if s = [] then [] else [(k, JStr s)])"

section \<open>Decoding into structs\<close>

text \<open>
  \<^verbatim>\<open>json.Unmarshal\<close> into a struct: a member fills the field its key names up to letter case (ASCII),
  a later one overwrites an earlier one, \<^verbatim>\<open>null\<close> leaves the field alone, another type is an error.
\<close>

definition json_members :: "json \<Rightarrow> (string \<times> json) list option" where
  "json_members j = (case j of JObj m \<Rightarrow> Some m | JNull \<Rightarrow> Some [] | _ \<Rightarrow> None)"

fun field_string :: "string \<Rightarrow> string \<Rightarrow> (string \<times> json) list \<Rightarrow> string option" where
  "field_string n acc [] = Some acc"
| "field_string n acc ((k, v) # m) =
     (if equal_fold k n
      then (case v of JNull \<Rightarrow> field_string n acc m | JStr s \<Rightarrow> field_string n s m | _ \<Rightarrow> None)
      else field_string n acc m)"

fun field_int64 :: "string \<Rightarrow> int \<Rightarrow> (string \<times> json) list \<Rightarrow> int option" where
  "field_int64 n acc [] = Some acc"
| "field_int64 n acc ((k, v) # m) =
     (if equal_fold k n
      then (case v of
              JNull \<Rightarrow> field_int64 n acc m
            | JNum i \<Rightarrow> if int64_range i then field_int64 n i m else None
            | _ \<Rightarrow> None)
      else field_int64 n acc m)"

text \<open>A \<^verbatim>\<open>json.RawMessage\<close> field: the last value of that name, \<^verbatim>\<open>null\<close> included.\<close>

definition field_raw :: "string \<Rightarrow> (string \<times> json) list \<Rightarrow> json option" where
  "field_raw n m = map_of (map (\<lambda>(k, v). ((), v)) (filter (\<lambda>(k, v). equal_fold k n) (rev m))) ()"

text \<open>Into \<^verbatim>\<open>[]string\<close>.\<close>

definition string_list :: "json list \<Rightarrow> string list option" where
  "string_list xs = those (map (\<lambda>v. case v of JStr s \<Rightarrow> Some s | JNull \<Rightarrow> Some '''' | _ \<Rightarrow> None) xs)"

end
