(* ===== verification/Server.thy ===== *)
theory Server
  imports ServerState Sessions Json
begin

text \<open>
  internal/api/server.go: the request filters every request passes (CORS, preflight, CSRF, cross-site
  sign-in), the guards of the routes, and the client keys of the rate limiter. Parsing a URL
  (\<^verbatim>\<open>net/url\<close>) is a parameter that returns the scheme and host of a string.
\<close>

section \<open>Responses\<close>

datatype body = NoBody | Text string | Body json

record response =
  rs_status :: int
  rs_headers :: "(string \<times> string) list"
  rs_cookies :: "cookie list"
  rs_body :: body

definition reply :: "int \<Rightarrow> json \<Rightarrow> response" where
  "reply status data =
     \<lparr>rs_status = status, rs_headers = [(''Content-Type'', ''application/json'')], rs_cookies = [],
      rs_body = Body data\<rparr>"

definition error_reply :: "int \<Rightarrow> string \<Rightarrow> response" where
  "error_reply status message = reply status (JObj [(''error'', JStr message)])"

definition writeJSON :: "int \<Rightarrow> json \<Rightarrow> (response, 'z) sio" where
  "writeJSON status data = ret (reply status data)"

definition writeError :: "int \<Rightarrow> string \<Rightarrow> (response, 'z) sio" where
  "writeError status message = writeJSON status (JObj [(''error'', JStr message)])"

type_synonym 'z handler = "request \<Rightarrow> (response, 'z) sio"

section \<open>Clients\<close>

definition requestIP :: "config \<Rightarrow> request \<Rightarrow> string" where
  "requestIP cfg r = ClientIP r (c_trusted_proxies (cfg_security cfg))"

definition limiterIP :: "config \<Rightarrow> request \<Rightarrow> string" where
  "limiterIP cfg r = RateLimitKey (requestIP cfg r)"

section \<open>Guards\<close>

definition refuse :: "err \<Rightarrow> (response, 'z) sio" where
  "refuse e =
     (if e = ErrPasswordChangeRequired
      then writeJSON 403 (JObj [(''error'', JStr ''Change your password before continuing''),
                                (''code'', JStr ''password_change_required'')])
      else writeError 401 ''Authentication required'')"

definition requireAdmin :: "config \<Rightarrow> 'z handler \<Rightarrow> 'z handler" where
  "requireAdmin cfg h r = do {
     a \<leftarrow> AuthenticateRequest (cfg_security cfg) r;
     case a of
       Inl e \<Rightarrow> refuse e
     | Inr (u, s) \<Rightarrow>
         if u_role u \<noteq> ''admin'' then writeError 403 ''Administrator role required'' else h r }"

definition requireAuthenticated :: "config \<Rightarrow> 'z handler \<Rightarrow> 'z handler" where
  "requireAuthenticated cfg h r = do {
     a \<leftarrow> AuthenticateRequest (cfg_security cfg) r;
     case a of Inl e \<Rightarrow> refuse e | Inr us \<Rightarrow> h r }"

section \<open>The filters\<close>

type_synonym url_parser = "string \<Rightarrow> (string \<times> string) option"

definition isUnsafeMethod :: "string \<Rightarrow> bool" where
  "isUnsafeMethod m \<longleftrightarrow> m \<noteq> ''GET'' \<and> m \<noteq> ''HEAD'' \<and> m \<noteq> ''OPTIONS''"

definition hasSessionCookie :: "config \<Rightarrow> request \<Rightarrow> bool" where
  "hasSessionCookie cfg r \<longleftrightarrow>
     cookie_value r (CookieName SessionCookieName (c_host_cookies (cfg_security cfg))) \<noteq> ''''"

definition isSignIn :: "string \<Rightarrow> bool" where
  "isSignIn path \<longleftrightarrow> path = ''/api/auth/login''"

definition csrfExempt :: "string \<Rightarrow> bool" where
  "csrfExempt path = isSignIn path"

definition sameOrigin :: "url_parser \<Rightarrow> string \<Rightarrow> string \<Rightarrow> bool" where
  "sameOrigin parse origin appURL =
     (case parse appURL of
        None \<Rightarrow> False
      | Some (scheme, host) \<Rightarrow>
          if scheme = '''' \<or> host = '''' then False
          else (case parse origin of
                  None \<Rightarrow> False
                | Some (s, h) \<Rightarrow> s = scheme \<and> h = host))"

definition foreignOrigin :: "url_parser \<Rightarrow> request \<Rightarrow> string \<Rightarrow> string \<Rightarrow> bool" where
  "foreignOrigin parse r origin appURL =
     (if origin = '''' then False
      else if (case parse origin of
                 None \<Rightarrow> False | Some (s, h) \<Rightarrow> h \<noteq> '''' \<and> equal_fold h (rq_host r))
      then False
      else \<not> sameOrigin parse origin appURL)"

definition quoted :: "string \<Rightarrow> string" where
  "quoted s = CHR 0x27 # s @ [CHR 0x27]"

definition content_security_policy :: string where
  "content_security_policy =
     ''default-src '' @ quoted ''self'' @ ''; script-src '' @ quoted ''self'' @ ''; style-src '' @
     quoted ''self'' @ '' '' @ quoted ''unsafe-inline'' @ ''; img-src '' @ quoted ''self'' @
     '' data:; font-src '' @ quoted ''self'' @ ''; connect-src '' @ quoted ''self'' @
     ''; frame-ancestors '' @ quoted ''none'' @ ''; base-uri '' @ quoted ''self'' @
     ''; form-action '' @ quoted ''self''"

definition security_headers :: "url_parser \<Rightarrow> config \<Rightarrow> string \<Rightarrow> (string \<times> string) list" where
  "security_headers parse cfg origin =
     [(''X-Content-Type-Options'', ''nosniff''), (''X-Frame-Options'', ''DENY''),
      (''Referrer-Policy'', ''strict-origin-when-cross-origin''),
      (''Content-Security-Policy'', content_security_policy)] @
     (if c_cookie_secure (cfg_security cfg)
      then [(''Strict-Transport-Security'', ''max-age=31536000; includeSubDomains'')] else []) @
     (if origin \<noteq> '''' \<and> sameOrigin parse origin (c_app_url (cfg_server cfg))
      then [(''Access-Control-Allow-Origin'', origin), (''Access-Control-Allow-Credentials'', ''true''),
            (''Vary'', ''Origin'')] else []) @
     [(''Access-Control-Allow-Methods'', ''GET, POST, PUT, PATCH, DELETE, OPTIONS''),
      (''Access-Control-Allow-Headers'', ''Content-Type, Authorization, X-CSRF-Token, X-KySignOn-Signature'')]"

text \<open>Headers set on the \<^verbatim>\<open>ResponseWriter\<close> before the handler runs.\<close>

definition with_headers ::
  "(string \<times> string) list \<Rightarrow> (response, 'z) sio \<Rightarrow> (response, 'z) sio" where
  "with_headers hs m = do { r \<leftarrow> m; ret (r\<lparr>rs_headers := hs @ rs_headers r\<rparr>) }"

definition plain_reply :: "int \<Rightarrow> string \<Rightarrow> response" where
  "plain_reply status text =
     \<lparr>rs_status = status, rs_headers = [], rs_cookies = [],
      rs_body = (if text = '''' then NoBody else Text text)\<rparr>"

definition ServeHTTP ::
  "url_parser \<Rightarrow> config \<Rightarrow> ('z handler \<Rightarrow> 'z handler) \<Rightarrow> 'z handler \<Rightarrow> 'z handler" where
  "ServeHTTP parse cfg scimAuth mux r = (
     let origin = header_get r ''Origin'';
         appURL = c_app_url (cfg_server cfg);
         site = header_get r ''Sec-Fetch-Site''
     in with_headers (security_headers parse cfg origin) (
       if rq_method r = ''OPTIONS'' then
         (if origin \<noteq> '''' \<and> \<not> sameOrigin parse origin appURL
          then ret (plain_reply 403 ''Origin not allowed'')
          else ret (plain_reply 200 ''''))
       else if isUnsafeMethod (rq_method r) \<and> hasSessionCookie cfg r \<and> \<not> csrfExempt (rq_path r) \<and>
               \<not> ValidateCSRF r (c_host_cookies (cfg_security cfg))
       then writeError 403 ''Invalid CSRF token''
       else if isUnsafeMethod (rq_method r) \<and> isSignIn (rq_path r) \<and>
               (site = ''cross-site'' \<or> site = ''same-site'' \<or> foreignOrigin parse r origin appURL)
       then writeError 403 ''Cross-site sign-in refused''
       else if has_prefix (rq_path r) ''/scim/v2'' then scimAuth mux r
       else mux r))"

section \<open>Properties of the filters\<close>

lemma run_with_headers:
  "run_state (with_headers hs m) s =
     (case run_state m s of (r, s') \<Rightarrow> (r\<lparr>rs_headers := hs @ rs_headers r\<rparr>, s'))"
  by (simp add: with_headers_def split: prod.split)

lemma run_writeError [simp]:
  "run_state (writeError status m) s = (error_reply status m, s)"
  "run_state (writeJSON status d) s = (reply status d, s)"
  by (simp_all add: writeError_def writeJSON_def error_reply_def)

lemma reply_status [simp]: "rs_status (reply c d) = c" "rs_status (error_reply c m) = c"
  by (simp_all add: reply_def error_reply_def)

text \<open>
  C31: no handler sees a state-changing request that a browser's session cookie authenticates unless
  it also carries the CSRF token of the cookie: without it the answer is 403 and nothing happens,
  whatever the handlers, on every path but sign-in.
\<close>

theorem csrf_enforced:
  assumes "rq_method r \<notin> {''GET'', ''HEAD'', ''OPTIONS''}" and "rq_path r \<noteq> ''/api/auth/login''"
    and "cookie_value r (CookieName ''ky_session'' (c_host_cookies (cfg_security cfg))) \<noteq> ''''"
    and "header_get r ''X-CSRF-Token'' = '''' \<or>
         cookie_value r (CookieName ''ky_csrf'' (c_host_cookies (cfg_security cfg))) \<noteq>
           header_get r ''X-CSRF-Token''"
  shows "rs_status (result (ServeHTTP parse cfg scimAuth mux r) s) = 403 \<and>
         exec (ServeHTTP parse cfg scimAuth mux r) s = s"
proof -
  have "\<not> ValidateCSRF r (c_host_cookies (cfg_security cfg))"
    using assms(4)
    by (auto simp: ValidateCSRF_def cookie_value_def CSRFCookieName_def HeaderCSRF_def
        split: option.splits)
  then show ?thesis
    using assms(1-3)
    by (auto simp: ServeHTTP_def Let_def isUnsafeMethod_def hasSessionCookie_def csrfExempt_def
        isSignIn_def SessionCookieName_def result_def exec_def run_with_headers)
qed

text \<open>
  Another site cannot sign a browser in: a sign-in request that the browser labels cross-site or
  same-site, or that comes with an Origin that is neither the host it was sent to nor the
  application's own, is refused before the handler runs.
\<close>

lemma cross_site_sign_in_refused:
  assumes "rq_method r = ''POST''" and "rq_path r = ''/api/auth/login''"
    and "header_get r ''Sec-Fetch-Site'' = ''cross-site'' \<or>
         header_get r ''Sec-Fetch-Site'' = ''same-site'' \<or>
         (case parse (header_get r ''Origin'') of
            None \<Rightarrow> header_get r ''Origin'' \<noteq> ''''
          | Some (sch, h) \<Rightarrow> header_get r ''Origin'' \<noteq> '''' \<and> \<not> equal_fold h (rq_host r) \<and>
              parse (c_app_url (cfg_server cfg)) \<noteq> Some (sch, h))"
  shows "rs_status (result (ServeHTTP parse cfg scimAuth mux r) s) = 403 \<and>
         exec (ServeHTTP parse cfg scimAuth mux r) s = s"
proof -
  have "header_get r ''Sec-Fetch-Site'' = ''cross-site'' \<or>
      header_get r ''Sec-Fetch-Site'' = ''same-site'' \<or>
      foreignOrigin parse r (header_get r ''Origin'') (c_app_url (cfg_server cfg))"
    using assms(3)
    by (auto simp: foreignOrigin_def sameOrigin_def split: option.splits prod.splits)
  then show ?thesis
    using assms(1,2)
    by (auto simp: ServeHTTP_def Let_def isUnsafeMethod_def isSignIn_def csrfExempt_def result_def
        exec_def run_with_headers)
qed

text \<open>
  Behind \<open>requireAdmin\<close> a handler runs only for an authenticated active administrator who does
  not have to change the password first; everyone else gets 401 or 403 and the handler does not run.
\<close>

lemma requireAdmin_guards:
  "case run_state (AuthenticateRequest (cfg_security cfg) r) s of
     (Inr (u, sess), s') \<Rightarrow>
       if u_role u = ''admin'' then run_state (requireAdmin cfg h r) s = run_state (h r) s'
       else run_state (requireAdmin cfg h r) s = (error_reply 403 ''Administrator role required'', s')
   | (Inl e, s') \<Rightarrow>
       rs_status (result (requireAdmin cfg h r) s) \<in> {401, 403} \<and>
       exec (requireAdmin cfg h r) s = s'"
  by (auto simp: requireAdmin_def refuse_def result_def exec_def split: prod.splits sum.splits)

definition demo_config :: config where
  "demo_config =
     \<lparr>cfg_server = \<lparr>c_host = '''', c_port = 8080, c_app_url = ''https://app'', c_app_name = ''app'',
        c_read_timeout = 0, c_write_timeout = 0, c_environment = ''production''\<rparr>,
      cfg_database = \<lparr>c_driver = ''sqlite'', c_dsn = '''', c_data_dir = '''', c_max_open_conns = 1,
        c_max_idle_conns = 1, c_conn_max_lifetime = 0\<rparr>,
      cfg_security = demo_security,
      cfg_sso = \<lparr>c_sso_enabled = True, c_kysignon_issuer = ''https://id'', c_kysignon_client_id = ''app'',
        c_kysignon_secret = '''', c_kysignon_hmac_secret = '''', c_oidc_issuer = '''',
        c_oidc_client_id = '''', c_oidc_secret = '''', c_saml_entity_id = '''',
        c_saml_metadata_url = '''', c_auto_provision = True\<rparr>,
      cfg_scim = \<lparr>c_scim_enabled = True, c_bearer_token = ''tok'', c_allow_admin = False\<rparr>,
      cfg_backup = \<lparr>c_backup_dir = '''', c_keep = 7, c_deposit_interval = 0,
        c_allow_private_recovery = False\<rparr>,
      cfg_captcha = \<lparr>c_provider = ''none'', c_site_key = '''', c_secret_key = '''',
        c_difficulty_pow = 1\<rparr>\<rparr>"

definition demo_url :: url_parser where
  "demo_url s =
     (if s = ''https://app'' then Some (''https'', ''app'')
      else if s = ''https://evil'' then Some (''https'', ''evil'') else None)"

definition forged_post :: "string \<Rightarrow> request" where
  "forged_post path = (demo_request ''9.9.9.9:80'' [])\<lparr>rq_path := path,
     rq_headers := [(''Origin'', ''https://evil'')], rq_cookies := [(''__Host-ky_session'', ''abc'')]\<rparr>"

lemmas forged_simps = forged_post_def demo_request_def demo_config_def demo_security_def
  header_get_def header_values_def cookie_value_def request_cookie_def CookieName_def

theorem csrf_enforced_witness:
  "rs_status (result (ServeHTTP demo_url demo_config (\<lambda>h. h) (\<lambda>r. writeError 200 ''ran'')
     (forged_post ''/api/settings/theme'')) (demo_server demo_db)) = 403"
proof -
  have "rs_status (result (ServeHTTP demo_url demo_config (\<lambda>h. h) (\<lambda>r. writeError 200 ''ran'')
     (forged_post ''/api/settings/theme'')) (demo_server demo_db)) = 403 \<and>
    exec (ServeHTTP demo_url demo_config (\<lambda>h. h) (\<lambda>r. writeError 200 ''ran'')
     (forged_post ''/api/settings/theme'')) (demo_server demo_db) = demo_server demo_db"
    by (rule csrf_enforced) (simp_all add: forged_simps)
  then show ?thesis by blast
qed

end
