(* ===== verification/ProofOfWork.thy ===== *)
theory ProofOfWork
  imports ServerState
begin

text \<open>
  internal/auth/pow.go: the login puzzle. A challenge is signed, so the server keeps nothing for
  it until it is solved; a solution is spent, so it buys one attempt. Decoding the client's JSON
  is a parameter: a function from bytes to the solution they encode.
\<close>

section \<open>Definitions\<close>

record pow_challenge =
  pc_algorithm :: string
  pc_salt :: string
  pc_challenge :: string
  pc_max_number :: int
  pc_expires_at :: int
  pc_signature :: string

record pow_solution =
  ps_algorithm :: string
  ps_salt :: string
  ps_challenge :: string
  ps_number :: int
  ps_max_number :: int
  ps_expires_at :: int
  ps_signature :: string

definition signature_payload :: "string \<Rightarrow> string \<Rightarrow> int \<Rightarrow> int \<Rightarrow> string" where
  "signature_payload salt challenge maxn expires =
     salt @ '':'' @ challenge @ '':'' @ itoa maxn @ '':'' @ itoa expires"

text \<open>\<^verbatim>\<open>rand.Int\<close>: a number below the bound, drawn from random bytes; every one can be drawn.\<close>

definition rand_Int :: "int \<Rightarrow> (int, 'z) io" where
  "rand_Int bound = do { b \<leftarrow> random_bytes 8; ret (int (of_octets (map of_char b)) mod bound) }"

definition puzzle :: "string \<Rightarrow> int \<Rightarrow> string" where
  "puzzle salt n = hex_encode (sha256 (salt @ itoa n))"

definition GeneratePoWChallenge :: "int \<Rightarrow> string \<Rightarrow> (pow_challenge, 'z) io" where
  "GeneratePoWChallenge difficulty0 signingSecret = (
     let difficulty = (if difficulty0 \<le> 0 then DefaultPoWDifficulty else difficulty0)
     in do {
       saltBytes \<leftarrow> random_bytes 16;
       let salt = hex_encode saltBytes;
       n \<leftarrow> rand_Int difficulty;
       let target = n + 1;
       let challenge = puzzle salt target;
       now \<leftarrow> time_Now;
       let expires = unix_of (now + 5 * minute);
       ret \<lparr>pc_algorithm = ''SHA-256'', pc_salt = salt, pc_challenge = challenge,
            pc_max_number = difficulty, pc_expires_at = expires,
            pc_signature = ComputeHMACSHA256 (signature_payload salt challenge difficulty expires)
                             signingSecret\<rparr> })"

definition well_formed :: "pow_solution \<Rightarrow> int \<Rightarrow> bool" where
  "well_formed sol now \<longleftrightarrow>
     \<not> (ps_algorithm sol \<noteq> ''SHA-256'' \<or> ps_salt sol = '''' \<or> ps_challenge sol = '''' \<or>
        ps_signature sol = '''' \<or> ps_number sol < 1 \<or> ps_max_number sol < 1 \<or>
        ps_number sol > ps_max_number sol \<or> ps_expires_at sol < now)"

definition solved :: "pow_solution \<Rightarrow> string \<Rightarrow> bool" where
  "solved sol signingSecret \<longleftrightarrow>
     VerifyHMACSHA256
       (signature_payload (ps_salt sol) (ps_challenge sol) (ps_max_number sol) (ps_expires_at sol))
       signingSecret (ps_signature sol) \<and>
     puzzle (ps_salt sol) (ps_number sol) = ps_challenge sol"

definition decode_solution ::
  "(string \<Rightarrow> pow_solution option) \<Rightarrow> string \<Rightarrow> pow_solution option" where
  "decode_solution unmarshal token =
     (case (case b64_decode_std token of Some d \<Rightarrow> Some d | None \<Rightarrow> b64_decode_raw std_chars token) of
        None \<Rightarrow> None
      | Some data \<Rightarrow> unmarshal data)"

definition VerifyPoWSolution ::
  "(string \<Rightarrow> pow_solution option) \<Rightarrow> string \<Rightarrow> string \<Rightarrow> (bool, 'z) sio" where
  "VerifyPoWSolution unmarshal token signingSecret =
     (case decode_solution unmarshal token of
        None \<Rightarrow> ret False
      | Some sol \<Rightarrow> do {
          now \<leftarrow> time_Now;
          if \<not> well_formed sol (unix_of now) then ret False
          else if \<not> solved sol signingSecret then ret False
          else spend (ps_salt sol) (ps_expires_at sol) })"

section \<open>A puzzle can be solved\<close>

definition solution_of :: "pow_challenge \<Rightarrow> int \<Rightarrow> pow_solution" where
  "solution_of c n =
     \<lparr>ps_algorithm = pc_algorithm c, ps_salt = pc_salt c, ps_challenge = pc_challenge c,
      ps_number = n, ps_max_number = pc_max_number c, ps_expires_at = pc_expires_at c,
      ps_signature = pc_signature c\<rparr>"

lemma length_sha_block: "length hs = 8 \<Longrightarrow> length (foldl sha_round hs xs) = 8"
proof (induction xs arbitrary: hs)
  case (Cons x xs)
  have "length (sha_round hs x) = 8"
    using Cons.prems by (cases "(hs, x)" rule: sha_round.cases) (simp_all add: Let_def)
  then show ?case using Cons.IH by simp
qed simp

lemma length_sha256 [simp]: "length (sha256 s) = 32"
proof -
  have "length (foldl sha_block hs bs) = 8" if "length hs = 8" for hs bs
    using that by (induction bs arbitrary: hs) (simp_all add: sha_block_def length_sha_block)
  from this [of H256] show ?thesis
    by (simp add: sha256_def Let_def length_concat comp_def be_bytes_def H256_def
        sum_list_const_mult sum_list_triv)
qed

lemma hex_nonempty [simp]: "hex_encode (sha256 s) \<noteq> []" "ComputeHMACSHA256 d k \<noteq> []"
  by (metis length_hex_encode length_sha256 list.size(3) mult_is_0 rel_simps(76) zero_neq_numeral)
    (metis ComputeHMACSHA256_def hmac_sha256_def length_hex_encode length_sha256 list.size(3)
      mult_is_0 rel_simps(76) zero_neq_numeral)

text \<open>
  C33: every challenge the server issues can be solved: some number within its bound makes the
  server accept the solution, whenever it has not expired and its salt was not spent.
\<close>

theorem pow_solvable:
  assumes "run_state (GeneratePoWChallenge d k) w = (c, w')"
  shows "\<exists>n. 1 \<le> n \<and> n \<le> pc_max_number c \<and>
    (\<forall>unmarshal token s. decode_solution unmarshal token = Some (solution_of c n) \<longrightarrow>
       unix_of (w_clock s (w_ticks s)) \<le> pc_expires_at c \<longrightarrow>
       map_of (sp_salts (sv_spent s)) (pc_salt c) = None \<longrightarrow>
       result (VerifyPoWSolution unmarshal token k) s)"
proof -
  define diff where "diff = (if d \<le> 0 then DefaultPoWDifficulty else d)"
  define salt where "salt = hex_encode (map (w_rand w (w_draws w)) [0..<16])"
  define t where "t = int (of_octets (map of_char (map (w_rand w (Suc (w_draws w))) [0..<8]))) mod diff + 1"
  have pos: "0 < diff" by (simp add: diff_def DefaultPoWDifficulty_def)
  have t: "1 \<le> t" "t \<le> diff"
    using pos_mod_sign [OF pos] pos_mod_bound [OF pos] unfolding t_def by (simp, smt (verit))
  have c: "pc_algorithm c = ''SHA-256''" "pc_salt c = salt" "pc_challenge c = puzzle salt t"
    "pc_max_number c = diff"
    "pc_signature c = ComputeHMACSHA256
       (signature_payload salt (puzzle salt t) diff (pc_expires_at c)) k"
    using assms
    by (auto simp: GeneratePoWChallenge_def rand_Int_def Let_def diff_def [symmetric] salt_def t_def comp_def)
  have "length salt = 32" by (simp add: salt_def)
  then have "salt \<noteq> []" by auto
  then have wf: "well_formed (solution_of c t) now" if "now \<le> pc_expires_at c" for now
    using that c t by (simp add: well_formed_def solution_of_def puzzle_def)
  moreover have "solved (solution_of c t) k"
    using c by (simp add: solved_def solution_of_def VerifyHMACSHA256_def)
  ultimately have "result (VerifyPoWSolution unmarshal token k) s"
    if "decode_solution unmarshal token = Some (solution_of c t)"
      "unix_of (w_clock s (w_ticks s)) \<le> pc_expires_at c"
      "map_of (sp_salts (sv_spent s)) (pc_salt c) = None" for unmarshal token and s :: "'c server_scheme"
    using that
    by (simp add: VerifyPoWSolution_def spend_def spend_at_def result_def solution_of_def Let_def)
  with t c(4) show ?thesis by (intro exI [of _ t]) auto
qed

theorem pow_solvable_witness:
  "\<exists>n. 1 \<le> n \<and> n \<le> pc_max_number (result (GeneratePoWChallenge 3 ''k'') (demo_world empty_db))"
  using pow_solvable [OF run_result_exec [of "GeneratePoWChallenge 3 ''k''" "demo_world empty_db"]]
  by auto

section \<open>A solution is spent once\<close>

definition clock_mono :: "'z world_scheme \<Rightarrow> bool" where
  "clock_mono w \<longleftrightarrow> (\<forall>i j. i \<le> j \<longrightarrow> w_clock w i \<le> w_clock w j)"

definition salts_ok :: "'z server_scheme \<Rightarrow> bool" where
  "salts_ok s \<longleftrightarrow> clock_mono s \<and> distinct (map fst (sp_salts (sv_spent s)))"

definition spent_in :: "'z server_scheme \<Rightarrow> string \<Rightarrow> int \<Rightarrow> bool" where
  "spent_in s salt e \<longleftrightarrow> is_spent salt e (unix_of (w_clock s (w_ticks s))) (sv_spent s)"

lemma spend_at_keeps:
  assumes "distinct (map fst (sp_salts p))" and "is_spent salt e now p"
  shows "is_spent salt e now (snd (spend_at now salt' e' p))"
  using assms
  by (auto simp: is_spent_def spend_at_def Let_def update_conv' map_of_prune
      simp del: map_of_eq_Some_iff split: option.splits)

lemma spend_at_distinct:
  "distinct (map fst (sp_salts p)) \<Longrightarrow> distinct (map fst (sp_salts (snd (spend_at now salt e p))))"
  by (auto simp: spend_at_def prune_def Let_def distinct_update distinct_map_filter)

lemma spend_at_spends:
  "fst (spend_at now salt e p) \<Longrightarrow> is_spent salt e now (snd (spend_at now salt e p))"
  by (auto simp: spend_at_def is_spent_def Let_def update_conv' split: if_splits)

lemma spend_at_again: "is_spent salt e now p \<Longrightarrow> now \<le> e \<Longrightarrow> \<not> fst (spend_at now salt e p)"
  by (auto simp: spend_at_def is_spent_def)

lemma is_spent_later: "is_spent salt e now p \<Longrightarrow> now \<le> now' \<Longrightarrow> is_spent salt e now' p"
  by (auto simp: is_spent_def)

text \<open>The three ways a verification can run.\<close>

lemma verify_cases:
  assumes "run_state (VerifyPoWSolution un tok k) s = (b, s')"
  obtains (unread) "b = False" "s' = s"
  | (refused) "b = False" "s' = s\<lparr>w_ticks := Suc (w_ticks s)\<rparr>"
  | (tried) sol where "decode_solution un tok = Some sol"
      "unix_of (w_clock s (w_ticks s)) \<le> ps_expires_at sol"
      "b = fst (spend_at (unix_of (w_clock s (Suc (w_ticks s)))) (ps_salt sol) (ps_expires_at sol) (sv_spent s))"
      "s' = s\<lparr>w_ticks := Suc (Suc (w_ticks s)), sv_spent :=
         snd (spend_at (unix_of (w_clock s (Suc (w_ticks s)))) (ps_salt sol) (ps_expires_at sol) (sv_spent s))\<rparr>"
proof (cases "decode_solution un tok")
  case None
  with assms that(1) show thesis by (simp add: VerifyPoWSolution_def)
next
  case (Some sol)
  show thesis
  proof (cases "well_formed sol (unix_of (w_clock s (w_ticks s))) \<and> solved sol k")
    case True
    with assms Some show thesis
      by (intro that(3) [OF Some])
        (auto simp: VerifyPoWSolution_def spend_def well_formed_def split_beta)
  next
    case False
    with assms Some that(2) show thesis
      by (auto simp: VerifyPoWSolution_def split: if_splits)
  qed
qed

lemma clock_le: "clock_mono w \<Longrightarrow> i \<le> j \<Longrightarrow> unix_of (w_clock w i) \<le> unix_of (w_clock w j)"
  by (simp add: clock_mono_def unix_of_mono)

lemma verify_keeps:
  assumes run: "run_state (VerifyPoWSolution un tok k) s = (b, s')" and ok: "salts_ok s"
  shows "salts_ok s'" and "spent_in s salt e \<Longrightarrow> spent_in s' salt e"
proof -
  have m: "clock_mono s" and d: "distinct (map fst (sp_salts (sv_spent s)))"
    using ok by (simp_all add: salts_ok_def)
  from run show "salts_ok s'"
    by (cases rule: verify_cases) (use m d in \<open>simp_all add: salts_ok_def clock_mono_def spend_at_distinct\<close>)
  assume sp: "spent_in s salt e"
  have later: "is_spent salt e (unix_of (w_clock s j)) (sv_spent s)" if "w_ticks s \<le> j" for j
    using sp clock_le [OF m that] by (auto simp: spent_in_def intro: is_spent_later)
  from run show "spent_in s' salt e"
  proof (cases rule: verify_cases)
    case (tried sol)
    have "is_spent salt e (unix_of (w_clock s (Suc (w_ticks s))))
        (snd (spend_at (unix_of (w_clock s (Suc (w_ticks s)))) (ps_salt sol) (ps_expires_at sol) (sv_spent s)))"
      by (rule spend_at_keeps [OF d later]) simp
    then show ?thesis
      using clock_le [OF m, of "Suc (w_ticks s)" "Suc (Suc (w_ticks s))"] tried(4)
      by (auto simp: spent_in_def intro: is_spent_later)
  qed (use sp later in \<open>simp_all add: spent_in_def\<close>)
qed

lemma verify_spends:
  assumes run: "run_state (VerifyPoWSolution un tok k) s = (True, s')" and ok: "salts_ok s"
    and sol: "decode_solution un tok = Some sol"
  shows "spent_in s' (ps_salt sol) (ps_expires_at sol)"
proof -
  have m: "clock_mono s" using ok by (simp add: salts_ok_def)
  let ?now = "unix_of (w_clock s (Suc (w_ticks s)))"
  from run sol have b: "fst (spend_at ?now (ps_salt sol) (ps_expires_at sol) (sv_spent s))"
    and s': "s' = s\<lparr>w_ticks := Suc (Suc (w_ticks s)), sv_spent :=
         snd (spend_at ?now (ps_salt sol) (ps_expires_at sol) (sv_spent s))\<rparr>"
    by (auto elim!: verify_cases)
  show ?thesis
    using spend_at_spends [OF b] clock_le [OF m, of "Suc (w_ticks s)" "Suc (Suc (w_ticks s))"]
    by (auto simp: s' spent_in_def intro: is_spent_later)
qed

lemma verify_again:
  assumes run: "run_state (VerifyPoWSolution un tok k) s = (True, s')"
    and "spent_in s (ps_salt sol) (ps_expires_at sol)" and sol: "decode_solution un tok = Some sol"
  shows "unix_of (w_clock s (w_ticks s)) \<le> ps_expires_at sol \<and>
         ps_expires_at sol < unix_of (w_clock s (Suc (w_ticks s)))"
  using assms
  by (auto elim!: verify_cases simp: spent_in_def is_spent_def spend_at_def split: if_splits)

section \<open>Any number of verifications\<close>

fun verify_all ::
  "(string \<Rightarrow> pow_solution option) \<Rightarrow> string \<Rightarrow> string list \<Rightarrow> (bool list, 'z) sio" where
  "verify_all un k [] = ret []"
| "verify_all un k (t # ts) = do {
     b \<leftarrow> VerifyPoWSolution un t k;
     bs \<leftarrow> verify_all un k ts;
     ret (b # bs) }"

lemma verify_all_keeps:
  "run_state (verify_all un k ts) s = (bs, s') \<Longrightarrow> salts_ok s \<Longrightarrow>
     salts_ok s' \<and> (spent_in s salt e \<longrightarrow> spent_in s' salt e)"
proof (induction ts arbitrary: s bs)
  case (Cons t ts)
  obtain b s1 where v: "run_state (VerifyPoWSolution un t k) s = (b, s1)" by force
  note k = verify_keeps [OF v Cons.prems(2)]
  obtain bs' where r: "run_state (verify_all un k ts) s1 = (bs', s')"
    using Cons.prems(1) v by (auto split: prod.splits)
  from Cons.IH [OF r k(1)] k(2) show ?case by blast
qed simp


text \<open>A genuine solution of a challenge with the given salt and expiry.\<close>

definition demo_solution :: "string \<Rightarrow> int \<Rightarrow> string \<Rightarrow> pow_solution" where
  "demo_solution salt e k =
     \<lparr>ps_algorithm = ''SHA-256'', ps_salt = salt, ps_challenge = puzzle salt 1, ps_number = 1,
      ps_max_number = 1, ps_expires_at = e,
      ps_signature = ComputeHMACSHA256 (signature_payload salt (puzzle salt 1) 1 e) k\<rparr>"

lemma demo_solution_good:
  "salt \<noteq> [] \<Longrightarrow> well_formed (demo_solution salt e k) now = (now \<le> e)"
  "solved (demo_solution salt e k) k"
  by (auto simp: well_formed_def solved_def demo_solution_def VerifyHMACSHA256_def puzzle_def)

text \<open>A replay: the clock ticks over between the fourth and fifth readings.\<close>

definition replay_server :: server where
  "replay_server = (demo_server empty_db)\<lparr>w_clock := (\<lambda>i. time_Unix (if i < 3 then 5 else 6))\<rparr>"

definition replay_unmarshal :: "string \<Rightarrow> pow_solution option" where
  "replay_unmarshal d = Some (demo_solution ''s'' 5 ''k'')"

lemma replay_decode: "decode_solution replay_unmarshal [] = Some (demo_solution ''s'' 5 ''k'')"
  by (simp add: decode_solution_def b64_decode_std_def b64_decode_raw_def replay_unmarshal_def)

lemma replay_ok: "salts_ok replay_server"
  by (simp add: salts_ok_def clock_mono_def replay_server_def demo_server_def world.extend_def
      time_Unix_def)

lemma replay_runs:
  "run_state (VerifyPoWSolution replay_unmarshal [] ''k'') replay_server =
     (True, replay_server\<lparr>w_ticks := 2, sv_spent := \<lparr>sp_salts = [(''s'', 5)], sp_prune_at = 1024\<rparr>\<rparr>)"
  "fst (run_state (VerifyPoWSolution replay_unmarshal [] ''k'')
     (replay_server\<lparr>w_ticks := 2, sv_spent := \<lparr>sp_salts = [(''s'', 5)], sp_prune_at = 1024\<rparr>\<rparr>)) = True"
  using demo_solution_good [of "''s''" 5 "''k''"] replay_decode
  by (simp_all add: VerifyPoWSolution_def spend_def spend_at_def prune_def demo_server_def
      replay_server_def world.extend_def demo_world_def demo_solution_def numeral_2_eq_2)



end
