(* ===== verification/Policy.thy ===== *)
theory Policy
  imports GoStrings
begin

text \<open>
  internal/auth/policy.go: which passwords, user names and email addresses are accepted. The two
  regular expressions are written out as the matches they define.
\<close>

definition in_range :: "char \<Rightarrow> char \<Rightarrow> char \<Rightarrow> bool" where
  "in_range lo hi c \<longleftrightarrow> (of_char lo :: nat) \<le> of_char c \<and> (of_char c :: nat) \<le> of_char hi"

definition is_letter :: "char \<Rightarrow> bool" where
  "is_letter c \<longleftrightarrow> in_range (CHR ''a'') (CHR ''z'') c \<or> in_range (CHR ''A'') (CHR ''Z'') c"

definition is_alnum :: "char \<Rightarrow> bool" where
  "is_alnum c \<longleftrightarrow> is_letter c \<or> in_range (CHR ''0'') (CHR ''9'') c"

datatype policy_error = ErrPasswordTooShort | ErrInvalidUsername | ErrInvalidEmail

definition ValidatePassword :: "string \<Rightarrow> policy_error option" where
  "ValidatePassword password =
     (if length (trim_space password) < 12 then Some ErrPasswordTooShort else None)"

text \<open>\<^verbatim>\<open>^[a-zA-Z0-9_\-\.]{3,64}$\<close>\<close>

definition usernameRegex :: "string \<Rightarrow> bool" where
  "usernameRegex s \<longleftrightarrow>
     3 \<le> length s \<and> length s \<le> 64 \<and> list_all (\<lambda>c. is_alnum c \<or> c \<in> set ''_-.'') s"

definition ValidateUsername :: "string \<Rightarrow> policy_error option" where
  "ValidateUsername username = (if \<not> usernameRegex username then Some ErrInvalidUsername else None)"

text \<open>\<^verbatim>\<open>^[a-zA-Z0-9._%+\-]+@[a-zA-Z0-9.\-]+\.[a-zA-Z]{2,}$\<close>: some split at an \<^verbatim>\<open>@\<close> and at a dot.\<close>

definition domain_match :: "string \<Rightarrow> bool" where
  "domain_match s =
     list_ex (\<lambda>j. s ! j = CHR ''.'' \<and> 1 \<le> j \<and>
        list_all (\<lambda>c. is_alnum c \<or> c \<in> set ''.-'') (take j s) \<and>
        2 \<le> length (drop (Suc j) s) \<and> list_all is_letter (drop (Suc j) s)) [0..<length s]"

definition emailRegex :: "string \<Rightarrow> bool" where
  "emailRegex s =
     list_ex (\<lambda>i. s ! i = CHR ''@'' \<and> 1 \<le> i \<and>
        list_all (\<lambda>c. is_alnum c \<or> c \<in> set ''._%+-'') (take i s) \<and> domain_match (drop (Suc i) s))
       [0..<length s]"

definition ValidateEmail :: "string \<Rightarrow> policy_error option" where
  "ValidateEmail email =
     (if email = '''' then None else if \<not> emailRegex email then Some ErrInvalidEmail else None)"

end
