(* ===== verification/Handlers.thy ===== *)
theory Handlers
  imports Server ProofOfWork Policy
begin

text \<open>
  The handlers of internal/api for sign-in, sign-out, the current user, the password, the settings
  and the account list (auth_handlers.go, password_handlers.go, settings_handlers.go,
  users_handlers.go). A decoded request body is an argument, \<open>None\<close> when it did not decode; the
  password package (github.com/Busnes-app/ky-primitives/password) is a parameter: verifying a
  password against a hash, which may fail, and hashing one with random salt. A time in a response
  stands for its RFC 3339 text.
\<close>

section \<open>Parameters and bodies\<close>

record passwords =
  pw_Verify :: "string \<Rightarrow> string \<Rightarrow> bool option"
  pw_Hash :: "string \<Rightarrow> string \<Rightarrow> string option"

definition verified :: "passwords \<Rightarrow> string \<Rightarrow> string \<Rightarrow> bool" where
  "verified P pw h \<longleftrightarrow> pw_Verify P pw h = Some True"

record login_request =
  lr_username :: string
  lr_password :: string
  lr_captcha_token :: string

record password_request =
  pr_current :: string
  pr_new :: string

definition user_json :: "user \<Rightarrow> json" where
  "user_json u = JObj (
     [(''id'', JStr (u_id u)), (''username'', JStr (u_username u)), (''email'', JStr (u_email u)),
      (''display_name'', JStr (u_display_name u)), (''role'', JStr (u_role u)),
      (''status'', JStr (u_status u)), (''sso_provider'', JStr (u_sso_provider u))] @
     omit_empty ''sso_subject'' (u_sso_subject u) @
     omit_empty ''push_device_id'' (u_push_device_id u) @
     [(''must_change_password'', JBool (u_must_change_password u)),
      (''created_at'', JNum (u_created_at u)), (''updated_at'', JNum (u_updated_at u))] @
     (case u_last_login_at u of None \<Rightarrow> [] | Some t \<Rightarrow> [(''last_login_at'', JNum t)]))"

section \<open>Sign-in\<close>

definition loginAccountLimit :: int where "loginAccountLimit = 10"
definition loginAccountWindow :: duration where "loginAccountWindow = 15 * minute"

definition challenge_json :: "pow_challenge \<Rightarrow> json" where
  "challenge_json c = JObj [(''algorithm'', JStr (pc_algorithm c)), (''salt'', JStr (pc_salt c)),
     (''challenge'', JStr (pc_challenge c)), (''maxnumber'', JNum (pc_max_number c)),
     (''expires_at'', JNum (pc_expires_at c)), (''signature'', JStr (pc_signature c))]"

definition handlePoWChallenge :: "config \<Rightarrow> 'z handler" where
  "handlePoWChallenge cfg r =
     (if rq_method r \<noteq> ''GET'' then writeError 405 ''Method not allowed''
      else do {
        c \<leftarrow> GeneratePoWChallenge (c_difficulty_pow (cfg_captcha cfg)) (c_session_secret (cfg_security cfg));
        writeJSON 200 (challenge_json c) })"

definition account_key :: "string \<Rightarrow> string \<Rightarrow> string" where
  "account_key username client =
     ''login-account:'' @ take 32 (SHA256Hex (to_lower username)) @ ''|'' @ client"

definition credentials_ok :: "passwords \<Rightarrow> string \<Rightarrow> user \<Rightarrow> bool" where
  "credentials_ok P pw u \<longleftrightarrow> u_password_hash u \<noteq> '''' \<and> verified P pw (u_password_hash u)"

definition login_account ::
  "passwords \<Rightarrow> config \<Rightarrow> request \<Rightarrow> string \<Rightarrow> string \<Rightarrow> string \<Rightarrow> (response, 'z) sio" where
  "login_account P cfg r username pw accountKey = do {
     found \<leftarrow> getUserByUsername username;
     case found of
       Inl e \<Rightarrow>
         if e \<noteq> ErrNotFound then writeError 500 ''Authentication error''
         else do {
           _ \<leftarrow> allowAttempt accountKey loginAccountLimit loginAccountWindow;
           writeError 401 ''Invalid credentials'' }
     | Inr u \<Rightarrow>
         if \<not> credentials_ok P pw u \<or> u_status u \<noteq> ''active'' then do {
           _ \<leftarrow> allowAttempt accountKey loginAccountLimit loginAccountWindow;
           writeError 401 ''Invalid credentials'' }
         else do {
           issued \<leftarrow> IssueSession (cfg_security cfg) r u;
           case issued of
             Inl e \<Rightarrow> writeError 500 ''Failed to issue session''
           | Inr (sess, raw, cookies) \<Rightarrow> do {
               _ \<leftarrow> logAudit (new_audit (u_id u) ''auth.login'' ''session'' '''' '''' 0);
               ret ((reply 200 (JObj [(''authenticated'', JBool True), (''user'', user_json u)]))
                 \<lparr>rs_cookies := cookies\<rparr>) } } }"

definition handleLogin ::
  "passwords \<Rightarrow> (string \<Rightarrow> pow_solution option) \<Rightarrow> config \<Rightarrow> login_request option \<Rightarrow> 'z handler" where
  "handleLogin P unmarshal cfg body r =
     (if rq_method r \<noteq> ''POST'' then writeError 405 ''Method not allowed''
      else do {
        let client = limiterIP cfg r;
        ok \<leftarrow> allowAttempt (''login:'' @ client) 20 minute;
        if \<not> ok then writeError 429 ''Too many login attempts''
        else case body of
          None \<Rightarrow> writeError 400 ''Invalid request body''
        | Some req \<Rightarrow> do {
            let username = trim_space (lr_username req);
            if username = '''' \<or> lr_password req = ''''
            then writeError 400 ''Username and password are required''
            else do {
              human \<leftarrow> (if c_provider (cfg_captcha cfg) = ''pow'' then
                          (if lr_captcha_token req = '''' then ret False
                           else VerifyPoWSolution unmarshal (lr_captcha_token req)
                                  (c_session_secret (cfg_security cfg)))
                        else ret True);
              if \<not> human
              then writeError 403 ''Security check failed. Please complete the CAPTCHA puzzle.''
              else do {
                let accountKey = account_key username client;
                exhausted \<leftarrow> attemptsExhausted accountKey loginAccountLimit;
                if exhausted then writeError 401 ''Invalid credentials''
                else login_account P cfg r username (lr_password req) accountKey } } } })"

section \<open>Sign-out and the current user\<close>

definition handleLogout :: "config \<Rightarrow> 'z handler" where
  "handleLogout cfg r =
     (if rq_method r \<noteq> ''POST'' then writeError 405 ''Method not allowed''
      else do {
        cookies \<leftarrow> RevokeSession (cfg_security cfg) r;
        ret ((reply 200 (JObj [(''logged_out'', JBool True)]))\<lparr>rs_cookies := cookies\<rparr>) })"

definition handleMe :: "config \<Rightarrow> 'z handler" where
  "handleMe cfg r = do {
     a \<leftarrow> AuthenticateRequest (cfg_security cfg) r;
     case a of
       Inl e \<Rightarrow> writeJSON 200 (JObj [(''authenticated'', JBool False)])
     | Inr (u, s) \<Rightarrow>
         writeJSON 200 (JObj [(''authenticated'', JBool True), (''user'', user_json u)]) }"

section \<open>The password\<close>

definition handleChangePassword ::
  "passwords \<Rightarrow> config \<Rightarrow> password_request option \<Rightarrow> 'z handler" where
  "handleChangePassword P cfg body r =
     (if rq_method r \<noteq> ''POST'' then writeError 405 ''Method not allowed''
      else do {
        a \<leftarrow> AuthenticateRequest (cfg_security cfg) r;
        case a of
          Inl e \<Rightarrow> writeError 401 ''Authentication required''
        | Inr (u, s) \<Rightarrow>
            if u_sso_provider u \<noteq> ''local''
            then writeError 409 ''This account signs in through its identity provider and has no local password''
            else do {
              ok1 \<leftarrow> allowAttempt (''password-change:'' @ limiterIP cfg r) 10 minute;
              ok \<leftarrow> (if \<not> ok1 then ret False
                     else allowAttempt (''password-change-user:'' @ u_id u) 5 minute);
              if \<not> ok then writeError 429 ''Too many password change attempts''
              else case body of
                None \<Rightarrow> writeError 400 ''Invalid request body''
              | Some req \<Rightarrow>
                  if length (pr_new req) > 1024 then writeError 400 ''Password is too long''
                  else if ValidatePassword (pr_new req) \<noteq> None
                  then writeError 400 ''password must be at least 12 characters''
                  else if pr_current req = pr_new req then writeError 400 ''Choose a different password''
                  else if \<not> verified P (pr_current req) (u_password_hash u)
                  then writeError 401 ''Current password is incorrect''
                  else do {
                    salt \<leftarrow> random_bytes 16;
                    case pw_Hash P salt (pr_new req) of
                      None \<Rightarrow> writeError 500 ''Failed to secure password''
                    | Some hash \<Rightarrow> do {
                        res \<leftarrow> completePasswordChange (u_id u) (u_password_hash u) hash (requestIP cfg r);
                        case res of
                          Inl e \<Rightarrow>
                            if e = ErrNotFound then writeError 409 ''Account changed; sign in again''
                            else writeError 500 ''Failed to change password''
                        | Inr _ \<Rightarrow> do {
                            cookies \<leftarrow> RevokeSession (cfg_security cfg) r;
                            ret ((reply 200 (JObj [(''password_changed'', JBool True),
                                                   (''login_required'', JBool True)]))
                                 \<lparr>rs_cookies := cookies\<rparr>) } } } } })"

section \<open>Settings\<close>

definition handleGetSettings :: "config \<Rightarrow> 'z handler" where
  "handleGetSettings cfg r = do {
     t \<leftarrow> getSetting ''site_theme'';
     let theme = (case t of Inl e \<Rightarrow> ''patina'' | Inr v \<Rightarrow> if v = '''' then ''patina'' else v);
     let out = [(''app_name'', JStr (c_app_name (cfg_server cfg))),
                (''app_url'', JStr (c_app_url (cfg_server cfg))), (''theme'', JStr theme),
                (''captcha_provider'', JStr (c_provider (cfg_captcha cfg))),
                (''sso_enabled'', JBool (c_sso_enabled (cfg_sso cfg)))];
     a \<leftarrow> AuthenticateRequest (cfg_security cfg) r;
     case a of
       Inl e \<Rightarrow> writeJSON 200 (JObj out)
     | Inr (u, s) \<Rightarrow> do {
         let out2 = out @ [(''scim_enabled'', JBool (c_scim_enabled (cfg_scim cfg))),
                           (''db_driver'', JStr (c_driver (cfg_database cfg)))];
         if u_role u = ''admin'' then do {
           all \<leftarrow> getAllSettings;
           case all of
             Inl e \<Rightarrow> writeError 500 ''Failed to load settings''
           | Inr kvs \<Rightarrow>
               writeJSON 200 (JObj (out2 @ [(''extra_settings'',
                 JObj (map (\<lambda>(k, v). (k, JStr v))
                   (filter (\<lambda>(k, v). \<not> has_prefix k ''kyrecovery_token'') kvs)))])) }
         else writeJSON 200 (JObj out2) } }"

definition handleSetTheme :: "string option \<Rightarrow> 'z handler" where
  "handleSetTheme body r =
     (if rq_method r \<noteq> ''POST'' then writeError 405 ''Method not allowed''
      else case body of
        None \<Rightarrow> writeError 400 ''Invalid theme''
      | Some theme \<Rightarrow>
          if theme = '''' then writeError 400 ''Invalid theme''
          else do {
            res \<leftarrow> setSetting ''site_theme'' theme;
            case res of
              Inl e \<Rightarrow> writeError 500 ''Failed to save theme''
            | Inr _ \<Rightarrow> writeJSON 200 (JObj [(''theme'', JStr theme)]) })"

section \<open>The account list\<close>

definition maxUserPage :: int where "maxUserPage = 200"

text \<open>\<^verbatim>\<open>n, _ := strconv.Atoi(s)\<close>: zero on a syntax error, the nearest int64 out of range.\<close>

definition atoi_value :: "string \<Rightarrow> int" where
  "atoi_value s =
     (case atoi s of
        Some i \<Rightarrow> i
      | None \<Rightarrow>
          (let neg = (s \<noteq> [] \<and> hd s = CHR ''-'');
               ds = (if s \<noteq> [] \<and> (hd s = CHR ''-'' \<or> hd s = CHR ''+'') then tl s else s)
           in if ds = [] \<or> digits_val 0 ds = None then 0
              else if neg then - (2 ^ 63) else 2 ^ 63 - 1))"

definition admin_user_json :: "user \<Rightarrow> json" where
  "admin_user_json u = JObj (
     [(''id'', JStr (u_id u)), (''username'', JStr (u_username u)),
      (''display_name'', JStr (u_display_name u)), (''email'', JStr (u_email u)),
      (''role'', JStr (u_role u)), (''status'', JStr (u_status u)),
      (''sso_provider'', JStr (u_sso_provider u)), (''scim_managed'', JBool (u_scim_managed u)),
      (''created_at'', JNum (u_created_at u))] @
     (case u_last_login_at u of None \<Rightarrow> [] | Some t \<Rightarrow> [(''last_login_at'', JNum t)]))"

definition handleListUsers :: "'z handler" where
  "handleListUsers r = do {
     let limit0 = atoi_value (query_get r ''limit'');
     let limit = min (if limit0 \<le> 0 then 50 else limit0) maxUserPage;
     let offset = max (atoi_value (query_get r ''offset'')) 0;
     res \<leftarrow> listUsers offset limit (query_get r ''search'');
     case res of
       Inl e \<Rightarrow> writeError 500 ''Failed to list users''
     | Inr (users, n) \<Rightarrow>
         writeJSON 200 (JObj [(''users'', JList (map admin_user_json users)),
           (''total'', JNum (int n)), (''offset'', JNum offset), (''limit'', JNum limit)]) }"

end
