(* ===== verification/HandlerFacts.thy ===== *)
theory HandlerFacts
  imports Handlers
begin

text \<open>
  What the handlers of sign-in, password change and settings guarantee: who gets a session, that a
  refused sign-in says nothing about the accounts, when a password changes, and which settings a
  response can hold.
\<close>

section \<open>Steps that do not touch the database\<close>

text \<open>
  The limiter and the puzzle keep their own state: they give the same answer whatever the database
  holds, and leave it and the oracles as they are.
\<close>

definition db_free :: "('a, 'z) sio \<Rightarrow> bool" where
  "db_free m \<longleftrightarrow> (\<forall>s. w_db (exec m s) = w_db s \<and> w_engine (exec m s) = w_engine s \<and>
     w_fault (exec m s) = w_fault s \<and> w_clock (exec m s) = w_clock s \<and>
     (\<forall>d. run_state m (s\<lparr>w_db := d\<rparr>) = (result m s, (exec m s)\<lparr>w_db := d\<rparr>)))"

lemma db_free_ret: "db_free (ret x)"
  by (simp add: db_free_def exec_def result_def)

lemma db_free_now: "db_free time_Now"
  by (simp add: db_free_def exec_def result_def)

lemma db_free_bind:
  assumes "db_free m" and "\<And>x. db_free (f x)"
  shows "db_free (State_Monad.bind m f)"
  using assms unfolding db_free_def exec_def result_def by (simp add: split_beta)

lemma db_free_allowAttempt: "db_free (allowAttempt key limit window)"
  by (simp add: db_free_def exec_def result_def run_allowAttempt split_beta Let_def)

lemma db_free_attemptsExhausted: "db_free (attemptsExhausted key limit)"
  by (simp add: db_free_def exec_def result_def attemptsExhausted_def split: option.split)

lemma db_free_spend: "db_free (spend salt e)"
  by (simp add: db_free_def exec_def result_def spend_def split_beta Let_def)

lemma db_free_VerifyPoWSolution: "db_free (VerifyPoWSolution unmarshal token k)"
  unfolding VerifyPoWSolution_def
  by (auto split: option.split intro!: db_free_ret db_free_bind db_free_now db_free_spend)

lemmas db_free_intros = db_free_ret db_free_bind db_free_now db_free_allowAttempt
  db_free_attemptsExhausted db_free_VerifyPoWSolution frame_if

lemma db_free_facts:
  assumes "db_free m" and run: "run_state m s = (x, s')"
  shows "w_db s' = w_db s" "w_engine s' = w_engine s" "w_fault s' = w_fault s" "w_clock s' = w_clock s"
    "run_state m (s\<lparr>w_db := d\<rparr>) = (x, s'\<lparr>w_db := d\<rparr>)"
  using assms(1) [unfolded db_free_def, THEN spec [of _ s]] run
  by (simp_all add: exec_def result_def)

section \<open>Sign-in\<close>

definition puzzle_step ::
  "(string \<Rightarrow> pow_solution option) \<Rightarrow> config \<Rightarrow> login_request \<Rightarrow> (bool, 'z) sio" where
  "puzzle_step unmarshal cfg req =
     (if c_provider (cfg_captcha cfg) = ''pow'' then
        (if lr_captcha_token req = '''' then ret False
         else VerifyPoWSolution unmarshal (lr_captcha_token req) (c_session_secret (cfg_security cfg)))
      else ret True)"

lemma db_free_puzzle: "db_free (puzzle_step unmarshal cfg req)"
  unfolding puzzle_step_def by (auto intro: db_free_intros)

definition login_name :: "login_request \<Rightarrow> string" where
  "login_name req = trim_space (lr_username req)"

definition login_decision :: "passwords \<Rightarrow> config \<Rightarrow> login_request \<Rightarrow> 'z handler" where
  "login_decision P cfg req r =
     login_account P cfg r (login_name req) (lr_password req)
       (account_key (login_name req) (limiterIP cfg r))"

text \<open>The steps before the accounts are consulted: their refusal, or nothing.\<close>

definition login_gate ::
  "(string \<Rightarrow> pow_solution option) \<Rightarrow> config \<Rightarrow> login_request option \<Rightarrow> request \<Rightarrow>
     (response + login_request, 'z) sio" where
  "login_gate unmarshal cfg body r =
     (if rq_method r \<noteq> ''POST'' then ret (Inl (error_reply 405 ''Method not allowed''))
      else do {
        ok \<leftarrow> allowAttempt (''login:'' @ limiterIP cfg r) 20 minute;
        if \<not> ok then ret (Inl (error_reply 429 ''Too many login attempts''))
        else case body of
          None \<Rightarrow> ret (Inl (error_reply 400 ''Invalid request body''))
        | Some req \<Rightarrow>
            if login_name req = '''' \<or> lr_password req = ''''
            then ret (Inl (error_reply 400 ''Username and password are required''))
            else do {
              human \<leftarrow> puzzle_step unmarshal cfg req;
              if \<not> human
              then ret (Inl (error_reply 403 ''Security check failed. Please complete the CAPTCHA puzzle.''))
              else do {
                e \<leftarrow> attemptsExhausted (account_key (login_name req) (limiterIP cfg r)) loginAccountLimit;
                if e then ret (Inl (error_reply 401 ''Invalid credentials'')) else ret (Inr req) } } })"

lemma db_free_gate: "db_free (login_gate unmarshal cfg body r)"
  unfolding login_gate_def by (auto intro!: db_free_intros db_free_puzzle split: option.split)

lemma gate_refusal:
  "yields (login_gate unmarshal cfg body r)
     (\<lambda>x. case x of Inl resp \<Rightarrow> rs_status resp \<noteq> 200 \<and> rs_cookies resp = [] | Inr req \<Rightarrow> body = Some req)"
  unfolding login_gate_def
  by (intro yields_intros) (simp_all add: error_reply_def reply_def)

lemma gate_cases:
  "run_state (login_gate unmarshal cfg body r) s = (x, s1) \<Longrightarrow>
     (case x of Inl resp \<Rightarrow> rs_status resp \<noteq> 200 \<and> rs_cookies resp = [] | Inr req \<Rightarrow> body = Some req)"
  using yieldsD [OF gate_refusal [where unmarshal = unmarshal and cfg = cfg and body = body and r = r],
    where s = s]
  by (simp only: result_def fst_conv)

lemma run_handleLogin:
  "run_state (handleLogin P unmarshal cfg body r) s =
     (case run_state (login_gate unmarshal cfg body r) s of
        (Inl resp, s1) \<Rightarrow> (resp, s1)
      | (Inr req, s1) \<Rightarrow> run_state (login_decision P cfg req r) s1)"
  by (simp add: handleLogin_def login_gate_def Let_def login_name_def [symmetric]
      puzzle_step_def [symmetric] login_decision_def split: prod.split option.split)

lemma issue_refused:
  "run_state (IssueSession cfg r u) w = (Inl e, w') \<Longrightarrow> t_users (w_db w') = t_users (w_db w)"
  using createSession_effect
  by (fastforce simp: IssueSession_def issue_def Let_def RandomHex_run run_check
      split: prod.splits sum.splits)

lemma logAudit_db:
  "exec (logAudit a) w = w' \<Longrightarrow> t_users (w_db w') = t_users (w_db w) \<and> t_sessions (w_db w') = t_sessions (w_db w)"
  by (auto simp: logAudit_def exec_def run_stmt insert_audit_def split: if_splits)

lemma lookup_name:
  assumes "run_state (getUserByUsername n) w = (Inr u, w')"
  shows "u \<in> set (t_users (w_db w))" and "sql_lower (w_engine w) (u_username u) = sql_lower (w_engine w) n"
    and "w_db w' = w_db w"
  using assms
  by (auto simp: getUserByUsername_def run_stmt select_user_def same_name_def
      split: if_splits option.splits dest: find_SomeD)

text \<open>What a sign-in that answers 200 did.\<close>

definition signed_in :: "config \<Rightarrow> user \<Rightarrow> response \<Rightarrow> db \<Rightarrow> db \<Rightarrow> bool" where
  "signed_in cfg u resp d d' \<longleftrightarrow>
     (\<exists>sess tok csrf. t_sessions d' = t_sessions d @ [sess] \<and> s_user_id sess = u_id u \<and>
        s_token_hash sess = SHA256Hex tok \<and> tok \<noteq> '''' \<and>
        rs_cookies resp =
          [session_cookie (cfg_security cfg) SessionCookieName tok (s_expires_at sess) True,
           session_cookie (cfg_security cfg) CSRFCookieName csrf (s_expires_at sess) False])"

lemma login_decision_ok:
  assumes run: "run_state (login_decision P cfg req r) s = (resp, s')" and ok: "rs_status resp = 200"
  shows "\<exists>u \<in> set (t_users (w_db s)).
    sql_lower (w_engine s) (u_username u) = sql_lower (w_engine s) (login_name req) \<and>
    u_status u = ''active'' \<and> credentials_ok P (lr_password req) u \<and>
    signed_in cfg u resp (w_db s) (w_db s') \<and> t_users (w_db s') = t_users (w_db s)"
proof -
  obtain u s1 where g: "run_state (getUserByUsername (login_name req)) s = (Inr u, s1)"
    using run ok
    by (cases "run_state (getUserByUsername (login_name req)) s"; cases "fst (run_state (getUserByUsername (login_name req)) s)")
      (auto simp: login_decision_def login_account_def run_allowAttempt split: if_splits prod.splits)
  note u = lookup_name [OF g]
  have c: "credentials_ok P (lr_password req) u" "u_status u = ''active''"
    using run ok g
    by (auto simp: login_decision_def login_account_def run_allowAttempt split: if_splits prod.splits)
  obtain sess tok cks s2 where i: "run_state (IssueSession (cfg_security cfg) r u) s1 = (Inr (sess, tok, cks), s2)"
    using run ok g c
    by (cases "run_state (IssueSession (cfg_security cfg) r u) s1"; cases "fst (run_state (IssueSession (cfg_security cfg) r u) s1)")
      (auto simp: login_decision_def login_account_def)
  have fin: "rs_cookies resp = cks"
    "s' = exec (logAudit (new_audit (u_id u) ''auth.login'' ''session'' '''' '''' 0)) s2"
    using run g c i
    by (auto simp: login_decision_def login_account_def exec_def split: prod.splits)
  from i have i': "run_state (issue (cfg_security cfg) r u (w_clock s1 (w_ticks s1)) '''')
      (s1\<lparr>w_ticks := Suc (w_ticks s1)\<rparr>) = (Inr (sess, tok, cks), s2)"
    by (simp add: IssueSession_def)
  note ok = issue_ok [OF i']
  obtain csrf where "cks = [session_cookie (cfg_security cfg) SessionCookieName tok (s_expires_at sess) True,
      session_cookie (cfg_security cfg) CSRFCookieName csrf (s_expires_at sess) False]"
    using ok(12) by blast
  then have "signed_in cfg u resp (w_db s) (w_db s')"
    unfolding signed_in_def
    using ok(1,2,3,6) u(3) fin logAudit_db [OF fin(2) [symmetric]]
    by (intro exI [of _ sess] exI [of _ tok] exI [of _ csrf]) simp
  then show ?thesis
    using u c ok(6) logAudit_db [OF fin(2) [symmetric]] by (intro bexI [OF _ u(1)]) simp
qed

lemma login_decision_refused:
  assumes run: "run_state (login_decision P cfg req r) s = (resp, s')" and no: "rs_status resp \<noteq> 200"
  shows "t_users (w_db s') = t_users (w_db s) \<and> rs_cookies resp = []"
  using assms
  by (auto simp: login_decision_def login_account_def run_allowAttempt getUserByUsername_def run_stmt
      error_reply_def reply_def select_user_def dest!: issue_refused
      split: if_splits prod.splits sum.splits option.splits)

text \<open>A sign-in that answers 200.\<close>

definition accepted :: "passwords \<Rightarrow> config \<Rightarrow> login_request \<Rightarrow> user \<Rightarrow> response \<Rightarrow> engine \<Rightarrow> db \<Rightarrow> db \<Rightarrow> bool" where
  "accepted P cfg req u resp E d d' \<longleftrightarrow> u \<in> set (t_users d) \<and>
     sql_lower E (u_username u) = sql_lower E (trim_space (lr_username req)) \<and>
     u_status u = ''active'' \<and> u_password_hash u \<noteq> '''' \<and>
     pw_Verify P (lr_password req) (u_password_hash u) = Some True \<and>
     signed_in cfg u resp d d'"

lemma login_cases:
  assumes run: "run_state (handleLogin P unmarshal cfg body r) s = (resp, s')"
  shows "t_users (w_db s') = t_users (w_db s)"
    and "rs_status resp = 200 \<Longrightarrow>
      \<exists>req u. body = Some req \<and> accepted P cfg req u resp (w_engine s) (w_db s) (w_db s')"
    and "rs_status resp \<noteq> 200 \<Longrightarrow> rs_cookies resp = []"
proof -
  obtain x s1 where g: "run_state (login_gate unmarshal cfg body r) s = (x, s1)" by force
  note f = db_free_facts [OF db_free_gate g]
  have y: "case x of Inl resp \<Rightarrow> rs_status resp \<noteq> 200 \<and> rs_cookies resp = [] | Inr req \<Rightarrow> body = Some req"
    by (rule gate_cases [OF g])
  have d: "run_state (login_decision P cfg req r) s1 = (resp, s')" if "x = Inr req" for req
    using run g that by (simp add: run_handleLogin)
  have refused: "resp = e \<and> s' = s1" if "x = Inl e" for e
    using run g that by (simp add: run_handleLogin)
  have users: "t_users (w_db s') = t_users (w_db s1)" if "x = Inr req" for req
    using login_decision_ok [OF d [OF that]] login_decision_refused [OF d [OF that]]
    by (cases "rs_status resp = 200") auto
  show "t_users (w_db s') = t_users (w_db s)"
    using users refused f(1) by (cases x) auto
  show "\<exists>req u. body = Some req \<and> accepted P cfg req u resp (w_engine s) (w_db s) (w_db s')"
    if "rs_status resp = 200"
  proof (cases x)
    case (Inr req)
    with y login_decision_ok [OF d [OF Inr] that] f(1,2) show ?thesis
      by (auto simp: accepted_def credentials_ok_def verified_def login_name_def)
  qed (use refused y that in auto)
  show "rs_cookies resp = []" if "rs_status resp \<noteq> 200"
    using y refused login_decision_refused [OF d that] by (cases x) auto
qed

text \<open>
  C2: a sign-in answers 200 only when the body named, up to letter case, an active account whose
  stored hash the password verifies; then exactly one session was added, it belongs to that
  account, and the cookie carries the token whose hash it is. Any other answer sets no cookie. In
  no case does a sign-in change an account.
\<close>

theorem login_sound:
  "case run_state (handleLogin P unmarshal cfg body r) s of
     (resp, s') \<Rightarrow>
       t_users (w_db s') = t_users (w_db s) \<and>
       (if rs_status resp = 200
        then (\<exists>req. \<exists>u \<in> set (t_users (w_db s)). body = Some req \<and>
          sql_lower (w_engine s) (u_username u) = sql_lower (w_engine s) (trim_space (lr_username req)) \<and>
          u_status u = ''active'' \<and> u_password_hash u \<noteq> '''' \<and>
          pw_Verify P (lr_password req) (u_password_hash u) = Some True \<and>
          signed_in cfg u resp (w_db s) (w_db s'))
        else rs_cookies resp = [])"
proof (cases "run_state (handleLogin P unmarshal cfg body r) s")
  case (Pair resp s')
  note facts = login_cases [OF Pair]
  show ?thesis
  proof (cases "rs_status resp = 200")
    case True
    from facts(2) [OF this] obtain req u where "body = Some req"
      and "accepted P cfg req u resp (w_engine s) (w_db s) (w_db s')" by blast
    then show ?thesis using Pair True facts(1) by (auto simp: accepted_def)
  qed (use Pair facts in simp)
qed

text \<open>What an account table would say to a sign-in.\<close>

definition would_accept :: "passwords \<Rightarrow> login_request \<Rightarrow> engine \<Rightarrow> db \<Rightarrow> bool" where
  "would_accept P req E d \<longleftrightarrow>
     (case find (same_name (trim_space (lr_username req)) E) (t_users d) of
        None \<Rightarrow> False
      | Some u \<Rightarrow> u_status u = ''active'' \<and> u_password_hash u \<noteq> '''' \<and>
          pw_Verify P (lr_password req) (u_password_hash u) = Some True)"

lemma login_decision_alike:
  assumes "healthy s" and "\<not> would_accept P req (w_engine s) (w_db s)"
  shows "result (login_decision P cfg req r) s = error_reply 401 ''Invalid credentials''"
  using assms
  by (auto simp: would_accept_def login_decision_def login_account_def login_name_def result_def
      getUserByUsername_def run_stmt_healthy select_user_def run_allowAttempt credentials_ok_def
      verified_def split: option.splits prod.splits)

text \<open>
  C32: a refused sign-in reveals nothing of the accounts: two servers that differ only in their
  databases, neither of which accepts the credentials, give the same response, whether the name is
  unknown, the account disabled or without a password, the password wrong or the account's
  attempts exhausted.
\<close>

theorem login_refusals_alike:
  assumes "healthy s"
    and "case body of None \<Rightarrow> True | Some req \<Rightarrow>
      \<not> would_accept P req (w_engine s) (w_db s) \<and> \<not> would_accept P req (w_engine s) d"
  shows "result (handleLogin P unmarshal cfg body r) s =
    result (handleLogin P unmarshal cfg body r) (s\<lparr>w_db := d\<rparr>)"
proof -
  obtain x s1 where g: "run_state (login_gate unmarshal cfg body r) s = (x, s1)" by force
  note f = db_free_facts [OF db_free_gate g]
  have y: "case x of Inl resp \<Rightarrow> rs_status resp \<noteq> 200 \<and> rs_cookies resp = [] | Inr req \<Rightarrow> body = Some req"
    by (rule gate_cases [OF g])
  have h: "healthy s1" "healthy (s1\<lparr>w_db := d\<rparr>)"
    using assms(1) f(3) by (simp_all add: healthy_def)
  show ?thesis
  proof (cases x)
    case (Inl resp)
    then show ?thesis using g f(5) [of d] by (simp add: result_def run_handleLogin)
  next
    case (Inr req)
    then have "\<not> would_accept P req (w_engine s) (w_db s)" "\<not> would_accept P req (w_engine s) d"
      using y assms(2) by simp_all
    then have "result (login_decision P cfg req r) s1 = result (login_decision P cfg req r) (s1\<lparr>w_db := d\<rparr>)"
      using login_decision_alike [OF h(1), of P req cfg r] login_decision_alike [OF h(2), of P req cfg r]
        f(1,2) by simp
    then show ?thesis using g f(5) [of d] Inr by (simp add: result_def run_handleLogin)
  qed
qed

definition demo_passwords :: passwords where
  "demo_passwords = \<lparr>pw_Verify = (\<lambda>pw h. Some (pw = h)), pw_Hash = (\<lambda>salt pw. Some pw)\<rparr>"

definition demo_login :: "string \<Rightarrow> login_request" where
  "demo_login pw = \<lparr>lr_username = ''ann'', lr_password = pw, lr_captcha_token = ''''\<rparr>"

lemma demo_server_simps [simp]:
  "healthy (demo_server d)" "w_db (demo_server d) = d" "w_engine (demo_server d) = demo_engine"
  by (simp_all add: healthy_def demo_server_def world.extend_def demo_world_def)

theorem login_refusals_alike_witness:
  "result (handleLogin demo_passwords (\<lambda>x. None) demo_config (Some (demo_login ''wrong''))
       (demo_request ''9.9.9.9:80'' [])) (demo_server demo_db) =
   result (handleLogin demo_passwords (\<lambda>x. None) demo_config (Some (demo_login ''wrong''))
       (demo_request ''9.9.9.9:80'' [])) ((demo_server demo_db)\<lparr>w_db := empty_db\<rparr>)"
proof (rule login_refusals_alike)
  have name: "trim_space ''ann'' = ''ann''" by code_simp
  show "case Some (demo_login ''wrong'') of None \<Rightarrow> True | Some req \<Rightarrow>
      \<not> would_accept demo_passwords req (w_engine (demo_server demo_db)) (w_db (demo_server demo_db)) \<and>
      \<not> would_accept demo_passwords req (w_engine (demo_server demo_db)) empty_db"
    by (simp add: would_accept_def demo_login_def demo_passwords_def demo_db_def empty_db_def
        demo_user_def same_name_def demo_engine_def name)
qed simp

section \<open>Changing the password\<close>

text \<open>The database after account \<open>u\<close> changed its password to one hashed \<open>h\<close>.\<close>

definition password_changed :: "user \<Rightarrow> string \<Rightarrow> db \<Rightarrow> db \<Rightarrow> bool" where
  "password_changed u h d d' \<longleftrightarrow>
     (\<exists>now. t_users d' = map (\<lambda>v. if u_id v = u_id u \<and> u_sso_provider v = ''local''
        then v\<lparr>u_password_hash := h, u_must_change_password := False, u_updated_at := now\<rparr> else v)
        (t_users d)) \<and>
     list_all (\<lambda>x. s_user_id x \<noteq> u_id u) (t_sessions d')"

lemma RevokeSession_db:
  "run_state (RevokeSession cfg r) w = (x, w') \<Longrightarrow>
     t_users (w_db w') = t_users (w_db w) \<and> set (t_sessions (w_db w')) \<subseteq> set (t_sessions (w_db w))"
  by (auto simp: RevokeSession_def Let_def deleteSession_def run_stmt delete_sessions_def
      split: if_splits)

text \<open>The part of the handler after authentication and the limiter.\<close>

definition change_decision :: "passwords \<Rightarrow> config \<Rightarrow> user \<Rightarrow> password_request option \<Rightarrow> 'z handler" where
  "change_decision P cfg u body r =
     (case body of
        None \<Rightarrow> writeError 400 ''Invalid request body''
      | Some req \<Rightarrow>
          if length (pr_new req) > 1024 then writeError 400 ''Password is too long''
          else if ValidatePassword (pr_new req) \<noteq> None
          then writeError 400 ''password must be at least 12 characters''
          else if pr_current req = pr_new req then writeError 400 ''Choose a different password''
          else if \<not> verified P (pr_current req) (u_password_hash u)
          then writeError 401 ''Current password is incorrect''
          else do {
            salt \<leftarrow> random_bytes 16;
            case pw_Hash P salt (pr_new req) of
              None \<Rightarrow> writeError 500 ''Failed to secure password''
            | Some hash \<Rightarrow> do {
                res \<leftarrow> completePasswordChange (u_id u) (u_password_hash u) hash (requestIP cfg r);
                case res of
                  Inl e \<Rightarrow>
                    if e = ErrNotFound then writeError 409 ''Account changed; sign in again''
                    else writeError 500 ''Failed to change password''
                | Inr _ \<Rightarrow> do {
                    cookies \<leftarrow> RevokeSession (cfg_security cfg) r;
                    ret ((reply 200 (JObj [(''password_changed'', JBool True),
                                           (''login_required'', JBool True)]))
                         \<lparr>rs_cookies := cookies\<rparr>) } } })"

lemma completePasswordChange_done:
  assumes "run_state (completePasswordChange (u_id u) old h ip) w = (Inr x, w')"
  shows "password_changed u h (w_db w) (w_db w')"
proof -
  let ?now = "w_clock w (w_ticks w)"
  have e: "w_db w' = new_password_db (u_id u)
      (\<lambda>r. r\<lparr>u_password_hash := h, u_must_change_password := False, u_updated_at := ?now\<rparr>)
      ''password changed; sessions revoked'' ip ?now (w_db w)"
    using completePasswordChange_effect [where i = "u_id u" and h = old and h' = h and ip = ip and w = w]
      assms by (simp add: Let_def)
  have "list_all (\<lambda>x. s_user_id x \<noteq> u_id u) (t_sessions (w_db w'))"
    by (simp add: e new_password_db_def cas_db_def list_all_iff)
  moreover have "t_users (w_db w') = map (\<lambda>v. if u_id v = u_id u \<and> u_sso_provider v = ''local''
        then v\<lparr>u_password_hash := h, u_must_change_password := False, u_updated_at := ?now\<rparr> else v)
        (t_users (w_db w))"
    unfolding e new_password_db_def cas_db_def by simp
  ultimately show ?thesis unfolding password_changed_def by blast
qed

lemma change_decision_ok:
  assumes run: "run_state (change_decision P cfg u body r) s = (resp, s')" and ok: "rs_status resp = 200"
  shows "\<exists>req h salt. body = Some req \<and> ValidatePassword (pr_new req) = None \<and>
    pr_current req \<noteq> pr_new req \<and> verified P (pr_current req) (u_password_hash u) \<and>
    pw_Hash P salt (pr_new req) = Some h \<and> password_changed u h (w_db s) (w_db s')"
proof -
  obtain req where b: "body = Some req" and v: "ValidatePassword (pr_new req) = None"
      "pr_current req \<noteq> pr_new req" "verified P (pr_current req) (u_password_hash u)"
    using run ok by (auto simp: change_decision_def split: option.splits if_splits)
  define salt where "salt = map (w_rand s (w_draws s)) [0..<16]"
  let ?s1 = "s\<lparr>w_draws := Suc (w_draws s)\<rparr>"
  obtain h where h: "pw_Hash P salt (pr_new req) = Some h"
    using run ok b v by (auto simp: change_decision_def salt_def split: option.splits if_splits)
  obtain x s2 where c: "run_state (completePasswordChange (u_id u) (u_password_hash u) h (requestIP cfg r)) ?s1
      = (Inr x, s2)"
    using run ok b v h
    by (auto simp: change_decision_def salt_def split: option.splits if_splits prod.splits sum.splits)
  obtain ck where k: "run_state (RevokeSession (cfg_security cfg) r) s2 = (ck, s')"
    using run ok b v h c
    by (auto simp: change_decision_def salt_def split: option.splits if_splits prod.splits sum.splits)
  from completePasswordChange_done [OF c] RevokeSession_db [OF k]
  have "password_changed u h (w_db s) (w_db s')"
    by (auto simp: password_changed_def list_all_iff)
  with b v h show ?thesis by blast
qed

lemma change_decision_refused:
  assumes "run_state (change_decision P cfg u body r) s = (resp, s')" and "rs_status resp \<noteq> 200"
  shows "w_db s' = w_db s"
  using assms completePasswordChange_op.error_unchanged
  by (fastforce simp: change_decision_def split: option.splits if_splits prod.splits sum.splits)

text \<open>
  C30: the password handler answers 200 only to a request authenticated as a local account whose
  stored hash the current password verifies, with a different new password that satisfies the
  policy; then that account, and no other, has a hash of the new password and need not change it,
  and none of its sessions is left. Any other answer changes no account.
\<close>

theorem change_password_sound:
  "case run_state (handleChangePassword P cfg body r) s of
     (resp, s') \<Rightarrow>
       if rs_status resp = 200
       then (\<exists>u req h salt. body = Some req \<and> u \<in> set (t_users (w_db s)) \<and>
         (\<exists>x. result (AuthenticateRequest (cfg_security cfg) r) s = Inr (u, x)) \<and>
         u_sso_provider u = ''local'' \<and>
         pw_Verify P (pr_current req) (u_password_hash u) = Some True \<and>
         pr_current req \<noteq> pr_new req \<and> ValidatePassword (pr_new req) = None \<and>
         pw_Hash P salt (pr_new req) = Some h \<and> password_changed u h (w_db s) (w_db s'))
       else t_users (w_db s') = t_users (w_db s)"
proof -
  obtain a s1 where auth: "run_state (AuthenticateRequest (cfg_security cfg) r) s = (a, s1)" by force
  note users = AuthenticateRequest_users [OF auth]
  show ?thesis
  proof (cases "rq_method r = ''POST'' \<and> (\<exists>u x. a = Inr (u, x) \<and> u_sso_provider u = ''local'')")
    case False
    then show ?thesis
      using auth users
      by (cases a) (auto simp: handleChangePassword_def)
  next
    case True
    then obtain u x where a: "a = Inr (u, x)" and u: "u_sso_provider u = ''local''"
      and post: "rq_method r = ''POST''" by blast
    note ok = AuthenticateRequest_ok [OF auth [unfolded a]]
    define limited where "limited = (do {
      ok1 \<leftarrow> allowAttempt (''password-change:'' @ limiterIP cfg r) 10 minute;
      if \<not> ok1 then ret False else allowAttempt (''password-change-user:'' @ u_id u) 5 minute } ::
        (bool, 'a) sio)"
    have free: "db_free limited" unfolding limited_def by (auto intro!: db_free_intros)
    obtain l s2 where l: "run_state limited s1 = (l, s2)" by force
    have run: "run_state (handleChangePassword P cfg body r) s =
        (if \<not> l then (error_reply 429 ''Too many password change attempts'', s2)
         else run_state (change_decision P cfg u body r) s2)"
      using l auth a u post
      by (auto simp: handleChangePassword_def limited_def change_decision_def run_allowAttempt
          split: prod.splits if_splits)
    note f = db_free_facts [OF free l]
    obtain resp s' where d: "run_state (change_decision P cfg u body r) s2 = (resp, s')" by force
    show ?thesis
    proof (cases "l \<and> rs_status resp = 200")
      case True
      from change_decision_ok [OF d] True f(1) ok(1,6) u auth a show ?thesis
        by (auto simp: run d verified_def result_def)
    next
      case False
      then show ?thesis
        using change_decision_refused [OF d] f(1) ok(1) by (auto simp: run d)
    qed
  qed
qed

section \<open>Settings\<close>

text \<open>
  The settings a response carries: the stored settings appear only in the answer to an active
  administrator with a session in the table, and even there no key that begins with
  \<open>kyrecovery_token\<close> does, so the recovery pairing token never leaves the process.
\<close>

lemma settings_secrets_hidden:
  "case rs_body (result (handleGetSettings cfg r) s) of
     Body (JObj kvs) \<Rightarrow>
       (case json_get kvs ''extra_settings'' of
          None \<Rightarrow> True
        | Some j \<Rightarrow>
            (\<exists>u \<in> set (t_users (w_db s)). \<exists>x \<in> set (t_sessions (w_db s)).
               u_role u = ''admin'' \<and> u_status u = ''active'' \<and> s_user_id x = u_id u \<and>
               s_token_hash x = SHA256Hex (session_token (cfg_security cfg) r)) \<and>
            (\<exists>m. j = JObj m \<and> list_all (\<lambda>(k, v). \<not> has_prefix k ''kyrecovery_token'') m))
   | _ \<Rightarrow> True"
proof -
  obtain t s1 where g: "run_state (getSetting ''site_theme'') s = (t, s1)" by force
  have db: "w_db s1 = w_db s"
    using g by (auto simp: getSetting_def run_stmt select_setting_def split: if_splits option.splits)
  obtain a s2 where auth: "run_state (AuthenticateRequest (cfg_security cfg) r) s1 = (a, s2)" by force
  show ?thesis
  proof (cases "\<exists>u x. a = Inr (u, x) \<and> u_role u = ''admin''")
    case False
    then show ?thesis
      using g auth
      by (cases a) (auto simp: handleGetSettings_def Let_def result_def reply_def json_get_def)
  next
    case True
    then obtain u x where a: "a = Inr (u, x)" and admin: "u_role u = ''admin''" by blast
    note ok = AuthenticateRequest_ok [OF auth [unfolded a]]
    obtain all s3 where all: "run_state getAllSettings s2 = (all, s3)" by force
    have who: "\<exists>u \<in> set (t_users (w_db s)). \<exists>x \<in> set (t_sessions (w_db s)).
        u_role u = ''admin'' \<and> u_status u = ''active'' \<and> s_user_id x = u_id u \<and>
        s_token_hash x = SHA256Hex (session_token (cfg_security cfg) r)"
      using ok admin db by (intro bexI [of _ u] bexI [of _ x]) simp_all
    show ?thesis
      using g auth a admin all who
      by (cases all)
        (simp_all add: handleGetSettings_def Let_def result_def reply_def json_get_def error_reply_def
          list_all_iff split_beta)
  qed
qed

end
