(* ===== verification/ScimValues.thy ===== *)
theory ScimValues
  imports Server Policy
begin

text \<open>
  The pure half of internal/scim/handler.go: what the values an identity provider sends mean for the
  stored account, and the filters it may use. A value decoded from JSON (Go's \<^verbatim>\<open>interface{}\<close>) is a
  \<open>json\<close>; \<^verbatim>\<open>nil\<close> is \<open>JNull\<close>. The SCIM protocol library (github.com/elimity-com/scim) parses requests:
  its patch operations are a record, where a value filter is the text its syntax tree prints. Case
  folding and \<^verbatim>\<open>\w\<close> are those of ASCII.
\<close>

section \<open>Values\<close>

definition interfaceSlice :: "json \<Rightarrow> json list" where
  "interfaceSlice v = (case v of JList xs \<Rightarrow> xs | _ \<Rightarrow> [])"

definition attr :: "(string \<times> json) list \<Rightarrow> string \<Rightarrow> json" where
  "attr attrs k = (case json_get attrs k of None \<Rightarrow> JNull | Some v \<Rightarrow> v)"

definition string_or :: "string \<Rightarrow> json \<Rightarrow> string" where
  "string_or d v = (case v of JStr s \<Rightarrow> s | _ \<Rightarrow> d)"

fun primary_of :: "json list \<Rightarrow> string option" where
  "primary_of [] = None"
| "primary_of (JObj m # xs) =
     (case attr m ''value'' of JStr s \<Rightarrow> Some s | _ \<Rightarrow> primary_of xs)"
| "primary_of (JStr s # xs) = Some s"
| "primary_of (x # xs) = primary_of xs"

definition primaryValue :: "json \<Rightarrow> string" where
  "primaryValue v =
     (case v of
        JObj m \<Rightarrow> string_or '''' (attr m ''value'')
      | JStr s \<Rightarrow> s
      | _ \<Rightarrow> (case primary_of (interfaceSlice v) of None \<Rightarrow> '''' | Some s \<Rightarrow> s))"

definition roleValue :: "json \<Rightarrow> string" where
  "roleValue v = (if primaryValue v \<noteq> '''' then primaryValue v else ''user'')"

definition stringValue :: "(string \<times> json) list \<Rightarrow> string \<Rightarrow> string \<Rightarrow> string" where
  "stringValue attrs k fallback =
     (case attr attrs k of JStr s \<Rightarrow> if s \<noteq> '''' then s else fallback | _ \<Rightarrow> fallback)"

definition statusFromActive :: "(string \<times> json) list \<Rightarrow> string" where
  "statusFromActive attrs =
     (case attr attrs ''active'' of JBool False \<Rightarrow> ''inactive'' | _ \<Rightarrow> ''active'')"

definition memberValues :: "json \<Rightarrow> string list" where
  "memberValues v =
     List.map_filter (\<lambda>item. case item of
         JObj m \<Rightarrow> (case attr m ''value'' of JStr s \<Rightarrow> if s \<noteq> '''' then Some s else None | _ \<Rightarrow> None)
       | _ \<Rightarrow> None) (interfaceSlice v)"

definition memberMaps :: "string list \<Rightarrow> json" where
  "memberMaps ids = JList (map (\<lambda>i. JObj [(''value'', JStr i)]) ids)"

section \<open>Resources\<close>

record resource =
  re_id :: string
  re_external_id :: string
  re_attributes :: "(string \<times> json) list"
  re_created :: time
  re_modified :: time

definition primary_email :: "string \<Rightarrow> (string \<times> json) list" where
  "primary_email e = [(''value'', JStr e), (''type'', JStr ''work''), (''primary'', JBool True)]"

definition userResource :: "user \<Rightarrow> resource" where
  "userResource u =
     \<lparr>re_id = u_id u, re_external_id = u_sso_subject u,
      re_attributes =
        [(''userName'', JStr (u_username u)), (''displayName'', JStr (u_display_name u)),
         (''active'', JBool (u_status u = ''active''))] @
        (if u_email u \<noteq> '''' then [(''emails'', JList [JObj (primary_email (u_email u))])] else []) @
        (if u_role u \<noteq> ''''
         then [(''roles'', JList [JObj [(''value'', JStr (u_role u)), (''primary'', JBool True)]])] else []),
      re_created = u_created_at u, re_modified = u_updated_at u\<rparr>"

definition groupResource :: "group \<Rightarrow> resource" where
  "groupResource g =
     \<lparr>re_id = g_id g, re_external_id = g_external_id g,
      re_attributes = [(''displayName'', JStr (g_display_name g)), (''members'', memberMaps (g_members g))],
      re_created = g_created_at g, re_modified = g_updated_at g\<rparr>"

section \<open>Replacing a user\<close>

definition replaceUser :: "user \<Rightarrow> (string \<times> json) list \<Rightarrow> user" where
  "replaceUser u attrs =
     (let name = string_or '''' (attr attrs ''userName'')
      in u\<lparr>u_username := name,
           u_email := primaryValue (attr attrs ''emails''),
           u_display_name := stringValue attrs ''displayName'' name,
           u_role := (case json_get attrs ''roles'' of None \<Rightarrow> u_role u | Some v \<Rightarrow> roleValue v),
           u_status := statusFromActive attrs,
           u_sso_subject := stringValue attrs ''externalId'' (u_sso_subject u)\<rparr>)"

section \<open>Value filters\<close>

definition word_char :: "char \<Rightarrow> bool" where
  "word_char c = (is_alnum c \<or> c = CHR ''_'')"

text \<open>UTF-8 of a code point, for \<^verbatim>\<open>\u\<close> escapes; \<^verbatim>\<open>strconv.Unquote\<close> refuses surrogates.\<close>

definition utf8 :: "nat \<Rightarrow> string option" where
  "utf8 n =
     (if n < 0x80 then Some [char_of n]
      else if n < 0x800 then Some [char_of (0xC0 + n div 64), char_of (0x80 + n mod 64)]
      else if 0xD800 \<le> n \<and> n < 0xE000 then None
      else if n < 0x10000
      then Some [char_of (0xE0 + n div 4096), char_of (0x80 + n div 64 mod 64), char_of (0x80 + n mod 64)]
      else if n < 0x110000
      then Some [char_of (0xF0 + n div 262144), char_of (0x80 + n div 4096 mod 64),
                 char_of (0x80 + n div 64 mod 64), char_of (0x80 + n mod 64)]
      else None)"

definition hex_number :: "nat \<Rightarrow> string \<Rightarrow> nat option" where
  "hex_number k s =
     (if length s < k then None
      else foldl (\<lambda>a c. case (a, hex_val c) of (Some n, Some d) \<Rightarrow> Some (16 * n + d) | _ \<Rightarrow> None) (Some 0) (take k s))"

definition octal_number :: "string \<Rightarrow> nat option" where
  "octal_number s =
     (if length s < 3 \<or> \<not> list_all (\<lambda>c. CHR ''0'' \<le> c \<and> c \<le> CHR ''7'') (take 3 s) then None
      else let n = foldl (\<lambda>a c. 8 * a + (of_char c - 48)) 0 (take 3 s) in if n < 256 then Some n else None)"

definition simple_escape :: "char \<Rightarrow> char option" where
  "simple_escape c =
     map_of [(CHR ''a'', CHR 0x07), (CHR ''b'', CHR 0x08), (CHR ''f'', CHR 0x0C), (CHR ''n'', CHR 0x0A),
             (CHR ''r'', CHR 0x0D), (CHR ''t'', CHR 0x09), (CHR ''v'', CHR 0x0B),
             (CHR 0x5C, CHR 0x5C), (CHR 0x22, CHR 0x22)] c"

text \<open>One escape after the backslash: the bytes it stands for and how many characters it takes.\<close>

definition escape :: "string \<Rightarrow> (string \<times> nat) option" where
  "escape s =
     (case s of
        [] \<Rightarrow> None
      | c # r \<Rightarrow>
          (case simple_escape c of
             Some d \<Rightarrow> Some ([d], 1)
           | None \<Rightarrow>
               if c = CHR ''x'' then map_option (\<lambda>n. ([char_of n], 3)) (hex_number 2 r)
               else if c = CHR ''u'' then Option.bind (hex_number 4 r) (\<lambda>n. map_option (\<lambda>t. (t, 5)) (utf8 n))
               else if c = CHR ''U'' then Option.bind (hex_number 8 r) (\<lambda>n. map_option (\<lambda>t. (t, 9)) (utf8 n))
               else map_option (\<lambda>n. ([char_of n], 3)) (octal_number s)))"

fun unquote_body :: "nat \<Rightarrow> string \<Rightarrow> string option" where
  "unquote_body 0 s = None"
| "unquote_body (Suc f) [] = None"
| "unquote_body (Suc f) (c # s) =
     (if c = CHR 0x22 then (if s = [] then Some [] else None)
      else if c = CHR 0x0A then None
      else if c \<noteq> CHR 0x5C then map_option (Cons c) (unquote_body f s)
      else case escape s of
        None \<Rightarrow> None
      | Some (t, k) \<Rightarrow> map_option (append t) (unquote_body f (drop k s)))"

text \<open>\<^verbatim>\<open>strconv.Unquote\<close> of a double-quoted text; the fuel is its length.\<close>

definition go_unquote :: "string \<Rightarrow> string option" where
  "go_unquote s =
     (case s of [] \<Rightarrow> None | c # r \<Rightarrow> if c = CHR 0x22 then unquote_body (length s) r else None)"

lemma unquote_fuel: "length s < f \<Longrightarrow> f \<le> g \<Longrightarrow> unquote_body g s = unquote_body f s"
proof (induction f arbitrary: g s)
  case (Suc f)
  then obtain g' where g: "g = Suc g'" "f \<le> g'" by (cases g) auto
  have shorter: "unquote_body g' t = unquote_body f t" if "length t < f" for t
    using Suc.IH that g(2) by blast
  show ?case
  proof (cases s)
    case (Cons c r)
    with Suc.prems have "length r < f" by simp
    then have "length (drop k r) < f" for k by simp
    with \<open>length r < f\<close> show ?thesis
      unfolding g Cons by (simp only: unquote_body.simps shorter)
  qed (simp add: g)
qed simp

text \<open>\<^verbatim>\<open>"(?:[^"\\]|\\.)*"\<close>, after the opening quote.\<close>

fun quoted_rest :: "string \<Rightarrow> bool" where
  "quoted_rest [] = False"
| "quoted_rest [c] = (c = CHR 0x22)"
| "quoted_rest (c # d # s) =
     (if c = CHR 0x22 then False
      else if c = CHR 0x5C then d \<noteq> CHR 0x0A \<and> quoted_rest s else quoted_rest (d # s))"

definition selector_value :: "string \<Rightarrow> bool" where
  "selector_value v =
     (v = ''true'' \<or> v = ''false'' \<or> (v \<noteq> [] \<and> hd v = CHR 0x22 \<and> quoted_rest (tl v)))"

definition selector :: "string \<Rightarrow> (string \<times> string) option" where
  "selector e =
     (let a = takeWhile word_char e; r = dropWhile word_char e; v = drop 4 r
      in if a \<noteq> '''' \<and> take 4 r = '' eq '' \<and> selector_value v
         then Some (to_lower a, case go_unquote v of None \<Rightarrow> v | Some t \<Rightarrow> t) else None)"

definition sprint :: "json \<Rightarrow> string" where
  "sprint v = (case v of JStr s \<Rightarrow> s | JBool True \<Rightarrow> ''true'' | _ \<Rightarrow> ''false'')"

definition selects :: "string \<Rightarrow> (string \<times> json) list \<Rightarrow> bool" where
  "selects e element =
     (case selector e of
        None \<Rightarrow> False
      | Some (a, v) \<Rightarrow>
          (case map_of element a of None \<Rightarrow> False | Some got \<Rightarrow> equal_fold (sprint got) v))"

section \<open>Patching a user\<close>

datatype patch_op = PatchAdd | PatchRemove | PatchReplace

record patch_path =
  pp_attribute :: string
  pp_attribute_sub :: "string option"
  pp_sub :: "string option"
  pp_filter :: "string option"

record patch_operation =
  po_op :: patch_op
  po_path :: "patch_path option"
  po_value :: json

definition applyUserValue :: "string \<Rightarrow> json \<Rightarrow> user \<Rightarrow> user" where
  "applyUserValue path v u =
     (if path = ''active'' then
        (case v of JBool b \<Rightarrow> u\<lparr>u_status := (if b then ''active'' else ''inactive'')\<rparr> | _ \<Rightarrow> u)
      else if path = ''displayname'' then (case v of JStr s \<Rightarrow> u\<lparr>u_display_name := s\<rparr> | _ \<Rightarrow> u)
      else if path = ''username'' then (case v of JStr s \<Rightarrow> u\<lparr>u_username := s\<rparr> | _ \<Rightarrow> u)
      else if path = ''externalid'' then (case v of JStr s \<Rightarrow> u\<lparr>u_sso_subject := s\<rparr> | _ \<Rightarrow> u)
      else if path = ''roles'' \<or> path = ''role'' then u\<lparr>u_role := roleValue v\<rparr>
      else if path = ''emails'' then u\<lparr>u_email := primaryValue v\<rparr>
      else u)"

definition applyUserValues :: "(string \<times> json) list \<Rightarrow> user \<Rightarrow> user" where
  "applyUserValues values u = fold (\<lambda>(k, v). applyUserValue (to_lower k) v) values u"

definition sub_name :: "patch_path \<Rightarrow> string" where
  "sub_name p =
     (let s = (case pp_sub p of None \<Rightarrow> '''' | Some t \<Rightarrow> t)
      in if s = '''' then (case pp_attribute_sub p of None \<Rightarrow> '''' | Some t \<Rightarrow> t) else s)"

definition stored_value :: "string \<Rightarrow> user \<Rightarrow> (string \<times> json) list option" where
  "stored_value a u =
     (if a = ''emails'' then (if u_email u \<noteq> '''' then Some (primary_email (u_email u)) else None)
      else Some [(''value'', JStr (u_role u)), (''primary'', JBool True)])"

definition patch_stored :: "patch_operation \<Rightarrow> string \<Rightarrow> user \<Rightarrow> user" where
  "patch_stored op a u =
     (if po_op op \<noteq> PatchRemove then applyUserValue a (po_value op) u
      else if a = ''emails'' then u\<lparr>u_email := ''''\<rparr> else u\<lparr>u_role := ''user''\<rparr>)"

definition patch_multi :: "patch_operation \<Rightarrow> patch_path \<Rightarrow> string \<Rightarrow> user \<Rightarrow> err + user" where
  "patch_multi op p a u =
     (if sub_name p \<noteq> '''' \<and> \<not> equal_fold (sub_name p) ''value'' then Inr u
      else case pp_filter p of
        None \<Rightarrow> Inr (patch_stored op a u)
      | Some e \<Rightarrow>
          (let stored = (if stored_value a u = None \<and> po_op op = PatchAdd
                         then Some (primary_email (primaryValue (po_value op))) else stored_value a u)
           in if (case stored of None \<Rightarrow> True | Some el \<Rightarrow> \<not> selects e el)
              then (if po_op op = PatchReplace then Inl (ErrScim ScimErrorNoTarget) else Inr u)
              else Inr (patch_stored op a u)))"

definition patch_simple :: "patch_operation \<Rightarrow> patch_path \<Rightarrow> string \<Rightarrow> user \<Rightarrow> user" where
  "patch_simple op p a u =
     (if pp_filter p \<noteq> None \<or> sub_name p \<noteq> '''' then u
      else if po_op op \<noteq> PatchRemove then applyUserValue a (po_value op) u
      else if a = ''displayname'' then u\<lparr>u_display_name := u_username u\<rparr>
      else if a = ''externalid'' then u\<lparr>u_sso_subject := ''''\<rparr>
      else u)"

definition patch_one :: "patch_operation \<Rightarrow> user \<Rightarrow> err + user" where
  "patch_one op u =
     (case po_path op of
        None \<Rightarrow>
          Inr (if po_op op \<noteq> PatchRemove
               then (case po_value op of JObj m \<Rightarrow> applyUserValues m u | _ \<Rightarrow> u) else u)
      | Some p \<Rightarrow>
          (let a = to_lower (pp_attribute p)
           in if a = ''emails'' \<or> a = ''roles'' then patch_multi op p a u
              else Inr (patch_simple op p a u)))"

fun applyUserPatch :: "patch_operation list \<Rightarrow> user \<Rightarrow> err + user" where
  "applyUserPatch [] u = Inr u"
| "applyUserPatch (op # ops) u =
     (case patch_one op u of Inl e \<Rightarrow> Inl e | Inr v \<Rightarrow> applyUserPatch ops v)"

section \<open>Query filters\<close>

definition re_space :: "char \<Rightarrow> bool" where
  "re_space c = (c \<in> {CHR 0x09, CHR 0x0A, CHR 0x0C, CHR 0x0D, CHR 0x20})"

text \<open>\<^verbatim>\<open>(?i)^\s*(names)\s+eq\s+"([^"]+)"\s*$\<close>: the name as written and the value.\<close>

definition eq_filter :: "string list \<Rightarrow> string \<Rightarrow> (string \<times> string) option" where
  "eq_filter names raw =
     (let s = dropWhile re_space raw;
          n = takeWhile (Not \<circ> re_space) s; r1 = dropWhile (Not \<circ> re_space) s;
          r2 = dropWhile re_space r1; r3 = drop 2 r2; r4 = dropWhile re_space r3;
          v = takeWhile (\<lambda>c. c \<noteq> CHR 0x22) (tl r4); r5 = dropWhile (\<lambda>c. c \<noteq> CHR 0x22) (tl r4)
      in if list_ex (equal_fold n) names \<and> r1 \<noteq> r2 \<and> equal_fold (take 2 r2) ''eq'' \<and> r3 \<noteq> r4 \<and>
            r4 \<noteq> [] \<and> hd r4 = CHR 0x22 \<and> v \<noteq> [] \<and> r5 \<noteq> [] \<and> list_all re_space (tl r5)
         then Some (n, v) else None)"

definition equalityFilter :: "string \<Rightarrow> (string \<times> string) option" where
  "equalityFilter = eq_filter [''userName'', ''emails.value'', ''emails'', ''email'', ''displayName'']"

definition groupFilter :: "string \<Rightarrow> (string \<times> string) option" where
  "groupFilter = eq_filter [''displayName'', ''externalId'']"

end
