(* ===== verification/Scim.thy ===== *)
theory Scim
  imports ScimValues
begin

text \<open>
  The handlers of internal/scim/handler.go: provisioning of users and groups by the identity
  provider. Each handler is one computation over the store; a lock that serialises the writers of
  one process is not modelled here, interleavings of the retried update are (ScimRace). The routing
  and the schema checks of the protocol library are outside.
\<close>

section \<open>Authorisation\<close>

definition writeAuthError :: "(int \<Rightarrow> string \<Rightarrow> json) \<Rightarrow> int \<Rightarrow> string \<Rightarrow> response" where
  "writeAuthError encode status detail =
     \<lparr>rs_status = status, rs_headers = [(''Content-Type'', ''application/scim+json'')], rs_cookies = [],
      rs_body = Body (encode status detail)\<rparr>"

definition bearer_ok :: "string \<Rightarrow> string \<Rightarrow> bool" where
  "bearer_ok header token =
     (case GoStrings.fields header of
        [scheme, t] \<Rightarrow> equal_fold scheme ''Bearer'' \<and> length t = length token \<and> t = token
      | _ \<Rightarrow> False)"

definition AuthMiddleware ::
  "(int \<Rightarrow> string \<Rightarrow> json) \<Rightarrow> scim_config \<Rightarrow> 'z handler \<Rightarrow> 'z handler" where
  "AuthMiddleware encode cfg next_h r =
     (if \<not> has_prefix (rq_path r) ''/scim/v2'' then next_h r
      else if \<not> c_scim_enabled cfg then ret (writeAuthError encode 403 ''SCIM provisioning is disabled'')
      else if \<not> bearer_ok (header_get r ''Authorization'') (c_bearer_token cfg)
      then ret ((writeAuthError encode 401 ''Invalid or missing bearer token'')
             \<lparr>rs_headers := [(''WWW-Authenticate'', ''Bearer error='' @ CHR 0x22 # ''invalid_token'' @ [CHR 0x22]),
                              (''Content-Type'', ''application/scim+json'')]\<rparr>)
      else next_h r)"

section \<open>Users\<close>

definition scimStoreError :: "string \<Rightarrow> err \<Rightarrow> err" where
  "scimStoreError i e =
     (if e = ErrNotFound then ErrScim (ScimErrorResourceNotFound i)
      else if e = ErrAlreadyExists then ErrScim ScimErrorUniqueness else e)"

definition checkRole :: "bool \<Rightarrow> string \<Rightarrow> string \<Rightarrow> err + unit" where
  "checkRole allowAdmin oldRole newRole =
     (if newRole = ''admin'' \<and> oldRole \<noteq> ''admin'' \<and> \<not> allowAdmin then Inl (ErrScim ErrAdminGrant)
      else Inr ())"

definition managedUser :: "string \<Rightarrow> (user, 'z) res" where
  "managedUser i =
     check (map_err (scimStoreError i) (getUserByID i)) (\<lambda>u.
     if \<not> u_scim_managed u then ret (Inl (ErrScim (ScimErrorResourceNotFound i))) else ret (Inr u))"

definition kyIdentityAccount :: "string \<Rightarrow> string \<Rightarrow> (user option, 'z) res" where
  "kyIdentityAccount subject username = do {
     by_subject \<leftarrow> (if subject \<noteq> '''' then getUserBySSO ''kysignon'' subject else ret (Inl ErrNotFound));
     case by_subject of
       Inr u \<Rightarrow> if u_scim_managed u then ret (Inl (ErrScim ScimErrorUniqueness)) else ret (Inr (Some u))
     | Inl e \<Rightarrow>
         if e \<noteq> ErrNotFound then ret (Inl e)
         else do {
           named \<leftarrow> getUserByUsername username;
           case named of
             Inl e \<Rightarrow> if e = ErrNotFound then ret (Inr None) else ret (Inl e)
           | Inr u \<Rightarrow>
               if u_sso_provider u = ''kysignon'' \<and> \<not> u_scim_managed u
               then (if subject \<noteq> '''' \<and> subject \<noteq> u_sso_subject u
                     then ret (Inl (ErrScim ScimErrorUniqueness)) else ret (Inr (Some u)))
               else ret (Inr None) } }"

definition takeOver :: "bool \<Rightarrow> user \<Rightarrow> (string \<times> json) list \<Rightarrow> (resource, 'z) res" where
  "takeOver allowAdmin user attrs = (
     let u = (replaceUser user attrs)\<lparr>u_sso_subject := u_sso_subject user\<rparr>
     in check (ret (checkRole allowAdmin (u_role user) (u_role u))) (\<lambda>_. do {
          res \<leftarrow> takeOverForSCIM u (u_role user) (u_status user);
          case res of
            Inl e \<Rightarrow>
              if e = ErrConflict \<or> e = ErrNotFound then ret (Inl (ErrScim ScimErrorUniqueness))
              else ret (Inl (scimStoreError (u_id u) e))
          | Inr v \<Rightarrow> do {
              _ \<leftarrow> logAudit (new_audit (u_id v) ''scim.user.adopt'' (u_username v) '''' '''' 0);
              ret (Inr (userResource v)) } }))"

definition new_scim_user :: "string \<Rightarrow> (string \<times> json) list \<Rightarrow> user" where
  "new_scim_user hex attrs = (
     let name = string_or '''' (attr attrs ''userName''); role = primaryValue (attr attrs ''roles'')
     in \<lparr>u_id = ''usr_'' @ hex, u_username = name, u_email = primaryValue (attr attrs ''emails''),
         u_display_name = stringValue attrs ''displayName'' name, u_password_hash = '''',
         u_role = (if role = '''' then ''user'' else role), u_status = statusFromActive attrs,
         u_sso_provider = ''scim'', u_sso_subject = stringValue attrs ''externalId'' '''',
         u_scim_managed = True, u_push_device_id = '''', u_must_change_password = False,
         u_created_at = 0, u_updated_at = 0, u_last_login_at = None\<rparr>)"

definition user_Create :: "bool \<Rightarrow> (string \<times> json) list \<Rightarrow> (resource, 'z) res" where
  "user_Create allowAdmin attrs = do {
     hex \<leftarrow> RandomHex 12;
     let u = new_scim_user hex attrs;
     check (kyIdentityAccount (u_sso_subject u) (u_username u)) (\<lambda>existing.
       case existing of
         Some old \<Rightarrow> takeOver allowAdmin old attrs
       | None \<Rightarrow>
           check (ret (checkRole allowAdmin '''' (u_role u))) (\<lambda>_.
           check (map_err (scimStoreError (u_id u)) (createUser u)) (\<lambda>v. do {
             _ \<leftarrow> logAudit (new_audit (u_id v) ''scim.user.create'' (u_username v) '''' '''' 0);
             ret (Inr (userResource v)) }))) }"

definition user_Get :: "string \<Rightarrow> (resource, 'z) res" where
  "user_Get i = check (managedUser i) (\<lambda>u. ret (Inr (userResource u)))"

text \<open>
  One attempt of the update: what it read, the changed account to write, or a refusal. The write
  compares role, status and subject with what was read.
\<close>

definition prepare_update ::
  "bool \<Rightarrow> (user \<Rightarrow> err + user) \<Rightarrow> user \<Rightarrow> err + user" where
  "prepare_update allowAdmin change old =
     (case change old of
        Inl e \<Rightarrow> Inl e
      | Inr u \<Rightarrow>
          (case checkRole allowAdmin (u_role old) (u_role u) of
             Inl e \<Rightarrow> Inl e
           | Inr _ \<Rightarrow>
               Inr (if u_sso_provider u \<noteq> ''scim'' then u\<lparr>u_sso_subject := u_sso_subject old\<rparr> else u)))"

definition write_update :: "user \<Rightarrow> user \<Rightarrow> (user, 'z) res" where
  "write_update old u = updateSCIMProfile u (u_role old) (u_status old) (u_sso_subject old)"

fun user_update :: "nat \<Rightarrow> bool \<Rightarrow> string \<Rightarrow> (user \<Rightarrow> err + user) \<Rightarrow> (resource, 'z) res" where
  "user_update n allowAdmin i change =
     check (managedUser i) (\<lambda>old.
     check (ret (prepare_update allowAdmin change old)) (\<lambda>u. do {
       res \<leftarrow> write_update old u;
       case res of
         Inr v \<Rightarrow> ret (Inr (userResource v))
       | Inl e \<Rightarrow>
           (case n of
              Suc m \<Rightarrow>
                if e = ErrConflict then user_update m allowAdmin i change
                else ret (Inl (scimStoreError i e))
            | 0 \<Rightarrow> ret (Inl (scimStoreError i e))) }))"

definition user_Replace :: "bool \<Rightarrow> string \<Rightarrow> (string \<times> json) list \<Rightarrow> (resource, 'z) res" where
  "user_Replace allowAdmin i attrs = user_update 3 allowAdmin i (\<lambda>u. Inr (replaceUser u attrs))"

definition user_Patch :: "bool \<Rightarrow> string \<Rightarrow> patch_operation list \<Rightarrow> (resource, 'z) res" where
  "user_Patch allowAdmin i ops = user_update 3 allowAdmin i (applyUserPatch ops)"

definition user_Delete :: "string \<Rightarrow> (unit, 'z) res" where
  "user_Delete i = check (managedUser i) (\<lambda>_. map_err (scimStoreError i) (deleteUser i))"

subsection \<open>Listing\<close>

record list_params =
  lp_start_index :: int
  lp_count :: int

definition maxFilterCandidates :: nat where "maxFilterCandidates = 1000"

definition slice :: "list_params \<Rightarrow> 'a list \<Rightarrow> 'a list" where
  "slice p xs =
     (let n = int (length xs); start = min (max (lp_start_index p - 1) 0) n;
          stop = (if 0 < lp_count p then min (start + lp_count p) n else n)
      in take (nat (stop - start)) (drop (nat start) xs))"

definition filter_value :: "string \<Rightarrow> user \<Rightarrow> string" where
  "filter_value a u =
     (if to_lower a = ''username'' then u_username u
      else if to_lower a = ''displayname'' then u_display_name u else u_email u)"

definition candidates :: "string \<Rightarrow> string \<Rightarrow> (user list, 'z) res" where
  "candidates a v =
     (if equal_fold a ''userName''
      then do {
        found \<leftarrow> getUserByUsername v;
        case found of
          Inl e \<Rightarrow> if e = ErrNotFound then ret (Inr []) else ret (Inl e)
        | Inr u \<Rightarrow> ret (Inr (if u_scim_managed u then [u] else [])) }
      else check (listSCIMUsers 0 (int maxFilterCandidates) v) (\<lambda>(us, n).
        if n > maxFilterCandidates then ret (Inl (ErrScim ScimErrorTooMany)) else ret (Inr us)))"

definition user_GetAll :: "request \<Rightarrow> list_params \<Rightarrow> (resource list \<times> nat, 'z) res" where
  "user_GetAll r p = (
     let raw = query_get r ''filter''
     in if raw = ''''
        then check (listSCIMUsers (lp_start_index p - 1) (lp_count p) '''') (\<lambda>(us, n).
               ret (Inr (map userResource us, n)))
        else case equalityFilter raw of
          None \<Rightarrow> ret (Inl (ErrScim ScimErrorInvalidFilter))
        | Some (a, v) \<Rightarrow>
            if trim_space v = '''' then ret (Inl (ErrScim ScimErrorInvalidFilter))
            else check (candidates a v) (\<lambda>cs.
              let us = filter (\<lambda>u. equal_fold (filter_value a u) v) cs
              in ret (Inr (map userResource (slice p us), length us))))"

section \<open>Groups\<close>

fun checkMembers :: "string list \<Rightarrow> string list \<Rightarrow> (unit, 'z) res" where
  "checkMembers old [] = ret (Inr ())"
| "checkMembers old (i # is) =
     (if list_ex (\<lambda>x. x = i) old then checkMembers old is
      else do {
        found \<leftarrow> getUserByID i;
        case found of
          Inl e \<Rightarrow> if e = ErrNotFound then ret (Inl (ErrScim ScimErrorInvalidValue)) else ret (Inl e)
        | Inr u \<Rightarrow>
            if \<not> u_scim_managed u then ret (Inl (ErrScim ScimErrorInvalidValue))
            else checkMembers old is })"

fun for_each :: "('a \<Rightarrow> (unit, 'z) res) \<Rightarrow> 'a list \<Rightarrow> (unit, 'z) res" where
  "for_each f [] = ret (Inr ())"
| "for_each f (x # xs) = check (f x) (\<lambda>_. for_each f xs)"

definition without :: "string list \<Rightarrow> string list \<Rightarrow> string list" where
  "without xs ys = filter (\<lambda>x. \<not> list_ex (\<lambda>y. y = x) ys) xs"

definition replaceMembers :: "string \<Rightarrow> string list \<Rightarrow> string list \<Rightarrow> (unit, 'z) res" where
  "replaceMembers gi old new =
     check (for_each (removeGroupMember gi) (without old new)) (\<lambda>_.
     for_each (addGroupMember gi) (without new old))"

definition group_Create :: "(string \<times> json) list \<Rightarrow> (resource, 'z) res" where
  "group_Create attrs = do {
     hex \<leftarrow> RandomHex 12;
     let g = \<lparr>g_id = ''grp_'' @ hex, g_display_name = stringValue attrs ''displayName'' '''',
              g_external_id = stringValue attrs ''externalId'' '''', g_members = [],
              g_created_at = 0, g_updated_at = 0\<rparr>;
     let members = memberValues (attr attrs ''members'');
     check (checkMembers [] members) (\<lambda>_.
     check (map_err (scimStoreError (g_id g)) (createGroup g)) (\<lambda>v.
     check (replaceMembers (g_id v) [] members) (\<lambda>_.
     ret (Inr (groupResource (v\<lparr>g_members := members\<rparr>)))))) }"

definition group_Get :: "string \<Rightarrow> (resource, 'z) res" where
  "group_Get i =
     check (map_err (scimStoreError i) (getGroupByID i)) (\<lambda>g. ret (Inr (groupResource g)))"

definition group_Replace :: "string \<Rightarrow> (string \<times> json) list \<Rightarrow> (resource, 'z) res" where
  "group_Replace i attrs =
     check (map_err (scimStoreError i) (getGroupByID i)) (\<lambda>g.
     let members = memberValues (attr attrs ''members'');
         g' = g\<lparr>g_display_name := stringValue attrs ''displayName'' (g_display_name g),
                g_external_id := stringValue attrs ''externalId'' (g_external_id g), g_members := members\<rparr>
     in check (checkMembers (g_members g) members) (\<lambda>_.
        check (map_err (scimStoreError i) (updateGroup g')) (\<lambda>v.
        check (replaceMembers i (g_members g) members) (\<lambda>_. ret (Inr (groupResource v))))))"

definition group_Delete :: "string \<Rightarrow> (unit, 'z) res" where
  "group_Delete i = map_err (scimStoreError i) (deleteGroup i)"

subsection \<open>Patching a group\<close>

record group_draft =
  gd_name :: string
  gd_external :: string
  gd_members :: "string list"

definition add_member :: "string \<Rightarrow> string list \<Rightarrow> string list" where
  "add_member m ms = (if list_ex (\<lambda>x. x = m) ms then ms else ms @ [m])"

definition apply_group :: "patch_op \<Rightarrow> string \<Rightarrow> json \<Rightarrow> group_draft \<Rightarrow> group_draft" where
  "apply_group op a v d =
     (if a = ''displayname'' then
        (case v of JStr s \<Rightarrow> if op \<noteq> PatchRemove then d\<lparr>gd_name := s\<rparr> else d | _ \<Rightarrow> d)
      else if a = ''externalid'' then
        (case v of JStr s \<Rightarrow> if op \<noteq> PatchRemove then d\<lparr>gd_external := s\<rparr> else d | _ \<Rightarrow> d)
      else if a = ''members'' then
        d\<lparr>gd_members := (case op of
            PatchAdd \<Rightarrow> fold add_member (memberValues v) (gd_members d)
          | PatchRemove \<Rightarrow> without (if v = JNull then [] else gd_members d) (memberValues v)
          | PatchReplace \<Rightarrow> memberValues v)\<rparr>
      else d)"

fun apply_group_values ::
  "patch_op \<Rightarrow> (string \<times> json) list \<Rightarrow> group_draft \<Rightarrow> err + group_draft" where
  "apply_group_values op [] d = Inr d"
| "apply_group_values op ((k, v) # m) d =
     (let a = to_lower k
      in if a \<noteq> ''members'' \<and> contains a ''members'' then Inl (ErrScim ScimErrorInvalidPath)
         else apply_group_values op m (apply_group op a v d))"

definition patch_group :: "patch_operation \<Rightarrow> group_draft \<Rightarrow> err + group_draft" where
  "patch_group op d =
     (case po_path op of
        None \<Rightarrow> (case po_value op of JObj m \<Rightarrow> apply_group_values (po_op op) m d | _ \<Rightarrow> Inr d)
      | Some p \<Rightarrow>
          if equal_fold (pp_attribute p) ''members''
          then (if pp_sub p \<noteq> None \<or> pp_attribute_sub p \<noteq> None then Inl (ErrScim ScimErrorInvalidPath)
                else case pp_filter p of
                  None \<Rightarrow> Inr (apply_group (po_op op) ''members'' (po_value op) d)
                | Some e \<Rightarrow>
                    (case selector e of
                       None \<Rightarrow> Inl (ErrScim ScimErrorInvalidPath)
                     | Some (a, target) \<Rightarrow>
                         if a \<noteq> ''value'' \<or> po_op op \<noteq> PatchRemove then Inl (ErrScim ScimErrorInvalidPath)
                         else Inr (apply_group (po_op op) ''members''
                                (JList [JObj [(''value'', JStr target)]]) d)))
          else if pp_filter p = None \<and> pp_sub p = None
          then Inr (apply_group (po_op op) (to_lower (pp_attribute p)) (po_value op) d)
          else Inr d)"

fun patch_groups :: "patch_operation list \<Rightarrow> group_draft \<Rightarrow> err + group_draft" where
  "patch_groups [] d = Inr d"
| "patch_groups (op # ops) d =
     (case patch_group op d of Inl e \<Rightarrow> Inl e | Inr d' \<Rightarrow> patch_groups ops d')"

definition group_Patch :: "string \<Rightarrow> patch_operation list \<Rightarrow> (resource, 'z) res" where
  "group_Patch i ops =
     check (map_err (scimStoreError i) (getGroupByID i)) (\<lambda>g.
     check (ret (patch_groups ops \<lparr>gd_name = g_display_name g, gd_external = g_external_id g,
                                   gd_members = g_members g\<rparr>)) (\<lambda>d.
     group_Replace i [(''displayName'', JStr (gd_name d)), (''externalId'', JStr (gd_external d)),
                      (''members'', memberMaps (gd_members d))]))"

subsection \<open>Listing groups\<close>

text \<open>
  The loop over the pages, with fuel: each page is not empty and the offset stays below the total,
  which is at most \<open>maxFilterCandidates\<close>, so \<open>maxFilterCandidates + 1\<close> rounds suffice.
\<close>

fun scan_groups :: "nat \<Rightarrow> string \<Rightarrow> nat \<Rightarrow> group list \<Rightarrow> (group list option, 'z) res" where
  "scan_groups 0 ext offset out = ret (Inr None)"
| "scan_groups (Suc f) ext offset out =
     check (listGroups (int offset) 200) (\<lambda>(gs, n).
       if n > maxFilterCandidates then ret (Inl (ErrScim ScimErrorTooMany))
       else let out' = out @ filter (\<lambda>g. g_external_id g = ext) gs; offset' = offset + length gs
            in if gs = [] \<or> offset' \<ge> n then ret (Inr (Some out'))
               else scan_groups f ext offset' out')"

definition filterGroups :: "string \<Rightarrow> (group list option, 'z) res" where
  "filterGroups raw =
     (case groupFilter raw of
        None \<Rightarrow> ret (Inl (ErrScim ScimErrorInvalidFilter))
      | Some (a, v) \<Rightarrow>
          if trim_space v = '''' then ret (Inl (ErrScim ScimErrorInvalidFilter))
          else if equal_fold a ''displayName''
          then do {
            found \<leftarrow> getGroupByName v;
            case found of
              Inl e \<Rightarrow> if e = ErrNotFound then ret (Inr (Some [])) else ret (Inl e)
            | Inr g \<Rightarrow> ret (Inr (Some (if equal_fold (g_display_name g) v then [g] else []))) }
          else scan_groups (Suc maxFilterCandidates) v 0 [])"

definition group_GetAll :: "request \<Rightarrow> list_params \<Rightarrow> ((resource list \<times> nat) option, 'z) res" where
  "group_GetAll r p =
     (if query_get r ''filter'' = ''''
      then check (listGroups (lp_start_index p - 1) (lp_count p)) (\<lambda>(gs, n).
             ret (Inr (Some (map groupResource gs, n))))
      else check (filterGroups (query_get r ''filter'')) (\<lambda>res.
             ret (Inr (map_option (\<lambda>gs. (map groupResource (slice p gs), length gs)) res))))"

end
