(* ===== verification/Oidc.thy ===== *)
theory Oidc
  imports Server "HOL-Library.Log_Nat"
begin

text \<open>
  internal/sso: the OpenID Connect client of the identity provider. What the code leaves to
  github.com/coreos/go-oidc, golang.org/x/oauth2 and github.com/go-jose/go-jose, and what the
  network answers, is the record \<open>idp\<close>: discovery, the authorization URL, the code exchange, the
  verification of a token (signature, issuer, audience, expiry) and the members of a JWK. An answer
  of the network may differ from call to call, so those functions take the number of the call. The
  parser of JSON text and the parser of URLs are parameters too.
\<close>

section \<open>Parameters and state\<close>

record provider_doc =
  pd_auth_url :: string
  pd_token_url :: string
  pd_jwks_uri :: "string option"

record id_token =
  it_nonce :: string
  it_issued_at :: time
  it_claims :: json

record idp =
  idp_fips :: bool
  idp_url :: "string \<Rightarrow> (string \<times> string \<times> bool) option"
  idp_json :: "string \<Rightarrow> json option"
  idp_discover :: "nat \<Rightarrow> string \<Rightarrow> err + provider_doc"
  idp_auth_url :: "provider_doc \<Rightarrow> string \<Rightarrow> string \<Rightarrow> string \<Rightarrow> string \<Rightarrow> string \<Rightarrow> string"
  idp_exchange :: "nat \<Rightarrow> provider_doc \<Rightarrow> string \<Rightarrow> string \<Rightarrow> string \<Rightarrow> string \<Rightarrow> string \<Rightarrow> err + string option"
  idp_verify :: "nat \<Rightarrow> provider_doc \<Rightarrow> string \<Rightarrow> string \<Rightarrow> err + id_token"

record oauth_flow =
  of_issuer :: string
  of_client_id :: string
  of_client_secret :: string
  of_provider :: "provider_doc option"

record sso_server = server +
  ss_flow :: oauth_flow
  ss_calls :: nat

type_synonym ('a, 'z) xio = "('z sso_server_scheme, 'a) state"
type_synonym ('a, 'z) xres = "('z sso_server_scheme, err + 'a) state"

definition call_idp :: "(nat \<Rightarrow> 'a) \<Rightarrow> ('a, 'z) xio" where
  "call_idp f = State (\<lambda>s. (f (ss_calls s), s\<lparr>ss_calls := Suc (ss_calls s)\<rparr>))"

definition newOAuthFlow :: "string \<Rightarrow> string \<Rightarrow> string \<Rightarrow> oauth_flow" where
  "newOAuthFlow issuer clientID clientSecret =
     \<lparr>of_issuer = trim_right_by (\<lambda>c. c = CHR ''/'') issuer, of_client_id = clientID,
      of_client_secret = clientSecret, of_provider = None\<rparr>"

definition newKySignOnClient :: "sso_config \<Rightarrow> oauth_flow" where
  "newKySignOnClient cfg =
     newOAuthFlow (c_kysignon_issuer cfg) (c_kysignon_client_id cfg) (c_kysignon_secret cfg)"

definition newGenericOIDCClient :: "sso_config \<Rightarrow> oauth_flow" where
  "newGenericOIDCClient cfg = newOAuthFlow (c_oidc_issuer cfg) (c_oidc_client_id cfg) (c_oidc_secret cfg)"

section \<open>Identities\<close>

record identity_claims =
  ic_subject :: string
  ic_email :: string
  ic_name :: string
  ic_preferred_username :: string
  ic_role :: string
  ic_roles :: "string list option"
  ic_provider :: string
  ic_session_id :: string
  ic_issued_at :: time

definition LocalRole :: "identity_claims \<Rightarrow> string option" where
  "LocalRole c =
     (case ic_roles c of
        Some rs \<Rightarrow> if list_ex (\<lambda>r. r = ''admin'') rs then Some ''admin'' else Some ''user''
      | None \<Rightarrow>
          if ic_role c \<noteq> '''' then (if ic_role c = ''admin'' then Some ''admin'' else Some ''user'')
          else None)"

definition roles_claim :: "(string \<times> json) list \<Rightarrow> string list option option" where
  "roles_claim m =
     (case field_raw ''roles'' m of
        None \<Rightarrow> Some None
      | Some (JList xs) \<Rightarrow> map_option Some (string_list xs)
      | Some _ \<Rightarrow> None)"

definition username_claim :: "string \<Rightarrow> string \<Rightarrow> string \<Rightarrow> string" where
  "username_claim preferred email sub =
     (if preferred \<noteq> '''' then preferred else if email \<noteq> '''' then email else sub)"

definition decode_identity :: "id_token \<Rightarrow> identity_claims option" where
  "decode_identity t = do {
     m \<leftarrow> json_members (it_claims t);
     sub \<leftarrow> field_string ''sub'' '''' m;
     sid \<leftarrow> field_string ''sid'' '''' m;
     email \<leftarrow> field_string ''email'' '''' m;
     name \<leftarrow> field_string ''name'' '''' m;
     preferred \<leftarrow> field_string ''preferred_username'' '''' m;
     role \<leftarrow> field_string ''role'' '''' m;
     if sub = '''' then None
     else do {
       roles \<leftarrow> roles_claim m;
       Some \<lparr>ic_subject = sub, ic_email = email, ic_name = name,
             ic_preferred_username = username_claim preferred email sub, ic_role = role,
             ic_roles = roles, ic_provider = '''', ic_session_id = sid,
             ic_issued_at = it_issued_at t\<rparr> } }"

definition claimsFromIDToken :: "id_token \<Rightarrow> err + identity_claims" where
  "claimsFromIDToken t =
     (case decode_identity t of None \<Rightarrow> Inl ErrInvalidIDToken | Some c \<Rightarrow> Inr c)"

section \<open>The authorization flow\<close>

definition requireOIDCHTTPS :: "idp \<Rightarrow> string list \<Rightarrow> bool" where
  "requireOIDCHTTPS I endpoints =
     list_all (\<lambda>raw. case idp_url I raw of
        None \<Rightarrow> False
      | Some (scheme, host, user) \<Rightarrow> scheme = ''https'' \<and> host \<noteq> '''' \<and> \<not> user) endpoints"

definition strong_error :: err where
  "strong_error = ErrOther
     ''strong-crypto mode requires HTTPS OIDC issuer and endpoints without URL credentials''"

definition getProvider :: "idp \<Rightarrow> (provider_doc, 'z) xres" where
  "getProvider I = do {
     s \<leftarrow> getS;
     case of_provider (ss_flow s) of
       Some p \<Rightarrow> ret (Inr p)
     | None \<Rightarrow>
         if idp_fips I \<and> \<not> requireOIDCHTTPS I [of_issuer (ss_flow s)] then ret (Inl strong_error)
         else check (call_idp (\<lambda>n. idp_discover I n (of_issuer (ss_flow s)))) (\<lambda>p.
           case pd_jwks_uri p of
             None \<Rightarrow> ret (Inl (ErrOther ''invalid provider metadata''))
           | Some jwks \<Rightarrow>
               if idp_fips I \<and> \<not> requireOIDCHTTPS I [pd_auth_url p, pd_token_url p, jwks]
               then ret (Inl strong_error)
               else do {
                 modifyS (\<lambda>s. s\<lparr>ss_flow := (ss_flow s)\<lparr>of_provider := Some p\<rparr>\<rparr>);
                 ret (Inr p) }) }"

definition flow_config :: "idp \<Rightarrow> (provider_doc, 'z) xres" where
  "flow_config I = do {
     s \<leftarrow> getS;
     if of_issuer (ss_flow s) = '''' \<or> of_client_id (ss_flow s) = '''' then ret (Inl ErrProviderDisabled)
     else getProvider I }"

definition authCodeURL :: "idp \<Rightarrow> string \<Rightarrow> string \<Rightarrow> string \<Rightarrow> string \<Rightarrow> (string, 'z) xres" where
  "authCodeURL I redirectURI state verifier nonce =
     check (flow_config I) (\<lambda>p. do {
       s \<leftarrow> getS;
       ret (Inr (idp_auth_url I p (of_client_id (ss_flow s)) redirectURI state verifier nonce)) })"

definition exchange ::
  "idp \<Rightarrow> string \<Rightarrow> string \<Rightarrow> string \<Rightarrow> string \<Rightarrow> (identity_claims, 'z) xres" where
  "exchange I code verifier redirectURI expectedNonce =
     check (flow_config I) (\<lambda>p. do {
       s \<leftarrow> getS;
       let f = ss_flow s;
       check (call_idp (\<lambda>n. idp_exchange I n p (of_client_id f) (of_client_secret f) redirectURI code verifier))
         (\<lambda>extra.
         let raw = (case extra of None \<Rightarrow> '''' | Some t \<Rightarrow> t)
         in if raw = '''' then ret (Inl (ErrOther ''missing id_token in token response''))
            else do {
              v \<leftarrow> call_idp (\<lambda>n. idp_verify I n p (of_client_id f) raw);
              case v of
                Inl e \<Rightarrow> ret (Inl ErrInvalidIDToken)
              | Inr t \<Rightarrow>
                  if expectedNonce = '''' \<or> it_nonce t \<noteq> expectedNonce then ret (Inl ErrInvalidIDToken)
                  else ret (claimsFromIDToken t) }) })"

definition ExchangeCode ::
  "string \<Rightarrow> idp \<Rightarrow> string \<Rightarrow> string \<Rightarrow> string \<Rightarrow> string \<Rightarrow> (identity_claims, 'z) xres" where
  "ExchangeCode provider I code verifier redirectURI expectedNonce =
     check (exchange I code verifier redirectURI expectedNonce) (\<lambda>c.
       ret (Inr (c\<lparr>ic_provider := provider\<rparr>)))"

section \<open>Back-channel logout tokens\<close>

record logout_claims =
  lc_subject :: string
  lc_session_id :: string
  lc_issued_at :: time

definition backchannelLogoutEvent :: string where
  "backchannelLogoutEvent = ''http://schemas.openid.net/event/backchannel-logout''"

definition jwtType :: "idp \<Rightarrow> string \<Rightarrow> string option" where
  "jwtType I raw = do {
     decoded \<leftarrow> b64_decode_raw url_chars (fst (cut_on CHR ''.'' raw));
     j \<leftarrow> idp_json I decoded;
     m \<leftarrow> json_members j;
     typ \<leftarrow> field_string ''typ'' '''' m;
     Some (to_lower typ) }"

text \<open>The \<^verbatim>\<open>events\<close> member: a map of raw values, \<^verbatim>\<open>null\<close> for none.\<close>

definition events_claim :: "(string \<times> json) list \<Rightarrow> (string \<times> json) list option" where
  "events_claim m = (case field_raw ''events'' m of None \<Rightarrow> Some [] | Some j \<Rightarrow> json_members j)"

definition is_event :: "(string \<times> json) list \<Rightarrow> bool" where
  "is_event events =
     (case map_of (rev events) backchannelLogoutEvent of Some (JObj e) \<Rightarrow> True | _ \<Rightarrow> False)"

definition decode_logout :: "id_token \<Rightarrow> logout_claims option" where
  "decode_logout t = do {
     m \<leftarrow> json_members (it_claims t);
     sub \<leftarrow> field_string ''sub'' '''' m;
     sid \<leftarrow> field_string ''sid'' '''' m;
     iat \<leftarrow> field_int64 ''iat'' 0 m;
     events \<leftarrow> events_claim m;
     if (case field_raw ''nonce'' m of None \<Rightarrow> False | Some v \<Rightarrow> v \<noteq> JNull) \<or> iat = 0 \<or> (sub = '''' \<and> sid = '''')
     then None
     else if \<not> is_event events then None
     else Some \<lparr>lc_subject = sub, lc_session_id = sid, lc_issued_at = time_Unix iat\<rparr> }"

definition logout_type :: "string option \<Rightarrow> bool" where
  "logout_type typ =
     (case typ of
        None \<Rightarrow> False
      | Some t \<Rightarrow> t = '''' \<or> t = ''logout+jwt'' \<or> t = ''application/logout+jwt'')"

definition verifyLogout :: "idp \<Rightarrow> string \<Rightarrow> (logout_claims, 'z) xres" where
  "verifyLogout I raw =
     check (flow_config I) (\<lambda>p. do {
       s \<leftarrow> getS;
       v \<leftarrow> call_idp (\<lambda>n. idp_verify I n p (of_client_id (ss_flow s)) raw);
       case v of
         Inl e \<Rightarrow> ret (Inl ErrInvalidLogoutToken)
       | Inr t \<Rightarrow>
           if \<not> logout_type (jwtType I raw) then ret (Inl ErrInvalidLogoutToken)
           else case decode_logout t of
             None \<Rightarrow> ret (Inl ErrInvalidLogoutToken)
           | Some c \<Rightarrow> ret (Inr c) })"

section \<open>The keys of the provider\<close>

text \<open>
  The transport the verifier fetches keys through: the response of the network, its body \<^verbatim>\<open>None\<close>
  when reading it fails. The JWK decoder of go-jose is a parameter: the members \<^verbatim>\<open>kty\<close> and \<^verbatim>\<open>n\<close>.
\<close>

definition bit_len :: "string \<Rightarrow> nat" where
  "bit_len bytes = floorlog 2 (of_octets (map of_char bytes))"

definition strong_key :: "(json \<Rightarrow> (string \<times> string) option) \<Rightarrow> json \<Rightarrow> err + unit" where
  "strong_key jwk raw =
     (case jwk raw of
        None \<Rightarrow> Inl (ErrOther ''invalid OIDC JWK'')
      | Some (kty, n) \<Rightarrow>
          if kty \<noteq> ''RSA'' then Inr ()
          else case b64_decode_raw url_chars n of
            None \<Rightarrow> Inl (ErrOther ''OIDC JWKS RSA keys must be at least 2048 bits'')
          | Some b \<Rightarrow>
              if bit_len b < 2048
              then Inl (ErrOther ''OIDC JWKS RSA keys must be at least 2048 bits'') else Inr ())"

fun strong_keys :: "(json \<Rightarrow> (string \<times> string) option) \<Rightarrow> json list \<Rightarrow> err + unit" where
  "strong_keys jwk [] = Inr ()"
| "strong_keys jwk (k # ks) =
     (case strong_key jwk k of Inl e \<Rightarrow> Inl e | Inr _ \<Rightarrow> strong_keys jwk ks)"

definition jwks_keys :: "json \<Rightarrow> json list option" where
  "jwks_keys j = do {
     m \<leftarrow> json_members j;
     case field_raw ''keys'' m of
       None \<Rightarrow> Some []
     | Some JNull \<Rightarrow> Some []
     | Some (JList ks) \<Rightarrow> Some ks
     | Some _ \<Rightarrow> None }"

definition maxJWKSBytes :: nat where "maxJWKSBytes = 2 ^ 20"

definition jwks_RoundTrip ::
  "idp \<Rightarrow> (json \<Rightarrow> (string \<times> string) option) \<Rightarrow> err + int \<times> string option \<Rightarrow> err + int \<times> string option"
where
  "jwks_RoundTrip I jwk resp =
     (case resp of
        Inl e \<Rightarrow> Inl e
      | Inr (status, body) \<Rightarrow>
          if 300 \<le> status \<and> status < 400 then Inl (ErrOther ''OIDC JWKS redirects are refused'')
          else if status \<noteq> 200 then Inr (status, body)
          else case body of
            None \<Rightarrow> Inl (ErrOther ''read error'')
          | Some raw \<Rightarrow>
              if length raw > maxJWKSBytes then Inl (ErrOther ''OIDC JWKS exceeds 1 MiB'')
              else case Option.bind (idp_json I raw) jwks_keys of
                None \<Rightarrow> Inl (ErrOther ''invalid OIDC JWKS'')
              | Some ks \<Rightarrow>
                  (case strong_keys jwk ks of Inl e \<Rightarrow> Inl e | Inr _ \<Rightarrow> Inr (status, Some raw)))"

section \<open>Properties\<close>

lemma strong_keys_all:
  "strong_keys jwk ks = Inr () \<Longrightarrow> k \<in> set ks \<Longrightarrow> strong_key jwk k = Inr ()"
  by (induction jwk ks rule: strong_keys.induct) (auto split: sum.splits)

lemma strong_key_rsa:
  assumes "strong_key jwk k = Inr ()" and "jwk k = Some (''RSA'', n)"
  shows "\<exists>b. b64_decode_raw url_chars n = Some b \<and> 2 ^ 2047 \<le> of_octets (map of_char b)"
proof -
  obtain b where b: "b64_decode_raw url_chars n = Some b" and l: "2048 \<le> bit_len b"
    using assms by (auto simp: strong_key_def not_less split: option.splits if_splits)
  have "2 ^ 2047 \<le> of_octets (map of_char b)"
    using l floorlog_geD [of "2048" 2] unfolding bit_len_def by fastforce
  with b show ?thesis by blast
qed

text \<open>A key that is not RSA, or whose modulus has at least \<open>n\<close> bits.\<close>

definition rsa_bits :: "(json \<Rightarrow> (string \<times> string) option) \<Rightarrow> nat \<Rightarrow> json \<Rightarrow> bool" where
  "rsa_bits jwk bits k =
     (case jwk k of
        None \<Rightarrow> False
      | Some (kty, n) \<Rightarrow>
          if kty = ''RSA''
          then (\<exists>b. b64_decode_raw url_chars n = Some b \<and> 2 ^ (bits - 1) \<le> of_octets (map of_char b))
          else True)"

lemma strong_keys_bits: "strong_keys jwk ks = Inr () \<Longrightarrow> list_all (rsa_bits jwk 2048) ks"
proof (unfold list_all_iff, rule ballI)
  fix k assume "strong_keys jwk ks = Inr ()" "k \<in> set ks"
  from strong_keys_all [OF this] strong_key_rsa [of jwk k] show "rsa_bits jwk 2048 k"
    by (cases "jwk k") (auto simp: strong_key_def rsa_bits_def)
qed

text \<open>
  Whatever key set the provider serves, the verifier only gets it when every RSA key in it has a
  modulus of at least 2048 bits, and never from a redirect or beyond a mebibyte.
\<close>

lemma jwks_strength:
  "case jwks_RoundTrip I jwk resp of
     Inl e \<Rightarrow> True
   | Inr (status, body) \<Rightarrow>
       resp = Inr (status, body) \<and> \<not> (300 \<le> status \<and> status < 400) \<and>
       (if status = 200
        then (\<exists>raw j ks. body = Some raw \<and> length raw \<le> 2 ^ 20 \<and> idp_json I raw = Some j \<and>
          jwks_keys j = Some ks \<and> list_all (rsa_bits jwk 2048) ks)
        else True)"
  by (auto simp: jwks_RoundTrip_def maxJWKSBytes_def Option.bind_eq_Some_conv strong_keys_bits
      split: sum.split option.split)

section \<open>The generic client\<close>

definition generic_BuildAuthURL ::
  "idp \<Rightarrow> string \<Rightarrow> string \<Rightarrow> string \<Rightarrow> string \<Rightarrow> (string, 'z) xres" where
  "generic_BuildAuthURL I redirectURI st verifier nonce = authCodeURL I redirectURI st verifier nonce"

definition generic_ExchangeCode ::
  "idp \<Rightarrow> string \<Rightarrow> string \<Rightarrow> string \<Rightarrow> string \<Rightarrow> (identity_claims, 'z) xres" where
  "generic_ExchangeCode I code verifier redirectURI expectedNonce =
     check (exchange I code verifier redirectURI expectedNonce) (\<lambda>c. ret (Inr (c\<lparr>ic_provider := ''oidc''\<rparr>)))"

section \<open>The HTTP client of the provider's calls\<close>

text \<open>A timeout of 0 is none.\<close>

record http_client =
  hc_timeout :: duration
  hc_refuses_redirects :: bool

definition strongOIDCContext :: "bool \<Rightarrow> http_client \<Rightarrow> http_client option \<Rightarrow> http_client" where
  "strongOIDCContext fips default_client configured = (
     let client = (case configured of None \<Rightarrow> default_client | Some c \<Rightarrow> c);
         client = (if fips then client\<lparr>hc_refuses_redirects := True\<rparr> else client)
     in if hc_timeout client = 0 then client\<lparr>hc_timeout := 10 * second\<rparr> else client)"

text \<open>Every call is bounded, and in strong-crypto mode no redirect is followed.\<close>

lemma strong_context:
  "hc_timeout (strongOIDCContext fips d c) \<noteq> 0"
  "fips \<Longrightarrow> hc_refuses_redirects (strongOIDCContext fips d c)"
  by (auto simp: strongOIDCContext_def Let_def second_def)

end
