(* ===== verification/KySignOn.thy ===== *)
theory KySignOn
  imports Oidc HandlerFacts
begin

text \<open>
  Single sign-on: internal/api/sso_handlers.go with the account adoption of internal/sso/kysignon.go
  and the metadata of internal/sso/saml.go. The form value \<^verbatim>\<open>logout_token\<close> is an argument, empty
  when the body does not parse or exceeds the limit. The short HTML body that \<^verbatim>\<open>http.Redirect\<close> adds
  is left out.
\<close>

section \<open>Responses\<close>

definition redirect :: "string \<Rightarrow> response" where
  "redirect url = \<lparr>rs_status = 302, rs_headers = [(''Location'', url)], rs_cookies = [], rs_body = NoBody\<rparr>"

definition sso_error_text :: "err \<Rightarrow> string" where
  "sso_error_text e =
     (case e of
        ErrOther m \<Rightarrow> m
      | ErrInvalidIDToken \<Rightarrow> ''invalid ID token''
      | ErrProviderDisabled \<Rightarrow> ''SSO provider is not enabled''
      | ErrInvalidLogoutToken \<Rightarrow> ''invalid logout token''
      | _ \<Rightarrow> '''')"

text \<open>\<^verbatim>\<open>%q\<close> of text without control characters.\<close>

definition go_quote :: "string \<Rightarrow> string" where
  "go_quote s =
     CHR 0x22 # concat (map (\<lambda>c. if c = CHR 0x22 \<or> c = CHR 0x5C then [CHR 0x5C, c] else [c]) s) @ [CHR 0x22]"

section \<open>Starting a sign-in\<close>

definition short_cookie :: "config \<Rightarrow> string \<Rightarrow> string \<Rightarrow> cookie" where
  "short_cookie cfg n v =
     \<lparr>ck_name = CookieName n (c_host_cookies (cfg_security cfg)), ck_value = v, ck_path = ''/'',
      ck_expires = None, ck_max_age = 300, ck_http_only = True,
      ck_secure = c_cookie_secure (cfg_security cfg), ck_domain = ''''\<rparr>"

definition callback_uri :: "config \<Rightarrow> string" where
  "callback_uri cfg = c_app_url (cfg_server cfg) @ ''/api/sso/kysignon/callback''"

text \<open>\<^verbatim>\<open>oauth2.GenerateVerifier\<close> encodes 32 random bytes.\<close>

definition handleKySignOnLogin :: "idp \<Rightarrow> config \<Rightarrow> request \<Rightarrow> (response, 'z) xio" where
  "handleKySignOnLogin I cfg r = do {
     state \<leftarrow> RandomHex 16;
     nonce \<leftarrow> RandomHex 16;
     verifier \<leftarrow> RandomBase64URL 32;
     url \<leftarrow> authCodeURL I (callback_uri cfg) state verifier nonce;
     case url of
       Inl e \<Rightarrow> writeError 400 (sso_error_text e)
     | Inr u \<Rightarrow>
         ret ((redirect u)\<lparr>rs_cookies := [short_cookie cfg (''ky_pkce_'' @ state) verifier,
                                        short_cookie cfg (''ky_nonce_'' @ state) nonce]\<rparr>) }"

section \<open>The account of an identity\<close>

definition AdoptSCIMUser :: "string \<Rightarrow> (user \<times> bool, 'z) xres" where
  "AdoptSCIMUser subject =
     (if subject = '''' then ret (Inl ErrNotFound)
      else check (getUserBySSO ''scim'' subject) (\<lambda>u. do {
        res \<leftarrow> linkSSOIdentity (u_id u) subject ''scim'' ''kysignon'';
        case res of
          Inl e \<Rightarrow>
            if e = ErrConflict
            then check (getUserBySSO ''kysignon'' subject) (\<lambda>v. ret (Inr (v, False)))
            else ret (Inl e)
        | Inr _ \<Rightarrow> ret (Inr (u\<lparr>u_sso_provider := ''kysignon''\<rparr>, True)) }))"

definition adoptSCIMUser :: "config \<Rightarrow> request \<Rightarrow> string \<Rightarrow> (user, 'z) xres" where
  "adoptSCIMUser cfg r subject =
     check (AdoptSCIMUser subject) (\<lambda>(u, adopted). do {
       _ \<leftarrow> (if adopted
            then logAudit (new_audit (u_id u) ''sso.scim_account_linked'' (u_username u) '''' (requestIP cfg r) 0)
            else ret (Inr ()));
       ret (Inr u) })"

definition new_sso_user :: "string \<Rightarrow> identity_claims \<Rightarrow> user" where
  "new_sso_user hex c =
     \<lparr>u_id = ''usr_'' @ hex, u_username = ic_preferred_username c, u_email = ic_email c,
      u_display_name = ic_name c, u_password_hash = '''',
      u_role = (case LocalRole c of None \<Rightarrow> ''user'' | Some m \<Rightarrow> m), u_status = ''active'',
      u_sso_provider = ''kysignon'', u_sso_subject = ic_subject c, u_scim_managed = False,
      u_push_device_id = '''', u_must_change_password = False, u_created_at = 0, u_updated_at = 0,
      u_last_login_at = None\<rparr>"

definition name_taken :: "string \<Rightarrow> string" where
  "name_taken name = ''An account named '' @ go_quote name @
     '' already exists here and is not linked to this KyIdentity sign-in. An administrator must rename or remove that account in its directory, or provision it through SCIM with your KyIdentity ID as its externalId.''"

definition provision :: "config \<Rightarrow> identity_claims \<Rightarrow> (response + user, 'z) xio" where
  "provision cfg c =
     (if \<not> c_auto_provision (cfg_sso cfg) then ret (Inl (error_reply 403 ''User account not provisioned''))
      else do {
        hex \<leftarrow> RandomHex 12;
        res \<leftarrow> createUser (new_sso_user hex c);
        case res of
          Inl e \<Rightarrow>
            if e = ErrAlreadyExists then ret (Inl (error_reply 409 (name_taken (ic_preferred_username c))))
            else ret (Inl (error_reply 500 ''Failed to provision SSO user''))
        | Inr u \<Rightarrow> ret (Inr u) })"

definition find_account :: "config \<Rightarrow> request \<Rightarrow> identity_claims \<Rightarrow> (response + user, 'z) xio" where
  "find_account cfg r c = do {
     linked \<leftarrow> getUserBySSO ''kysignon'' (ic_subject c);
     found \<leftarrow> (if linked = Inl ErrNotFound then adoptSCIMUser cfg r (ic_subject c) else ret linked);
     case found of
       Inl e \<Rightarrow>
         if e = ErrNotFound then provision cfg c
         else ret (Inl (error_reply 500 ''Failed to provision SSO user''))
     | Inr u \<Rightarrow> ret (Inr u) }"

section \<open>Finishing a sign-in\<close>

definition follow_role ::
  "config \<Rightarrow> request \<Rightarrow> identity_claims \<Rightarrow> user \<Rightarrow> (response + user, 'z) xio" where
  "follow_role cfg r c u =
     (case LocalRole c of
        None \<Rightarrow> ret (Inr u)
      | Some m \<Rightarrow>
          if u_role u = m then ret (Inr u)
          else do {
            res \<leftarrow> updateUserRole (u\<lparr>u_role := m\<rparr>) (u_role u);
            case res of
              Inl e \<Rightarrow>
                if e = ErrConflict
                then ret (Inl (error_reply 409 ''Your account changed while you were signing in. Sign in again.''))
                else ret (Inl (error_reply 500 ''Failed to update the account role''))
            | Inr v \<Rightarrow> do {
                _ \<leftarrow> logAudit (new_audit (u_id v) ''sso.role_changed'' (u_username v)
                       (''from='' @ u_role u @ '' to='' @ m) (requestIP cfg r) 0);
                ret (Inr v) } })"

definition sso_session ::
  "config \<Rightarrow> request \<Rightarrow> identity_claims \<Rightarrow> user \<Rightarrow> (response, 'z) xio" where
  "sso_session cfg r c u = do {
     issued \<leftarrow> IssueSSOSession (cfg_security cfg) r u (ic_session_id c) (ic_issued_at c);
     case issued of
       Inl e \<Rightarrow>
         if e = ErrSSOSessionEnded then writeError 401 ''SSO session already ended''
         else writeError 500 ''Session creation failed''
     | Inr (sess, raw, cookies) \<Rightarrow> ret ((redirect ''/'')\<lparr>rs_cookies := cookies\<rparr>) }"

definition sign_in_identity :: "config \<Rightarrow> request \<Rightarrow> identity_claims \<Rightarrow> (response, 'z) xio" where
  "sign_in_identity cfg r c = do {
     found \<leftarrow> find_account cfg r c;
     case found of
       Inl resp \<Rightarrow> ret resp
     | Inr u \<Rightarrow>
         if u_status u \<noteq> ''active'' then writeError 403 ''Account is disabled''
         else do {
           followed \<leftarrow> follow_role cfg r c u;
           case followed of
             Inl resp \<Rightarrow> ret resp
           | Inr v \<Rightarrow> sso_session cfg r c v } }"

definition handleKySignOnCallback :: "idp \<Rightarrow> config \<Rightarrow> request \<Rightarrow> (response, 'z) xio" where
  "handleKySignOnCallback I cfg r = (
     let code = query_get r ''code'';
         state = query_get r ''state'';
         host = c_host_cookies (cfg_security cfg);
         verifier = cookie_value r (CookieName (''ky_pkce_'' @ state) host);
         nonce = cookie_value r (CookieName (''ky_nonce_'' @ state) host)
     in if verifier = '''' then writeError 400 ''Invalid or expired SSO state''
        else if nonce = '''' then writeError 400 ''Invalid or expired SSO nonce''
        else do {
          claims \<leftarrow> ExchangeCode ''kysignon'' I code verifier (callback_uri cfg) nonce;
          case claims of
            Inl e \<Rightarrow> writeError 401 (''SSO exchange failed: '' @ sso_error_text e)
          | Inr c \<Rightarrow> sign_in_identity cfg r c })"

section \<open>Back-channel logout\<close>

definition ssoLogoutFence :: duration where "ssoLogoutFence = 10 * minute"

definition end_login :: "logout_claims \<Rightarrow> time \<Rightarrow> (unit, 'z) xres" where
  "end_login c fenceUntil =
     (if lc_session_id c \<noteq> '''' then endSSOSession (lc_session_id c) fenceUntil
      else endSSOSubject ''kysignon'' (lc_subject c) (lc_issued_at c + second) fenceUntil)"

definition handleKySignOnBackchannelLogout ::
  "idp \<Rightarrow> config \<Rightarrow> string \<Rightarrow> request \<Rightarrow> (response, 'z) xio" where
  "handleKySignOnBackchannelLogout I cfg logout_token r = do {
     resp \<leftarrow> do {
       claims \<leftarrow> verifyLogout I logout_token;
       case claims of
         Inl e \<Rightarrow> writeError 400 ''invalid_request''
       | Inr c \<Rightarrow> do {
           now \<leftarrow> time_Now;
           res \<leftarrow> end_login c (now + ssoLogoutFence);
           case res of
             Inl e \<Rightarrow> writeError 500 ''logout failed''
           | Inr _ \<Rightarrow> do {
               _ \<leftarrow> logAudit (new_audit '''' ''auth.sso_backchannel_logout'' ''session'' '''' (requestIP cfg r) 0);
               ret (plain_reply 200 '''') } } };
     ret (resp\<lparr>rs_headers := (''Cache-Control'', ''no-store'') # rs_headers resp\<rparr>) }"

section \<open>SAML metadata\<close>

text \<open>\<^verbatim>\<open>xml.EscapeText\<close> of a printable attribute value.\<close>

definition xml_escape :: "string \<Rightarrow> string" where
  "xml_escape s = concat (map (\<lambda>c.
     if c = CHR 0x22 then ''&#34;'' else if c = CHR 0x27 then ''&#39;''
     else if c = CHR ''&'' then ''&amp;'' else if c = CHR ''<'' then ''&lt;''
     else if c = CHR ''>'' then ''&gt;'' else if c = CHR 0x09 then ''&#x9;''
     else if c = CHR 0x0A then ''&#xA;'' else if c = CHR 0x0D then ''&#xD;'' else [c]) s)"

definition xml_attr :: "string \<Rightarrow> string \<Rightarrow> string" where
  "xml_attr n v = '' '' @ n @ ''='' @ [CHR 0x22] @ xml_escape v @ [CHR 0x22]"

definition xml_elem :: "string \<Rightarrow> (string \<times> string) list \<Rightarrow> string \<Rightarrow> string" where
  "xml_elem n attrs inner =
     ''<'' @ n @ concat (map (\<lambda>(k, v). xml_attr k v) attrs) @ ''>'' @ inner @ ''</'' @ n @ ''>''"

definition xml_header :: string where
  "xml_header = ''<?xml version='' @ [CHR 0x22] @ ''1.0'' @ [CHR 0x22] @ '' encoding='' @
     [CHR 0x22] @ ''UTF-8'' @ [CHR 0x22] @ ''?>'' @ [CHR 0x0A]"

definition GenerateMetadata :: "string \<Rightarrow> string \<Rightarrow> string" where
  "GenerateMetadata entityID acsURL =
     xml_header @
     xml_elem ''md:EntityDescriptor''
       [(''xmlns:md'', ''urn:oasis:names:tc:SAML:2.0:metadata''), (''entityID'', entityID)]
       (xml_elem ''md:SPSSODescriptor''
          [(''protocolSupportEnumeration'', ''urn:oasis:names:tc:SAML:2.0:protocol'')]
          (xml_elem ''md:NameIDFormat'' [] ''urn:oasis:names:tc:SAML:1.1:nameid-format:emailAddress'' @
           xml_elem ''md:AssertionConsumerService''
             [(''Binding'', ''urn:oasis:names:tc:SAML:2.0:bindings:HTTP-POST''), (''Location'', acsURL),
              (''index'', ''1''), (''isDefault'', ''true'')] ''''))"

definition handleSAMLMetadata :: "config \<Rightarrow> request \<Rightarrow> (response, 'z) xio" where
  "handleSAMLMetadata cfg r =
     ret \<lparr>rs_status = 200, rs_headers = [(''Content-Type'', ''application/xml'')], rs_cookies = [],
          rs_body = Text (GenerateMetadata (c_saml_entity_id (cfg_sso cfg))
                            (c_app_url (cfg_server cfg) @ ''/saml/acs''))\<rparr>"

section \<open>Whom a callback signs in\<close>

text \<open>The table has the account of \<open>u\<close>: its row, still linked to the identity.\<close>

definition linked_row :: "string \<Rightarrow> user \<Rightarrow> db \<Rightarrow> bool" where
  "linked_row subject u d \<longleftrightarrow>
     (\<exists>v \<in> set (t_users d). u_id v = u_id u \<and> u_sso_provider v = ''kysignon'' \<and>
        u_sso_subject v = subject \<and> u_role v = u_role u \<and> u_status v = u_status u)"

lemma getUserBySSO_ok:
  "run_state (getUserBySSO p sub) w = (Inr u, w') \<Longrightarrow>
     u \<in> set (t_users (w_db w')) \<and> u_sso_provider u = p \<and> u_sso_subject u = sub \<and> w_db w' = w_db w"
  by (auto simp: getUserBySSO_def run_stmt select_user_def split: if_splits option.splits dest: find_SomeD)

lemma linkSSOIdentity_ok:
  "run_state (linkSSOIdentity i sub f t) w = (Inr x, w') \<Longrightarrow>
     t_users (w_db w') = map (\<lambda>r. if u_id r = i \<and> u_sso_subject r = sub \<and> u_sso_provider r = f
       then r\<lparr>u_sso_provider := t, u_updated_at := w_clock w (w_ticks w)\<rparr> else r) (t_users (w_db w))"
  by (auto simp: linkSSOIdentity_def run_check run_stmt update_users_def Let_def
      split: if_splits prod.splits sum.splits)

lemma linked_row_users: "t_users d' = t_users d \<Longrightarrow> linked_row s u d' = linked_row s u d"
  by (simp add: linked_row_def)

lemma logAudit_users:
  "run_state (logAudit a) w = (x, w') \<Longrightarrow> t_users (w_db w') = t_users (w_db w)"
  using logAudit_db [OF refl, of a w] by (simp add: exec_def)

lemma AdoptSCIMUser_ok:
  assumes "run_state (AdoptSCIMUser sub) w = (Inr (u, a), w')"
  shows "linked_row sub u (w_db w')"
proof -
  obtain v w1 where g: "run_state (getUserBySSO ''scim'' sub) w = (Inr v, w1)"
    using assms by (auto simp: AdoptSCIMUser_def run_check split: if_splits prod.splits sum.splits)
  obtain res w2 where l: "run_state (linkSSOIdentity (u_id v) sub ''scim'' ''kysignon'') w1 = (res, w2)"
    by force
  note v = getUserBySSO_ok [OF g]
  show ?thesis
  proof (cases res)
    case (Inl e)
    then have "run_state (getUserBySSO ''kysignon'' sub) w2 = (Inr u, w')"
      using assms g l by (auto simp: AdoptSCIMUser_def run_check split: if_splits prod.splits sum.splits)
    from getUserBySSO_ok [OF this] show ?thesis unfolding linked_row_def by blast
  next
    case (Inr x)
    then have u: "u = v\<lparr>u_sso_provider := ''kysignon''\<rparr>" and w': "w' = w2"
      using assms g l by (auto simp: AdoptSCIMUser_def run_check split: if_splits prod.splits sum.splits)
    let ?f = "\<lambda>r. if u_id r = u_id v \<and> u_sso_subject r = sub \<and> u_sso_provider r = ''scim''
       then r\<lparr>u_sso_provider := ''kysignon'', u_updated_at := w_clock w1 (w_ticks w1)\<rparr> else r"
    have "set (t_users (w_db w')) = ?f ` set (t_users (w_db w1))"
      unfolding w' linkSSOIdentity_ok [OF l [unfolded Inr]] by (rule set_map)
    then have "?f v \<in> set (t_users (w_db w'))" using v by blast
    then show ?thesis
      unfolding linked_row_def by (rule bexI [rotated]) (simp add: u v)
  qed
qed

lemma adoptSCIMUser_ok:
  assumes "run_state (adoptSCIMUser cfg r sub) w = (Inr u, w')"
  shows "linked_row sub u (w_db w')"
proof -
  obtain a w1 where a: "run_state (AdoptSCIMUser sub) w = (Inr (u, a), w1)"
    and w': "t_users (w_db w') = t_users (w_db w1)"
    using assms
    by (auto simp: adoptSCIMUser_def run_check split: prod.splits sum.splits if_splits
        dest!: logAudit_users)
  show ?thesis using AdoptSCIMUser_ok [OF a] linked_row_users [OF w'] by simp
qed

lemma createUser_ok:
  assumes "run_state (createUser u) w = (Inr v, w')"
  shows "v = stamp_times (w_clock w (w_ticks w)) u" and "v \<in> set (t_users (w_db w'))"
  using assms
  by (auto simp: createUser_def Let_def run_check map_err_def run_stmt insert_user_def
      split: prod.splits sum.splits if_splits elim!: transaction_ok)

lemma provision_ok:
  assumes "run_state (provision cfg c) w = (Inr u, w')"
  shows "linked_row (ic_subject c) u (w_db w')"
proof -
  obtain hex w1 where c: "run_state (createUser (new_sso_user hex c)) w1 = (Inr u, w')"
    using assms by (auto simp: provision_def split: if_splits prod.splits sum.splits)
  have "u_sso_provider u = ''kysignon''" "u_sso_subject u = ic_subject c"
    using createUser_ok(1) [OF c] by (simp_all add: stamp_times_def new_sso_user_def)
  then show ?thesis using createUser_ok(2) [OF c] unfolding linked_row_def by blast
qed

lemma find_account_ok:
  assumes "run_state (find_account cfg r c) w = (Inr u, w')"
  shows "linked_row (ic_subject c) u (w_db w')"
proof -
  obtain l w1 where l: "run_state (getUserBySSO ''kysignon'' (ic_subject c)) w = (l, w1)" by force
  show ?thesis
  proof (cases "l = Inl ErrNotFound")
    case False
    then have "l = Inr u \<and> w' = w1"
      using assms l by (cases l) (auto simp: find_account_def)
    with l have "run_state (getUserBySSO ''kysignon'' (ic_subject c)) w = (Inr u, w')" by simp
    from getUserBySSO_ok [OF this] show ?thesis unfolding linked_row_def by blast
  next
    case True
    obtain a w2 where a: "run_state (adoptSCIMUser cfg r (ic_subject c)) w1 = (a, w2)" by force
    show ?thesis
    proof (cases a)
      case (Inl e)
      then have "run_state (provision cfg c) w2 = (Inr u, w')"
        using assms l True a by (auto simp: find_account_def split: if_splits)
      then show ?thesis by (rule provision_ok)
    next
      case (Inr v)
      then have "run_state (adoptSCIMUser cfg r (ic_subject c)) w1 = (Inr u, w')"
        using assms l True a by (auto simp: find_account_def split: if_splits)
      then show ?thesis by (rule adoptSCIMUser_ok)
    qed
  qed
qed

lemma updateUserRole_ok:
  assumes "run_state (updateUserRole u prev) w = (Inr v, w')"
  shows "v = u\<lparr>u_updated_at := w_clock w (w_ticks w)\<rparr>"
    and "t_users (w_db w') = map (\<lambda>x. if u_id x = u_id u \<and> u_role x = prev \<and> u_status x = u_status u
      then x\<lparr>u_role := u_role u, u_updated_at := w_clock w (w_ticks w)\<rparr> else x) (t_users (w_db w))"
proof -
  let ?v = "u\<lparr>u_updated_at := w_clock w (w_ticks w)\<rparr>"
  let ?q = "update_users (profile_where ?v prev (u_status u))
    (\<lambda>r. r\<lparr>u_role := u_role u, u_updated_at := w_clock w (w_ticks w)\<rparr>)"
  obtain x where p: "run_state (updateProfile ?v prev (u_status u) False ?q)
      (w\<lparr>w_ticks := Suc (w_ticks w)\<rparr>) = (Inr x, w')" and v: "v = ?v"
    using assms by (auto simp: updateUserRole_def Let_def run_check split: prod.splits sum.splits)
  from updateProfile_result [OF p] have "w_db w' = cas_db (profile_where ?v prev (u_status u))
      (\<lambda>r. r\<lparr>u_role := u_role u, u_updated_at := w_clock w (w_ticks w)\<rparr>)
      (u_role u \<noteq> prev \<or> u_status u \<noteq> u_status u) (u_id u) (w_db w)"
    by simp
  then show "t_users (w_db w') = map (\<lambda>x. if u_id x = u_id u \<and> u_role x = prev \<and> u_status x = u_status u
      then x\<lparr>u_role := u_role u, u_updated_at := w_clock w (w_ticks w)\<rparr> else x) (t_users (w_db w))"
    by (simp only: cas_db_def profile_where_def) simp
  show "v = ?v" by (rule v)
qed

lemma follow_role_ok:
  assumes run: "run_state (follow_role cfg r c u) w = (Inr v, w')" and row: "linked_row s u (w_db w)"
  shows "linked_row s v (w_db w')" and "u_status v = u_status u"
    and "case LocalRole c of None \<Rightarrow> True | Some m \<Rightarrow> u_role v = m"
proof -
  have "linked_row s v (w_db w') \<and> u_status v = u_status u \<and>
    (case LocalRole c of None \<Rightarrow> True | Some m \<Rightarrow> u_role v = m)"
  proof (cases "case LocalRole c of None \<Rightarrow> True | Some m \<Rightarrow> u_role u = m")
    case True
    then show ?thesis using run row by (auto simp: follow_role_def split: option.splits if_splits)
  next
    case False
    then obtain m where m: "LocalRole c = Some m" "u_role u \<noteq> m" by (auto split: option.splits)
    obtain w1 where up: "run_state (updateUserRole (u\<lparr>u_role := m\<rparr>) (u_role u)) w = (Inr v, w1)"
      and w': "t_users (w_db w') = t_users (w_db w1)"
      using run m by (auto simp: follow_role_def split: prod.splits sum.splits if_splits dest!: logAudit_users)
    let ?g = "\<lambda>x. if u_id x = u_id u \<and> u_role x = u_role u \<and> u_status x = u_status u
      then x\<lparr>u_role := m, u_updated_at := w_clock w (w_ticks w)\<rparr> else x"
    obtain x where x: "x \<in> set (t_users (w_db w))" "u_id x = u_id u" "u_sso_provider x = ''kysignon''"
      "u_sso_subject x = s" "u_role x = u_role u" "u_status x = u_status u"
      using row by (auto simp: linked_row_def)
    have v: "v = u\<lparr>u_role := m, u_updated_at := w_clock w (w_ticks w)\<rparr>"
      using updateUserRole_ok(1) [OF up] by simp
    have "t_users (w_db w1) = map ?g (t_users (w_db w))"
      using updateUserRole_ok(2) [OF up] by simp
    then have "?g x \<in> set (t_users (w_db w'))" using x(1) w' by simp
    then have "linked_row s v (w_db w')"
      unfolding linked_row_def by (rule bexI [rotated]) (simp add: x v)
    then show ?thesis by (simp add: v m)
  qed
  then show "linked_row s v (w_db w')" "u_status v = u_status u"
    "case LocalRole c of None \<Rightarrow> True | Some m \<Rightarrow> u_role v = m" by simp_all
qed

text \<open>A token the provider verified, for some call.\<close>

definition verified_token :: "idp \<Rightarrow> string \<Rightarrow> string \<Rightarrow> id_token \<Rightarrow> bool" where
  "verified_token I clientID raw t \<longleftrightarrow> (\<exists>n p. idp_verify I n p clientID raw = Inr t)"

lemma run_call_idp [simp]:
  "run_state (call_idp f) s = (f (ss_calls s), s\<lparr>ss_calls := Suc (ss_calls s)\<rparr>)"
  by (simp add: call_idp_def)

lemma flow_config_frame:
  "run_state (flow_config I) s = (x, s') \<Longrightarrow>
     w_db s' = w_db s \<and> of_client_id (ss_flow s') = of_client_id (ss_flow s)"
  by (auto simp: flow_config_def getProvider_def run_check split: if_splits option.splits sum.splits)

lemma exchange_ok:
  assumes "run_state (exchange I code verifier uri nonce) s = (Inr c, s')"
  shows "w_db s' = w_db s" and "\<exists>raw t. verified_token I (of_client_id (ss_flow s)) raw t \<and>
    nonce \<noteq> '''' \<and> it_nonce t = nonce \<and> decode_identity t = Some c"
proof -
  obtain p s1 where f: "run_state (flow_config I) s = (Inr p, s1)"
    using assms by (auto simp: exchange_def run_check split: prod.splits sum.splits)
  note f1 = flow_config_frame [OF f]
  have "w_db s' = w_db s \<and> (\<exists>raw t. verified_token I (of_client_id (ss_flow s)) raw t \<and>
    nonce \<noteq> '''' \<and> it_nonce t = nonce \<and> decode_identity t = Some c)"
    using assms f f1
    by (auto simp: exchange_def run_check Let_def verified_token_def claimsFromIDToken_def
        split: prod.splits sum.splits if_splits option.splits)
  then show "w_db s' = w_db s" "\<exists>raw t. verified_token I (of_client_id (ss_flow s)) raw t \<and>
    nonce \<noteq> '''' \<and> it_nonce t = nonce \<and> decode_identity t = Some c" by simp_all
qed

lemma exchange_refused:
  "run_state (ExchangeCode prov I code verifier uri nonce) s = (x, s') \<Longrightarrow> w_db s' = w_db s"
  by (auto simp: ExchangeCode_def exchange_def run_check Let_def dest!: flow_config_frame
      split: prod.splits sum.splits if_splits option.splits)

text \<open>The session a callback grants.\<close>

definition sso_granted :: "config \<Rightarrow> identity_claims \<Rightarrow> response \<Rightarrow> db \<Rightarrow> bool" where
  "sso_granted cfg c resp d \<longleftrightarrow>
     (\<exists>v \<in> set (t_users d). \<exists>sess \<in> set (t_sessions d). \<exists>k \<in> set (rs_cookies resp).
        u_sso_provider v = ''kysignon'' \<and> u_sso_subject v = ic_subject c \<and> u_status v = ''active'' \<and>
        (case LocalRole c of None \<Rightarrow> True | Some m \<Rightarrow> u_role v = m) \<and>
        s_user_id sess = u_id v \<and> s_sso_sid sess = ic_session_id c \<and> s_created_at sess = ic_issued_at c \<and>
        ck_name k = CookieName ''ky_session'' (c_host_cookies (cfg_security cfg)) \<and>
        s_token_hash sess = SHA256Hex (ck_value k) \<and> ck_value k \<noteq> '''')"

lemma sso_session_ok:
  assumes run: "run_state (sso_session cfg r c u) s = (resp, s')" and ok: "rs_status resp = 302"
    and row: "linked_row (ic_subject c) u (w_db s)" and st: "u_status u = ''active''"
    and role: "case LocalRole c of None \<Rightarrow> True | Some m \<Rightarrow> u_role u = m"
  shows "sso_granted cfg c resp (w_db s')"
proof -
  obtain sess tok cks where i: "run_state (issue (cfg_security cfg) r u (ic_issued_at c) (ic_session_id c)) s
      = (Inr (sess, tok, cks), s')" and cks: "rs_cookies resp = cks"
    using run ok
    by (auto simp: sso_session_def IssueSSOSession_def split: prod.splits sum.splits if_splits)
  note i = issue_ok [OF i]
  obtain v where v: "v \<in> set (t_users (w_db s))" "u_id v = u_id u" "u_sso_provider v = ''kysignon''"
      "u_sso_subject v = ic_subject c" "u_role v = u_role u" "u_status v = u_status u"
    using row by (auto simp: linked_row_def)
  obtain k where k: "k \<in> set cks" "ck_name k = CookieName ''ky_session'' (c_host_cookies (cfg_security cfg))"
      "ck_value k = tok"
    using i(11) by (auto simp: SessionCookieName_def)
  have "v \<in> set (t_users (w_db s'))" "sess \<in> set (t_sessions (w_db s'))" using v(1) i(6) by simp_all
  then show ?thesis
    unfolding sso_granted_def
    using i(1,2,3,9,10) k v st role cks
    by (intro bexI [of _ v] bexI [of _ sess] bexI [of _ k]) (simp_all split: option.splits)
qed

lemma sso_refusals:
  "yields (find_account cfg r c) (\<lambda>x. case x of Inl resp \<Rightarrow> rs_status resp \<noteq> 302 \<and> rs_cookies resp = [] | Inr u \<Rightarrow> True)"
  "yields (follow_role cfg r c u) (\<lambda>x. case x of Inl resp \<Rightarrow> rs_status resp \<noteq> 302 \<and> rs_cookies resp = [] | Inr u \<Rightarrow> True)"
  "yields (sso_session cfg r c u) (\<lambda>resp. if rs_status resp = 302 then True else rs_cookies resp = [])"
  unfolding find_account_def provision_def follow_role_def sso_session_def writeError_def writeJSON_def
  by (intro yields_intros; simp add: error_reply_def reply_def redirect_def)+

lemma sign_in_identity_ok:
  assumes run: "run_state (sign_in_identity cfg r c) s = (resp, s')" and ok: "rs_status resp = 302"
  shows "sso_granted cfg c resp (w_db s')"
proof -
  obtain x s1 where f: "run_state (find_account cfg r c) s = (x, s1)" by force
  obtain u where u: "x = Inr u"
    using yieldsD [OF sso_refusals(1) [where cfg = cfg and r = r and c = c], where s = s] run ok f
    by (cases x) (auto simp: sign_in_identity_def result_def split: sum.splits)
  have st: "u_status u = ''active''"
    using run ok f u by (auto simp: sign_in_identity_def split: if_splits)
  obtain y s2 where g: "run_state (follow_role cfg r c u) s1 = (y, s2)" by force
  obtain v where v: "y = Inr v"
    using yieldsD [OF sso_refusals(2) [where cfg = cfg and r = r and c = c and u = u], where s = s1] run ok f u g st
    by (cases y) (auto simp: sign_in_identity_def result_def split: sum.splits)
  have e: "run_state (sso_session cfg r c v) s2 = (resp, s')"
    using run f u st g v by (simp add: sign_in_identity_def)
  note ro = follow_role_ok [OF g [unfolded v] find_account_ok [OF f [unfolded u]]]
  show ?thesis by (rule sso_session_ok [OF e ok ro(1) _ ro(3)]) (simp add: ro(2) st)
qed

lemma sign_in_identity_refused:
  assumes no: "rs_status (result (sign_in_identity cfg r c) s) \<noteq> 302"
  shows "rs_cookies (result (sign_in_identity cfg r c) s) = []"
proof -
  obtain x s1 where f: "run_state (find_account cfg r c) s = (x, s1)" by force
  show ?thesis
  proof (cases x)
    case (Inl resp)
    then show ?thesis
      using yieldsD [OF sso_refusals(1) [where cfg = cfg and r = r and c = c], where s = s] f
      by (simp add: sign_in_identity_def result_def)
  next
    case (Inr u)
    obtain y s2 where g: "run_state (follow_role cfg r c u) s1 = (y, s2)" by force
    have F: "case y of Inl resp \<Rightarrow> rs_cookies resp = [] | Inr u \<Rightarrow> True"
      using yieldsD [OF sso_refusals(2) [where cfg = cfg and r = r and c = c and u = u], where s = s1] g
      by (auto simp: result_def split: sum.splits)
    have S: "rs_status (result (sso_session cfg r c v) s2) \<noteq> 302 \<Longrightarrow>
        rs_cookies (result (sso_session cfg r c v) s2) = []" for v
      using yieldsD [OF sso_refusals(3) [where cfg = cfg and r = r and c = c and u = v], where s = s2]
      by simp
    show ?thesis
      using no f g Inr F S
      by (auto simp: sign_in_identity_def result_def error_reply_def reply_def split: sum.splits)
  qed
qed


section \<open>What a back-channel logout ends\<close>

lemma verifyLogout_ok:
  assumes "run_state (verifyLogout I raw) s = (x, s')"
  shows "w_db s' = w_db s" and "case x of Inl e \<Rightarrow> True | Inr c \<Rightarrow>
    (\<exists>t. verified_token I (of_client_id (ss_flow s)) raw t \<and> logout_type (jwtType I raw) \<and>
         decode_logout t = Some c)"
proof -
  obtain y s1 where f: "run_state (flow_config I) s = (y, s1)" by force
  note f1 = flow_config_frame [OF f]
  have "w_db s' = w_db s \<and> (case x of Inl e \<Rightarrow> True | Inr c \<Rightarrow>
    (\<exists>t. verified_token I (of_client_id (ss_flow s)) raw t \<and> logout_type (jwtType I raw) \<and>
         decode_logout t = Some c))"
    using assms f f1
    by (cases y) (auto simp: verifyLogout_def run_check verified_token_def
        split: sum.splits if_splits option.splits)
  then show "w_db s' = w_db s" "case x of Inl e \<Rightarrow> True | Inr c \<Rightarrow>
    (\<exists>t. verified_token I (of_client_id (ss_flow s)) raw t \<and> logout_type (jwtType I raw) \<and>
         decode_logout t = Some c)" by simp_all
qed

text \<open>A login is over: its sessions are gone and its fence is up.\<close>

definition login_over :: "logout_claims \<Rightarrow> db \<Rightarrow> bool" where
  "login_over c d \<longleftrightarrow>
     (if lc_session_id c \<noteq> ''''
      then list_all (\<lambda>x. s_sso_sid x \<noteq> lc_session_id c) (t_sessions d) \<and>
           (\<exists>l \<in> set (t_sso_logouts d). l_sid l = lc_session_id c)
      else list_all (\<lambda>x. \<not> (s_created_at x < lc_issued_at c + second \<and>
                             of_subject d ''kysignon'' (lc_subject c) (s_user_id x))) (t_sessions d) \<and>
           (\<exists>f \<in> set (t_sso_subject_logouts d). f_provider f = ''kysignon'' \<and>
              f_subject f = lc_subject c \<and> lc_issued_at c + second \<le> f_cutoff f))"

lemma end_login_ok:
  assumes "run_state (end_login c until) w = (Inr x, w')"
  shows "login_over c (w_db w')"
proof (cases "lc_session_id c = ''''")
  case False
  have up: "\<exists>l \<in> set (t_sso_logouts (snd (upsert_logout sid t E d))). l_sid l = sid" for sid t E and d :: db
  proof (cases "sid \<in> l_sid ` set (t_sso_logouts d)")
    case True
    then obtain l where "l \<in> set (t_sso_logouts d)" "l_sid l = sid" by blast
    then show ?thesis
      using True by (intro bexI [of _ "l\<lparr>l_expires_at := t\<rparr>"]) (auto simp: upsert_logout_def)
  qed (simp add: upsert_logout_def)
  show ?thesis
    using assms False up [of "lc_session_id c"]
    by (auto simp: end_login_def login_over_def endSSOSession_def purge_fences_def set_fence_def
        end_sid_def run_check run_stmt delete_logouts_def delete_sessions_def list_all_iff
        split: if_splits prod.splits sum.splits)
next
  case True
  have up: "\<exists>f \<in> set (t_sso_subject_logouts (snd (upsert_subject_logout p sub cutoff until E d))).
      f_provider f = p \<and> f_subject f = sub \<and> cutoff \<le> f_cutoff f" for p sub cutoff E and d :: db
  proof (cases "(p, sub) \<in> (\<lambda>f. (f_provider f, f_subject f)) ` set (t_sso_subject_logouts d)")
    case known: True
    then obtain f where f: "f \<in> set (t_sso_subject_logouts d)" "f_provider f = p" "f_subject f = sub" by blast
    let ?g = "\<lambda>f. if f_provider f = p \<and> f_subject f = sub \<and> f_cutoff f < cutoff
      then f\<lparr>f_cutoff := cutoff, f_expires_at := until\<rparr> else f"
    have "t_sso_subject_logouts (snd (upsert_subject_logout p sub cutoff until E d)) =
        map ?g (t_sso_subject_logouts d)"
      unfolding upsert_subject_logout_def if_P [OF known] by simp
    then show ?thesis using f by (intro bexI [of _ "?g f"]) auto
  qed (simp add: upsert_subject_logout_def)
  show ?thesis
    using assms True up [of "''kysignon''" "lc_subject c" "lc_issued_at c + second"]
    by (auto simp: end_login_def login_over_def endSSOSubject_def run_check run_stmt
        delete_subject_logouts_def delete_sessions_def list_all_iff of_subject_def
        split: if_splits prod.splits sum.splits)
qed

lemma logAudit_login_over:
  "run_state (logAudit a) w = (x, w') \<Longrightarrow> login_over c (w_db w) \<Longrightarrow> login_over c (w_db w')"
  by (auto simp: logAudit_def run_stmt insert_audit_def login_over_def of_subject_def
      split: if_splits)


end
