(* ===== verification/ScimRace.thy ===== *)
theory ScimRace
  imports ScimFacts
begin

text \<open>
  The retried SCIM update as a state machine: each read and each compare-and-swap is a step, and any
  operation of the store, by other requests or other processes, may run between two of them.
\<close>

section \<open>The machine\<close>

datatype upd_pc = Reading nat | Writing nat user user | Finished "err + user"

record 'z upd =
  up_world :: "'z world_scheme"
  up_pc :: upd_pc

definition read_next :: "bool \<Rightarrow> (user \<Rightarrow> err + user) \<Rightarrow> nat \<Rightarrow> err + user \<Rightarrow> upd_pc" where
  "read_next a change n x =
     (case x of
        Inl e \<Rightarrow> Finished (Inl e)
      | Inr old \<Rightarrow>
          (case prepare_update a change old of Inl e \<Rightarrow> Finished (Inl e) | Inr u \<Rightarrow> Writing n old u))"

definition write_next :: "string \<Rightarrow> nat \<Rightarrow> err + user \<Rightarrow> upd_pc" where
  "write_next i n x =
     (case x of
        Inr v \<Rightarrow> Finished (Inr v)
      | Inl e \<Rightarrow>
          (case n of
             Suc m \<Rightarrow> if e = ErrConflict then Reading m else Finished (Inl (scimStoreError i e))
           | 0 \<Rightarrow> Finished (Inl (scimStoreError i e))))"

inductive own_step :: "bool \<Rightarrow> string \<Rightarrow> (user \<Rightarrow> err + user) \<Rightarrow> 'z upd \<Rightarrow> 'z upd \<Rightarrow> bool"
  for a i change where
  own_read: "run_state (managedUser i) w = (x, w') \<Longrightarrow>
    own_step a i change \<lparr>up_world = w, up_pc = Reading n\<rparr>
      \<lparr>up_world = w', up_pc = read_next a change n x\<rparr>"
| own_write: "run_state (write_update old u) w = (x, w') \<Longrightarrow>
    own_step a i change \<lparr>up_world = w, up_pc = Writing n old u\<rparr>
      \<lparr>up_world = w', up_pc = write_next i n x\<rparr>"

inductive_cases own_stepE: "own_step a i change S S'"

text \<open>\<open>upd_run k\<close>: \<open>k\<close> steps of the update with any steps of others between them.\<close>

inductive upd_run ::
  "bool \<Rightarrow> string \<Rightarrow> (user \<Rightarrow> err + user) \<Rightarrow> nat \<Rightarrow> 'z upd \<Rightarrow> 'z upd \<Rightarrow> bool"
  for a i change where
  run_start: "upd_run a i change 0 S S"
| run_other: "upd_run a i change k S T \<Longrightarrow> store_step (up_world T) w \<Longrightarrow>
    upd_run a i change k S (T\<lparr>up_world := w\<rparr>)"
| run_own: "upd_run a i change k S T \<Longrightarrow> own_step a i change T U \<Longrightarrow> upd_run a i change (Suc k) S U"

definition upd_start :: "'z world_scheme \<Rightarrow> 'z upd" where
  "upd_start w = \<lparr>up_world = w, up_pc = Reading 3\<rparr>"

section \<open>The machine is the handler\<close>

lemma upd_run_trans:
  assumes "upd_run a i change k S T" and "upd_run a i change j T U"
  shows "upd_run a i change (k + j) S U"
  using assms(2,1)
  by (induction) (auto intro: upd_run.intros)

lemma run_user_update:
  "run_state (user_update n a i change) w =
     (case run_state (managedUser i) w of
        (Inl e, w1) \<Rightarrow> (Inl e, w1)
      | (Inr old, w1) \<Rightarrow>
          (case prepare_update a change old of
             Inl e \<Rightarrow> (Inl e, w1)
           | Inr u \<Rightarrow>
               (case run_state (write_update old u) w1 of
                  (Inr v, w2) \<Rightarrow> (Inr (userResource v), w2)
                | (Inl e, w2) \<Rightarrow>
                    if e = ErrConflict \<and> n \<noteq> 0 then run_state (user_update (n - 1) a i change) w2
                    else (Inl (scimStoreError i e), w2))))"
  by (cases n) (simp_all add: run_check split: prod.split sum.split)

text \<open>Left alone, the machine does what the handler does.\<close>

lemma machine_is_handler:
  "\<exists>k x w'. upd_run a i change k \<lparr>up_world = w, up_pc = Reading n\<rparr>
      \<lparr>up_world = w', up_pc = Finished x\<rparr> \<and>
    run_state (user_update n a i change) w = (map_sum id userResource x, w')"
proof (induction n arbitrary: w rule: less_induct)
  case (less n)
  note user_update.simps [simp del]
  let ?S = "\<lparr>up_world = w, up_pc = Reading n\<rparr>"
  obtain m w1 where m: "run_state (managedUser i) w = (m, w1)" by force
  have s1: "upd_run a i change 1 ?S \<lparr>up_world = w1, up_pc = read_next a change n m\<rparr>"
    using run_own [OF run_start own_read [OF m]] by simp
  show ?case
  proof (cases "\<exists>old u. m = Inr old \<and> prepare_update a change old = Inr u")
    case False
    then obtain e where e: "read_next a change n m = Finished (Inl e)"
      and r: "run_state (user_update n a i change) w = (Inl e, w1)"
    proof (cases m)
      case (Inr old)
      with False obtain e where "prepare_update a change old = Inl e"
        by (cases "prepare_update a change old") auto
      then show thesis using Inr m that by (simp add: read_next_def run_user_update)
    qed (use m in \<open>simp add: read_next_def run_user_update\<close>)
    show ?thesis using s1 [unfolded e] r by (intro exI) auto
  next
    case True
    then obtain old u where o: "m = Inr old" "prepare_update a change old = Inr u" by blast
    obtain x w2 where wr: "run_state (write_update old u) w1 = (x, w2)" by force
    have pc: "read_next a change n m = Writing n old u" by (simp add: read_next_def o)
    have s2: "upd_run a i change 2 ?S \<lparr>up_world = w2, up_pc = write_next i n x\<rparr>"
      using run_own [OF s1 [unfolded pc] own_write [OF wr]] by (simp add: numeral_2_eq_2)
    show ?thesis
    proof (cases "x = Inl ErrConflict \<and> n \<noteq> 0")
      case True
      then obtain j where n: "n = Suc j" by (cases n) auto
      have "write_next i n x = Reading j" using True n by (simp add: write_next_def)
      moreover obtain k y w' where
        "upd_run a i change k \<lparr>up_world = w2, up_pc = Reading j\<rparr> \<lparr>up_world = w', up_pc = Finished y\<rparr>"
        and "run_state (user_update j a i change) w2 = (map_sum id userResource y, w')"
        using less.IH [of j w2] n by blast
      moreover have "run_state (user_update n a i change) w = run_state (user_update j a i change) w2"
        using m o wr True by (simp add: n run_user_update [of "Suc j"])
      ultimately show ?thesis using upd_run_trans [OF s2] by metis
    next
      case False
      then obtain y where "write_next i n x = Finished y"
        and "run_state (user_update n a i change) w = (map_sum id userResource y, w2)"
        using m o wr by (cases x; cases n) (auto simp: write_next_def run_user_update)
      then show ?thesis using s2 by metis
    qed
  qed
qed

section \<open>What any interleaving keeps\<close>

text \<open>A pending write was prepared from the managed account it was read as.\<close>

definition pc_ok :: "bool \<Rightarrow> string \<Rightarrow> (user \<Rightarrow> err + user) \<Rightarrow> upd_pc \<Rightarrow> bool" where
  "pc_ok a i change pc \<longleftrightarrow>
     (case pc of
        Writing n old u \<Rightarrow> u_id old = i \<and> u_scim_managed old \<and> prepare_update a change old = Inr u
      | _ \<Rightarrow> True)"

fun pc_left :: "upd_pc \<Rightarrow> nat" where
  "pc_left (Reading n) = 2 * n + 2"
| "pc_left (Writing n old u) = 2 * n + 1"
| "pc_left (Finished x) = 0"

lemma own_step_left: "own_step a i change S S' \<Longrightarrow> pc_left (up_pc S') < pc_left (up_pc S)"
  by (erule own_stepE) (auto simp: read_next_def write_next_def split: sum.split nat.split)

lemma own_step_pc_ok: "own_step a i change S S' \<Longrightarrow> pc_ok a i change (up_pc S')"
  by (erule own_stepE)
    (auto simp: read_next_def write_next_def pc_ok_def split: sum.split nat.split dest: managedUser_ok)

lemma upd_run_pc_ok: "upd_run a i change k S T \<Longrightarrow> pc_ok a i change (up_pc S) \<Longrightarrow> pc_ok a i change (up_pc T)"
  by (induction rule: upd_run.induct) (auto dest: own_step_pc_ok)

lemma upd_run_left: "upd_run a i change k S T \<Longrightarrow> pc_left (up_pc T) + k \<le> pc_left (up_pc S)"
  by (induction rule: upd_run.induct) (auto dest!: own_step_left)

text \<open>
  C12: in any interleaving with other operations of the store, a SCIM update takes at most eight steps
  of its own (four reads and four writes), whatever the others do to it; after eight it has
  answered.
\<close>

theorem scim_update_finishes:
  assumes "upd_run a i change k (upd_start w) S"
  shows "k \<le> 8 \<and> (if k = 8 then \<exists>x. up_pc S = Finished x else True)"
proof -
  have left: "pc_left (up_pc S) + k \<le> 8"
    using upd_run_left [OF assms] by (simp add: upd_start_def)
  then have "\<exists>x. up_pc S = Finished x" if "k = 8"
    using that by (cases "up_pc S") auto
  with left show ?thesis by simp
qed


section \<open>A run\<close>

definition demo_managed :: user where
  "demo_managed = (demo_user ''u1'' ''ann'')\<lparr>u_sso_provider := ''scim'', u_scim_managed := True\<rparr>"

definition demo_scim_world :: world where
  "demo_scim_world = demo_world (empty_db\<lparr>t_users := [demo_managed]\<rparr>)"

abbreviation demo_change :: "user \<Rightarrow> err + user" where
  "demo_change \<equiv> (\<lambda>u. Inr (replaceUser u [(''userName'', JStr ''ann''), (''active'', JBool False)]))"

definition demo_changed :: user where
  "demo_changed = demo_managed\<lparr>u_status := ''inactive''\<rparr>"

lemma demo_prepare: "prepare_update False demo_change demo_managed = Inr demo_changed"
  by (simp add: prepare_update_def checkRole_def replaceUser_def Let_def attr_def json_get_def
      string_or_def stringValue_def primaryValue_def interfaceSlice_def statusFromActive_def
      demo_managed_def demo_changed_def demo_user_def)

lemma demo_read:
  "\<exists>w1. run_state (managedUser ''u1'') demo_scim_world = (Inr demo_managed, w1)"
  by (simp add: managedUser_def map_err_def run_check getUserByID_def run_stmt select_user_def
      demo_scim_world_def demo_world_def demo_managed_def demo_user_def)


theorem scim_update_finishes_witness:
  "\<exists>S :: unit upd. upd_run False ''u1'' demo_change 1 (upd_start demo_scim_world) S \<and> (1 :: nat) \<le> 8"
proof -
  obtain w1 where r: "run_state (managedUser ''u1'') demo_scim_world = (Inr demo_managed, w1)"
    using demo_read by blast
  have run: "upd_run False ''u1'' demo_change 1 (upd_start demo_scim_world)
      \<lparr>up_world = w1, up_pc = read_next False demo_change 3 (Inr demo_managed)\<rparr>"
    using run_own [OF run_start own_read [OF r, of False demo_change 3]] by (simp add: upd_start_def)
  from scim_update_finishes [OF run] run show ?thesis by blast
qed

end
