(* ===== verification/Host.thy ===== *)
theory Host
  imports Oidc Paths
begin

text \<open>
  What the process finds on its machine, as an extension of the state of server and sign-in client: the files the code
  reads and writes by path, the environment, the working directory, the advisory lock of the
  restore drills, and the count of the requests that outlive their connection. A file is named by the path the code builds for it; which calls the operating
  system refuses, and the suffixes of temporary names, are oracles. Permissions are left out.
\<close>

datatype node = Regular string | Directory | Special

record host = sso_server +
  h_nodes :: "string \<Rightarrow> node option"
  h_env :: env
  h_cwd :: "string option"
  h_refused :: "nat \<Rightarrow> bool"
  h_calls :: nat
  h_suffix :: "nat \<Rightarrow> string"
  h_drill_locked :: bool
  h_detached :: int

type_synonym ('a, 'z) hio = "('z host_scheme, 'a) state"

section \<open>Errors\<close>

text \<open>
  An error is its text and the sentinel errors \<^verbatim>\<open>errors.Is\<close> finds in its chain.
\<close>

datatype sentinel =
    NoDatabaseSnapshot
  | DrillBusy
  | CapsuleTooLarge
  | NotPaired
  | KeyMismatch
  | KeyPinMissing
  | NoDestination
  | InProgress
  | PrivateDestination
  | ReceiptUnrecorded
  | RemoteError
  | BadInterval
  | SettingNotFound
  | FileExists
  | FileMissing

record failure =
  fl_is :: "sentinel list"
  fl_text :: string

definition errors_Is :: "failure \<Rightarrow> sentinel \<Rightarrow> bool" where
  "errors_Is e k \<longleftrightarrow> k \<in> set (fl_is e)"

definition failed_with :: "sentinel list \<Rightarrow> string \<Rightarrow> failure" where
  "failed_with ks text = \<lparr>fl_is = ks, fl_text = text\<rparr>"

lemma errors_Is_failed_with [simp]: "errors_Is (failed_with ks t) k \<longleftrightarrow> k \<in> set ks"
  by (simp add: errors_Is_def failed_with_def)

section \<open>System calls\<close>

type_synonym ('a, 'z) sys = "('z host_scheme, failure + 'a) state"

definition syscall :: "(('z host_scheme) \<Rightarrow> (failure + 'a) \<times> 'z host_scheme) \<Rightarrow> ('a, 'z) sys" where
  "syscall f = State (\<lambda>h.
     let h1 = h\<lparr>h_calls := Suc (h_calls h)\<rparr>
     in if h_refused h (h_calls h) then (Inl (failed_with [] ''input/output error''), h1) else f h1)"

definition lstat :: "string \<Rightarrow> 'z host_scheme \<Rightarrow> node option" where
  "lstat p h = h_nodes h p"

definition os_Stat :: "string \<Rightarrow> (node, 'z) sys" where
  "os_Stat p = syscall (\<lambda>h.
     (case h_nodes h p of
        None \<Rightarrow> Inl (failed_with [FileMissing] ''no such file or directory'') | Some x \<Rightarrow> Inr x, h))"

definition os_ReadFile :: "string \<Rightarrow> (string, 'z) sys" where
  "os_ReadFile p = syscall (\<lambda>h.
     (case h_nodes h p of
        Some (Regular b) \<Rightarrow> Inr b
      | Some _ \<Rightarrow> Inl (failed_with [] ''not a regular file'')
      | None \<Rightarrow> Inl (failed_with [FileMissing] ''no such file or directory''), h))"

definition os_WriteFile :: "string \<Rightarrow> string \<Rightarrow> (unit, 'z) sys" where
  "os_WriteFile p b = syscall (\<lambda>h.
     (case h_nodes h p of
        Some Directory \<Rightarrow> (Inl (failed_with [] ''is a directory''), h)
      | _ \<Rightarrow> (Inr (), h\<lparr>h_nodes := (h_nodes h)(p \<mapsto> Regular b)\<rparr>)))"

text \<open>\<^verbatim>\<open>MkdirAll\<close> of a directory whose parents exist.\<close>

definition os_MkdirAll :: "string \<Rightarrow> (unit, 'z) sys" where
  "os_MkdirAll p = syscall (\<lambda>h.
     (case h_nodes h p of
        None \<Rightarrow> (Inr (), h\<lparr>h_nodes := (h_nodes h)(p \<mapsto> Directory)\<rparr>)
      | Some Directory \<Rightarrow> (Inr (), h)
      | Some _ \<Rightarrow> (Inl (failed_with [] ''not a directory''), h)))"

definition os_Chmod :: "string \<Rightarrow> (unit, 'z) sys" where
  "os_Chmod p = syscall (\<lambda>h. (Inr (), h))"

text \<open>\<^verbatim>\<open>MkdirTemp(dir, prefix + "*")\<close>: a new directory, the first suffix not taken.\<close>

definition os_MkdirTemp :: "string \<Rightarrow> string \<Rightarrow> (string, 'z) sys" where
  "os_MkdirTemp dir pfx = syscall (\<lambda>h.
     (let p = path_Join [dir, pfx @ h_suffix h (h_calls h)]
      in case h_nodes h p of
           None \<Rightarrow> (Inr p, h\<lparr>h_nodes := (h_nodes h)(p \<mapsto> Directory)\<rparr>)
         | Some _ \<Rightarrow> (Inl (failed_with [FileExists] ''file exists''), h)))"

definition os_RemoveAll :: "string \<Rightarrow> (unit, 'z) hio" where
  "os_RemoveAll p = modifyS (\<lambda>h.
     h\<lparr>h_nodes := (\<lambda>q. if q = p \<or> has_prefix q (p @ ''/'') then None else h_nodes h q)\<rparr>)"

text \<open>\<^verbatim>\<open>filepath.Abs\<close>.\<close>

definition path_Abs :: "string option \<Rightarrow> string \<Rightarrow> string option" where
  "path_Abs cwd p =
     (if path_IsAbs p then Some (path_Clean p)
      else map_option (\<lambda>d. path_Join [d, p]) cwd)"

lemma run_syscall:
  "run_state (syscall f) h =
     (if h_refused h (h_calls h)
      then (Inl (failed_with [] ''input/output error''), h\<lparr>h_calls := Suc (h_calls h)\<rparr>)
      else f (h\<lparr>h_calls := Suc (h_calls h)\<rparr>))"
  by (simp add: syscall_def Let_def)

end
