(* ===== verification/Recovery.thy ===== *)
theory Recovery
  imports Host GroupStore
begin

text \<open>
  The recovery client and the capsule library (github.com/Busnes-app/ky-primitives, recoveryclient
  and capsule), and SQLite's integrity check: code outside the repository, the arguments of
  everything that calls it. What the repository hands over and gets back are records here; the
  sealer is an opaque type \<open>'k\<close>; a call is any computation on the state, which can call back the
  settings it was handed.
\<close>

section \<open>Values\<close>

text \<open>A Go value of type \<^verbatim>\<open>any\<close>, as far as the code tells them apart.\<close>

datatype any =
    AnyNil
  | AnyBool bool
  | AnyInt int
  | AnyStr string
  | AnyList "any list"
  | AnyStrings "string list"
  | AnyInts "int list"
  | AnyMap "(string \<times> any) list"

text \<open>
  What a value is after it was written as JSON and read back: every slice becomes \<^verbatim>\<open>[]any\<close> and every
  map \<^verbatim>\<open>map[string]any\<close>. (A number comes back as a float, which nothing here reads.)
\<close>

fun through_json :: "any \<Rightarrow> any" where
  "through_json (AnyList xs) = AnyList (map through_json xs)"
| "through_json (AnyStrings xs) = AnyList (map AnyStr xs)"
| "through_json (AnyInts xs) = AnyList (map AnyInt xs)"
| "through_json (AnyMap m) = AnyMap (map (\<lambda>(k, v). (k, through_json v)) m)"
| "through_json v = v"

record capsule_file =
  cf_path :: string
  cf_data :: string
  cf_mode :: int

record payload =
  py_service_name :: string
  py_app_version :: string
  py_files :: "capsule_file list"
  py_dependencies :: any
  py_recipe :: any

record manifest =
  mf_capsule_id :: string
  mf_recovery_key_id :: string
  mf_files :: "string list"
  mf_recipe :: any

record drill_check =
  dc_name :: string
  dc_passed :: bool
  dc_message :: string

record drill_result =
  dr_passed :: bool
  dr_error_message :: string
  dr_checks :: "drill_check list"
  dr_duration_ms :: int

record recovery_key =
  rk_id :: string
  rk_threshold :: int
  rk_total_shares :: int

record pairing_result =
  pr_key :: recovery_key
  pr_api_token :: string

record receipt =
  rcp_deposited_at :: time
  rcp_digest :: string

record run_result =
  rr_manifest :: manifest
  rr_local_path :: string
  rr_local_error :: string
  rr_receipt :: "receipt option"
  rr_size_bytes :: int
  rr_json :: "(string \<times> json) list"

record 'k run_config =
  rn_data_dir :: string
  rn_app_name :: string
  rn_app_version :: string
  rn_backup_dir :: string
  rn_keep :: int
  rn_sealer :: 'k

text \<open>A value of the details the library reports about a run.\<close>

datatype detail = DetailStr string | DetailInt int | DetailBool bool

record 's settings_api =
  st_Get :: "string \<Rightarrow> ('s, failure + string) state"
  st_Set :: "string \<Rightarrow> string \<Rightarrow> ('s, failure + unit) state"
  st_Delete :: "string \<Rightarrow> ('s, failure + unit) state"

section \<open>The calls\<close>

record ('s, 'k) recovery_lib =
  rl_AuditSafe :: "string \<Rightarrow> string"
  rl_FilenameSafe :: "string \<Rightarrow> string"
  rl_RecoveryKeyPath :: "string \<Rightarrow> string"
  rl_TooLargeMessage :: string
  rl_CapsuleTooLarge :: string
  rl_MaxCapsuleFileBytes :: nat
  rl_MinInterval :: duration
  rl_NewAESGCMSealer :: "string \<Rightarrow> string \<Rightarrow> failure + 'k"
  rl_ValidateURL :: "string \<Rightarrow> bool \<Rightarrow> ('s, failure + unit) state"
  rl_ParsePinRequest :: "string \<Rightarrow> int \<Rightarrow> int \<Rightarrow> failure + recovery_key"
  rl_LoadRecoveryKey :: "string \<Rightarrow> 's settings_api \<Rightarrow> ('s, failure + recovery_key) state"
  rl_StoreRecoveryKey ::
    "string \<Rightarrow> 's settings_api \<Rightarrow> recovery_key \<Rightarrow> ('s, failure + unit) state"
  rl_Seal :: "payload \<Rightarrow> recovery_key \<Rightarrow> ('s, failure + string \<times> manifest) state"
  rl_ClaimPairing ::
    "string \<Rightarrow> string \<Rightarrow> string \<Rightarrow> string \<Rightarrow> ('s, failure + pairing_result) state"
  rl_StorePairing ::
    "'s settings_api \<Rightarrow> 'k \<Rightarrow> string \<Rightarrow> string \<Rightarrow> ('s, failure + unit) state"
  rl_ClearPairing :: "'s settings_api \<Rightarrow> ('s, failure + unit) state"
  rl_HasPairing :: "'s settings_api \<Rightarrow> ('s, bool) state"
  rl_LastDeposit :: "'s settings_api \<Rightarrow> ('s, failure + json option) state"
  rl_ListLocalCopies :: "string \<Rightarrow> string \<Rightarrow> ('s, failure + json) state"
  rl_SetInterval :: "'s settings_api \<Rightarrow> int \<Rightarrow> ('s, failure + unit) state"
  rl_Interval :: "duration \<Rightarrow> 's settings_api \<Rightarrow> ('s, failure + duration) state"
  rl_NextRun :: "duration \<Rightarrow> 's settings_api \<Rightarrow> ('s, failure + time option) state"
  rl_Run ::
    "'k run_config \<Rightarrow> 's settings_api \<Rightarrow> ('s, failure + payload) state \<Rightarrow>
       ('s, run_result \<times> failure option) state"
  rl_Outcome :: "run_result \<Rightarrow> failure option \<Rightarrow> string \<times> string \<times> (string \<times> detail) list"
  rl_Drill ::
    "string \<Rightarrow> payload \<Rightarrow> (string \<Rightarrow> manifest \<Rightarrow> ('s, drill_check list) state) \<Rightarrow>
       ('s, failure + drill_result) state"
  rl_Restore ::
    "string \<Rightarrow> string \<Rightarrow> string \<Rightarrow> string list \<Rightarrow> ('s, failure + unit) state"
  rl_SQLiteSnapshot :: "string \<Rightarrow> string \<Rightarrow> ('s, failure + unit) state"
  rl_integrity_check :: "string \<Rightarrow> string \<Rightarrow> string option"
  rl_printable :: "nat \<Rightarrow> bool"
  rl_error_text :: "err \<Rightarrow> string"
  rl_drill_json :: "drill_result \<Rightarrow> json"

text \<open>
  \<open>rl_integrity_check path bytes\<close> is what \<^verbatim>\<open>PRAGMA integrity_check\<close> answers for the file, \<open>None\<close> when
  it cannot be opened or read; \<open>rl_printable\<close> is Unicode's table and \<open>rl_error_text\<close> the text of a
  database error; \<open>rl_drill_json\<close> is the JSON of the library's result type.
\<close>

type_synonym ('k, 'z) lib = "('z host_scheme, 'k) recovery_lib"

end
