(* ===== verification/GoText.thy ===== *)
theory GoText
  imports Json Crypto
begin

text \<open>
  Text that Go's fmt and encoding/json produce: UTF-8 decoding, \<^verbatim>\<open>%q\<close> (\<^verbatim>\<open>strconv.Quote\<close>) and
  \<^verbatim>\<open>json.MarshalIndent\<close>. Which code points above ASCII are printable is the Unicode tables'
  business and an argument.
\<close>

section \<open>UTF-8\<close>

definition byte_in :: "nat \<Rightarrow> nat \<Rightarrow> char \<Rightarrow> bool" where
  "byte_in lo hi c \<longleftrightarrow> lo \<le> of_char c \<and> of_char c \<le> hi"

definition low_bits :: "nat \<Rightarrow> char \<Rightarrow> nat" where
  "low_bits n c = of_char c mod 2 ^ n"

text \<open>The second byte of a three-byte and of a four-byte sequence has a range of its own.\<close>

definition second3 :: "char \<Rightarrow> char \<Rightarrow> bool" where
  "second3 a b \<longleftrightarrow> byte_in (if of_char a = (0xE0 :: nat) then 0xA0 else 0x80)
     (if of_char a = (0xED :: nat) then 0x9F else 0xBF) b"

definition second4 :: "char \<Rightarrow> char \<Rightarrow> bool" where
  "second4 a b \<longleftrightarrow> byte_in (if of_char a = (0xF0 :: nat) then 0x90 else 0x80)
     (if of_char a = (0xF4 :: nat) then 0x8F else 0xBF) b"

definition rune2 :: "char \<Rightarrow> char \<Rightarrow> nat" where
  "rune2 a b = low_bits 5 a * 64 + low_bits 6 b"

definition rune3 :: "char \<Rightarrow> char \<Rightarrow> char \<Rightarrow> nat" where
  "rune3 a b c = (low_bits 4 a * 64 + low_bits 6 b) * 64 + low_bits 6 c"

definition rune4 :: "char \<Rightarrow> char \<Rightarrow> char \<Rightarrow> char \<Rightarrow> nat" where
  "rune4 a b c d = ((low_bits 3 a * 64 + low_bits 6 b) * 64 + low_bits 6 c) * 64 + low_bits 6 d"

text \<open>The code point and the width of the first rune; \<open>None\<close> for an invalid first byte.\<close>

fun decode_rune :: "string \<Rightarrow> (nat \<times> nat) option" where
  "decode_rune [] = None"
| "decode_rune (a # s) =
     (if byte_in 0 0x7F a then Some (of_char a, 1)
      else case s of
        [] \<Rightarrow> None
      | b # s1 \<Rightarrow>
          if byte_in 0xC2 0xDF a then
            (if byte_in 0x80 0xBF b then Some (rune2 a b, 2) else None)
          else case s1 of
            [] \<Rightarrow> None
          | c # s2 \<Rightarrow>
              if byte_in 0xE0 0xEF a then
                (if second3 a b \<and> byte_in 0x80 0xBF c then Some (rune3 a b c, 3) else None)
              else case s2 of
                [] \<Rightarrow> None
              | d # s3 \<Rightarrow>
                  if byte_in 0xF0 0xF4 a \<and> second4 a b \<and> byte_in 0x80 0xBF c \<and> byte_in 0x80 0xBF d
                  then Some (rune4 a b c d, 4)
                  else None)"

fun hex_digits :: "nat \<Rightarrow> nat \<Rightarrow> string" where
  "hex_digits 0 n = []"
| "hex_digits (Suc k) n = hex_digits k (n div 16) @ [hex_digit (n mod 16)]"

lemma decode_rune_width: "decode_rune s = Some (r, k) \<Longrightarrow> 0 < k \<and> k \<le> length s"
  by (cases s) (auto split: if_splits list.splits)

section \<open>Quoting\<close>

definition escape_rune :: "(nat \<Rightarrow> bool) \<Rightarrow> nat \<Rightarrow> string \<Rightarrow> string" where
  "escape_rune printable r raw =
     (if r = 34 \<or> r = 92 then CHR 0x5C # raw
      else if (if r < 128 then 32 \<le> r \<and> r < 127 else printable r) then raw
      else if r = 7 then CHR 0x5C # ''a'' else if r = 8 then CHR 0x5C # ''b''
      else if r = 12 then CHR 0x5C # ''f'' else if r = 10 then CHR 0x5C # ''n''
      else if r = 13 then CHR 0x5C # ''r'' else if r = 9 then CHR 0x5C # ''t''
      else if r = 11 then CHR 0x5C # ''v''
      else if r < 32 \<or> r = 127 then CHR 0x5C # ''x'' @ hex_digits 2 r
      else if r < 65536 then CHR 0x5C # ''u'' @ hex_digits 4 r
      else CHR 0x5C # ''U'' @ hex_digits 8 r)"

function quote_body :: "(nat \<Rightarrow> bool) \<Rightarrow> string \<Rightarrow> string" where
  "quote_body printable [] = []"
| "quote_body printable (c # s) =
     (case decode_rune (c # s) of
        None \<Rightarrow> CHR 0x5C # ''x'' @ hex_digits 2 (of_char c) @ quote_body printable s
      | Some (r, k) \<Rightarrow>
          escape_rune printable r (take k (c # s)) @ quote_body printable (drop k (c # s)))"
  by pat_completeness auto
termination
  by (relation "measure (length \<circ> snd)") (auto simp del: decode_rune.simps dest!: decode_rune_width)

declare quote_body.simps(2) [simp del]

definition Quote :: "(nat \<Rightarrow> bool) \<Rightarrow> string \<Rightarrow> string" where
  "Quote printable s = CHR 0x22 # quote_body printable s @ [CHR 0x22]"

section \<open>JSON text\<close>

text \<open>\<^verbatim>\<open>encoding/json\<close> with HTML escaping, as \<^verbatim>\<open>Marshal\<close> does.\<close>

definition json_escape :: "nat \<Rightarrow> string \<Rightarrow> string" where
  "json_escape r raw =
     (if r = 34 \<or> r = 92 then CHR 0x5C # raw
      else if r = 8 then CHR 0x5C # ''b'' else if r = 12 then CHR 0x5C # ''f''
      else if r = 10 then CHR 0x5C # ''n'' else if r = 13 then CHR 0x5C # ''r''
      else if r = 9 then CHR 0x5C # ''t''
      else if r < 32 \<or> r = 60 \<or> r = 62 \<or> r = 38 \<or> r = 0x2028 \<or> r = 0x2029
      then CHR 0x5C # ''u'' @ hex_digits 4 r
      else raw)"

function json_body :: "string \<Rightarrow> string" where
  "json_body [] = []"
| "json_body (c # s) =
     (case decode_rune (c # s) of
        None \<Rightarrow> CHR 0x5C # ''ufffd'' @ json_body s
      | Some (r, k) \<Rightarrow> json_escape r (take k (c # s)) @ json_body (drop k (c # s)))"
  by pat_completeness auto
termination
  by (relation "measure length") (auto simp del: decode_rune.simps dest!: decode_rune_width)

declare json_body.simps(2) [simp del]

definition json_string :: "string \<Rightarrow> string" where
  "json_string s = CHR 0x22 # json_body s @ [CHR 0x22]"

definition newline_indent :: "nat \<Rightarrow> string" where
  "newline_indent d = CHR 0x0A # replicate (2 * d) (CHR '' '')"

text \<open>With an indent of two spaces; \<open>d\<close> is the depth.\<close>

fun json_indent :: "nat \<Rightarrow> json \<Rightarrow> string" where
  "json_indent d JNull = ''null''"
| "json_indent d (JBool b) = (if b then ''true'' else ''false'')"
| "json_indent d (JNum i) = itoa i"
| "json_indent d (JFloat t) = t"
| "json_indent d (JStr s) = json_string s"
| "json_indent d (JList xs) =
     (if xs = [] then ''[]''
      else ''['' @ newline_indent (d + 1) @
           join_with ('','' @ newline_indent (d + 1)) (map (json_indent (d + 1)) xs) @
           newline_indent d @ '']'')"
| "json_indent d (JObj m) =
     (if m = [] then ''{}''
      else ''{'' @ newline_indent (d + 1) @
           join_with ('','' @ newline_indent (d + 1))
             (map (\<lambda>(k, v). json_string k @ '': '' @ json_indent (d + 1) v) m) @
           newline_indent d @ ''}'')"

lemma json_indent_nonempty: "json_indent d (JObj m) \<noteq> []"
  by simp

section \<open>What quoting leaves out\<close>

lemma hex_digit_range: "n < 16 \<Longrightarrow> byte_in 48 57 (hex_digit n) \<or> byte_in 97 102 (hex_digit n)"
  by (auto simp: hex_digit_def byte_in_def)

lemma hex_digits_range: "c \<in> set (hex_digits k n) \<Longrightarrow> byte_in 48 57 c \<or> byte_in 97 102 c"
proof (induction k arbitrary: n)
  case (Suc k)
  then show ?case using hex_digit_range [of "n mod 16"] by auto
qed simp

text \<open>Quoted text is one line of printable characters, whatever was quoted.\<close>

lemma mod_in_block:
  assumes "k * q \<le> n" and "n < k * q + k"
  shows "n mod k = n - k * (q :: nat)"
proof -
  have "n mod k = (n - k * q + k * q) mod k" using assms(1) by simp
  also have "\<dots> = n - k * q" using assms by (simp only: mod_mult_self2) (simp add: less_diff_conv2)
  finally show ?thesis .
qed

lemma low5: "byte_in 0xC2 0xDF a \<Longrightarrow> 2 \<le> low_bits 5 a"
  using mod_in_block [of 32 6 "of_char a"] by (auto simp: byte_in_def low_bits_def)

lemma low4: "byte_in 0xE1 0xEF a \<Longrightarrow> 1 \<le> low_bits 4 a"
  using mod_in_block [of 16 14 "of_char a"] by (auto simp: byte_in_def low_bits_def)

lemma low3: "byte_in 0xF1 0xF4 a \<Longrightarrow> 1 \<le> low_bits 3 a"
  using mod_in_block [of 8 30 "of_char a"] by (auto simp: byte_in_def low_bits_def)

lemma low6: "byte_in 0xA0 0xBF a \<Longrightarrow> 32 \<le> low_bits 6 a" "byte_in 0x90 0xBF a \<Longrightarrow> 16 \<le> low_bits 6 a"
  using mod_in_block [of 64 2 "of_char a"] by (auto simp: byte_in_def low_bits_def)

lemma high_byte: "128 \<le> lo \<Longrightarrow> byte_in lo hi c \<Longrightarrow> byte_in 128 255 c"
proof -
  have "of_char c < (256 :: nat)" by (rule nat_of_char_less_256)
  then show "128 \<le> lo \<Longrightarrow> byte_in lo hi c \<Longrightarrow> byte_in 128 255 c"
    unfolding byte_in_def by linarith
qed

definition rune_bytes :: "string \<Rightarrow> nat \<Rightarrow> nat \<Rightarrow> bool" where
  "rune_bytes s r k \<longleftrightarrow>
     (if r < 128 then k = 1 \<and> s \<noteq> [] \<and> of_char (hd s) = r
      else list_all (byte_in 128 255) (take k s))"

lemma decode_rune_1: "byte_in 0 0x7F a \<Longrightarrow> rune_bytes (a # s) (of_char a) 1"
  by (simp add: rune_bytes_def byte_in_def)

lemma decode_rune_2:
  "byte_in 0xC2 0xDF a \<Longrightarrow> byte_in 0x80 0xBF b \<Longrightarrow> rune_bytes (a # b # s) (rune2 a b) 2"
  using low5 [of a]
  by (simp add: rune_bytes_def rune2_def high_byte [of "0xC2" "0xDF" a]
      high_byte [of "0x80" "0xBF" b])

lemma decode_rune_3:
  assumes a: "byte_in 0xE0 0xEF a" and b: "second3 a b" and c: "byte_in 0x80 0xBF c"
  shows "rune_bytes (a # b # c # s) (rune3 a b c) 3"
proof -
  have "128 \<le> (low_bits 4 a * 64 + low_bits 6 b) * 64"
  proof (cases "of_char a = (0xE0 :: nat)")
    case True
    with b low6(1) [of b] show ?thesis
      by (simp add: second3_def)
  next
    case False
    with a low4 [of a] show ?thesis by (simp add: byte_in_def)
  qed
  moreover have "byte_in 128 255 b"
    using b high_byte [of 160] high_byte [of 128] unfolding second3_def by (simp split: if_splits)
  ultimately show ?thesis
    by (simp add: rune_bytes_def rune3_def high_byte [OF _ a] high_byte [OF _ c])
qed

lemma decode_rune_4:
  assumes a: "byte_in 0xF0 0xF4 a" and b: "second4 a b" and cd: "byte_in 0x80 0xBF c" "byte_in 0x80 0xBF d"
  shows "rune_bytes (a # b # c # d # s) (rune4 a b c d) 4"
proof -
  have "16 \<le> low_bits 3 a * 64 + low_bits 6 b"
  proof (cases "of_char a = (0xF0 :: nat)")
    case True
    with b low6(2) [of b] show ?thesis by (simp add: second4_def)
  next
    case False
    with a low3 [of a] show ?thesis by (simp add: byte_in_def)
  qed
  moreover have "byte_in 128 255 b"
    using b high_byte [of 144] high_byte [of 128] unfolding second4_def by (simp split: if_splits)
  ultimately show ?thesis
    by (simp add: rune_bytes_def rune4_def high_byte [OF _ a] high_byte [OF _ cd(1)]
        high_byte [OF _ cd(2)])
qed

lemma decode_rune_bytes: "decode_rune s = Some (r, k) \<Longrightarrow> rune_bytes s r k"
  by (cases s rule: decode_rune.cases)
    (auto split: if_splits list.splits simp del: One_nat_def
      intro: decode_rune_1 decode_rune_2 decode_rune_3 decode_rune_4)

definition printable_text :: "string \<Rightarrow> bool" where
  "printable_text s \<longleftrightarrow> list_all (byte_in 32 255) s"

lemma printable_hex: "printable_text (hex_digits k n)"
  by (auto simp: printable_text_def list_all_iff byte_in_def dest!: hex_digits_range)

lemma printable_append [simp]:
  "printable_text (s @ t) \<longleftrightarrow> printable_text s \<and> printable_text t"
  "printable_text (c # s) \<longleftrightarrow> byte_in 32 255 c \<and> printable_text s"
  "printable_text []"
  by (simp_all add: printable_text_def)

lemma printable_escape:
  assumes "rune_bytes s r k"
  shows "printable_text (escape_rune p r (take k s))"
proof (cases "r < 128")
  case True
  then obtain c t where "s = c # t" "k = 1" "of_char c = r"
    using assms by (cases s) (auto simp: rune_bytes_def)
  then show ?thesis
    using True by (auto simp: escape_rune_def byte_in_def printable_hex)
next
  case False
  have "printable_text (take k s)"
    using assms False by (auto simp: rune_bytes_def printable_text_def list_all_iff byte_in_def)
  then show ?thesis
    using False by (auto simp: escape_rune_def byte_in_def printable_hex)
qed

lemma printable_quote_body: "printable_text (quote_body p s)"
proof (induction s rule: quote_body.induct [of _ p, case_names nil cons])
  case (cons printable c s)
  then show ?case
    by (auto simp: quote_body.simps(2) byte_in_def printable_hex
        simp del: decode_rune.simps quote_body.simps(1) split: option.split
        intro: printable_escape decode_rune_bytes)
qed simp

lemma printable_Quote: "printable_text (Quote p s)"
  by (simp add: Quote_def printable_quote_body byte_in_def)

end
