(* ===== verification/Backup.thy ===== *)
theory Backup
  imports Recovery GoText
begin

text \<open>
  internal/backup: the settings adapter and the run configuration (settings.go), what a capsule
  carries (payload.go), and the restore drill (drill.go, run_drill.go).
\<close>

section \<open>Settings\<close>

definition recoveryTokenLabel :: string where
  "recoveryTokenLabel = ''ky_server_base:setting:kyrecovery_token''"

definition db_failure :: "(err \<Rightarrow> string) \<Rightarrow> err \<Rightarrow> failure" where
  "db_failure text e = failed_with [] (text e)"

definition Settings_Get :: "(err \<Rightarrow> string) \<Rightarrow> string \<Rightarrow> ('z world_scheme, failure + string) state" where
  "Settings_Get text k = do {
     v \<leftarrow> getSetting k;
     ret (case v of
        Inl e \<Rightarrow> Inl (if e = ErrNotFound then failed_with [SettingNotFound] ''not found''
                       else db_failure text e)
      | Inr x \<Rightarrow> Inr x) }"

definition Settings_Set ::
  "(err \<Rightarrow> string) \<Rightarrow> string \<Rightarrow> string \<Rightarrow> ('z world_scheme, failure + unit) state" where
  "Settings_Set text k v = do { r \<leftarrow> setSetting k v; ret (map_sum (db_failure text) id r) }"

definition Settings_Delete :: "(err \<Rightarrow> string) \<Rightarrow> string \<Rightarrow> ('z world_scheme, failure + unit) state" where
  "Settings_Delete text k = do { r \<leftarrow> deleteSetting k; ret (map_sum (db_failure text) id r) }"

definition Settings :: "(err \<Rightarrow> string) \<Rightarrow> ('z world_scheme) settings_api" where
  "Settings text =
     \<lparr>st_Get = Settings_Get text, st_Set = Settings_Set text, st_Delete = Settings_Delete text\<rparr>"

definition NewSealer :: "('k, 'z) lib \<Rightarrow> config \<Rightarrow> failure + 'k" where
  "NewSealer L cfg = rl_NewAESGCMSealer L (c_encryption_key (cfg_security cfg)) recoveryTokenLabel"

definition RunConfig :: "('k, 'z) lib \<Rightarrow> config \<Rightarrow> string \<Rightarrow> failure + 'k run_config" where
  "RunConfig L cfg appVersion =
     (case NewSealer L cfg of
        Inl e \<Rightarrow> Inl e
      | Inr sealer \<Rightarrow>
          Inr \<lparr>rn_data_dir = c_data_dir (cfg_database cfg), rn_app_name = c_app_name (cfg_server cfg),
               rn_app_version = appVersion, rn_backup_dir = c_backup_dir (cfg_backup cfg),
               rn_keep = c_keep (cfg_backup cfg), rn_sealer = sealer\<rparr>)"

section \<open>The payload of a capsule\<close>

definition encryptionKeyPath :: string where "encryptionKeyPath = ''data/encryption.key''"
definition recoveryPubPath :: string where "recoveryPubPath = ''data/recovery.pub''"
definition dbPath :: string where "dbPath = ''data/ky_server.db''"

definition database_file :: "string \<Rightarrow> string" where
  "database_file dsn = fst (cut_on (CHR ''?'') (trim_prefix dsn ''file:''))"

definition CheckDatabasePath :: "(nat \<Rightarrow> bool) \<Rightarrow> string option \<Rightarrow> config \<Rightarrow> failure option" where
  "CheckDatabasePath printable cwd cfg =
     (if to_lower (c_driver (cfg_database cfg)) \<noteq> ''sqlite'' then None
      else (let path = database_file (c_dsn (cfg_database cfg));
                want = path_Join [c_data_dir (cfg_database cfg), ''ky_server.db'']
            in if path_Abs cwd path \<noteq> None \<and> path_Abs cwd want \<noteq> None \<and>
                  path_Abs cwd path = path_Abs cwd want
               then None
               else Some (failed_with [NoDatabaseSnapshot]
                 (''backup: the SQLite database is '' @ Quote printable path @
                  '', but a capsule restores only '' @ Quote printable want @
                  '' (KY_DATA_DIR/ky_server.db); unset KY_DB_DSN or move the database there''))))"

definition file_size :: "node \<Rightarrow> nat" where
  "file_size n = (case n of Regular b \<Rightarrow> length b | _ \<Rightarrow> 0)"

text \<open>
  \<^verbatim>\<open>VACUUM INTO\<close> a file of a temporary directory, which is removed whatever happens; a snapshot no
  capsule could hold is refused before it is read.
\<close>

definition read_snapshot :: "('k, 'z) lib \<Rightarrow> string \<Rightarrow> string \<Rightarrow> (string, 'z) sys" where
  "read_snapshot L dsn dir = do {
     let path = path_Join [dir, ''ky_server.db''];
     r \<leftarrow> rl_SQLiteSnapshot L dsn path;
     case r of
       Inl e \<Rightarrow> ret (Inl (failed_with [NoDatabaseSnapshot]
         (''backup: no consistent database snapshot for this driver: '' @ fl_text e)))
     | Inr _ \<Rightarrow>
         check (os_Stat path) (\<lambda>info.
         if file_size info > rl_MaxCapsuleFileBytes L
         then ret (Inl (failed_with [CapsuleTooLarge]
           (rl_CapsuleTooLarge L @ '': the database snapshot is '' @ nat_str (file_size info) @
            '' bytes, a capsule member may be '' @ nat_str (rl_MaxCapsuleFileBytes L))))
         else os_ReadFile path) }"

definition snapshotSQLite :: "('k, 'z) lib \<Rightarrow> string \<Rightarrow> string \<Rightarrow> (string, 'z) sys" where
  "snapshotSQLite L dsn dataDir =
     check (os_MkdirTemp dataDir ''snapshot-'') (\<lambda>dir. do {
       r \<leftarrow> read_snapshot L dsn dir;
       os_RemoveAll dir;
       ret r })"

definition requiredFiles :: "capsule_file list \<Rightarrow> string list" where
  "requiredFiles files = map cf_path files"

definition server_json :: "server_config \<Rightarrow> json" where
  "server_json c = JObj [(''host'', JStr (c_host c)), (''port'', JNum (c_port c)),
     (''app_url'', JStr (c_app_url c)), (''app_name'', JStr (c_app_name c)),
     (''read_timeout'', JNum (c_read_timeout c)), (''write_timeout'', JNum (c_write_timeout c)),
     (''environment'', JStr (c_environment c))]"

definition settings_json :: "config \<Rightarrow> string" where
  "settings_json cfg = json_indent 0 (JObj
     [(''database'', JObj [(''driver'', JStr (c_driver (cfg_database cfg)))]),
      (''server'', server_json (cfg_server cfg))])"

definition private_file :: "string \<Rightarrow> string \<Rightarrow> capsule_file" where
  "private_file p b = \<lparr>cf_path = p, cf_data = b, cf_mode = 384\<rparr>"

definition recipe_env :: "string list" where
  "recipe_env = [''KY_PORT'', ''KY_DB_DRIVER'']"

definition make_payload :: "config \<Rightarrow> string \<Rightarrow> capsule_file list \<Rightarrow> payload" where
  "make_payload cfg appVersion files =
     \<lparr>py_service_name = c_app_name (cfg_server cfg), py_app_version = appVersion, py_files = files,
      py_dependencies = AnyMap [(''ports'', AnyInts [c_port (cfg_server cfg)]),
                                (''env'', AnyStrings recipe_env)],
      py_recipe = AnyMap [(''check_sqlite_integrity'', AnyBool True),
                          (''sqlite_paths'', AnyStrings [dbPath]),
                          (''required_files'', AnyStrings (requiredFiles files)),
                          (''expected_env'', AnyStrings recipe_env),
                          (''expected_ports'', AnyInts [c_port (cfg_server cfg)])]\<rparr>"

definition Collect :: "('k, 'z) lib \<Rightarrow> config \<Rightarrow> string \<Rightarrow> (payload, 'z) sys" where
  "Collect L cfg appVersion = do {
     h \<leftarrow> getS;
     let dbc = cfg_database cfg;
     if to_lower (c_driver dbc) \<noteq> ''sqlite''
     then ret (Inl (failed_with [NoDatabaseSnapshot]
       (''backup: no consistent database snapshot for this driver: '' @ c_driver dbc)))
     else case CheckDatabasePath (rl_printable L) (h_cwd h) cfg of
       Some e \<Rightarrow> ret (Inl e)
     | None \<Rightarrow>
         check (snapshotSQLite L (c_dsn dbc) (c_data_dir dbc)) (\<lambda>dbBytes.
         if length (c_encryption_key (cfg_security cfg)) \<noteq> 32
         then ret (Inl (failed_with [] (''backup: encryption key is '' @
           nat_str (length (c_encryption_key (cfg_security cfg))) @
           '' bytes, want 32; refusing to seal a capsule that cannot decrypt what it restores'')))
         else do {
           let key = hex_encode (c_encryption_key (cfg_security cfg)) @ [CHR 0x0A];
           pub \<leftarrow> os_ReadFile (rl_RecoveryKeyPath L (c_data_dir dbc));
           let files = [private_file dbPath dbBytes,
                        private_file ''config/settings.json'' (settings_json cfg),
                        private_file encryptionKeyPath key] @
                       (case pub of Inl e \<Rightarrow> [] | Inr b \<Rightarrow> [private_file recoveryPubPath b]);
           ret (Inr (make_payload cfg appVersion files)) }) }"

definition Members :: "('k, 'z) lib \<Rightarrow> config \<Rightarrow> (string list, 'z) hio" where
  "Members L cfg = do {
     r \<leftarrow> os_Stat (rl_RecoveryKeyPath L (c_data_dir (cfg_database cfg)));
     ret ([dbPath, ''config/settings.json'', encryptionKeyPath] @
          (case r of Inl e \<Rightarrow> [] | Inr x \<Rightarrow> [recoveryPubPath])) }"

section \<open>The checks of a drill\<close>

definition recipeFailure :: "string \<Rightarrow> drill_check list" where
  "recipeFailure message =
     [\<lparr>dc_name = ''Verification Recipe'', dc_passed = False, dc_message = message\<rparr>]"

fun any_strings :: "any list \<Rightarrow> string list option" where
  "any_strings [] = Some []"
| "any_strings (AnyStr s # xs) = map_option (Cons s) (any_strings xs)"
| "any_strings (x # xs) = None"

definition checked_members :: "string list \<Rightarrow> string + string list" where
  "checked_members xs =
     (if xs = [] then Inl ''expected a nonempty string list''
      else if list_ex (\<lambda>s. trim_space s = '''' \<or> CHR 0x00 \<in> set s) xs
      then Inl ''invalid empty or NUL-containing member''
      else Inr xs)"

definition recipeStrings :: "any \<Rightarrow> string + string list" where
  "recipeStrings v =
     (case v of
        AnyStrings xs \<Rightarrow> checked_members xs
      | AnyList xs \<Rightarrow>
          (case any_strings xs of None \<Rightarrow> Inl ''expected strings'' | Some ss \<Rightarrow> checked_members ss)
      | _ \<Rightarrow> Inl ''expected a nonempty string list'')"

definition any_get :: "(string \<times> any) list \<Rightarrow> string \<Rightarrow> any" where
  "any_get m k = (case map_of m k of None \<Rightarrow> AnyNil | Some v \<Rightarrow> v)"

definition drillPath :: "string \<Rightarrow> string \<Rightarrow> string option" where
  "drillPath base name =
     (if path_Clean name \<noteq> name \<or> path_Clean name = ''.'' \<or> \<not> path_IsLocal name \<or>
         contains_any name [CHR 0x5C, CHR 0x00]
      then None else Some (path_Join [base, name]))"

text \<open>The first name of \<open>wanted\<close> missing from \<open>have\<close>.\<close>

definition first_missing :: "string list \<Rightarrow> string list \<Rightarrow> string option" where
  "first_missing wanted present = find (\<lambda>n. n \<notin> set present) wanted"

text \<open>The recipe of the opened capsule: what must be checked, or why it cannot be.\<close>

definition read_recipe ::
  "string \<Rightarrow> manifest \<Rightarrow> string + (string list \<times> string list \<times> string list)" where
  "read_recipe dir opened =
     (case mf_recipe opened of
        AnyMap recipe \<Rightarrow>
          (case recipeStrings (any_get recipe ''required_files'') of
             Inl e \<Rightarrow> Inl (''required_files: '' @ e)
           | Inr required \<Rightarrow>
          (case recipeStrings (any_get recipe ''sqlite_paths'') of
             Inl e \<Rightarrow> Inl (''sqlite_paths: '' @ e)
           | Inr sqlitePaths \<Rightarrow>
          (case recipeStrings (any_get recipe ''expected_env'') of
             Inl e \<Rightarrow> Inl (''expected_env: '' @ e)
           | Inr env \<Rightarrow>
             if any_get recipe ''check_sqlite_integrity'' \<noteq> AnyBool True
             then Inl ''check_sqlite_integrity must be true''
             else case first_missing [dbPath, ''config/settings.json'', encryptionKeyPath] required of
               Some n \<Rightarrow> Inl (''required_files omits '' @ n)
             | None \<Rightarrow>
             if dbPath \<notin> set sqlitePaths then Inl ''sqlite_paths omits the database''
             else case first_missing [''KY_PORT'', ''KY_DB_DRIVER''] env of
               Some n \<Rightarrow> Inl (''expected_env omits '' @ n)
             | None \<Rightarrow>
             if first_missing (mf_files opened) required \<noteq> None
             then Inl ''required_files omits a capsule member''
             else if list_ex (\<lambda>n. drillPath dir n = None \<or> n \<notin> set (mf_files opened))
                    (required @ sqlitePaths)
             then Inl ''File check must name a clean relative capsule member''
             else Inr (required, sqlitePaths, env))))
      | _ \<Rightarrow> Inl ''Expected a recipe object'')"

definition regular_file :: "'z host_scheme \<Rightarrow> string \<Rightarrow> bool" where
  "regular_file h p = (case lstat p h of Some (Regular b) \<Rightarrow> b \<noteq> [] | _ \<Rightarrow> False)"

definition drill_path_of :: "string \<Rightarrow> string \<Rightarrow> string" where
  "drill_path_of dir n = (case drillPath dir n of None \<Rightarrow> '''' | Some p \<Rightarrow> p)"

definition file_checks :: "'z host_scheme \<Rightarrow> string \<Rightarrow> string list \<Rightarrow> drill_check list" where
  "file_checks h dir required =
     (let missing = filter (\<lambda>n. \<not> regular_file h (drill_path_of dir n)) required
      in map (\<lambda>n. \<lparr>dc_name = ''Required File: '' @ n, dc_passed = False,
                   dc_message = ''File missing, empty or not regular''\<rparr>) missing @
         (if missing = []
          then [\<lparr>dc_name = ''Required Files'', dc_passed = True,
                 dc_message = ''All '' @ nat_str (length required) @ '' required files verified''\<rparr>]
          else []))"

definition sqliteIntegrityCheck ::
  "('k, 'z) lib \<Rightarrow> 'z host_scheme \<Rightarrow> string \<Rightarrow> string \<Rightarrow> drill_check" where
  "sqliteIntegrityCheck L h name path =
     (let verdict = (\<lambda>ok message.
            \<lparr>dc_name = ''SQLite Integrity: '' @ name, dc_passed = ok, dc_message = message\<rparr>)
      in if \<not> regular_file h path then verdict False ''Database missing, empty or not regular''
         else case path_Abs (h_cwd h) path of
           None \<Rightarrow> verdict False ''Invalid database path''
         | Some absolute \<Rightarrow>
             if rl_integrity_check L absolute
                  (case lstat path h of Some (Regular b) \<Rightarrow> b | _ \<Rightarrow> []) \<noteq> Some ''ok''
             then verdict False ''PRAGMA integrity_check failed''
             else verdict True ''PRAGMA integrity_check passed ok'')"

definition env_check :: "'z host_scheme \<Rightarrow> string \<Rightarrow> drill_check" where
  "env_check h n =
     (let found = h_env h n \<noteq> None; defaulted = (n = ''KY_PORT'' \<or> n = ''KY_DB_DRIVER'')
      in \<lparr>dc_name = ''Environment: '' @ n, dc_passed = found \<or> defaulted,
          dc_message = (if found then ''Configured''
                        else if defaulted then ''Not set; the default applies'' else ''Missing'')\<rparr>)"

definition Checks :: "('k, 'z) lib \<Rightarrow> 'z host_scheme \<Rightarrow> string \<Rightarrow> manifest \<Rightarrow> drill_check list" where
  "Checks L h dir opened =
     (case read_recipe dir opened of
        Inl message \<Rightarrow> recipeFailure message
      | Inr (required, sqlitePaths, env) \<Rightarrow>
          file_checks h dir required @
          map (\<lambda>n. sqliteIntegrityCheck L h n (drill_path_of dir n)) sqlitePaths @
          map (env_check h) env)"

definition DrillRoot :: "config \<Rightarrow> string" where
  "DrillRoot cfg = path_Join [c_data_dir (cfg_database cfg), ''drill'']"

section \<open>Running a drill\<close>

definition open_lock :: "string \<Rightarrow> (unit, 'z) sys" where
  "open_lock p = syscall (\<lambda>h.
     (case h_nodes h p of
        None \<Rightarrow> (Inr (), h\<lparr>h_nodes := (h_nodes h)(p \<mapsto> Regular [])\<rparr>)
      | Some Directory \<Rightarrow> (Inl (failed_with [] ''is a directory''), h)
      | Some _ \<Rightarrow> (Inr (), h)))"

definition flock :: "(unit, 'z) sys" where
  "flock = syscall (\<lambda>h.
     (if h_drill_locked h
      then (Inl (failed_with [DrillBusy] ''backup: a restore drill is already running''), h)
      else (Inr (), h\<lparr>h_drill_locked := True\<rparr>)))"

definition funlock :: "(unit, 'z) hio" where
  "funlock = modifyS (\<lambda>h. h\<lparr>h_drill_locked := False\<rparr>)"

definition locked_drill :: "('k, 'z) lib \<Rightarrow> config \<Rightarrow> payload \<Rightarrow> (drill_result, 'z) sys" where
  "locked_drill L cfg p = (
     let base = DrillRoot cfg
     in check (os_MkdirAll base) (\<lambda>_.
        check (os_Chmod base) (\<lambda>_.
        rl_Drill L base p (\<lambda>dir opened. do { h \<leftarrow> getS; ret (Checks L h dir opened) }))))"

definition RunDrill :: "('k, 'z) lib \<Rightarrow> config \<Rightarrow> payload \<Rightarrow> (drill_result, 'z) sys" where
  "RunDrill L cfg p =
     check (open_lock (path_Join [c_data_dir (cfg_database cfg), ''drill.lock''])) (\<lambda>_.
     check flock (\<lambda>_. do {
       r \<leftarrow> locked_drill L cfg p;
       funlock;
       ret r }))"

end
