(* ===== verification/BackupHandlers.thy ===== *)
theory BackupHandlers
  imports Backup Server "HOL-Library.List_Lexorder"
begin

text \<open>
  internal/api/backup_handlers.go: the handlers of the backup screen. A decoded body is an argument,
  \<open>None\<close> when it did not decode. Go's \<^verbatim>\<open>context\<close> and the write deadlines, which decide when a call is
  abandoned but not what it does, are left out, and so are the log lines.
\<close>

section \<open>The audit trail\<close>

definition appVersion :: string where "appVersion = ''1.0.0''"

definition errRecoveryKeyMismatch :: string where
  "errRecoveryKeyMismatch =
     ''Recovery key file does not match the pinned key ID; refusing to seal''"

definition privateRecoveryHint :: string where
  "privateRecoveryHint =
     '' (set KY_BACKUP_ALLOW_PRIVATE_RECOVERY=true for a KyRecovery on your own network)''"

definition local_keys :: "string list" where
  "local_keys = [''outcome'', ''capsule_id'', ''local_path'', ''local_error'', ''deposited'',
     ''digest'', ''size_bytes'']"

definition remote_keys :: "string list" where
  "remote_keys = [''error'', ''receipt_unrecorded'']"

definition Sprint :: "detail \<Rightarrow> string" where
  "Sprint v =
     (case v of
        DetailStr s \<Rightarrow> s
      | DetailInt i \<Rightarrow> itoa i
      | DetailBool b \<Rightarrow> if b then ''true'' else ''false'')"

definition auditValue :: "(nat \<Rightarrow> bool) \<Rightarrow> detail \<Rightarrow> string" where
  "auditValue printable v =
     concat (map (\<lambda>c. if c = CHR ''='' then CHR 0x5C # ''x3d'' else [c]) (Quote printable (Sprint v)))"

text \<open>
  The order of the fields: the local facts, the others sorted, the remote ones. A map has each key
  once; the first entry of an association list is the one that counts.
\<close>

definition detail_keys :: "(string \<times> detail) list \<Rightarrow> string list" where
  "detail_keys m = (
     let present = remdups (map fst m);
         extra = filter (\<lambda>k. k \<notin> set local_keys \<and> k \<notin> set remote_keys) present;
         remote = filter (\<lambda>k. k \<in> set remote_keys) present
     in filter (\<lambda>k. k \<in> set present) local_keys @ sort extra @ sort remote)"

definition detail_field :: "(nat \<Rightarrow> bool) \<Rightarrow> (string \<times> detail) list \<Rightarrow> string \<Rightarrow> string" where
  "detail_field printable m k =
     k @ ''='' @ (case map_of m k of None \<Rightarrow> '''' | Some v \<Rightarrow> auditValue printable v)"

definition audit_text :: "(nat \<Rightarrow> bool) \<Rightarrow> (string \<times> detail) list \<Rightarrow> string" where
  "audit_text printable m = join_with '' '' (map (detail_field printable m) (detail_keys m))"

definition AuditDetails :: "('k, 'z) lib \<Rightarrow> (string \<times> detail) list \<Rightarrow> string" where
  "AuditDetails L m = rl_AuditSafe L (audit_text (rl_printable L) m)"

definition auditBackup ::
  "('k, 'z) lib \<Rightarrow> config \<Rightarrow> string \<Rightarrow> request \<Rightarrow> string \<Rightarrow> string \<Rightarrow> string \<Rightarrow> (unit, 'z) hio" where
  "auditBackup L cfg userID r action resource details = do {
     _ \<leftarrow> logAudit (new_audit userID action (rl_AuditSafe L resource) (rl_AuditSafe L details)
            (requestIP cfg r) 0);
     ret () }"

definition actorID :: "config \<Rightarrow> request \<Rightarrow> (string, 'z) hio" where
  "actorID cfg r = do {
     a \<leftarrow> AuthenticateRequest (cfg_security cfg) r;
     ret (case a of Inl e \<Rightarrow> '''' | Inr (u, s) \<Rightarrow> u_id u) }"

definition settings_of :: "('k, 'z) lib \<Rightarrow> ('z host_scheme) settings_api" where
  "settings_of L = Settings (rl_error_text L)"

type_synonym 'z host_handler = "request \<Rightarrow> (response, 'z) hio"

section \<open>The drill and the export\<close>

definition failed_drill :: "failure \<Rightarrow> drill_result" where
  "failed_drill e =
     \<lparr>dr_passed = False, dr_error_message = fl_text e,
      dr_checks = [\<lparr>dc_name = ''Database'', dc_passed = False, dc_message = fl_text e\<rparr>],
      dr_duration_ms = 0\<rparr>"

definition handleBackupDrill :: "('k, 'z) lib \<Rightarrow> config \<Rightarrow> 'z host_handler" where
  "handleBackupDrill L cfg r =
     (if rq_method r \<noteq> ''POST'' then writeError 405 ''Method not allowed''
      else do {
        collected \<leftarrow> Collect L cfg appVersion;
        case collected of
          Inl e \<Rightarrow>
            if errors_Is e NoDatabaseSnapshot then writeJSON 200 (rl_drill_json L (failed_drill e))
            else if errors_Is e CapsuleTooLarge then writeError 413 (rl_TooLargeMessage L)
            else writeError 500 ''Failed to collect backup files''
        | Inr p \<Rightarrow> do {
            drilled \<leftarrow> RunDrill L cfg p;
            case drilled of
              Inl e \<Rightarrow>
                if errors_Is e DrillBusy then writeError 409 ''A restore drill is already running''
                else writeError 500 ''Failed to execute restore drill''
            | Inr d \<Rightarrow> writeJSON 200 (rl_drill_json L d) } })"

definition capsule_reply :: "('k, 'z) lib \<Rightarrow> string \<Rightarrow> manifest \<Rightarrow> response" where
  "capsule_reply L raw m =
     \<lparr>rs_status = 200,
      rs_headers = [(''Content-Type'', ''application/octet-stream''),
        (''Content-Disposition'', ''attachment; filename='' @ [CHR 0x22] @
           rl_FilenameSafe L (mf_capsule_id m) @ ''.kycap'' @ [CHR 0x22]),
        (''X-Recovery-Key-ID'', mf_recovery_key_id m)],
      rs_cookies = [], rs_body = Text raw\<rparr>"

definition export_sealed ::
  "('k, 'z) lib \<Rightarrow> config \<Rightarrow> string \<Rightarrow> recovery_key \<Rightarrow> payload \<Rightarrow> 'z host_handler" where
  "export_sealed L cfg actor key p r = do {
     sealed \<leftarrow> rl_Seal L p key;
     case sealed of
       Inl e \<Rightarrow>
         if errors_Is e CapsuleTooLarge then writeError 413 (rl_TooLargeMessage L)
         else writeError 500 ''Failed to seal capsule''
     | Inr (raw, m) \<Rightarrow> do {
         auditBackup L cfg actor r ''admin.backup_export'' (mf_capsule_id m)
           (AuditDetails L [(''size_bytes'', DetailInt (int (length raw)))]);
         ret (capsule_reply L raw m) } }"

definition handleExportCapsule :: "('k, 'z) lib \<Rightarrow> config \<Rightarrow> 'z host_handler" where
  "handleExportCapsule L cfg r =
     (if rq_method r \<noteq> ''POST'' then writeError 405 ''Method not allowed''
      else do {
        actor \<leftarrow> actorID cfg r;
        loaded \<leftarrow> rl_LoadRecoveryKey L (c_data_dir (cfg_database cfg)) (settings_of L);
        case loaded of
          Inl e \<Rightarrow>
            if errors_Is e NotPaired then writeError 412 ''No recovery key; pair or pin one''
            else if errors_Is e KeyMismatch then writeError 409 errRecoveryKeyMismatch
            else writeError 500 ''Failed to load recovery key''
        | Inr key \<Rightarrow> do {
            collected \<leftarrow> Collect L cfg appVersion;
            case collected of
              Inl e \<Rightarrow>
                if errors_Is e NoDatabaseSnapshot then writeError 412 (fl_text e)
                else if errors_Is e CapsuleTooLarge then writeError 413 (rl_TooLargeMessage L)
                else writeError 500 ''Failed to collect backup files''
            | Inr p \<Rightarrow> export_sealed L cfg actor key p r } })"

section \<open>Pairing\<close>

record pair_request =
  rp_recovery_url :: string
  rp_pairing_code :: string

definition key_json :: "recovery_key \<Rightarrow> json" where
  "key_json k = JObj [(''recovery_key_id'', JStr (rk_id k)), (''threshold'', JNum (rk_threshold k)),
     (''total_shares'', JNum (rk_total_shares k))]"

definition store_pairing ::
  "('k, 'z) lib \<Rightarrow> config \<Rightarrow> string \<Rightarrow> string \<Rightarrow> pairing_result \<Rightarrow> 'z host_handler" where
  "store_pairing L cfg actor url res r = (
     let target = rl_AuditSafe L url
     in case NewSealer L cfg of
          Inl e \<Rightarrow> writeError 500 ''Failed to prepare the pairing seal''
        | Inr sealer \<Rightarrow> do {
            stored \<leftarrow> rl_StorePairing L (settings_of L) sealer url (pr_api_token res);
            case stored of
              Inl e \<Rightarrow> do {
                auditBackup L cfg actor r ''backup.pair_failed'' target
                  (''error=key pinned but the pairing was not stored: '' @ fl_text e);
                writeError 500 ''Failed to save recovery pairing'' }
            | Inr _ \<Rightarrow> do {
                auditBackup L cfg actor r ''backup.paired'' target
                  (''recovery_key_id='' @ rk_id (pr_key res) @ '' allow_private='' @
                   (if c_allow_private_recovery (cfg_backup cfg) then ''true'' else ''false''));
                writeJSON 200 (key_json (pr_key res)) } })"

definition claim_pairing ::
  "('k, 'z) lib \<Rightarrow> config \<Rightarrow> string \<Rightarrow> string \<Rightarrow> 'z host_handler" where
  "claim_pairing L cfg url code r = do {
     actor \<leftarrow> actorID cfg r;
     let app = c_app_name (cfg_server cfg);
     let target = rl_AuditSafe L url;
     claimed \<leftarrow> rl_ClaimPairing L url code app app;
     case claimed of
       Inl e \<Rightarrow> do {
         auditBackup L cfg actor r ''backup.pair_failed'' target (''error='' @ fl_text e);
         writeError 400 ''Recovery pairing failed'' }
     | Inr res \<Rightarrow> do {
         pinned \<leftarrow> rl_StoreRecoveryKey L (c_data_dir (cfg_database cfg)) (settings_of L) (pr_key res);
         case pinned of
           Inl e \<Rightarrow>
             if errors_Is e FileExists then do {
               auditBackup L cfg actor r ''backup.pair_failed'' target
                 ''error=already paired to a different recovery key'';
               writeError 409 ''Already paired to a different recovery key'' }
             else writeError 500 ''Failed to save recovery key''
         | Inr _ \<Rightarrow> store_pairing L cfg actor url res r } }"

definition handlePairRemoteRecovery ::
  "('k, 'z) lib \<Rightarrow> config \<Rightarrow> pair_request option \<Rightarrow> 'z host_handler" where
  "handlePairRemoteRecovery L cfg body r =
     (if rq_method r \<noteq> ''POST'' then writeError 405 ''Method not allowed''
      else case body of
        None \<Rightarrow> writeError 400 ''Invalid request body''
      | Some req \<Rightarrow>
          if rp_recovery_url req = '''' \<or> rp_pairing_code req = ''''
          then writeError 400 ''Both recovery_url and pairing_code are required''
          else do {
            valid \<leftarrow> rl_ValidateURL L (rp_recovery_url req) (c_allow_private_recovery (cfg_backup cfg));
            case valid of
              Inl e \<Rightarrow> writeError 400
                (fl_text e @ (if errors_Is e PrivateDestination then privateRecoveryHint else ''''))
            | Inr _ \<Rightarrow> claim_pairing L cfg (rp_recovery_url req) (rp_pairing_code req) r })"

definition handleUnpair :: "('k, 'z) lib \<Rightarrow> config \<Rightarrow> 'z host_handler" where
  "handleUnpair L cfg r =
     (if rq_method r \<noteq> ''DELETE'' then writeError 405 ''Method not allowed''
      else do {
        actor \<leftarrow> actorID cfg r;
        url \<leftarrow> getSetting ''kyrecovery_url'';
        let target = rl_AuditSafe L (case url of Inl e \<Rightarrow> '''' | Inr u \<Rightarrow> u);
        cleared \<leftarrow> rl_ClearPairing L (settings_of L);
        case cleared of
          Inl e \<Rightarrow>
            if errors_Is e NotPaired then writeError 412 ''Not paired with KyRecovery''
            else do {
              auditBackup L cfg actor r ''admin.backup_unpair'' target (''error='' @ fl_text e);
              writeError 500 ''Failed to remove the pairing'' }
        | Inr _ \<Rightarrow> do {
            auditBackup L cfg actor r ''admin.backup_unpair'' target ''success'';
            writeJSON 200 (JObj [(''paired'', JBool False)]) } })"

record pin_request =
  pn_public_key :: string
  pn_threshold :: int
  pn_total_shares :: int

definition handlePinKey :: "('k, 'z) lib \<Rightarrow> config \<Rightarrow> pin_request option \<Rightarrow> 'z host_handler" where
  "handlePinKey L cfg body r =
     (if rq_method r \<noteq> ''POST'' then writeError 405 ''Method not allowed''
      else case body of
        None \<Rightarrow> writeError 400 ''Invalid JSON request body''
      | Some req \<Rightarrow>
          (case rl_ParsePinRequest L (pn_public_key req) (pn_threshold req) (pn_total_shares req) of
             Inl e \<Rightarrow> writeError 400 (fl_text e)
           | Inr key \<Rightarrow> do {
               actor \<leftarrow> actorID cfg r;
               pinned \<leftarrow> rl_StoreRecoveryKey L (c_data_dir (cfg_database cfg)) (settings_of L) key;
               case pinned of
                 Inl e \<Rightarrow>
                   if errors_Is e FileExists then do {
                     auditBackup L cfg actor r ''admin.backup_key_pin'' (rk_id key)
                       ''error=already pinned to a different recovery key'';
                     writeError 409 ''Already pinned to a different recovery key'' }
                   else writeError 500 ''Failed to save recovery key''
               | Inr _ \<Rightarrow> do {
                   auditBackup L cfg actor r ''admin.backup_key_pin'' (rk_id key)
                     (''threshold='' @ itoa (rk_threshold key) @ '' total_shares='' @
                      itoa (rk_total_shares key));
                   writeJSON 200 (key_json key) } }))"

section \<open>A backup now\<close>

text \<open>The answer to a failed run, by the first sentinel that applies.\<close>

definition run_refusal :: "('k, 'z) lib \<Rightarrow> run_result \<Rightarrow> failure \<Rightarrow> response" where
  "run_refusal L res e =
     (if errors_Is e KeyPinMissing
      then error_reply 412 ''Paired, but recovery.pub is missing or does not match the pin''
      else if errors_Is e NotPaired then error_reply 412 ''No recovery key''
      else if errors_Is e NoDatabaseSnapshot then error_reply 412 (fl_text e)
      else if errors_Is e NoDestination
      then error_reply 412 ''Nowhere to put a capsule: pair with KyRecovery or set KY_BACKUP_DIR''
      else if errors_Is e InProgress then error_reply 409 ''A backup is already in progress''
      else if errors_Is e KeyMismatch then error_reply 409 errRecoveryKeyMismatch
      else if errors_Is e PrivateDestination
      then error_reply 412 (''The recovery host resolves to a private address'' @ privateRecoveryHint)
      else if errors_Is e CapsuleTooLarge then error_reply 413 (rl_TooLargeMessage L)
      else if errors_Is e RemoteError
      then error_reply 502 (''KyRecovery did not accept the deposit'' @
             (if rr_local_path res \<noteq> '''' then ''; the local copy was written'' else '''') @
             (if rr_local_error res \<noteq> '''' then ''; '' @ rr_local_error res else ''''))
      else error_reply 500 ''Backup failed before reaching KyRecovery'')"

definition run_reply :: "('k, 'z) lib \<Rightarrow> run_result \<Rightarrow> failure option \<Rightarrow> response" where
  "run_reply L res err =
     (case err of
        None \<Rightarrow> reply 200 (JObj (rr_json res))
      | Some e \<Rightarrow>
          if errors_Is e ReceiptUnrecorded
          then reply 200 (JObj (rr_json res @ [(''receipt_unrecorded'', JBool True)]))
          else run_refusal L res e)"

text \<open>\<^verbatim>\<open>details["outcome"] = outcome\<close>.\<close>

definition with_outcome :: "(string \<times> detail) list \<Rightarrow> string \<Rightarrow> (string \<times> detail) list" where
  "with_outcome m outcome = AList.update ''outcome'' (DetailStr outcome) m"

definition handleRunBackup :: "('k, 'z) lib \<Rightarrow> config \<Rightarrow> 'z host_handler" where
  "handleRunBackup L cfg r =
     (if rq_method r \<noteq> ''POST'' then writeError 405 ''Method not allowed''
      else do {
        actor \<leftarrow> actorID cfg r;
        case RunConfig L cfg appVersion of
          Inl e \<Rightarrow> writeError 500 ''Failed to prepare backup configuration''
        | Inr rc \<Rightarrow> do {
            (res, err) \<leftarrow> rl_Run L rc (settings_of L) (Collect L cfg appVersion);
            let (action, outcome, details) = rl_Outcome L res err;
            auditBackup L cfg actor r action (mf_capsule_id (rr_manifest res))
              (AuditDetails L (with_outcome details outcome));
            ret (run_reply L res err) } })"

section \<open>Schedule and status\<close>

definition whole_seconds :: "duration \<Rightarrow> int" where
  "whole_seconds d = (if d < 0 then - ((- d) div second) else d div second)"

definition handleSetSchedule :: "('k, 'z) lib \<Rightarrow> config \<Rightarrow> int option \<Rightarrow> 'z host_handler" where
  "handleSetSchedule L cfg body r =
     (if rq_method r \<noteq> ''PUT'' then writeError 405 ''Method not allowed''
      else case body of
        None \<Rightarrow> writeError 400 ''Invalid JSON request body''
      | Some interval_sec \<Rightarrow> do {
          actor \<leftarrow> actorID cfg r;
          saved \<leftarrow> rl_SetInterval L (settings_of L) interval_sec;
          case saved of
            Inl e \<Rightarrow>
              if errors_Is e BadInterval then writeError 400 (fl_text e)
              else writeError 500 ''Failed to save the schedule''
          | Inr _ \<Rightarrow> do {
              stored \<leftarrow> rl_Interval L (c_deposit_interval (cfg_backup cfg)) (settings_of L);
              case stored of
                Inl e \<Rightarrow> writeError 500 ''Failed to read the schedule back''
              | Inr d \<Rightarrow> do {
                  auditBackup L cfg actor r ''admin.backup_schedule'' ''''
                    (''interval_sec='' @ itoa (whole_seconds d));
                  writeJSON 200 (JObj [(''interval_sec'', JNum (whole_seconds d))]) } } })"

text \<open>What the status says about the recovery key.\<close>

definition key_status :: "('k, 'z) lib \<Rightarrow> config \<Rightarrow> ((string \<times> json) list, 'z) hio" where
  "key_status L cfg = do {
     loaded \<leftarrow> rl_LoadRecoveryKey L (c_data_dir (cfg_database cfg)) (settings_of L);
     case loaded of
       Inr key \<Rightarrow> do {
         paired \<leftarrow> rl_HasPairing L (settings_of L);
         ret [(''key_pinned'', JBool True), (''paired'', JBool paired),
              (''recovery_key_id'', JStr (rk_id key)), (''threshold'', JNum (rk_threshold key)),
              (''total_shares'', JNum (rk_total_shares key))] }
     | Inl e \<Rightarrow>
         if errors_Is e KeyMismatch
         then ret [(''key_pinned'', JBool False), (''paired'', JBool False),
                   (''recovery_key_error'', JStr ''recovery.pub does not match the pinned key ID'')]
         else do {
           paired \<leftarrow> rl_HasPairing L (settings_of L);
           ret ([(''key_pinned'', JBool False), (''paired'', JBool False)] @
                (if paired
                 then [(''recovery_key_error'',
                        JStr ''paired, but recovery.pub is missing; restore it or re-pair'')]
                 else [])) } }"

definition local_status :: "('k, 'z) lib \<Rightarrow> config \<Rightarrow> ((string \<times> json) list, 'z) hio" where
  "local_status L cfg =
     (if c_backup_dir (cfg_backup cfg) = '''' then ret []
      else do {
        copies \<leftarrow> rl_ListLocalCopies L (c_backup_dir (cfg_backup cfg)) (c_app_name (cfg_server cfg));
        ret [(''local_dir'', JStr (c_backup_dir (cfg_backup cfg))),
             (''local_keep'', JNum (c_keep (cfg_backup cfg))),
             (case copies of
                Inr cs \<Rightarrow> (''local_copies'', cs)
              | Inl e \<Rightarrow> (''local_error'', JStr (rl_AuditSafe L (fl_text e))))] })"

definition schedule_status :: "('k, 'z) lib \<Rightarrow> config \<Rightarrow> ((string \<times> json) list, 'z) hio" where
  "schedule_status L cfg = do {
     interval \<leftarrow> rl_Interval L (c_deposit_interval (cfg_backup cfg)) (settings_of L);
     case interval of
       Inl e \<Rightarrow> ret []
     | Inr d \<Rightarrow> do {
         next \<leftarrow> rl_NextRun L (c_deposit_interval (cfg_backup cfg)) (settings_of L);
         ret ([(''interval_sec'', JNum (whole_seconds d)),
               (''min_interval_sec'', JNum (whole_seconds (rl_MinInterval L)))] @
              (case next of Inr (Some t) \<Rightarrow> [(''next_run_at'', JNum t)] | _ \<Rightarrow> [])) } }"

definition handleBackupStatus :: "('k, 'z) lib \<Rightarrow> config \<Rightarrow> 'z host_handler" where
  "handleBackupStatus L cfg r =
     (if rq_method r \<noteq> ''GET'' then writeError 405 ''Method not allowed''
      else do {
        members \<leftarrow> Members L cfg;
        h \<leftarrow> getS;
        let path_error = (case CheckDatabasePath (rl_printable L) (h_cwd h) cfg of
              None \<Rightarrow> [] | Some e \<Rightarrow> [(''database_path_error'', JStr (fl_text e))]);
        url \<leftarrow> getSetting ''kyrecovery_url'';
        key \<leftarrow> key_status L cfg;
        last \<leftarrow> rl_LastDeposit L (settings_of L);
        local \<leftarrow> local_status L cfg;
        schedule \<leftarrow> schedule_status L cfg;
        writeJSON 200 (JObj (
          [(''app_name'', JStr (c_app_name (cfg_server cfg))), (''app_version'', JStr appVersion),
           (''allow_private_recovery'', JBool (c_allow_private_recovery (cfg_backup cfg))),
           (''database_driver'', JStr (c_driver (cfg_database cfg))),
           (''members'', JList (map JStr members))] @ path_error @
          (case url of Inl e \<Rightarrow> [] | Inr u \<Rightarrow> [(''recovery_url'', JStr u)]) @ key @
          (case last of Inr (Some d) \<Rightarrow> [(''last_deposit'', d)] | _ \<Rightarrow> []) @ local @ schedule)) })"

end
