(* ===== verification/BackupFacts.thy ===== *)
theory BackupFacts
  imports Backup Server
begin

text \<open>
  What the backup package promises: a member name a drill accepts stays inside the sandbox, a drill
  whose checks all pass has found every member of the capsule, a capsule collected from a working
  instance passes its own drill, a setting written is the setting read, and drills do not overlap.
\<close>

section \<open>Cleaned paths\<close>

definition plain_element :: "string \<Rightarrow> bool" where
  "plain_element e \<longleftrightarrow> e \<noteq> '''' \<and> e \<noteq> ''.'' \<and> e \<noteq> ''..''"

definition local_name :: "string \<Rightarrow> bool" where
  "local_name n \<longleftrightarrow> list_all plain_element (split_on (CHR ''/'') n)"

lemma split_join:
  "es \<noteq> [] \<Longrightarrow> list_all (\<lambda>e. d \<notin> set e) es \<Longrightarrow> split_on d (join_with [d] es) = es"
  by (induction "[d]" es rule: join_with.induct)
    (simp_all add: split_on_no_sep split_on_append_sep)

lemma join_split: "join_with [d] (split_on d s) = s"
proof (induction s)
  case (Cons c s)
  obtain w ws where "split_on d s = w # ws" by (cases "split_on d s") simp_all
  with Cons show ?case by (cases ws) auto
qed simp

lemma join_append:
  "xs \<noteq> [] \<Longrightarrow> ys \<noteq> [] \<Longrightarrow> join_with sep (xs @ ys) = join_with sep xs @ sep @ join_with sep ys"
proof (induction xs)
  case (Cons x xs)
  then show ?case by (cases xs; cases ys) simp_all
qed simp

text \<open>The elements kept by \<open>clean_step\<close>: none empty or \<open>.\<close>, and \<open>..\<close> only at the outer end.\<close>

definition cleaned :: "string list \<Rightarrow> bool" where
  "cleaned out \<longleftrightarrow> (\<exists>a b. out = a @ b \<and> list_all plain_element a \<and> set b \<subseteq> {''..''}) \<and>
     list_all (\<lambda>e. CHR ''/'' \<notin> set e) out"

lemma cleaned_step:
  assumes "cleaned out" and "CHR ''/'' \<notin> set e"
  shows "cleaned (clean_step rooted out e)"
proof -
  obtain a b where ab: "out = a @ b" "list_all plain_element a" "set b \<subseteq> {''..''}"
    and sep: "list_all (\<lambda>e. CHR ''/'' \<notin> set e) out"
    using assms(1) by (auto simp: cleaned_def)
  consider "e = [] \<or> e = ''.''" | "e = ''..''" "a = []" | x a' where "e = ''..''" "a = x # a'"
    | "plain_element e"
    by (cases a) (auto simp: plain_element_def)
  then show ?thesis
  proof cases
    case 2
    then show ?thesis
      using ab sep by (cases b) (auto simp: cleaned_def intro: exI [of _ "[]"])
  next
    case 3
    then have "x \<noteq> ''..''" using ab by (simp add: plain_element_def)
    with 3 ab sep show ?thesis by (auto simp: cleaned_def)
  next
    case 4
    then have "cleaned (e # out)"
      using ab sep assms(2) unfolding cleaned_def by (intro conjI exI [of _ "e # a"] exI [of _ b]) auto
    with 4 show ?thesis by (simp add: plain_element_def)
  qed (use assms in auto)
qed

lemma cleaned_fold:
  "cleaned out \<Longrightarrow> list_all (\<lambda>e. CHR ''/'' \<notin> set e) es \<Longrightarrow> cleaned (foldl (clean_step rooted) out es)"
  by (induction es arbitrary: out) (simp_all add: cleaned_step del: clean_step.simps)

lemma fold_plain:
  "list_all plain_element es \<Longrightarrow> foldl (clean_step rooted) out es = rev es @ out"
  by (induction es arbitrary: out) (simp_all add: plain_element_def)

lemma split_no_sep: "list_all (\<lambda>e. d \<notin> set e) (split_on d s)"
  by (auto simp: list_all_iff dest: split_on_parts)

lemma cleaned_split: "cleaned (foldl (clean_step rooted) [] (split_on (CHR ''/'') p))"
  by (rule cleaned_fold) (auto simp: cleaned_def split_no_sep)

lemma clean_local_name:
  assumes clean: "path_Clean n = n" and "n \<noteq> ''.''" and local_n: "path_IsLocal n"
  shows "local_name n"
proof -
  define out where "out = foldl (clean_step False) [] (split_on (CHR ''/'') n)"
  have c: "cleaned out" unfolding out_def by (rule cleaned_split)
  have rel: "\<not> path_IsAbs n" "n \<noteq> ''''" using local_n by (auto simp: path_IsLocal_def split: if_splits)
  have n: "n = join_with ''/'' (rev out)"
    using clean rel assms(2) by (auto simp: path_Clean_def Let_def out_def split: if_splits)
  have ne: "out \<noteq> []" using n rel by auto
  have parts: "split_on (CHR ''/'') n = rev out"
    using c ne by (subst n) (simp add: split_join cleaned_def)
  obtain a b where ab: "out = a @ b" "list_all plain_element a" "set b \<subseteq> {''..''}"
    using c by (auto simp: cleaned_def)
  have "b = []"
  proof (rule ccontr)
    assume "b \<noteq> []"
    then obtain b' where b: "rev b = ''..'' # b'"
      using ab(3) by (cases "rev b") (auto dest: arg_cong [of _ _ set])
    have q: "n \<noteq> ''..'' \<and> \<not> has_prefix n ''../''"
      using local_n rel clean parts b ab(1) by (auto simp: path_IsLocal_def Let_def split: if_splits)
    have "n = ''..'' \<or> has_prefix n ''../''"
      using n b ab(1) by (cases "b' @ rev a") (auto simp: has_prefix_iff)
    with q show False by blast
  qed
  with ab parts show ?thesis by (simp add: local_name_def list_all_iff)
qed

lemma local_name_join:
  assumes "local_name n" and base: "path_Clean base \<noteq> ''/''" "path_Clean base \<noteq> ''.''" "base \<noteq> ''''"
  shows "path_Join [base, n] = path_Clean base @ ''/'' @ n"
proof -
  let ?split = "split_on (CHR ''/'')" and ?r = "path_IsAbs base"
  define out where "out = foldl (clean_step ?r) [] (?split base)"
  have n: "list_all plain_element (?split n)" using assms(1) by (simp add: local_name_def)
  have "n \<noteq> ''''" using n by (auto simp: plain_element_def)
  have abs: "path_IsAbs (base @ ''/'' @ n) = ?r"
    using base(3) by (cases base) (auto simp: path_IsAbs_def has_prefix_def)
  have "foldl (clean_step ?r) [] (?split (base @ ''/'' @ n)) = rev (?split n) @ out"
    using fold_plain [OF n] by (simp add: split_on_append_sep out_def)
  moreover have "out \<noteq> []"
    using base by (auto simp: path_Clean_def Let_def out_def split: if_splits)
  moreover have "path_Clean base = (if ?r then ''/'' else '''') @ join_with ''/'' (rev out)"
    using base by (auto simp: path_Clean_def Let_def out_def split: if_splits)
  moreover have "join_with ''/'' (rev out @ ?split n) = join_with ''/'' (rev out) @ ''/'' @ n"
    using join_append [of "rev out" "?split n" "''/''"] join_split [of "CHR ''/''" n] \<open>out \<noteq> []\<close>
    by simp
  ultimately show ?thesis
    using base(3) \<open>n \<noteq> ''''\<close> abs
    by (cases "path_IsAbs base") (simp_all add: path_Join_def Let_def path_Clean_def)
qed

section \<open>A drill that passes\<close>

lemma drillPath_local: "drillPath base n = Some p \<Longrightarrow> local_name n \<and> p = path_Join [base, n]"
  by (auto simp: drillPath_def intro: clean_local_name split: if_splits)

definition usable_dir :: "string \<Rightarrow> bool" where
  "usable_dir dir \<longleftrightarrow> dir \<noteq> '''' \<and> path_Clean dir \<noteq> ''/'' \<and> path_Clean dir \<noteq> ''.''"

lemma drillPath_inside:
  "usable_dir dir \<Longrightarrow> drillPath dir n = Some p \<Longrightarrow> p = path_Clean dir @ ''/'' @ n"
  using drillPath_local [of dir n p] local_name_join [of n dir] by (simp add: usable_dir_def)

lemma first_missing_None: "first_missing wanted present = None \<longleftrightarrow> set wanted \<subseteq> set present"
  by (auto simp: first_missing_def find_None_iff)

lemma read_recipe_ok:
  assumes "read_recipe dir m = Inr (required, sqlitePaths, env)"
  shows "{dbPath, ''config/settings.json'', encryptionKeyPath} \<subseteq> set required"
    and "set required = set (mf_files m)" and "dbPath \<in> set sqlitePaths"
    and "n \<in> set required \<Longrightarrow> drillPath dir n \<noteq> None"
  using assms
  by (auto simp: read_recipe_def first_missing_None list_ex_iff
      split: any.splits sum.splits if_splits option.splits)

lemma file_checks_pass:
  assumes pass: "list_all dc_passed (file_checks h dir required)" and n: "n \<in> set required"
  shows "regular_file h (drill_path_of dir n)"
proof (rule ccontr)
  let ?c = "\<lparr>dc_name = ''Required File: '' @ n, dc_passed = False,
    dc_message = ''File missing, empty or not regular''\<rparr>"
  assume "\<not> regular_file h (drill_path_of dir n)"
  with n have "?c \<in> set (file_checks h dir required)"
    by (simp add: file_checks_def Let_def image_iff)
  with pass have "dc_passed ?c" by (simp only: list_all_iff)
  then show False by simp
qed

lemma integrity_check_pass:
  assumes "dc_passed (sqliteIntegrityCheck L h n p)"
  shows "\<exists>b q. lstat p h = Some (Regular b) \<and> rl_integrity_check L q b = Some ''ok''"
  using assms
  by (auto simp: sqliteIntegrityCheck_def Let_def regular_file_def
      split: if_splits option.splits node.splits)

text \<open>
  C14: a drill whose checks all pass proves what it says, whatever recipe the capsule carries: the
  capsule holds the database, the settings and the encryption key, every member of it lies inside
  the sandbox under its own clean name as a regular, non-empty file, and SQLite found the restored
  database sound.
\<close>

theorem drill_proves_restore:
  assumes "list_all dc_passed (Checks L h dir m)" and "usable_dir dir"
  shows "{dbPath, ''config/settings.json'', encryptionKeyPath} \<subseteq> set (mf_files m) \<and>
    list_all (\<lambda>n. local_name n \<and> regular_file h (path_Clean dir @ ''/'' @ n)) (mf_files m) \<and>
    (\<exists>b q. lstat (path_Clean dir @ ''/'' @ dbPath) h = Some (Regular b) \<and>
           rl_integrity_check L q b = Some ''ok'')"
proof -
  obtain required sqlitePaths env where r: "read_recipe dir m = Inr (required, sqlitePaths, env)"
    using assms(1) by (auto simp: Checks_def recipeFailure_def split: sum.splits)
  note ok = read_recipe_ok [OF r]
  have path: "local_name n" "drill_path_of dir n = path_Clean dir @ ''/'' @ n"
    if n: "n \<in> set (mf_files m)" for n
  proof -
    obtain p where p: "drillPath dir n = Some p" using n ok(2,4) by auto
    show "local_name n" "drill_path_of dir n = path_Clean dir @ ''/'' @ n"
      using drillPath_local [OF p] drillPath_inside [OF assms(2) p] p by (simp_all add: drill_path_of_def)
  qed
  have files: "list_all dc_passed (file_checks h dir required)"
    and "list_all (\<lambda>n. dc_passed (sqliteIntegrityCheck L h n (drill_path_of dir n))) sqlitePaths"
    using assms(1) by (simp_all add: Checks_def r list.pred_map comp_def)
  then have db: "dc_passed (sqliteIntegrityCheck L h dbPath (drill_path_of dir dbPath))"
    using ok(3) by (simp add: list_all_iff)
  have "regular_file h (path_Clean dir @ ''/'' @ n)" if "n \<in> set (mf_files m)" for n
    using file_checks_pass [OF files, of n] path(2) [OF that] that ok(2) by simp
  moreover have "drill_path_of dir dbPath = path_Clean dir @ ''/'' @ dbPath"
    using path(2) [of dbPath] ok(1,2) by simp
  ultimately show ?thesis
    using ok(1,2) path(1) integrity_check_pass [OF db] by (simp only: list_all_iff) blast
qed

section \<open>A capsule passes its own drill\<close>

lemma any_strings_map: "any_strings (map AnyStr xs) = Some xs"
  by (induction xs) simp_all

lemma recipeStrings_through_json: "recipeStrings (through_json (AnyStrings xs)) = checked_members xs"
  by (simp add: recipeStrings_def any_strings_map)

lemma collected_files:
  assumes "run_state (Collect L cfg v) h = (Inr p, h')"
  obtains b pub where "py_files p = [private_file dbPath b,
      private_file ''config/settings.json'' (settings_json cfg),
      private_file encryptionKeyPath (hex_encode (c_encryption_key (cfg_security cfg)) @ [CHR 0x0A])] @
      map (private_file recoveryPubPath) pub"
    and "length pub \<le> 1" and "length (c_encryption_key (cfg_security cfg)) = 32"
    and "py_recipe p = py_recipe (make_payload cfg v (py_files p))"
proof -
  obtain b h2 where snap: "run_state (snapshotSQLite L (c_dsn (cfg_database cfg))
      (c_data_dir (cfg_database cfg))) h = (Inr b, h2)"
    and key: "length (c_encryption_key (cfg_security cfg)) = 32"
    using assms
    by (auto simp: Collect_def Let_def run_check split: if_splits option.splits sum.splits prod.splits)
  obtain r h3 where "run_state (os_ReadFile (rl_RecoveryKeyPath L (c_data_dir (cfg_database cfg)))) h2 = (r, h3)"
    by force
  then have p: "p = make_payload cfg v ([private_file dbPath b,
      private_file ''config/settings.json'' (settings_json cfg),
      private_file encryptionKeyPath (hex_encode (c_encryption_key (cfg_security cfg)) @ [CHR 0x0A])] @
      (case r of Inl e \<Rightarrow> [] | Inr b \<Rightarrow> [private_file recoveryPubPath b]))"
    using assms snap key by (simp add: Collect_def Let_def run_check split: if_splits option.splits)
  show thesis
  proof (cases r)
    case (Inl e)
    with p key that [of b "[]"] show thesis by (simp add: make_payload_def)
  next
    case (Inr x)
    with p key that [of b "[x]"] show thesis by (simp add: make_payload_def)
  qed
qed

text \<open>The names \<^verbatim>\<open>Collect\<close> writes, in any directory.\<close>

definition capsule_names :: "string list" where
  "capsule_names = [dbPath, ''config/settings.json'', encryptionKeyPath, recoveryPubPath]"

lemma capsule_names_clean:
  "list_all (\<lambda>n. path_Clean n = n \<and> n \<noteq> ''.'' \<and> path_IsLocal n \<and>
     \<not> contains_any n [CHR 0x5C, CHR 0x00] \<and> trim_space n \<noteq> '''' \<and> CHR 0x00 \<notin> set n) capsule_names"
  by code_simp

lemma capsule_names_ok:
  "list_all (\<lambda>n. drillPath dir n = Some (path_Join [dir, n]) \<and> trim_space n \<noteq> '''' \<and>
     CHR 0x00 \<notin> set n) capsule_names"
  using capsule_names_clean by (auto simp: drillPath_def list_all_iff)

lemma recipe_env_ok: "checked_members recipe_env = Inr recipe_env"
  by (simp add: checked_members_def recipe_env_def trim_space_def trim_by_def trim_left_by_def
      trim_right_by_def is_space_def Let_def)

lemma collected_recipe:
  assumes names: "set (requiredFiles files) \<subseteq> set capsule_names"
    and wanted: "{dbPath, ''config/settings.json'', encryptionKeyPath} \<subseteq> set (requiredFiles files)"
    and m: "mf_files m = requiredFiles files"
      "mf_recipe m = through_json (py_recipe (make_payload cfg v files))"
  shows "read_recipe dir m = Inr (requiredFiles files, [dbPath], recipe_env)"
proof -
  have ok: "checked_members xs = Inr xs" if "set xs \<subseteq> set capsule_names" "xs \<noteq> []" for xs
    using that capsule_names_ok [of dir]
    by (auto simp: checked_members_def list_all_iff list_ex_iff)
  have in_dir: "drillPath dir n \<noteq> None" if "n \<in> set capsule_names" for n
    using that capsule_names_ok [of dir] by (auto simp: list_all_iff)
  have db: "checked_members [dbPath] = Inr [dbPath]" by (rule ok) (simp_all add: capsule_names_def)
  have req: "checked_members (requiredFiles files) = Inr (requiredFiles files)"
    using wanted by (intro ok names) auto
  have paths: "\<not> list_ex (\<lambda>n. drillPath dir n = None \<or> n \<notin> set (mf_files m))
      (requiredFiles files @ [dbPath])"
    using names wanted in_dir m(1) by (auto simp: list_ex_iff)
  have env: "first_missing [''KY_PORT'', ''KY_DB_DRIVER''] recipe_env = None"
    by (simp add: first_missing_None recipe_env_def)
  have wanted': "first_missing [dbPath, ''config/settings.json'', encryptionKeyPath] (requiredFiles files) = None"
    using wanted by (simp add: first_missing_None)
  have members: "first_missing (mf_files m) (requiredFiles files) = None"
    by (simp add: first_missing_None m(1))
  show ?thesis
    using paths env wanted' members
    by (simp add: read_recipe_def m(2) make_payload_def any_get_def recipeStrings_def any_strings_map
        db req recipe_env_ok del: list_ex_append)
qed

definition extracted :: "'z host_scheme \<Rightarrow> string \<Rightarrow> capsule_file list \<Rightarrow> bool" where
  "extracted h dir files \<longleftrightarrow>
     list_all (\<lambda>f. lstat (drill_path_of dir (cf_path f)) h = Some (Regular (cf_data f)) \<and>
       cf_data f \<noteq> []) files"

lemma file_checks_all:
  assumes "list_all (\<lambda>n. regular_file h (drill_path_of dir n)) required"
  shows "list_all dc_passed (file_checks h dir required)"
proof -
  have "filter (\<lambda>n. \<not> regular_file h (drill_path_of dir n)) required = []"
    using assms by (simp add: filter_empty_conv list_all_iff)
  then show ?thesis by (simp add: file_checks_def)
qed

lemma capsule_passes:
  assumes "run_state (Collect L cfg v) h0 = (Inr p, h1)"
    and "mf_files m = requiredFiles (py_files p)" and "mf_recipe m = through_json (py_recipe p)"
    and "extracted h dir (py_files p)" and "path_IsAbs (drill_path_of dir dbPath)"
    and "rl_integrity_check L (path_Clean (drill_path_of dir dbPath)) (cf_data (hd (py_files p))) = Some ''ok''"
  shows "list_all dc_passed (Checks L h dir m)"
proof -
  obtain b pub where files: "py_files p = [private_file dbPath b,
      private_file ''config/settings.json'' (settings_json cfg),
      private_file encryptionKeyPath (hex_encode (c_encryption_key (cfg_security cfg)) @ [CHR 0x0A])] @
      map (private_file recoveryPubPath) pub"
    and pub: "length pub \<le> 1" and recipe: "py_recipe p = py_recipe (make_payload cfg v (py_files p))"
    by (rule collected_files [OF assms(1)])
  have read: "read_recipe dir m = Inr (requiredFiles (py_files p), [dbPath], recipe_env)"
  proof (rule collected_recipe)
    show "set (requiredFiles (py_files p)) \<subseteq> set capsule_names"
      by (auto simp: files requiredFiles_def private_file_def capsule_names_def)
    show "mf_recipe m = through_json (py_recipe (make_payload cfg v (py_files p)))"
      using assms(3) recipe by simp
  qed (use assms(2) in \<open>auto simp: files requiredFiles_def private_file_def\<close>)
  have regular: "list_all (\<lambda>n. regular_file h (drill_path_of dir n)) (requiredFiles (py_files p))"
    using assms(4) by (simp add: extracted_def requiredFiles_def list_all_iff regular_file_def)
  have db: "lstat (drill_path_of dir dbPath) h = Some (Regular b)" "b \<noteq> []"
    using assms(4) by (simp_all add: extracted_def files private_file_def)
  have "dc_passed (sqliteIntegrityCheck L h dbPath (drill_path_of dir dbPath))"
    using db assms(5,6)
    by (simp add: sqliteIntegrityCheck_def Let_def regular_file_def path_Abs_def files private_file_def)
  moreover have "list_all dc_passed (map (env_check h) recipe_env)"
    by (simp add: recipe_env_def env_check_def Let_def)
  ultimately show ?thesis
    using file_checks_all [OF regular] by (simp add: Checks_def read)
qed


section \<open>Settings: what was written is read\<close>

text \<open>
  The contract of a key-value store under the recovery client. \<open>stored\<close> is what a state holds;
  every call may be refused, and then leaves it.
\<close>

locale settings_store =
  fixes get :: "string \<Rightarrow> ('s, failure + string) state"
    and put :: "string \<Rightarrow> string \<Rightarrow> ('s, failure + unit) state"
    and del :: "string \<Rightarrow> ('s, failure + unit) state"
    and stored :: "'s \<Rightarrow> string \<Rightarrow> string option"
  assumes get_keeps: "run_state (get k) s = (r, s') \<Longrightarrow> stored s' = stored s"
    and get_value: "run_state (get k) s = (Inr v, s') \<Longrightarrow> stored s k = Some v"
    and get_missing:
      "run_state (get k) s = (Inl e, s') \<Longrightarrow> errors_Is e SettingNotFound \<Longrightarrow> stored s k = None"
    and put_stores:
      "run_state (put k v) s = (Inr u, s') \<Longrightarrow> stored s' = (stored s)(k \<mapsto> v)"
    and put_refused: "run_state (put k v) s = (Inl e, s') \<Longrightarrow> stored s' = stored s"
    and del_removes: "run_state (del k) s = (Inr u, s') \<Longrightarrow> stored s' = (stored s)(k := None)"
    and del_refused: "run_state (del k) s = (Inl e, s') \<Longrightarrow> stored s' = stored s"
begin

lemma get_after_put:
  "run_state (put k v) s = (Inr u, s1) \<Longrightarrow> run_state (get k) s1 = (Inr w, s2) \<Longrightarrow> w = v"
  by (auto dest!: put_stores get_value)

lemma get_other_after_put:
  "run_state (put k v) s = (Inr u, s1) \<Longrightarrow> j \<noteq> k \<Longrightarrow> run_state (get j) s1 = (Inr w, s2) \<Longrightarrow>
     stored s j = Some w"
  by (auto dest!: put_stores get_value)

lemma get_after_del:
  assumes "run_state (del k) s = (Inr u, s1)" and "run_state (get k) s1 = (r, s2)"
  shows "\<exists>e. r = Inl e"
  using assms get_value [of k s1 _ s2] by (cases r) (auto dest!: del_removes)

lemma missing_after_put:
  "run_state (put k v) s = (Inr u, s1) \<Longrightarrow> run_state (get k) s1 = (Inl e, s2) \<Longrightarrow>
     \<not> errors_Is e SettingNotFound"
  by (auto dest!: put_stores dest: get_missing)

end

definition setting_of :: "db \<Rightarrow> string \<Rightarrow> string option" where
  "setting_of d k = map_option k_value (find (\<lambda>x. k_key x = k) (t_server_settings d))"

lemma find_map_update:
  assumes "\<And>x. k_key (f x) = k_key x"
  shows "find (\<lambda>x. k_key x = j) (map (\<lambda>x. if k_key x = k then f x else x) xs) =
    map_option (\<lambda>x. if k_key x = k then f x else x) (find (\<lambda>x. k_key x = j) xs)"
  by (induction xs) (auto simp: assms)

lemma find_append: "find P (xs @ ys) = (case find P xs of None \<Rightarrow> find P ys | Some x \<Rightarrow> Some x)"
  by (induction xs) auto

lemma find_filter_key:
  "find (\<lambda>x. k_key x = j) (filter (\<lambda>x. k_key x \<noteq> k) xs) =
     (if j = k then None else find (\<lambda>x. k_key x = j) xs)"
  by (induction xs) auto

lemma find_key_None: "find (\<lambda>x. k_key x = k) xs = None \<longleftrightarrow> k \<notin> k_key ` set xs"
  by (auto simp: find_None_iff)

lemma setting_of_upsert:
  "setting_of (snd (upsert_setting k v t E d)) = (setting_of d)(k \<mapsto> v)"
proof
  fix j
  show "setting_of (snd (upsert_setting k v t E d)) j = ((setting_of d)(k \<mapsto> v)) j"
    using find_key_None [of k "t_server_settings d"]
    by (auto simp: setting_of_def upsert_setting_def find_map_update find_append
        split: option.splits dest!: find_SomeD)
qed

lemma setting_of_delete: "setting_of (snd (delete_setting k E d)) = (setting_of d)(k := None)"
  by (rule ext) (simp add: setting_of_def delete_setting_def find_filter_key)

interpretation kv: settings_store "Settings_Get msg" "Settings_Set msg" "Settings_Delete msg"
    "\<lambda>w. setting_of (w_db w)" for msg
proof
  fix k v s s' e u
  show "run_state (Settings_Get msg k) s = (Inr v, s') \<Longrightarrow> setting_of (w_db s) k = Some v"
    by (auto simp: Settings_Get_def getSetting_def run_stmt select_setting_def setting_of_def
        split: if_splits sum.splits option.splits prod.splits)
  show "run_state (Settings_Get msg k) s = (Inl e, s') \<Longrightarrow> errors_Is e SettingNotFound \<Longrightarrow>
      setting_of (w_db s) k = None"
    by (auto simp: Settings_Get_def getSetting_def run_stmt select_setting_def setting_of_def
        db_failure_def split: if_splits sum.splits option.splits prod.splits)
  show "run_state (Settings_Set msg k v) s = (Inr u, s') \<Longrightarrow>
      setting_of (w_db s') = (setting_of (w_db s))(k \<mapsto> v)"
    by (auto simp: Settings_Set_def setSetting_def run_stmt setting_of_upsert
        split: if_splits prod.splits)
  show "run_state (Settings_Set msg k v) s = (Inl e, s') \<Longrightarrow> setting_of (w_db s') = setting_of (w_db s)"
    by (auto simp: Settings_Set_def setSetting_def run_stmt upsert_setting_def
        split: if_splits prod.splits)
  show "run_state (Settings_Delete msg k) s = (Inr u, s') \<Longrightarrow>
      setting_of (w_db s') = (setting_of (w_db s))(k := None)"
    by (auto simp: Settings_Delete_def deleteSetting_def run_stmt setting_of_delete
        split: if_splits prod.splits)
  show "run_state (Settings_Delete msg k) s = (Inl e, s') \<Longrightarrow> setting_of (w_db s') = setting_of (w_db s)"
    by (auto simp: Settings_Delete_def deleteSetting_def run_stmt delete_setting_def
        split: if_splits prod.splits)
next
  fix k s r s'
  show "run_state (Settings_Get msg k) s = (r, s') \<Longrightarrow> setting_of (w_db s') = setting_of (w_db s)"
    by (auto simp: Settings_Get_def getSetting_def run_stmt select_setting_def
        split: if_splits prod.splits)
qed

section \<open>One drill at a time\<close>

text \<open>
  A restore drill leaves the lock of the data directory as it found it, on every path; while
  another drill holds it, the call fails and touches no file but the lock file itself.
\<close>

lemma RunDrill_exclusive:
  "case run_state (RunDrill L cfg p) h of (r, h') \<Rightarrow>
     h_drill_locked h' = h_drill_locked h \<and>
     (if h_drill_locked h
      then (case r of Inl e \<Rightarrow> True | Inr x \<Rightarrow> False) \<and>
           (\<forall>q. q = path_Join [c_data_dir (cfg_database cfg), ''drill.lock''] \<or> lstat q h' = lstat q h)
      else True)"
  by (auto simp: RunDrill_def run_check open_lock_def flock_def funlock_def run_syscall lstat_def
      split: prod.splits sum.splits if_splits option.splits node.splits)

section \<open>An instance\<close>

definition demo_key :: recovery_key where
  "demo_key = \<lparr>rk_id = ''kid'', rk_threshold = 2, rk_total_shares = 3\<rparr>"

definition demo_manifest :: "payload \<Rightarrow> manifest" where
  "demo_manifest p = \<lparr>mf_capsule_id = ''cap1'', mf_recovery_key_id = ''kid'',
     mf_files = map cf_path (py_files p), mf_recipe = through_json (py_recipe p)\<rparr>"

definition demo_lib :: "(unit, 'z) lib" where
  "demo_lib = \<lparr>rl_AuditSafe = (\<lambda>s. s), rl_FilenameSafe = (\<lambda>s. s),
     rl_RecoveryKeyPath = (\<lambda>d. d @ ''/recovery.pub''), rl_TooLargeMessage = ''too large'', rl_CapsuleTooLarge = ''too large'',
     rl_MaxCapsuleFileBytes = 1000, rl_MinInterval = minute,
     rl_NewAESGCMSealer = (\<lambda>k l. Inr ()), rl_ValidateURL = (\<lambda>u b. ret (Inr ())),
     rl_ParsePinRequest = (\<lambda>k t n. Inr demo_key), rl_LoadRecoveryKey = (\<lambda>d s. ret (Inr demo_key)),
     rl_StoreRecoveryKey = (\<lambda>d s k. ret (Inr ())),
     rl_Seal = (\<lambda>p k. ret (Inr (''sealed'', demo_manifest p))),
     rl_ClaimPairing = (\<lambda>u c s a. ret (Inr \<lparr>pr_key = demo_key, pr_api_token = ''tok''\<rparr>)),
     rl_StorePairing = (\<lambda>s k u t. st_Set s ''kyrecovery_url'' u),
     rl_ClearPairing = (\<lambda>s. st_Delete s ''kyrecovery_url''), rl_HasPairing = (\<lambda>s. ret True),
     rl_LastDeposit = (\<lambda>s. ret (Inr None)), rl_ListLocalCopies = (\<lambda>d a. ret (Inr (JList []))),
     rl_SetInterval = (\<lambda>s i. st_Set s ''backup_interval_sec'' (itoa i)),
     rl_Interval = (\<lambda>d s. ret (Inr d)), rl_NextRun = (\<lambda>d s. ret (Inr None)),
     rl_Run = (\<lambda>c s f. ret (\<lparr>rr_manifest = demo_manifest (make_payload demo_config '''' []),
        rr_local_path = '''', rr_local_error = '''', rr_receipt = None, rr_size_bytes = 0, rr_json = []\<rparr>, None)),
     rl_Outcome = (\<lambda>r e. (''backup.run'', ''ok'', [])),
     rl_Drill = (\<lambda>base p checks. do {
        cs \<leftarrow> checks base (demo_manifest p);
        ret (Inr \<lparr>dr_passed = list_all dc_passed cs, dr_error_message = '''', dr_checks = cs,
                  dr_duration_ms = 1\<rparr>) }),
     rl_Restore = (\<lambda>c t s ss. ret (Inr ())),
     rl_SQLiteSnapshot = (\<lambda>dsn p. os_WriteFile p ''SQLite''),
     rl_integrity_check = (\<lambda>p b. Some ''ok''), rl_printable = (\<lambda>n. True), rl_error_text = (\<lambda>e. ''db''),
     rl_drill_json = (\<lambda>r. JBool (dr_passed r))\<rparr>"

definition demo_backup_config :: config where
  "demo_backup_config = demo_config
     \<lparr>cfg_database := (cfg_database demo_config)\<lparr>c_dsn := ''file:/d/ky_server.db?x'', c_data_dir := ''/d''\<rparr>,
      cfg_security := demo_security\<lparr>c_encryption_key := replicate 32 (CHR ''k'')\<rparr>\<rparr>"

definition demo_host :: "(string \<times> node) list \<Rightarrow> host" where
  "demo_host nodes = sso_server.extend (server.extend (demo_server demo_db)
     \<lparr>ss_flow = newKySignOnClient (cfg_sso demo_config), ss_calls = 0\<rparr>)
     \<lparr>h_nodes = map_of nodes, h_env = (\<lambda>n. None), h_cwd = Some ''/'', h_refused = (\<lambda>i. False), h_calls = 0,
      h_suffix = (\<lambda>i. ''1''), h_drill_locked = False, h_detached = 0\<rparr>"

definition demo_files :: "capsule_file list" where
  "demo_files = [private_file dbPath ''SQLite'',
     private_file ''config/settings.json'' (settings_json demo_backup_config),
     private_file encryptionKeyPath (hex_encode (replicate 32 (CHR ''k'')) @ [CHR 0x0A]),
     private_file recoveryPubPath ''pub'']"

definition instance_host :: host where
  "instance_host = demo_host [(''/d/recovery.pub'', Regular ''pub'')]"

definition restored_host :: host where
  "restored_host = demo_host (map (\<lambda>f. (''/tmp/x/'' @ cf_path f, Regular (cf_data f))) demo_files)"

lemma demo_database_path:
  "CheckDatabasePath p (Some ''/'') demo_backup_config = None"
  "path_Join [''/d'', ''snapshot-1''] = ''/d/snapshot-1''"
  "path_Join [''/d/snapshot-1'', ''ky_server.db''] = ''/d/snapshot-1/ky_server.db''"
proof -
  have "path_Abs (Some ''/'') (database_file ''file:/d/ky_server.db?x'') = Some ''/d/ky_server.db''"
    "path_Abs (Some ''/'') (path_Join [''/d'', ''ky_server.db'']) = Some ''/d/ky_server.db''"
    "to_lower ''sqlite'' = ''sqlite''"
    by code_simp+
  then show "CheckDatabasePath p (Some ''/'') demo_backup_config = None"
    by (simp add: CheckDatabasePath_def demo_backup_config_def demo_config_def)
  show "path_Join [''/d'', ''snapshot-1''] = ''/d/snapshot-1''"
    "path_Join [''/d/snapshot-1'', ''ky_server.db''] = ''/d/snapshot-1/ky_server.db''"
    by code_simp+
qed

lemma demo_collects:
  "result (Collect demo_lib demo_backup_config ''1'') instance_host =
     Inr (make_payload demo_backup_config ''1'' demo_files)"
proof -
  have "to_lower ''sqlite'' = ''sqlite''" by code_simp
  moreover have "h_cwd instance_host = Some ''/''"
    by (simp add: instance_host_def demo_host_def sso_server.extend_def server.extend_def)
  ultimately show ?thesis
    using demo_database_path
    by (simp add: result_def Collect_def Let_def run_check snapshotSQLite_def read_snapshot_def
        os_MkdirTemp_def file_size_def os_Stat_def os_ReadFile_def os_WriteFile_def os_RemoveAll_def run_syscall
        instance_host_def demo_host_def sso_server.extend_def server.extend_def demo_lib_def has_prefix_def
        demo_files_def demo_backup_config_def demo_config_def)
qed

lemma demo_paths:
  "map (drill_path_of ''/tmp/x'') capsule_names = map (\<lambda>n. ''/tmp/x/'' @ n) capsule_names"
  "path_IsAbs (drill_path_of ''/tmp/x'' dbPath)" "usable_dir ''/tmp/x''"
  by code_simp+

lemma demo_extracted: "extracted restored_host ''/tmp/x'' demo_files"
proof -
  have "hex_encode (replicate 32 (CHR ''k'')) @ [CHR 0x0A] \<noteq> []" "settings_json demo_backup_config \<noteq> []"
    by (simp_all add: settings_json_def)
  then show ?thesis
    using demo_paths(1)
    by (simp add: extracted_def demo_files_def private_file_def capsule_names_def restored_host_def
        demo_host_def sso_server.extend_def server.extend_def lstat_def dbPath_def encryptionKeyPath_def recoveryPubPath_def)
qed

lemma demo_drill:
  shows "run_state (Collect demo_lib demo_backup_config ''1'') instance_host =
      (Inr (make_payload demo_backup_config ''1'' demo_files),
       exec (Collect demo_lib demo_backup_config ''1'') instance_host)"
    and "extracted restored_host ''/tmp/x'' (py_files (make_payload demo_backup_config ''1'' demo_files))"
    and "rl_integrity_check demo_lib p b = Some ''ok''"
proof -
  show "run_state (Collect demo_lib demo_backup_config ''1'') instance_host =
      (Inr (make_payload demo_backup_config ''1'' demo_files),
       exec (Collect demo_lib demo_backup_config ''1'') instance_host)"
    by (simp add: run_result_exec demo_collects)
  show "extracted restored_host ''/tmp/x'' (py_files (make_payload demo_backup_config ''1'' demo_files))"
    by (simp add: make_payload_def demo_extracted)
  show "rl_integrity_check demo_lib p b = Some ''ok''" by (simp add: demo_lib_def)
qed

abbreviation demo_opened :: manifest where
  "demo_opened \<equiv> demo_manifest (make_payload demo_backup_config ''1'' demo_files)"

lemma demo_opened_files:
  "mf_files demo_opened = requiredFiles (py_files (make_payload demo_backup_config ''1'' demo_files))"
  "mf_recipe demo_opened = through_json (py_recipe (make_payload demo_backup_config ''1'' demo_files))"
  by (simp_all add: demo_manifest_def requiredFiles_def)


lemma demo_drill_passes: "list_all dc_passed (Checks demo_lib restored_host ''/tmp/x'' demo_opened)"
  by (rule capsule_passes
      [OF demo_drill(1) demo_opened_files demo_drill(2) demo_paths(2) demo_drill(3)])

theorem drill_proves_restore_witness:
  "{dbPath, ''config/settings.json'', encryptionKeyPath} \<subseteq> set (mf_files demo_opened)"
  using drill_proves_restore [OF demo_drill_passes demo_paths(3)] by blast

end
