(* ===== verification/Routes.thy ===== *)
theory Routes
  imports BackupHandlers KySignOn ScimFacts
begin

text \<open>
  The whole server: the route table of internal/api/server.go under \<^verbatim>\<open>net/http\<close>'s pattern matching,
  the SCIM routes of internal/scim/handler.go, the frontend of web/embed.go, and \<open>ServeHTTP\<close> in
  front of them. What the request's body decodes to is a record; the SCIM protocol library, which
  parses a request into one of the resource handlers' operations and renders its result, is an
  argument, and so are the embedded files and \<^verbatim>\<open>http.FileServer\<close>'s answers for them.
\<close>

section \<open>Patterns\<close>

text \<open>
  A pattern is a method, or any, and a path; a path that ends in a slash matches everything below
  it. Patterns with a method are tried first, a HEAD request also as GET, then an exact path, then
  the longest subtree. (The table has no wildcards, and its patterns with a method no subtree.)
\<close>

type_synonym 'h route_table = "(string option \<times> string \<times> 'h) list"

definition ends_in_slash :: "string \<Rightarrow> bool" where
  "ends_in_slash p \<longleftrightarrow> p \<noteq> [] \<and> last p = CHR ''/''"

definition exact_route :: "'h route_table \<Rightarrow> string option \<Rightarrow> string \<Rightarrow> 'h option" where
  "exact_route t m p = map_option (\<lambda>(_, _, h). h) (find (\<lambda>(m', p', h). m' = m \<and> p' = p) t)"

definition subtree_route :: "'h route_table \<Rightarrow> string \<Rightarrow> 'h option" where
  "subtree_route t p =
     map_option (\<lambda>(_, _, h). h)
       (find (\<lambda>(m', p', h). m' = None \<and> ends_in_slash p' \<and> has_prefix p p')
          (sort_key (\<lambda>(m', p', h). - int (length p')) t))"

definition or_else :: "'a option \<Rightarrow> 'a option \<Rightarrow> 'a option" where
  "or_else x y = (case x of None \<Rightarrow> y | Some v \<Rightarrow> Some v)"

definition mux_match :: "'h route_table \<Rightarrow> string \<Rightarrow> string \<Rightarrow> 'h option" where
  "mux_match t m p =
     or_else (exact_route t (Some m) p)
       (or_else (if m = ''HEAD'' then exact_route t (Some ''GET'') p else None)
          (or_else (exact_route t None p) (subtree_route t p)))"

text \<open>\<^verbatim>\<open>cleanPath\<close>: rooted, cleaned, a trailing slash kept.\<close>

definition clean_url_path :: "string \<Rightarrow> string" where
  "clean_url_path p =
     (if p = '''' then ''/''
      else (let q = path_Clean (if hd p = CHR ''/'' then p else CHR ''/'' # p)
            in if ends_in_slash p \<and> q \<noteq> ''/'' then q @ ''/'' else q))"

definition moved_permanently :: "string \<Rightarrow> response" where
  "moved_permanently p =
     \<lparr>rs_status = 301, rs_headers = [(''Location'', p)], rs_cookies = [], rs_body = NoBody\<rparr>"

definition mux :: "(request \<Rightarrow> ('s, response) state) route_table \<Rightarrow> request \<Rightarrow> ('s, response) state" where
  "mux t r =
     (if rq_method r \<noteq> ''CONNECT'' \<and> clean_url_path (rq_path r) \<noteq> rq_path r
      then ret (moved_permanently (clean_url_path (rq_path r)))
      else case mux_match t (rq_method r) (rq_path r) of
        None \<Rightarrow> ret (plain_reply 404 ''404 page not found'')
      | Some h \<Rightarrow> h r)"

section \<open>SCIM behind the protocol library\<close>

text \<open>The methods of the library's handler interface, for users and for groups.\<close>

datatype scim_operation =
    ScimWrite scim_call
  | ScimGetUser string
  | ScimListUsers list_params
  | ScimGetGroup string
  | ScimListGroups list_params

datatype scim_outcome =
    Done
  | OneResource "err + resource"
  | Resources "err + resource list \<times> nat"
  | SomeResources "err + (resource list \<times> nat) option"

fun scim_dispatch :: "bool \<Rightarrow> request \<Rightarrow> scim_operation \<Rightarrow> (scim_outcome, 'z) io" where
  "scim_dispatch a r (ScimWrite c) = do { run_scim a c; ret Done }"
| "scim_dispatch a r (ScimGetUser i) = do { x \<leftarrow> user_Get i; ret (OneResource x) }"
| "scim_dispatch a r (ScimListUsers p) = do { x \<leftarrow> user_GetAll r p; ret (Resources x) }"
| "scim_dispatch a r (ScimGetGroup i) = do { x \<leftarrow> group_Get i; ret (OneResource x) }"
| "scim_dispatch a r (ScimListGroups p) = do { x \<leftarrow> group_GetAll r p; ret (SomeResources x) }"

record scim_protocol =
  sp_parse :: "request \<Rightarrow> response + scim_operation"
  sp_render :: "scim_operation \<Rightarrow> scim_outcome \<Rightarrow> response"
  sp_error :: "int \<Rightarrow> string \<Rightarrow> json"

text \<open>
  \<^verbatim>\<open>NewServer\<close>: the library's server for the base URL, or, when it cannot be built, one that answers
  every request with an error.
\<close>

definition new_scim_protocol ::
  "(string \<Rightarrow> err + scim_protocol) \<Rightarrow> (int \<Rightarrow> string \<Rightarrow> json) \<Rightarrow> string \<Rightarrow> scim_protocol" where
  "new_scim_protocol build enc appURL =
     (case build (trim_right_by (\<lambda>c. c = CHR ''/'') appURL @ ''/scim/v2'') of
        Inl e \<Rightarrow> \<lparr>sp_parse = (\<lambda>r. Inl (plain_reply 500 ''SCIM initialization failed'')),
                 sp_render = (\<lambda>x y. plain_reply 500 ''SCIM initialization failed''), sp_error = enc\<rparr>
      | Inr P \<Rightarrow> P)"

text \<open>\<^verbatim>\<open>http.StripPrefix("/scim", s.protocol)\<close>.\<close>

definition scim_handler :: "scim_protocol \<Rightarrow> config \<Rightarrow> 'z host_handler" where
  "scim_handler P cfg r = (
     let r' = r\<lparr>rq_path := trim_prefix (rq_path r) ''/scim''\<rparr>
     in case sp_parse P r' of
          Inl resp \<Rightarrow> ret resp
        | Inr x \<Rightarrow> do {
            y \<leftarrow> scim_dispatch (c_allow_admin (cfg_scim cfg)) r' x;
            ret (sp_render P x y) })"

definition RegisterRoutes :: "scim_protocol \<Rightarrow> config \<Rightarrow> 'z host_handler route_table" where
  "RegisterRoutes P cfg =
     [(None, ''/scim/v2'', scim_handler P cfg), (None, ''/scim/v2/'', scim_handler P cfg)]"

section \<open>The frontend\<close>

definition web_Handler :: "string list \<Rightarrow> (request \<Rightarrow> response) \<Rightarrow> 'z host_handler" where
  "web_Handler files fileServer r = (
     let path = trim_prefix (rq_path r) ''/''
     in if path = '''' then ret (fileServer r)
        else if path \<in> set files then ret (fileServer r)
        else ret (fileServer (r\<lparr>rq_path := ''/''\<rparr>)))"

section \<open>Requests that outlive their connection\<close>

definition detached_add :: "(unit, 'z) hio" where
  "detached_add = modifyS (\<lambda>h. h\<lparr>h_detached := h_detached h + 1\<rparr>)"

definition detached_done :: "(unit, 'z) hio" where
  "detached_done = modifyS (\<lambda>h. h\<lparr>h_detached := h_detached h - 1\<rparr>)"

definition tracked :: "'z host_handler \<Rightarrow> 'z host_handler" where
  "tracked h r = do { detached_add; x \<leftarrow> h r; detached_done; ret x }"

section \<open>The route table\<close>

record bodies =
  bd_login :: "login_request option"
  bd_password :: "password_request option"
  bd_logout_token :: string
  bd_pair :: "pair_request option"
  bd_pin :: "pin_request option"
  bd_interval :: "int option"
  bd_theme :: "string option"

record ('k, 'z) outside =
  os_passwords :: passwords
  os_unmarshal :: "string \<Rightarrow> pow_solution option"
  os_idp :: idp
  os_lib :: "('k, 'z) lib"
  os_scim :: scim_protocol
  os_parse_url :: url_parser
  os_files :: "string list"
  os_file_server :: "request \<Rightarrow> response"

definition routes :: "('k, 'z) outside \<Rightarrow> config \<Rightarrow> bodies \<Rightarrow> 'z host_handler route_table" where
  "routes X cfg B = (
     let P = os_passwords X; I = os_idp X; L = os_lib X
     in [(None, ''/api/auth/pow-challenge'', handlePoWChallenge cfg),
         (None, ''/api/auth/login'', handleLogin P (os_unmarshal X) cfg (bd_login B)),
         (None, ''/api/auth/logout'', handleLogout cfg),
         (None, ''/api/auth/me'', handleMe cfg),
         (None, ''/api/auth/change-password'', handleChangePassword P cfg (bd_password B)),
         (None, ''/api/sso/kysignon/login'', handleKySignOnLogin I cfg),
         (None, ''/api/sso/kysignon/callback'', handleKySignOnCallback I cfg),
         (Some ''POST'', ''/api/sso/kysignon/backchannel-logout'',
            handleKySignOnBackchannelLogout I cfg (bd_logout_token B)),
         (None, ''/saml/metadata'', handleSAMLMetadata cfg),
         (Some ''POST'', ''/api/backup/drill'', requireAdmin cfg (handleBackupDrill L cfg)),
         (Some ''POST'', ''/api/backup/export-capsule'', requireAdmin cfg (handleExportCapsule L cfg)),
         (Some ''POST'', ''/api/backup/pair-remote'',
            tracked (requireAdmin cfg (handlePairRemoteRecovery L cfg (bd_pair B)))),
         (Some ''POST'', ''/api/backup/deposit'', tracked (requireAdmin cfg (handleRunBackup L cfg))),
         (Some ''DELETE'', ''/api/backup/pairing'', requireAdmin cfg (handleUnpair L cfg)),
         (Some ''POST'', ''/api/backup/pin-key'',
            tracked (requireAdmin cfg (handlePinKey L cfg (bd_pin B)))),
         (Some ''PUT'', ''/api/backup/schedule'',
            requireAdmin cfg (handleSetSchedule L cfg (bd_interval B))),
         (Some ''GET'', ''/api/backup/status'', requireAdmin cfg (handleBackupStatus L cfg)),
         (None, ''/api/settings'', handleGetSettings cfg),
         (None, ''/api/settings/theme'', requireAdmin cfg (handleSetTheme (bd_theme B))),
         (Some ''GET'', ''/api/admin/users'', requireAdmin cfg handleListUsers)] @
        RegisterRoutes (os_scim X) cfg @
        [(None, ''/'', web_Handler (os_files X) (os_file_server X))])"

definition handle_request ::
  "('k, 'z) outside \<Rightarrow> config \<Rightarrow> bodies \<Rightarrow> request \<Rightarrow> (response, 'z) hio" where
  "handle_request X cfg B =
     ServeHTTP (os_parse_url X) cfg (AuthMiddleware (sp_error (os_scim X)) (cfg_scim cfg))
       (mux (routes X cfg B))"

text \<open>What \<^verbatim>\<open>NewServer\<close> starts from.\<close>

definition NewServer :: "config \<Rightarrow> 'z host_scheme \<Rightarrow> 'z host_scheme" where
  "NewServer cfg h = h\<lparr>sv_attempts := [], sv_spent := \<lparr>sp_salts = [], sp_prune_at = 1024\<rparr>,
     ss_flow := newKySignOnClient (cfg_sso cfg), h_detached := 0\<rparr>"

end
