(* ===== verification/RouteFacts.thy ===== *)
theory RouteFacts
  imports Routes
begin

text \<open>
  What the route table guards, as frames of the whole server: whatever a request asks for, without
  an administrator's session it changes no setting, without SCIM's bearer token no group, and
  accounts and sessions only on the routes that are there for it.
\<close>

section \<open>What a request may touch\<close>

definition admin_session :: "config \<Rightarrow> request \<Rightarrow> 'z host_scheme \<Rightarrow> bool" where
  "admin_session cfg r s \<longleftrightarrow>
     (case result (AuthenticateRequest (cfg_security cfg) r) s of
        Inl e \<Rightarrow> False | Inr (u, sess) \<Rightarrow> u_role u = ''admin'')"

definition scim_authorised :: "config \<Rightarrow> request \<Rightarrow> bool" where
  "scim_authorised cfg r \<longleftrightarrow> c_scim_enabled (cfg_scim cfg) \<and>
     bearer_ok (header_get r ''Authorization'') (c_bearer_token (cfg_scim cfg))"

text \<open>A handler that respects \<open>Q\<close> unless an administrator calls it.\<close>

definition fenced ::
  "(engine \<Rightarrow> db \<Rightarrow> db \<Rightarrow> bool) \<Rightarrow> config \<Rightarrow> 'z host_handler \<Rightarrow> request \<Rightarrow> bool" where
  "fenced Q cfg h r \<longleftrightarrow>
     (\<forall>s. \<not> admin_session cfg r s \<longrightarrow> Q (w_engine s) (w_db s) (w_db (exec (h r) s)))"

text \<open>
  The statements behind every route: locking a row, ending sessions, raising fences, and the audit
  trail. What only some routes issue is a premise of their lemmas.
\<close>

locale request_frame = db_frame +
  assumes touch: "Q E d (snd (update_users P (\<lambda>r. r) E d))"
    and end_sessions: "Q E d (snd (delete_sessions S E d))"
    and delete_fences: "Q E d (snd (delete_logouts L E d))"
    and raise_fence: "Q E d (snd (upsert_logout sid until E d))"
    and delete_subject_fences: "Q E d (snd (delete_subject_logouts F E d))"
    and raise_subject_fence: "Q E d (snd (upsert_subject_logout p b c until E d))"
    and record_audit: "Q E d (snd (insert_audit a E d))"

section \<open>The handlers anyone reaches\<close>

context request_frame begin

lemma rel_db_free: "db_free m \<Longrightarrow> state_io_rel (db_rel Q) m"
  by (simp add: db_free_def state_io_rel_def db_rel_def exec_def Q_refl)

lemmas rel_memory = db_free_allowAttempt [THEN rel_db_free]
  db_free_attemptsExhausted [THEN rel_db_free] db_free_VerifyPoWSolution [THEN rel_db_free]

lemma rel_RandomHex: "state_io_rel (db_rel Q) (RandomHex n)"
  unfolding RandomHex_def by (intro rel_intros)

lemma rel_RandomBase64URL: "state_io_rel (db_rel Q) (RandomBase64URL n)"
  unfolding RandomBase64URL_def by (intro rel_intros)

lemma rel_call_idp: "state_io_rel (db_rel Q) (call_idp f)"
  by (simp add: call_idp_def state_io_rel_def db_rel_def Q_refl)

lemma rel_replies:
  "state_io_rel (db_rel Q) (writeError c m)" "state_io_rel (db_rel Q) (writeJSON c j)"
  "state_io_rel (db_rel Q) (refuse e)"
  by (simp_all add: state_io_rel_def db_rel_def Q_refl refuse_def)

lemmas rel_statements = touch end_sessions delete_fences raise_fence delete_subject_fences
  raise_subject_fence record_audit

lemma rel_AuthenticateRequest: "state_io_rel (db_rel Q) (AuthenticateRequest sec r)"
  unfolding AuthenticateRequest_def Let_def
  by (intro rel_intros rel_getSession rel_user_reads rel_deletes end_sessions)

lemmas rel_rules = rel_intros rel_replies rel_RandomHex rel_RandomBase64URL rel_call_idp
  rel_user_reads rel_other_reads rel_listUsers rel_memory rel_AuthenticateRequest
  rel_deletes [OF end_sessions] rel_logAudit [OF record_audit]

lemma rel_RevokeSession: "state_io_rel (db_rel Q) (RevokeSession sec r)"
  unfolding RevokeSession_def Let_def by (intro rel_rules)

lemma rel_issue:
  assumes "\<And>s E d. Q E d (snd (insert_session s E d))"
  shows "state_io_rel (db_rel Q) (IssueSession sec r u)"
    and "state_io_rel (db_rel Q) (IssueSSOSession sec r u sid t)"
  unfolding IssueSession_def IssueSSOSession_def issue_def Let_def
  by (intro rel_rules rel_createSession touch end_sessions assms)+

lemma rel_login:
  assumes "\<And>s E d. Q E d (snd (insert_session s E d))"
  shows "state_io_rel (db_rel Q) (handleLogin P un cfg b r)"
  unfolding handleLogin_def login_account_def Let_def
  by (intro rel_rules rel_issue assms)

lemma rel_change_password:
  assumes "\<And>i h now E d. Q E d (snd (update_users (\<lambda>r. u_id r = i \<and> u_sso_provider r = ''local'')
    (\<lambda>r. r\<lparr>u_password_hash := h, u_must_change_password := False, u_updated_at := now\<rparr>) E d))"
  shows "state_io_rel (db_rel Q) (handleChangePassword P cfg b r)"
  unfolding handleChangePassword_def Let_def
  by (intro rel_rules rel_RevokeSession rel_completePasswordChange touch end_sessions record_audit assms)

lemma rel_set_flow: "state_io_rel (db_rel Q) (modifyS (\<lambda>s. s\<lparr>ss_flow := f s\<rparr>))"
  by (simp add: state_io_rel_def db_rel_def Q_refl)

lemma rel_provider: "state_io_rel (db_rel Q) (flow_config I)"
  unfolding flow_config_def getProvider_def by (intro rel_rules rel_set_flow)

lemma rel_exchange: "state_io_rel (db_rel Q) (ExchangeCode p I c v u n)"
  unfolding ExchangeCode_def exchange_def Let_def by (intro rel_rules rel_provider)

lemma rel_end_login:
  "state_io_rel (db_rel Q) (endSSOSession sid until)"
  "state_io_rel (db_rel Q) (endSSOSubject p sub c until)"
  by (intro rel_endSSOSession rel_endSSOSubject rel_statements)+

lemma rel_anyone:
  "state_io_rel (db_rel Q) (handlePoWChallenge cfg r)"
  "state_io_rel (db_rel Q) (handleLogout cfg r)"
  "state_io_rel (db_rel Q) (handleMe cfg r)"
  "state_io_rel (db_rel Q) (handleGetSettings cfg r)"
  "state_io_rel (db_rel Q) (handleKySignOnLogin I cfg r)"
  "state_io_rel (db_rel Q) (handleKySignOnBackchannelLogout I cfg t r)"
  "state_io_rel (db_rel Q) (handleSAMLMetadata cfg r)"
  "state_io_rel (db_rel Q) (web_Handler fs f r)"
  unfolding handlePoWChallenge_def GeneratePoWChallenge_def rand_Int_def handleLogout_def handleMe_def
    handleGetSettings_def handleKySignOnLogin_def authCodeURL_def handleKySignOnBackchannelLogout_def
    verifyLogout_def end_login_def handleSAMLMetadata_def web_Handler_def Let_def
  by (intro rel_rules rel_RevokeSession rel_provider rel_end_login)+

lemma rel_callback:
  assumes "\<And>s E d. Q E d (snd (insert_session s E d))"
    and "\<And>u E d. Q E d (snd (insert_user u E d))"
    and "\<And>P f E d. Q E d (snd (update_users P f E d))"
  shows "state_io_rel (db_rel Q) (handleKySignOnCallback I cfg r)"
proof -
  have writes:
    "state_io_rel (db_rel Q) (createUser u)"
    "state_io_rel (db_rel Q) (updateUserRole u role)"
    "state_io_rel (db_rel Q) (linkSSOIdentity i sub from to)" for u role i sub "from" to
    by (intro rel_createUser rel_updateUserRole rel_linkSSOIdentity end_sessions assms)+
  have adopt: "state_io_rel (db_rel Q) (adoptSCIMUser cfg r sub)" for sub
    unfolding adoptSCIMUser_def AdoptSCIMUser_def by (intro rel_rules writes)
  have account: "state_io_rel (db_rel Q) (find_account cfg r c)" for c
    unfolding find_account_def provision_def by (intro rel_rules writes adopt)
  have session: "state_io_rel (db_rel Q) (sso_session cfg r c u)" for c u
    unfolding sso_session_def by (intro rel_rules rel_issue assms)
  have role: "state_io_rel (db_rel Q) (follow_role cfg r c u)" for c u
    unfolding follow_role_def by (intro rel_rules writes)
  show ?thesis
    unfolding handleKySignOnCallback_def sign_in_identity_def Let_def
    by (intro rel_rules rel_exchange account session role)
qed

end

section \<open>The guard\<close>

lemma auth_detached:
  "run_state (AuthenticateRequest sec r) (h\<lparr>h_detached := n\<rparr>) =
     (result (AuthenticateRequest sec r) h, (exec (AuthenticateRequest sec r) h)\<lparr>h_detached := n\<rparr>)"
  by (simp add: AuthenticateRequest_def Let_def getSession_def getUserByID_def deleteSession_def
      run_check run_stmt result_def exec_def split: prod.split sum.split)

lemma admin_session_detached [simp]: "admin_session cfg r (h\<lparr>h_detached := n\<rparr>) = admin_session cfg r h"
  by (simp add: admin_session_def result_def auth_detached)

lemma exec_tracked:
  "exec (tracked h r) s = (let s' = exec (h r) (s\<lparr>h_detached := h_detached s + 1\<rparr>)
     in s'\<lparr>h_detached := h_detached s' - 1\<rparr>)"
  by (simp add: tracked_def detached_add_def detached_done_def exec_def split_beta Let_def)

lemma fenced_tracked:
  fixes h :: "'z host_handler"
  assumes "fenced Q cfg h r"
  shows "fenced Q cfg (tracked h) r"
  unfolding fenced_def
proof (intro allI impI)
  fix s :: "'z host_scheme"
  let ?s = "s\<lparr>h_detached := h_detached s + 1\<rparr>"
  assume "\<not> admin_session cfg r s"
  then have "Q (w_engine ?s) (w_db ?s) (w_db (exec (h r) ?s))"
    using assms unfolding fenced_def by (metis admin_session_detached)
  then show "Q (w_engine s) (w_db s) (w_db (exec (tracked h r) s))"
    by (simp add: exec_tracked Let_def)
qed

section \<open>Matching\<close>

definition reaches :: "string \<Rightarrow> string \<Rightarrow> bool" where
  "reaches p q \<longleftrightarrow> q = p \<or> ends_in_slash q \<and> has_prefix p q"

lemma exact_route_in: "exact_route t m p = Some h \<Longrightarrow> (m, p, h) \<in> set t"
  by (auto simp: exact_route_def dest: find_SomeD)

lemma subtree_route_in:
  "subtree_route t p = Some h \<Longrightarrow> \<exists>q. (None, q, h) \<in> set t \<and> ends_in_slash q \<and> has_prefix p q"
  by (auto simp: subtree_route_def dest!: find_SomeD)

lemma mux_match_in:
  assumes "mux_match t m p = Some h"
  obtains m' q where "(m', q, h) \<in> set t" and "reaches p q"
  using assms
  by (auto simp: mux_match_def or_else_def reaches_def split: option.splits if_splits
      dest!: exact_route_in subtree_route_in)

text \<open>What \<open>mux\<close> runs is a route whose pattern the request's path matches, or nothing.\<close>

lemma exec_mux:
  obtains "exec (mux t r) s = s"
  | m q h where "(m, q, h) \<in> set t" and "reaches (rq_path r) q" and "exec (mux t r) s = exec (h r) s"
proof (cases "rq_method r \<noteq> ''CONNECT'' \<and> clean_url_path (rq_path r) \<noteq> rq_path r")
  case False
  show thesis
  proof (cases "mux_match t (rq_method r) (rq_path r)")
    case (Some h)
    then obtain m' q where "(m', q, h) \<in> set t" and "reaches (rq_path r) q"
      by (rule mux_match_in)
    moreover have "mux t r = h r" using False Some by (auto simp: mux_def)
    ultimately show thesis using that(2) by simp
  next
    case None
    then have "mux t r = ret (plain_reply 404 ''404 page not found'')"
      using False by (auto simp: mux_def)
    then show thesis by (intro that(1)) (simp add: exec_def)
  qed
next
  case True
  then have "mux t r = ret (moved_permanently (clean_url_path (rq_path r)))"
    by (simp add: mux_def)
  then show thesis by (intro that(1)) (simp add: exec_def)
qed

lemma exec_AuthMiddleware:
  "exec (AuthMiddleware enc (cfg_scim cfg) h r) s =
     (if has_prefix (rq_path r) ''/scim/v2'' \<and> \<not> scim_authorised cfg r then s else exec (h r) s)"
  by (simp add: AuthMiddleware_def scim_authorised_def exec_replies)

lemma exec_ServeHTTP:
  "exec (ServeHTTP parse cfg (AuthMiddleware enc (cfg_scim cfg)) h r) s = s \<or>
   (exec (ServeHTTP parse cfg (AuthMiddleware enc (cfg_scim cfg)) h r) s = exec (h r) s \<and>
    (has_prefix (rq_path r) ''/scim/v2'' \<longrightarrow> scim_authorised cfg r))"
  unfolding ServeHTTP_def Let_def exec_with_headers exec_if exec_replies exec_AuthMiddleware
  by (simp only: split: if_split) blast

section \<open>The whole server\<close>

lemma reaches_scim: "reaches p ''/scim/v2/'' \<Longrightarrow> has_prefix p ''/scim/v2''"
  by (auto simp: reaches_def has_prefix_iff)

lemma reaches_exactly: "\<not> ends_in_slash q \<Longrightarrow> reaches p q \<Longrightarrow> p = q"
  by (simp add: reaches_def)

context request_frame begin

lemma fenced_frame: "state_io_rel (db_rel Q) (h r) \<Longrightarrow> fenced Q cfg h r"
  using db_rel_exec [of Q "h r"] by (simp add: fenced_def)

lemma fenced_requireAdmin:
  fixes h :: "'z host_handler"
  shows "fenced Q cfg (requireAdmin cfg h) r"
  unfolding fenced_def
proof (intro allI impI)
  fix s :: "'z host_scheme" assume "\<not> admin_session cfg r s"
  moreover obtain a s1 where a: "run_state (AuthenticateRequest (cfg_security cfg) r) s = (a, s1)"
    by force
  ultimately have "exec (requireAdmin cfg h r) s = s1"
    by (auto simp: requireAdmin_def exec_def admin_session_def result_def refuse_def split: sum.splits)
  then show "Q (w_engine s) (w_db s) (w_db (exec (requireAdmin cfg h r) s))"
    using frame_run [OF rel_AuthenticateRequest a] by (simp add: db_rel_def)
qed

text \<open>
  The server respects \<open>Q\<close> if sign-in, the password change, the callback and SCIM do where the request
  reaches them: everything else is open to anyone and does, or is behind the administrator's guard.
\<close>

lemma guarded:
  fixes X :: "('k, 'z) outside" and s :: "'z host_scheme"
  assumes no: "\<not> admin_session cfg r s"
    and login: "rq_path r = ''/api/auth/login'' \<Longrightarrow>
      state_io_rel (db_rel Q) (handleLogin (os_passwords X) (os_unmarshal X) cfg (bd_login B) r :: (response, 'z) hio)"
    and change: "rq_path r = ''/api/auth/change-password'' \<Longrightarrow>
      state_io_rel (db_rel Q) (handleChangePassword (os_passwords X) cfg (bd_password B) r :: (response, 'z) hio)"
    and callback: "rq_path r = ''/api/sso/kysignon/callback'' \<Longrightarrow>
      state_io_rel (db_rel Q) (handleKySignOnCallback (os_idp X) cfg r :: (response, 'z) hio)"
    and scim: "has_prefix (rq_path r) ''/scim/v2'' \<Longrightarrow> scim_authorised cfg r \<Longrightarrow>
      state_io_rel (db_rel Q) (scim_handler (os_scim X) cfg r :: (response, 'z) hio)"
  shows "Q (w_engine s) (w_db s) (w_db (exec (handle_request X cfg B r) s))"
proof -
  let ?t = "routes X cfg B"
  have table: "list_all (\<lambda>(m, q, h). reaches (rq_path r) q \<longrightarrow> fenced Q cfg h r) ?t"
    if open_scim: "has_prefix (rq_path r) ''/scim/v2'' \<longrightarrow> scim_authorised cfg r"
  proof -
    have "fenced Q cfg (handleLogin (os_passwords X) (os_unmarshal X) cfg (bd_login B) :: 'z host_handler) r"
      if "reaches (rq_path r) ''/api/auth/login''"
      using reaches_exactly [OF _ that] by (simp add: ends_in_slash_def fenced_frame login)
    moreover have "fenced Q cfg (handleChangePassword (os_passwords X) cfg (bd_password B) :: 'z host_handler) r"
      if "reaches (rq_path r) ''/api/auth/change-password''"
      using reaches_exactly [OF _ that] by (simp add: ends_in_slash_def fenced_frame change)
    moreover have "fenced Q cfg (handleKySignOnCallback (os_idp X) cfg :: 'z host_handler) r"
      if "reaches (rq_path r) ''/api/sso/kysignon/callback''"
      using reaches_exactly [OF _ that] by (simp add: ends_in_slash_def fenced_frame callback)
    moreover have "fenced Q cfg (scim_handler (os_scim X) cfg :: 'z host_handler) r"
      if "reaches (rq_path r) ''/scim/v2'' \<or> reaches (rq_path r) ''/scim/v2/''"
    proof -
      have "has_prefix (rq_path r) ''/scim/v2''"
        using that reaches_exactly [of "''/scim/v2''" "rq_path r"] reaches_scim
        by (auto simp: ends_in_slash_def has_prefix_iff)
      then show ?thesis using open_scim scim by (simp add: fenced_frame)
    qed
    ultimately show ?thesis
      unfolding routes_def RegisterRoutes_def Let_def
      by (simp add: fenced_requireAdmin fenced_tracked fenced_frame rel_anyone)
  qed
  have "Q (w_engine s) (w_db s) (w_db (exec (mux ?t r) s))"
    if "has_prefix (rq_path r) ''/scim/v2'' \<longrightarrow> scim_authorised cfg r"
  proof (rule exec_mux [of ?t r s])
    fix m q h assume "(m, q, h) \<in> set ?t" "reaches (rq_path r) q"
      and run: "exec (mux ?t r) s = exec (h r) s"
    with table [OF that] no show ?thesis by (auto simp: list_all_iff fenced_def run)
  qed (simp add: Q_refl)
  then show ?thesis
    using exec_ServeHTTP [of "os_parse_url X" cfg "sp_error (os_scim X)" "mux ?t" r s] Q_refl
    unfolding handle_request_def by auto
qed

end

section \<open>SCIM writes no setting\<close>

interpretation kept_settings: request_frame "unchanged t_server_settings"
  by unfold_locales
    (simp_all add: unchanged_def update_users_def Let_def delete_sessions_def
      delete_logouts_def upsert_logout_def delete_subject_logouts_def upsert_subject_logout_def
      insert_audit_def)

lemma settings_statements:
  "unchanged t_server_settings E d (snd (insert_user u E d))"
  "unchanged t_server_settings E d (snd (insert_session s E d))"
  "unchanged t_server_settings E d (snd (update_users P f E d))"
  "unchanged t_server_settings E d (snd (delete_user i E d))"
  "unchanged t_server_settings E d (snd (delete_sessions S E d))"
  "unchanged t_server_settings E d (snd (insert_group g E d))"
  "unchanged t_server_settings E d (snd (update_groups G h E d))"
  "unchanged t_server_settings E d (snd (delete_group i E d))"
  "unchanged t_server_settings E d (snd (insert_member i j E d))"
  "unchanged t_server_settings E d (snd (delete_member i j E d))"
  "unchanged t_server_settings E d (snd (insert_audit r E d))"
  by (simp_all add: unchanged_def insert_user_def insert_session_def update_users_def Let_def delete_user_def
      delete_sessions_def insert_group_def update_groups_def delete_group_def insert_member_def
      delete_member_def insert_audit_def)

lemma settings_writes:
  "state_io_rel (db_rel (unchanged t_server_settings)) (createUser u)"
  "state_io_rel (db_rel (unchanged t_server_settings)) (updateSCIMProfile u r s p)"
  "state_io_rel (db_rel (unchanged t_server_settings)) (takeOverForSCIM u r s)"
  "state_io_rel (db_rel (unchanged t_server_settings)) (deleteUser i)"
  "state_io_rel (db_rel (unchanged t_server_settings)) (createGroup g)"
  "state_io_rel (db_rel (unchanged t_server_settings)) (updateGroup g)"
  "state_io_rel (db_rel (unchanged t_server_settings)) (deleteGroup i)"
  "state_io_rel (db_rel (unchanged t_server_settings)) (addGroupMember i j)"
  "state_io_rel (db_rel (unchanged t_server_settings)) (removeGroupMember i j)"
  "state_io_rel (db_rel (unchanged t_server_settings)) (logAudit a)"
  by (intro kept_settings.rel_createUser kept_settings.rel_updateSCIMProfile
      kept_settings.rel_takeOverForSCIM kept_settings.rel_deleteUser kept_settings.rel_createGroup
      kept_settings.rel_updateGroup kept_settings.rel_deleteGroup kept_settings.rel_member_writes
      kept_settings.rel_logAudit settings_statements)+

lemmas settings_rules = kept_settings.rel_intros kept_settings.rel_map_err
  kept_settings.rel_RandomHex kept_settings.rel_user_reads kept_settings.rel_group_reads
  kept_settings.rel_listUsers settings_writes

lemma settings_loops:
  "state_io_rel (db_rel (unchanged t_server_settings)) (checkMembers old xs)"
  "(\<And>x. state_io_rel (db_rel (unchanged t_server_settings)) (f x)) \<Longrightarrow>
     state_io_rel (db_rel (unchanged t_server_settings)) (for_each f xs)"
  "state_io_rel (db_rel (unchanged t_server_settings)) (scan_groups n ext off out)"
proof -
  show "state_io_rel (db_rel (unchanged t_server_settings)) (checkMembers old xs)"
    by (induction xs) (auto intro!: settings_rules)
  show "(\<And>x. state_io_rel (db_rel (unchanged t_server_settings)) (f x)) \<Longrightarrow>
     state_io_rel (db_rel (unchanged t_server_settings)) (for_each f xs)"
    by (induction xs) (auto intro!: settings_rules)
  show "state_io_rel (db_rel (unchanged t_server_settings)) (scan_groups n ext off out)"
    by (induction n arbitrary: off out) (auto simp: Let_def intro!: settings_rules)
qed

lemma settings_managedUser: "state_io_rel (db_rel (unchanged t_server_settings)) (managedUser i)"
  unfolding managedUser_def by (intro settings_rules)

lemma settings_user_update: "state_io_rel (db_rel (unchanged t_server_settings)) (user_update n a i c)"
proof (induction n)
  case 0
  show ?case
    by (subst user_update.simps, unfold write_update_def nat.case)
      (intro settings_rules settings_managedUser)
next
  case (Suc n)
  show ?case
    by (subst user_update.simps, unfold write_update_def nat.case)
      (intro settings_rules settings_managedUser Suc)
qed

lemma settings_members: "state_io_rel (db_rel (unchanged t_server_settings)) (replaceMembers i old xs)"
  unfolding replaceMembers_def by (intro settings_rules settings_loops)

lemma settings_user_calls:
  "state_io_rel (db_rel (unchanged t_server_settings)) (user_Create a attrs)"
  "state_io_rel (db_rel (unchanged t_server_settings)) (user_Delete i)"
  "state_io_rel (db_rel (unchanged t_server_settings)) (user_Get i)"
  "state_io_rel (db_rel (unchanged t_server_settings)) (user_GetAll r p)"
  unfolding user_Create_def kyIdentityAccount_def takeOver_def user_Delete_def user_Get_def
    user_GetAll_def candidates_def Let_def
  by (intro settings_rules settings_managedUser)+

lemma settings_group_Replace:
  "state_io_rel (db_rel (unchanged t_server_settings)) (group_Replace i attrs)"
  unfolding group_Replace_def Let_def
  by (intro settings_rules settings_loops settings_members)

lemma settings_group_calls:
  "state_io_rel (db_rel (unchanged t_server_settings)) (group_Create attrs)"
  "state_io_rel (db_rel (unchanged t_server_settings)) (group_Patch i ops)"
  "state_io_rel (db_rel (unchanged t_server_settings)) (group_Delete i)"
  "state_io_rel (db_rel (unchanged t_server_settings)) (group_Get i)"
  "state_io_rel (db_rel (unchanged t_server_settings)) (group_GetAll r p)"
  unfolding group_Create_def group_Patch_def group_Delete_def group_Get_def group_GetAll_def
    filterGroups_def Let_def
  by (intro settings_rules settings_loops settings_members settings_group_Replace)+

lemma settings_run_scim: "state_io_rel (db_rel (unchanged t_server_settings)) (run_scim a c)"
  by (cases c; simp only: run_scim.simps ignore_def user_Replace_def user_Patch_def)
    (intro settings_rules settings_user_calls settings_user_update settings_group_calls
      settings_group_Replace)+

lemma settings_dispatch: "state_io_rel (db_rel (unchanged t_server_settings)) (scim_dispatch a r x)"
  by (cases x; simp only: scim_dispatch.simps)
    (intro settings_rules settings_run_scim settings_user_calls settings_group_calls)+

lemma settings_scim: "state_io_rel (db_rel (unchanged t_server_settings)) (scim_handler P cfg r)"
  unfolding scim_handler_def Let_def by (intro settings_rules settings_dispatch)

section \<open>Who may change what\<close>

definition admin_state :: "db \<Rightarrow> setting list \<times> group list \<times> (string \<times> string) list" where
  "admin_state d = (t_server_settings d, t_groups d, t_group_members d)"

interpretation kept_admin: request_frame "unchanged admin_state"
  by unfold_locales
    (simp_all add: unchanged_def admin_state_def update_users_def Let_def delete_sessions_def
      delete_logouts_def upsert_logout_def delete_subject_logouts_def upsert_subject_logout_def
      insert_audit_def)

lemma admin_statements:
  "unchanged admin_state E d (snd (insert_user u E d))"
  "unchanged admin_state E d (snd (update_users P f E d))"
  "unchanged admin_state E d (snd (insert_session s E d))"
  by (simp_all add: unchanged_def admin_state_def insert_user_def update_users_def Let_def
      insert_session_def)

text \<open>
  C5: whatever a request asks the server for, it changes no setting (the backup schedule, the pairing,
  the theme) unless its session is an administrator's, and no group or membership unless, failing
  that, it carries SCIM's bearer token: no route of the table is left without its guard.
\<close>

theorem admin_state_guarded:
  "if admin_session cfg r s then True
   else t_server_settings (w_db (exec (handle_request X cfg B r) s)) = t_server_settings (w_db s) \<and>
     (if scim_authorised cfg r then True
      else admin_state (w_db (exec (handle_request X cfg B r) s)) = admin_state (w_db s))"
proof (cases "admin_session cfg r s")
  case False
  have "unchanged t_server_settings (w_engine s) (w_db s) (w_db (exec (handle_request X cfg B r) s))"
    by (intro kept_settings.guarded False kept_settings.rel_login kept_settings.rel_change_password
        kept_settings.rel_callback settings_scim settings_statements)
  moreover have "unchanged admin_state (w_engine s) (w_db s) (w_db (exec (handle_request X cfg B r) s))"
    if "\<not> scim_authorised cfg r"
    using that
    by (intro kept_admin.guarded False kept_admin.rel_login kept_admin.rel_change_password
        kept_admin.rel_callback admin_statements) blast
  ultimately show ?thesis by (simp add: unchanged_def)
qed simp

text \<open>An account without the part its owner can change.\<close>

definition account :: "user \<Rightarrow> user" where
  "account u = u\<lparr>u_password_hash := '''', u_must_change_password := False, u_updated_at := 0\<rparr>"

interpretation kept_accounts: request_frame "unchanged (\<lambda>d. map account (t_users d))"
  by unfold_locales
    (simp_all add: unchanged_def update_users_def Let_def delete_sessions_def
      delete_logouts_def upsert_logout_def delete_subject_logouts_def upsert_subject_logout_def
      insert_audit_def)

interpretation kept_passwords: request_frame "unchanged t_users"
  by unfold_locales
    (simp_all add: unchanged_def update_users_def Let_def delete_sessions_def
      delete_logouts_def upsert_logout_def delete_subject_logouts_def upsert_subject_logout_def
      insert_audit_def)

interpretation no_session: request_frame "\<lambda>E d d'. set (t_sessions d') \<subseteq> set (t_sessions d)"
  by unfold_locales
    (auto simp: update_users_def Let_def delete_sessions_def
      delete_logouts_def upsert_logout_def delete_subject_logouts_def upsert_subject_logout_def
      insert_audit_def)

lemma account_statements:
  "unchanged (\<lambda>d. map account (t_users d)) E d (snd (insert_session s E d))"
  "unchanged t_users E d (snd (insert_session s E d))"
  "unchanged (\<lambda>d. map account (t_users d)) E d (snd (update_users P
    (\<lambda>r. r\<lparr>u_password_hash := h, u_must_change_password := False, u_updated_at := now\<rparr>) E d))"
  by (simp_all add: unchanged_def insert_session_def update_users_def Let_def account_def)

text \<open>
  C6: whatever a request asks the server for, without an administrator's session and without SCIM's
  bearer token it creates, deletes, renames, promotes, enables and links no account, except on the
  callback of single sign-on; it changes no password except on the route for it; and it adds no
  session except on the callback and on the sign-in.
\<close>

theorem accounts_guarded:
  "if admin_session cfg r s \<or> scim_authorised cfg r \<or> rq_path r = ''/api/sso/kysignon/callback'' then True
   else let d = w_db s; d' = w_db (exec (handle_request X cfg B r) s)
     in map account (t_users d') = map account (t_users d) \<and>
        (if rq_path r = ''/api/auth/change-password'' then True else t_users d' = t_users d) \<and>
        (if rq_path r = ''/api/auth/login'' then True else set (t_sessions d') \<subseteq> set (t_sessions d))"
proof (cases "admin_session cfg r s \<or> scim_authorised cfg r \<or> rq_path r = ''/api/sso/kysignon/callback''")
  case False
  then have no: "\<not> admin_session cfg r s" "\<not> scim_authorised cfg r"
    "rq_path r \<noteq> ''/api/sso/kysignon/callback''"
    by simp_all
  let ?d' = "w_db (exec (handle_request X cfg B r) s)"
  have "unchanged (\<lambda>d. map account (t_users d)) (w_engine s) (w_db s) ?d'"
    using no
    by (intro kept_accounts.guarded kept_accounts.rel_login kept_accounts.rel_change_password
        account_statements) blast+
  moreover have "unchanged t_users (w_engine s) (w_db s) ?d'"
    if "rq_path r \<noteq> ''/api/auth/change-password''"
    using no that by (intro kept_passwords.guarded kept_passwords.rel_login account_statements) blast+
  moreover have "set (t_sessions ?d') \<subseteq> set (t_sessions (w_db s))"
    if "rq_path r \<noteq> ''/api/auth/login''"
    using no that
    by (intro no_session.guarded no_session.rel_change_password) (auto simp: update_users_def Let_def)
  ultimately show ?thesis by (simp add: unchanged_def Let_def)
qed simp

end
