(* ===== verification/Lifecycle.thy ===== *)
theory Lifecycle
  imports RouteFacts BackupFacts
begin

text \<open>
  A session through the whole server, route table and filters included: sign in, ask who is signed
  in, sign out, ask again.
\<close>

section \<open>The requests\<close>

definition login_call :: "request \<Rightarrow> bool" where
  "login_call r \<longleftrightarrow> rq_method r = ''POST'' \<and> rq_path r = ''/api/auth/login''"

definition me_call :: "request \<Rightarrow> bool" where
  "me_call r \<longleftrightarrow> rq_method r = ''GET'' \<and> rq_path r = ''/api/auth/me''"

text \<open>A browser's sign-out brings the CSRF token with its cookie.\<close>

definition logout_call :: "config \<Rightarrow> request \<Rightarrow> bool" where
  "logout_call cfg r \<longleftrightarrow> rq_method r = ''POST'' \<and> rq_path r = ''/api/auth/logout'' \<and>
     (hasSessionCookie cfg r \<longrightarrow> ValidateCSRF r (c_host_cookies (cfg_security cfg)))"

text \<open>The token a response hands to the browser.\<close>

definition handed_token :: "config \<Rightarrow> response \<Rightarrow> string" where
  "handed_token cfg resp =
     (case find (\<lambda>c. ck_name c = CookieName SessionCookieName (c_host_cookies (cfg_security cfg)))
             (rs_cookies resp) of
        None \<Rightarrow> '''' | Some c \<Rightarrow> ck_value c)"

section \<open>Routing\<close>

lemma clean_paths:
  "clean_url_path ''/api/auth/login'' = ''/api/auth/login''"
  "clean_url_path ''/api/auth/me'' = ''/api/auth/me''"
  "clean_url_path ''/api/auth/logout'' = ''/api/auth/logout''"
  by code_simp+

lemma mux_account_routes:
  "login_call r \<Longrightarrow> mux (routes X cfg B) r =
     handleLogin (os_passwords X) (os_unmarshal X) cfg (bd_login B) r"
  "me_call r \<Longrightarrow> mux (routes X cfg B) r = handleMe cfg r"
  "logout_call cfg r \<Longrightarrow> mux (routes X cfg B) r = handleLogout cfg r"
  by (simp_all add: login_call_def me_call_def logout_call_def mux_def clean_paths mux_match_def
      exact_route_def or_else_def routes_def RegisterRoutes_def Let_def)

lemma run_me:
  assumes "me_call r"
  shows "run_state (handle_request X cfg B r) s =
    (case run_state (handleMe cfg r) s of (x, s') \<Rightarrow>
       (x\<lparr>rs_headers := security_headers (os_parse_url X) cfg (header_get r ''Origin'') @ rs_headers x\<rparr>, s'))"
  using assms
  by (simp add: mux_account_routes(2) [OF assms] handle_request_def ServeHTTP_def Let_def run_with_headers me_call_def isUnsafeMethod_def
      has_prefix_def split: prod.split)

lemma run_logout:
  assumes "logout_call cfg r"
  shows "run_state (handle_request X cfg B r) s =
    (case run_state (handleLogout cfg r) s of (x, s') \<Rightarrow>
       (x\<lparr>rs_headers := security_headers (os_parse_url X) cfg (header_get r ''Origin'') @ rs_headers x\<rparr>, s'))"
  using assms
  by (auto simp: mux_account_routes(3) [OF assms] handle_request_def ServeHTTP_def Let_def run_with_headers logout_call_def isSignIn_def
      isUnsafeMethod_def csrfExempt_def has_prefix_def split: prod.split)

lemma login_through:
  assumes "login_call r" and "run_state (handle_request X cfg B r) s = (resp, s1)" and "rs_status resp = 200"
  obtains resp' where "run_state (handleLogin (os_passwords X) (os_unmarshal X) cfg (bd_login B) r) s = (resp', s1)"
    and "rs_status resp' = 200" and "rs_cookies resp = rs_cookies resp'"
  using assms
  by (auto simp: mux_account_routes(1) [OF assms(1)] isUnsafeMethod_def csrfExempt_def isSignIn_def
      writeError_def writeJSON_def plain_reply_def handle_request_def ServeHTTP_def Let_def run_with_headers login_call_def
      has_prefix_def split: prod.splits if_splits)

section \<open>The clock and the database's health\<close>

definition steady :: "'z world_scheme \<Rightarrow> engine \<times> (nat \<Rightarrow> time) \<times> (nat \<Rightarrow> bool)" where
  "steady w = (w_engine w, w_clock w, w_fault w)"

lemma steady_oracles: "state_io_rel (same oracles) m \<Longrightarrow> state_io_rel (same steady) m"
  by (simp add: state_io_rel_def same_def oracles_def steady_def)

lemma steady_db_free: "db_free m \<Longrightarrow> state_io_rel (same steady) m"
  by (simp add: db_free_def state_io_rel_def same_def steady_def exec_def)

lemma oracles_steps:
  "state_io_rel (same oracles) (getUserByUsername n)" "state_io_rel (same oracles) (logAudit a)"
  "state_io_rel (same oracles) (IssueSession sec r u)" "state_io_rel (same oracles) (AuthenticateRequest sec r)"
  unfolding getUserByUsername_def logAudit_def IssueSession_def issue_def RandomHex_def
    AuthenticateRequest_def getSession_def getUserByID_def deleteSession_def Let_def
  by (intro frame_intros oracles_createSession same_refl same_trans)+

lemma steady_auth: "steady (exec (AuthenticateRequest sec r) s) = steady s"
  by (simp add: exec_def
      oracles_steps(4) [THEN steady_oracles, unfolded state_io_rel_def same_def, rule_format])

lemma steady_replies:
  "state_io_rel (same steady) (writeError c m)" "state_io_rel (same steady) (writeJSON c j)"
  by (simp_all add: state_io_rel_def same_def)

lemma steady_login: "state_io_rel (same steady) (handleLogin P un cfg b r)"
  unfolding handleLogin_def login_account_def Let_def
  by (intro frame_intros same_refl same_trans steady_replies oracles_steps [THEN steady_oracles]
      db_free_allowAttempt [THEN steady_db_free] db_free_attemptsExhausted [THEN steady_db_free]
      db_free_VerifyPoWSolution [THEN steady_db_free])

section \<open>The life of a session\<close>

interpretation wf_requests: request_frame "kept wf_db"
  by unfold_locales
    (simp_all add: kept_def wf_update_users wf_delete_sessions wf_delete_logouts wf_upsert_logout
      wf_delete_subject_logouts wf_upsert_subject_logout wf_insert_audit)

lemma find_row:
  "x \<in> set xs \<Longrightarrow> (\<And>y. y \<in> set xs \<Longrightarrow> f y = f x \<Longrightarrow> y = x) \<Longrightarrow> find (\<lambda>y. f y = f x) xs = Some x"
  by (induction xs) auto

definition me_anonymous :: body where
  "me_anonymous = Body (JObj [(''authenticated'', JBool False)])"

definition me_user :: "user \<Rightarrow> body" where
  "me_user u = Body (JObj [(''authenticated'', JBool True), (''user'', user_json u)])"

lemma me_answers:
  assumes "me_call r"
  shows "rs_body (result (handle_request X cfg B r) s) =
    (case result (AuthenticateRequest (cfg_security cfg) r) s of
       Inl e \<Rightarrow> me_anonymous | Inr (u, x) \<Rightarrow> me_user u)"
    and "exec (handle_request X cfg B r) s = exec (AuthenticateRequest (cfg_security cfg) r) s"
  using run_me [OF assms, of X cfg B s]
  by (simp_all add: result_def exec_def handleMe_def me_anonymous_def me_user_def reply_def
      split: prod.split sum.split)

text \<open>An authentication that finds its session and its account.\<close>

lemma authenticates:
  assumes "healthy w" and "session_token sec r = tok" and "tok \<noteq> ''''"
    and "find (\<lambda>x. s_token_hash x = SHA256Hex tok) (t_sessions (w_db w)) = Some sess"
    and "find (\<lambda>x. u_id x = s_user_id sess) (t_users (w_db w)) = Some u" and "u_status u = ''active''"
    and "restricted_route r" and "\<forall>n. w_clock w n \<le> s_expires_at sess"
  shows "result (AuthenticateRequest sec r) w = Inr (u, sess)"
  using assms(1-7) assms(8) [THEN spec, THEN leD]
  by (simp add: AuthenticateRequest_def result_def getSession_def getUserByID_def run_check
      run_stmt_healthy select_session_def select_user_def Let_def)

lemma logout_ends:
  assumes "logout_call cfg out" and "healthy s"
    and "session_token (cfg_security cfg) out = session_token (cfg_security cfg) me"
  shows "\<exists>e. result (AuthenticateRequest (cfg_security cfg) me) (exec (handle_request X cfg B out) s) = Inl e"
proof -
  have "exec (handle_request X cfg B out) s = exec (RevokeSession (cfg_security cfg) out) s"
    using run_logout [OF assms(1), of X B s] assms(1)
    by (simp add: exec_def handleLogout_def logout_call_def split: prod.split)
  with RevokeSession_ends [OF assms(2), of "cfg_security cfg" me out] assms(3) show ?thesis by simp
qed


section \<open>An instance\<close>

definition demo_idp :: idp where
  "demo_idp = \<lparr>idp_fips = False, idp_url = (\<lambda>s. None), idp_json = (\<lambda>s. None),
     idp_discover = (\<lambda>n i. Inl ErrNotFound), idp_auth_url = (\<lambda>d a b c e f. ''''),
     idp_exchange = (\<lambda>n d a b c e f. Inl ErrNotFound), idp_verify = (\<lambda>n d a b. Inl ErrNotFound)\<rparr>"

definition demo_outside :: "(unit, unit) outside" where
  "demo_outside = \<lparr>os_passwords = demo_passwords, os_unmarshal = (\<lambda>s. None), os_idp = demo_idp,
     os_lib = demo_lib, os_scim = \<lparr>sp_parse = (\<lambda>r. Inl (plain_reply 404 '''')),
       sp_render = (\<lambda>x y. plain_reply 200 ''''), sp_error = (\<lambda>c m. JNull)\<rparr>,
     os_parse_url = demo_url, os_files = [], os_file_server = (\<lambda>r. plain_reply 200 '''')\<rparr>"

definition demo_bodies :: bodies where
  "demo_bodies = \<lparr>bd_login = Some (demo_login ''h1''), bd_password = None, bd_logout_token = '''',
     bd_pair = None, bd_pin = None, bd_interval = None, bd_theme = None\<rparr>"

definition demo_call :: "string \<Rightarrow> string \<Rightarrow> string \<Rightarrow> request" where
  "demo_call m p tok = (demo_request ''9.9.9.9:80'' [])\<lparr>rq_method := m, rq_path := p,
     rq_headers := (if tok = '''' then [] else [(''Authorization'', ''Bearer '' @ tok)])\<rparr>"

definition demo_start :: host where
  "demo_start = (demo_host [])\<lparr>w_db := demo_db\<lparr>t_sessions := []\<rparr>\<rparr>"

abbreviation demo_serve :: "request \<Rightarrow> (response, unit) hio" where
  "demo_serve \<equiv> handle_request demo_outside demo_config demo_bodies"

abbreviation demo_login_request :: request where
  "demo_login_request \<equiv> demo_request ''9.9.9.9:80'' []"

lemma demo_start_simps:
  "w_db demo_start = demo_db\<lparr>t_sessions := []\<rparr>" "w_engine demo_start = demo_engine"
  "w_clock demo_start i = 10" "w_fault demo_start i = False" "w_rand demo_start i = (\<lambda>j. CHR ''0'')"
  "w_ticks demo_start = 0" "w_stmts demo_start = 0" "w_draws demo_start = 0" "sv_attempts demo_start = []"
  by (simp_all add: demo_start_def demo_host_def demo_server_def demo_world_def sso_server.extend_def
      server.extend_def world.extend_def)

lemma demo_trim: "trim_space ''ann'' = ''ann''"
  by code_simp

lemma demo_gate:
  "\<exists>ws v. run_state (login_gate (\<lambda>s. None) demo_config (Some (demo_login ''h1''))
       demo_login_request) demo_start =
     (Inr (demo_login ''h1''), demo_start\<lparr>w_ticks := 1, sv_attempts := ws, sv_victims := v\<rparr>)"
proof -
  have captcha: "c_provider (cfg_captcha demo_config) = ''none''" by (simp add: demo_config_def)
  have post: "rq_method demo_login_request = ''POST''" by (simp add: demo_request_def)
  show ?thesis
    by (simp add: login_gate_def run_allowAttempt post allow_at_def login_name_def demo_login_def
        demo_trim puzzle_step_def captcha attemptsExhausted_def demo_start_simps Let_def account_key_def
        attemptsCap_def no_window_def bumpWindow_def minute_def) blast
qed

lemma demo_decision:
  "\<exists>resp s1. run_state (login_decision demo_passwords demo_config (demo_login ''h1'')
       demo_login_request) (demo_start\<lparr>w_ticks := 1, sv_attempts := ws, sv_victims := v\<rparr>) =
       (resp, s1) \<and>
     rs_status resp = 200 \<and> handed_token demo_config resp = demo_token \<and>
     s_expires_at (last (t_sessions (w_db s1))) = 70"
  by (simp add: login_decision_def login_account_def login_name_def demo_login_def demo_trim
      getUserByUsername_def run_stmt select_user_def same_name_def demo_start_simps demo_engine_def
      demo_db_def demo_user_def empty_db_def credentials_ok_def demo_passwords_def verified_def
      IssueSession_def issue_def Let_def RandomHex_run run_check createSession_def grant_session_def
      withPassword_def read_fences_def run_transaction update_users_def users_ok_def
      insert_session_def count_fences_def sid_fenced_def subject_fenced_def demo_token_def
      map_replicate_upt no_op_def logAudit_def insert_audit_def handed_token_def session_cookie_def
      demo_config_def demo_security_def)

lemma demo_login_call: "login_call demo_login_request"
  by (simp add: login_call_def demo_request_def)

lemma demo_sign_in:
  "\<exists>resp s1. run_state (demo_serve demo_login_request) demo_start = (resp, s1) \<and> rs_status resp = 200 \<and>
     handed_token demo_config resp = demo_token \<and> s_expires_at (last (t_sessions (w_db s1))) = 70"
proof -
  obtain ws v where g: "run_state (login_gate (\<lambda>s. None) demo_config (Some (demo_login ''h1''))
      demo_login_request) demo_start =
    (Inr (demo_login ''h1''), demo_start\<lparr>w_ticks := 1, sv_attempts := ws, sv_victims := v\<rparr>)"
    using demo_gate by blast
  obtain resp s1 where d: "run_state (login_decision demo_passwords demo_config (demo_login ''h1'')
      demo_login_request) (demo_start\<lparr>w_ticks := 1, sv_attempts := ws, sv_victims := v\<rparr>) =
      (resp, s1)"
    and r: "rs_status resp = 200" "handed_token demo_config resp = demo_token"
      "s_expires_at (last (t_sessions (w_db s1))) = 70"
    using demo_decision by blast
  have "run_state (handleLogin demo_passwords (\<lambda>s. None) demo_config (Some (demo_login ''h1''))
      demo_login_request) demo_start = (resp, s1)"
    using g d by (simp add: run_handleLogin)
  then show ?thesis
    using r
    by (simp add: handle_request_def ServeHTTP_def Let_def run_with_headers
        mux_account_routes(1) [OF demo_login_call] demo_outside_def demo_bodies_def handed_token_def)
      (simp add: demo_request_def isUnsafeMethod_def hasSessionCookie_def csrfExempt_def isSignIn_def
        header_get_def header_values_def foreignOrigin_def has_prefix_def run_with_headers)
qed


end
