(* ===== verification/Ddl.thy ===== *)
theory Ddl
  imports Schema
begin

text \<open>
  The database as the migrations see it: tables of named columns and rows, indexes, and the data
  definition statements of internal/store/migrations/migrations.go with what SQLite and PostgreSQL
  make of them. A statement the database refuses is \<open>None\<close>. No table refers to one the migrations
  drop or delete from, so no statement here cascades.
\<close>

section \<open>Values and tables\<close>

datatype sql_value = VNull | VText string | VInt int | VBool bool | VTime time

datatype sql_type =
  TEXT | VARCHAR nat | INTEGER | AUTOINCREMENT | BIGINT | BIGSERIAL | BOOLEAN | DATETIME | TIMESTAMPTZ

record column =
  col_name :: string
  col_type :: sql_type
  col_not_null :: bool
  col_default :: "sql_value option"
  col_unique :: bool
  col_references :: "(string \<times> string) option"

type_synonym row = "string \<Rightarrow> sql_value"

record table =
  tb_columns :: "column list"
  tb_primary_key :: "string list"
  tb_rows :: "row list"

type_synonym tables = "string \<Rightarrow> table option"

definition has_column :: "table \<Rightarrow> string \<Rightarrow> bool" where
  "has_column tb c \<longleftrightarrow> c \<in> set (map col_name (tb_columns tb))"

subsection \<open>Conditions\<close>

text \<open>A comparison with \<^verbatim>\<open>NULL\<close> does not hold.\<close>

datatype condition =
    Always
  | Equals string sql_value
  | Differs string sql_value
  | Both condition condition
  | InSelect string string string condition

fun holds :: "tables \<Rightarrow> condition \<Rightarrow> row \<Rightarrow> bool" where
  "holds T Always r = True"
| "holds T (Equals c v) r = (r c = v \<and> v \<noteq> VNull)"
| "holds T (Differs c v) r = (r c \<noteq> v \<and> r c \<noteq> VNull \<and> v \<noteq> VNull)"
| "holds T (Both p q) r = (holds T p r \<and> holds T q r)"
| "holds T (InSelect c t d p) r =
     (case T t of
        None \<Rightarrow> False
      | Some tb \<Rightarrow> r c \<noteq> VNull \<and> list_ex (\<lambda>x. holds T p x \<and> x d = r c) (tb_rows tb))"

fun names_exist :: "tables \<Rightarrow> table \<Rightarrow> condition \<Rightarrow> bool" where
  "names_exist T tb Always = True"
| "names_exist T tb (Equals c v) = has_column tb c"
| "names_exist T tb (Differs c v) = has_column tb c"
| "names_exist T tb (Both p q) = (names_exist T tb p \<and> names_exist T tb q)"
| "names_exist T tb (InSelect c t d p) =
     (has_column tb c \<and>
      (case T t of None \<Rightarrow> False | Some tb' \<Rightarrow> has_column tb' d \<and> names_exist T tb' p))"

section \<open>Indexes and the catalog\<close>

datatype index_key = Key string | LowerKey string

record table_index =
  ix_name :: string
  ix_table :: string
  ix_keys :: "index_key list"
  ix_where :: condition
  ix_unique :: bool

record catalog =
  cat_tables :: tables
  cat_indexes :: "table_index list"

definition empty_catalog :: catalog where
  "empty_catalog = \<lparr>cat_tables = (\<lambda>_. None), cat_indexes = []\<rparr>"

fun key_column :: "index_key \<Rightarrow> string" where
  "key_column (Key c) = c"
| "key_column (LowerKey c) = c"

fun lower_value :: "engine \<Rightarrow> sql_value \<Rightarrow> sql_value" where
  "lower_value E (VText s) = VText (sql_lower E s)"
| "lower_value E v = v"

fun key_value :: "engine \<Rightarrow> row \<Rightarrow> index_key \<Rightarrow> sql_value" where
  "key_value E r (Key c) = r c"
| "key_value E r (LowerKey c) = lower_value E (r c)"

text \<open>The keys of the rows a partial index covers; a key with a \<^verbatim>\<open>NULL\<close> clashes with nothing.\<close>

definition index_entries :: "engine \<Rightarrow> tables \<Rightarrow> table_index \<Rightarrow> row list \<Rightarrow> sql_value list list" where
  "index_entries E T ix rs =
     filter (\<lambda>k. VNull \<notin> set k)
       (map (\<lambda>r. map (key_value E r) (ix_keys ix)) (filter (holds T (ix_where ix)) rs))"

section \<open>Statements\<close>

datatype ddl =
    CreateTable bool string "column list" "string list"
  | CreateIndex bool table_index
  | AddColumn bool string column
  | DropTable string
  | DeleteFrom string condition
  | UpdateSet string string sql_value condition

text \<open>The first argument of \<open>CreateTable\<close>, \<open>CreateIndex\<close> and \<open>AddColumn\<close> is \<^verbatim>\<open>IF NOT EXISTS\<close>.\<close>

definition put_table :: "string \<Rightarrow> table \<Rightarrow> catalog \<Rightarrow> catalog" where
  "put_table n tb c = c\<lparr>cat_tables := (cat_tables c)(n \<mapsto> tb)\<rparr>"

fun run_ddl :: "engine \<Rightarrow> ddl \<Rightarrow> catalog \<Rightarrow> catalog option" where
  "run_ddl E (CreateTable missing n cols pk) c =
     (case cat_tables c n of
        Some tb \<Rightarrow> if missing then Some c else None
      | None \<Rightarrow> Some (put_table n \<lparr>tb_columns = cols, tb_primary_key = pk, tb_rows = []\<rparr> c))"
| "run_ddl E (CreateIndex missing ix) c =
     (if ix_name ix \<in> set (map ix_name (cat_indexes c)) then (if missing then Some c else None)
      else case cat_tables c (ix_table ix) of
        None \<Rightarrow> None
      | Some tb \<Rightarrow>
          if list_all (\<lambda>k. has_column tb (key_column k)) (ix_keys ix) \<and>
             names_exist (cat_tables c) tb (ix_where ix) \<and>
             (ix_unique ix \<longrightarrow> distinct (index_entries E (cat_tables c) ix (tb_rows tb)))
          then Some (c\<lparr>cat_indexes := cat_indexes c @ [ix]\<rparr>) else None)"
| "run_ddl E (AddColumn missing n col) c =
     (case cat_tables c n of
        None \<Rightarrow> None
      | Some tb \<Rightarrow>
          if has_column tb (col_name col) then (if missing then Some c else None)
          else if col_not_null col \<and> col_default col = None then None
          else Some (put_table n
            (tb\<lparr>tb_columns := tb_columns tb @ [col],
                tb_rows := map (\<lambda>r. r(col_name col := (case col_default col of None \<Rightarrow> VNull | Some v \<Rightarrow> v)))
                  (tb_rows tb)\<rparr>) c))"
| "run_ddl E (DropTable n) c =
     Some (c\<lparr>cat_tables := (cat_tables c)(n := None),
             cat_indexes := filter (\<lambda>ix. ix_table ix \<noteq> n) (cat_indexes c)\<rparr>)"
| "run_ddl E (DeleteFrom n p) c =
     (case cat_tables c n of
        None \<Rightarrow> None
      | Some tb \<Rightarrow>
          if names_exist (cat_tables c) tb p
          then Some (put_table n
            (tb\<lparr>tb_rows := filter (\<lambda>r. \<not> holds (cat_tables c) p r) (tb_rows tb)\<rparr>) c)
          else None)"
| "run_ddl E (UpdateSet n col v p) c =
     (case cat_tables c n of
        None \<Rightarrow> None
      | Some tb \<Rightarrow>
          if has_column tb col \<and> names_exist (cat_tables c) tb p
          then Some (put_table n
            (tb\<lparr>tb_rows := map (\<lambda>r. if holds (cat_tables c) p r then r(col := v) else r) (tb_rows tb)\<rparr>) c)
          else None)"

fun run_ddls :: "engine \<Rightarrow> ddl list \<Rightarrow> catalog \<Rightarrow> catalog option" where
  "run_ddls E [] c = Some c"
| "run_ddls E (d # ds) c = (case run_ddl E d c of None \<Rightarrow> None | Some c' \<Rightarrow> run_ddls E ds c')"

text \<open>\<^verbatim>\<open>INSERT\<close> of one row, refused when the primary key is taken.\<close>

definition insert_row :: "string \<Rightarrow> row \<Rightarrow> catalog \<Rightarrow> catalog option" where
  "insert_row n r c =
     (case cat_tables c n of
        None \<Rightarrow> None
      | Some tb \<Rightarrow>
          if list_ex (\<lambda>x. map x (tb_primary_key tb) = map r (tb_primary_key tb)) (tb_rows tb) then None
          else Some (put_table n (tb\<lparr>tb_rows := tb_rows tb @ [r]\<rparr>) c))"

section \<open>What a statement leaves alone\<close>

fun ddl_table :: "ddl \<Rightarrow> string" where
  "ddl_table (CreateTable _ n _ _) = n"
| "ddl_table (CreateIndex _ ix) = ix_table ix"
| "ddl_table (AddColumn _ n _) = n"
| "ddl_table (DropTable n) = n"
| "ddl_table (DeleteFrom n _) = n"
| "ddl_table (UpdateSet n _ _ _) = n"

lemma put_table_simps [simp]:
  "cat_tables (put_table n tb c) = (cat_tables c)(n \<mapsto> tb)"
  "cat_indexes (put_table n tb c) = cat_indexes c"
  by (simp_all add: put_table_def)

lemma run_ddl_other:
  "run_ddl E d c = Some c' \<Longrightarrow> n \<noteq> ddl_table d \<Longrightarrow> cat_tables c' n = cat_tables c n"
  by (cases d) (auto split: option.splits if_splits)

lemma run_ddls_other:
  "run_ddls E ds c = Some c' \<Longrightarrow> n \<notin> ddl_table ` set ds \<Longrightarrow> cat_tables c' n = cat_tables c n"
  by (induction ds arbitrary: c) (auto split: option.splits dest: run_ddl_other)

lemma run_ddls_append:
  "run_ddls E (ds @ es) c = (case run_ddls E ds c of None \<Rightarrow> None | Some c' \<Rightarrow> run_ddls E es c')"
  by (induction ds arbitrary: c) (auto split: option.splits)

lemma insert_row_other:
  "insert_row t r c = Some c' \<Longrightarrow> n \<noteq> t \<Longrightarrow> cat_tables c' n = cat_tables c n"
  by (auto simp: insert_row_def split: option.splits if_splits)

end
