(* ===== verification/Migrations.thy ===== *)
theory Migrations
  imports Ddl Backup "HOL-Library.List_Lexorder" "HOL-Library.Char_ord"
begin

text \<open>
  internal/store/migrations/migrations.go: the registry, each migration with its statements for
  SQLite and for PostgreSQL; \<open>Run\<close>, which brings a database up to date; and
  \<open>EnsureUsernameIndex\<close>. The catalog and the lines the process has printed extend its state; which calls the database
  refuses and the clock are the oracles of \<open>world\<close>, as for the store.
\<close>

record installation = host +
  in_catalog :: catalog
  in_log :: "string list"

type_synonym ('a, 'z) ires = "('z installation_scheme, err + 'a) state"

section \<open>Calls to the database\<close>

definition db_call :: "(engine \<Rightarrow> catalog \<Rightarrow> ('a \<times> catalog) option) \<Rightarrow> ('a, 'z) ires" where
  "db_call q = State (\<lambda>w.
     let w1 = w\<lparr>w_stmts := Suc (w_stmts w)\<rparr>
     in if w_fault w (w_stmts w) then (Inl (ErrSQL Fault), w1)
        else case q (w_engine w) (in_catalog w) of
          None \<Rightarrow> (Inl (ErrSQL Fault), w1)
        | Some (x, c) \<Rightarrow> (Inr x, w1\<lparr>in_catalog := c\<rparr>))"

definition change :: "(engine \<Rightarrow> catalog \<Rightarrow> catalog option) \<Rightarrow> (unit, 'z) ires" where
  "change f = db_call (\<lambda>E c. map_option (Pair ()) (f E c))"

definition read_catalog :: "(engine \<Rightarrow> catalog \<Rightarrow> 'a option) \<Rightarrow> ('a, 'z) ires" where
  "read_catalog f = db_call (\<lambda>E c. map_option (\<lambda>x. (x, c)) (f E c))"

text \<open>An error is wrapped in a message; only the message is kept.\<close>

definition wrap :: "string \<Rightarrow> ('a, 'z) ires \<Rightarrow> ('a, 'z) ires" where
  "wrap msg m = do { r \<leftarrow> m; case r of Inl e \<Rightarrow> ret (Inl (ErrOther msg)) | Inr x \<Rightarrow> ret (Inr x) }"

text \<open>A transaction: any error on the way, a refused commit too, leaves the catalog as it was.\<close>

definition catalog_tx :: "string \<Rightarrow> string \<Rightarrow> (unit, 'z) ires \<Rightarrow> (unit, 'z) ires" where
  "catalog_tx begin_msg commit_msg body =
     check (wrap begin_msg (read_catalog (\<lambda>E c. Some ()))) (\<lambda>_. do {
       w \<leftarrow> getS;
       r \<leftarrow> check body (\<lambda>_. wrap commit_msg (read_catalog (\<lambda>E c. Some ())));
       case r of
         Inl e \<Rightarrow> do { modifyS (\<lambda>w'. w'\<lparr>in_catalog := in_catalog w\<rparr>); ret (Inl e) }
       | Inr _ \<Rightarrow> ret (Inr ()) })"

section \<open>Columns and indexes\<close>

definition nullable :: "string \<Rightarrow> sql_type \<Rightarrow> column" where
  "nullable n t = \<lparr>col_name = n, col_type = t, col_not_null = False, col_default = None,
     col_unique = False, col_references = None\<rparr>"

definition required :: "string \<Rightarrow> sql_type \<Rightarrow> column" where
  "required n t = (nullable n t)\<lparr>col_not_null := True\<rparr>"

definition defaulted :: "string \<Rightarrow> sql_type \<Rightarrow> sql_value \<Rightarrow> column" where
  "defaulted n t v = (required n t)\<lparr>col_default := Some v\<rparr>"

definition unique :: "column \<Rightarrow> column" where
  "unique c = c\<lparr>col_unique := True\<rparr>"

definition references :: "column \<Rightarrow> string \<Rightarrow> string \<Rightarrow> column" where
  "references c t k = c\<lparr>col_references := Some (t, k)\<rparr>"

definition index_on :: "string \<Rightarrow> string \<Rightarrow> string list \<Rightarrow> table_index" where
  "index_on n t cs = \<lparr>ix_name = n, ix_table = t, ix_keys = map Key cs, ix_where = Always,
     ix_unique = False\<rparr>"

section \<open>The registry\<close>

record migration =
  mg_version :: int
  mg_name :: string
  mg_sqlite :: "ddl list"
  mg_postgres :: "ddl list"

definition initial_schema_sqlite :: "ddl list" where
  "initial_schema_sqlite =
   [CreateTable True ''users''
     [nullable ''id'' TEXT,
      unique (required ''username'' TEXT),
      defaulted ''email'' TEXT (VText ''''),
      defaulted ''display_name'' TEXT (VText ''''),
      defaulted ''password_hash'' TEXT (VText ''''),
      defaulted ''role'' TEXT (VText ''user''),
      defaulted ''status'' TEXT (VText ''active''),
      defaulted ''sso_provider'' TEXT (VText ''local''),
      defaulted ''sso_subject'' TEXT (VText ''''),
      defaulted ''totp_secret_enc'' TEXT (VText ''''),
      defaulted ''totp_enabled'' INTEGER (VInt 0),
      defaulted ''recovery_codes_hash'' TEXT (VText ''[]''),
      defaulted ''push_device_id'' TEXT (VText ''''),
      defaulted ''must_change_password'' INTEGER (VInt 0),
      required ''created_at'' DATETIME,
      required ''updated_at'' DATETIME,
      nullable ''last_login_at'' DATETIME]
     [''id''],
    CreateIndex True (index_on ''idx_users_username'' ''users'' [''username'']),
    CreateIndex True (index_on ''idx_users_email'' ''users'' [''email'']),
    CreateIndex True (index_on ''idx_users_sso'' ''users'' [''sso_provider'', ''sso_subject'']),
    CreateTable True ''sessions''
     [nullable ''token_hash'' TEXT,
      references (required ''user_id'' TEXT) ''users'' ''id'',
      defaulted ''user_agent'' TEXT (VText ''''),
      defaulted ''ip_address'' TEXT (VText ''''),
      required ''created_at'' DATETIME,
      required ''expires_at'' DATETIME]
     [''token_hash''],
    CreateIndex True (index_on ''idx_sessions_user_id'' ''sessions'' [''user_id'']),
    CreateIndex True (index_on ''idx_sessions_expires_at'' ''sessions'' [''expires_at'']),
    CreateTable True ''device_pairings''
     [nullable ''secret'' TEXT,
      unique (required ''code'' TEXT),
      defaulted ''user_id'' TEXT (VText ''''),
      defaulted ''device_name'' TEXT (VText ''''),
      defaulted ''platform'' TEXT (VText ''''),
      defaulted ''push_token'' TEXT (VText ''''),
      defaulted ''status'' TEXT (VText ''pending''),
      required ''created_at'' DATETIME,
      required ''expires_at'' DATETIME]
     [''secret''],
    CreateIndex True (index_on ''idx_pairings_code'' ''device_pairings'' [''code'']),
    CreateIndex True (index_on ''idx_pairings_expires'' ''device_pairings'' [''expires_at'']),
    CreateTable True ''groups''
     [nullable ''id'' TEXT,
      unique (required ''display_name'' TEXT),
      defaulted ''external_id'' TEXT (VText ''''),
      required ''created_at'' DATETIME,
      required ''updated_at'' DATETIME]
     [''id''],
    CreateTable True ''group_members''
     [references (required ''group_id'' TEXT) ''groups'' ''id'',
      references (required ''user_id'' TEXT) ''users'' ''id'']
     [''group_id'', ''user_id''],
    CreateTable True ''audit_records''
     [nullable ''id'' AUTOINCREMENT,
      defaulted ''user_id'' TEXT (VText ''''),
      required ''action'' TEXT,
      defaulted ''resource'' TEXT (VText ''''),
      defaulted ''details'' TEXT (VText ''''),
      defaulted ''ip_address'' TEXT (VText ''''),
      required ''created_at'' DATETIME]
     [''id''],
    CreateIndex True (index_on ''idx_audit_user_created'' ''audit_records'' [''user_id'', ''created_at'']),
    CreateTable True ''server_settings''
     [nullable ''key'' TEXT,
      defaulted ''value'' TEXT (VText ''''),
      required ''updated_at'' DATETIME]
     [''key'']]"

definition initial_schema_postgres :: "ddl list" where
  "initial_schema_postgres =
   [CreateTable True ''users''
     [nullable ''id'' (VARCHAR 64),
      unique (required ''username'' (VARCHAR 128)),
      defaulted ''email'' (VARCHAR 255) (VText ''''),
      defaulted ''display_name'' (VARCHAR 255) (VText ''''),
      defaulted ''password_hash'' TEXT (VText ''''),
      defaulted ''role'' (VARCHAR 32) (VText ''user''),
      defaulted ''status'' (VARCHAR 32) (VText ''active''),
      defaulted ''sso_provider'' (VARCHAR 32) (VText ''local''),
      defaulted ''sso_subject'' (VARCHAR 255) (VText ''''),
      defaulted ''totp_secret_enc'' TEXT (VText ''''),
      defaulted ''totp_enabled'' BOOLEAN (VBool False),
      defaulted ''recovery_codes_hash'' TEXT (VText ''[]''),
      defaulted ''push_device_id'' (VARCHAR 255) (VText ''''),
      defaulted ''must_change_password'' BOOLEAN (VBool False),
      required ''created_at'' TIMESTAMPTZ,
      required ''updated_at'' TIMESTAMPTZ,
      nullable ''last_login_at'' TIMESTAMPTZ]
     [''id''],
    CreateIndex True (index_on ''idx_users_username'' ''users'' [''username'']),
    CreateIndex True (index_on ''idx_users_email'' ''users'' [''email'']),
    CreateIndex True (index_on ''idx_users_sso'' ''users'' [''sso_provider'', ''sso_subject'']),
    CreateTable True ''sessions''
     [nullable ''token_hash'' (VARCHAR 64),
      references (required ''user_id'' (VARCHAR 64)) ''users'' ''id'',
      defaulted ''user_agent'' TEXT (VText ''''),
      defaulted ''ip_address'' (VARCHAR 64) (VText ''''),
      required ''created_at'' TIMESTAMPTZ,
      required ''expires_at'' TIMESTAMPTZ]
     [''token_hash''],
    CreateIndex True (index_on ''idx_sessions_user_id'' ''sessions'' [''user_id'']),
    CreateIndex True (index_on ''idx_sessions_expires_at'' ''sessions'' [''expires_at'']),
    CreateTable True ''device_pairings''
     [nullable ''secret'' (VARCHAR 64),
      unique (required ''code'' (VARCHAR 16)),
      defaulted ''user_id'' (VARCHAR 64) (VText ''''),
      defaulted ''device_name'' (VARCHAR 255) (VText ''''),
      defaulted ''platform'' (VARCHAR 32) (VText ''''),
      defaulted ''push_token'' TEXT (VText ''''),
      defaulted ''status'' (VARCHAR 32) (VText ''pending''),
      required ''created_at'' TIMESTAMPTZ,
      required ''expires_at'' TIMESTAMPTZ]
     [''secret''],
    CreateIndex True (index_on ''idx_pairings_code'' ''device_pairings'' [''code'']),
    CreateIndex True (index_on ''idx_pairings_expires'' ''device_pairings'' [''expires_at'']),
    CreateTable True ''groups''
     [nullable ''id'' (VARCHAR 64),
      unique (required ''display_name'' (VARCHAR 255)),
      defaulted ''external_id'' (VARCHAR 255) (VText ''''),
      required ''created_at'' TIMESTAMPTZ,
      required ''updated_at'' TIMESTAMPTZ]
     [''id''],
    CreateTable True ''group_members''
     [references (required ''group_id'' (VARCHAR 64)) ''groups'' ''id'',
      references (required ''user_id'' (VARCHAR 64)) ''users'' ''id'']
     [''group_id'', ''user_id''],
    CreateTable True ''audit_records''
     [nullable ''id'' BIGSERIAL,
      defaulted ''user_id'' (VARCHAR 64) (VText ''''),
      required ''action'' (VARCHAR 64),
      defaulted ''resource'' (VARCHAR 255) (VText ''''),
      defaulted ''details'' TEXT (VText ''''),
      defaulted ''ip_address'' (VARCHAR 64) (VText ''''),
      required ''created_at'' TIMESTAMPTZ]
     [''id''],
    CreateIndex True (index_on ''idx_audit_user_created'' ''audit_records'' [''user_id'', ''created_at'']),
    CreateTable True ''server_settings''
     [nullable ''key'' (VARCHAR 128),
      defaulted ''value'' TEXT (VText ''''),
      required ''updated_at'' TIMESTAMPTZ]
     [''key'']]"

definition initial_schema :: migration where
  "initial_schema = \<lparr>mg_version = 1, mg_name = ''initial_schema'',
     mg_sqlite = initial_schema_sqlite, mg_postgres = initial_schema_postgres\<rparr>"

definition one_time_auth_challenges :: migration where
  "one_time_auth_challenges = \<lparr>mg_version = 2, mg_name = ''one_time_auth_challenges'',
   mg_sqlite =
   [CreateTable True ''mfa_challenges''
     [nullable ''token_hash'' TEXT,
      references (required ''user_id'' TEXT) ''users'' ''id'',
      required ''expires_at'' DATETIME]
     [''token_hash''],
    CreateIndex True (index_on ''idx_mfa_challenges_expires'' ''mfa_challenges'' [''expires_at''])],
   mg_postgres =
   [CreateTable True ''mfa_challenges''
     [nullable ''token_hash'' (VARCHAR 64),
      references (required ''user_id'' (VARCHAR 64)) ''users'' ''id'',
      required ''expires_at'' TIMESTAMPTZ]
     [''token_hash''],
    CreateIndex True (index_on ''idx_mfa_challenges_expires'' ''mfa_challenges'' [''expires_at''])]\<rparr>"

definition totp_last_counter :: migration where
  "totp_last_counter = \<lparr>mg_version = 3, mg_name = ''totp_last_counter'',
   mg_sqlite =
   [AddColumn False ''users'' (defaulted ''totp_last_counter'' INTEGER (VInt 0))],
   mg_postgres =
   [AddColumn True ''users'' (defaulted ''totp_last_counter'' BIGINT (VInt 0))]\<rparr>"

definition mfa_credential_snapshot :: migration where
  "mfa_credential_snapshot = \<lparr>mg_version = 4, mg_name = ''mfa_credential_snapshot'',
   mg_sqlite =
   [DeleteFrom ''mfa_challenges'' Always,
    AddColumn False ''mfa_challenges'' (defaulted ''password_hash'' TEXT (VText ''''))],
   mg_postgres =
   [DeleteFrom ''mfa_challenges'' Always,
    AddColumn False ''mfa_challenges'' (defaulted ''password_hash'' TEXT (VText ''''))]\<rparr>"

definition pairing_secret_only :: migration where
  "pairing_secret_only = \<lparr>mg_version = 5, mg_name = ''pairing_secret_only'',
   mg_sqlite =
   [DropTable ''device_pairings'',
    CreateTable False ''device_pairings''
     [nullable ''secret'' TEXT,
      defaulted ''user_id'' TEXT (VText ''''),
      defaulted ''device_name'' TEXT (VText ''''),
      defaulted ''platform'' TEXT (VText ''''),
      defaulted ''push_token'' TEXT (VText ''''),
      defaulted ''status'' TEXT (VText ''pending''),
      required ''created_at'' DATETIME,
      required ''expires_at'' DATETIME,
      required ''authenticated_at'' DATETIME]
     [''secret''],
    CreateIndex False (index_on ''idx_pairings_expires'' ''device_pairings'' [''expires_at''])],
   mg_postgres =
   [DropTable ''device_pairings'',
    CreateTable False ''device_pairings''
     [nullable ''secret'' (VARCHAR 64),
      defaulted ''user_id'' (VARCHAR 64) (VText ''''),
      defaulted ''device_name'' (VARCHAR 255) (VText ''''),
      defaulted ''platform'' (VARCHAR 32) (VText ''''),
      defaulted ''push_token'' TEXT (VText ''''),
      defaulted ''status'' (VARCHAR 32) (VText ''pending''),
      required ''created_at'' TIMESTAMPTZ,
      required ''expires_at'' TIMESTAMPTZ,
      required ''authenticated_at'' TIMESTAMPTZ]
     [''secret''],
    CreateIndex False (index_on ''idx_pairings_expires'' ''device_pairings'' [''expires_at''])]\<rparr>"

definition backchannel_logout :: migration where
  "backchannel_logout = \<lparr>mg_version = 6, mg_name = ''backchannel_logout'',
   mg_sqlite =
   [AddColumn False ''sessions'' (defaulted ''sso_sid'' TEXT (VText '''')),
    CreateIndex False ((index_on ''idx_sessions_sso_sid'' ''sessions'' [''sso_sid''])
      \<lparr>ix_where := Differs ''sso_sid'' (VText '''')\<rparr>),
    CreateTable False ''sso_logouts''
     [nullable ''sid'' TEXT,
      required ''expires_at'' DATETIME]
     [''sid''],
    CreateTable False ''sso_subject_logouts''
     [required ''provider'' TEXT,
      required ''subject'' TEXT,
      required ''cutoff'' DATETIME,
      required ''expires_at'' DATETIME]
     [''provider'', ''subject'']],
   mg_postgres =
   [AddColumn True ''sessions'' (defaulted ''sso_sid'' TEXT (VText '''')),
    CreateIndex True ((index_on ''idx_sessions_sso_sid'' ''sessions'' [''sso_sid''])
      \<lparr>ix_where := Differs ''sso_sid'' (VText '''')\<rparr>),
    CreateTable True ''sso_logouts''
     [nullable ''sid'' TEXT,
      required ''expires_at'' TIMESTAMPTZ]
     [''sid''],
    CreateTable True ''sso_subject_logouts''
     [required ''provider'' TEXT,
      required ''subject'' TEXT,
      required ''cutoff'' TIMESTAMPTZ,
      required ''expires_at'' TIMESTAMPTZ]
     [''provider'', ''subject'']]\<rparr>"

definition drop_unreachable_sso_sessions :: migration where
  "drop_unreachable_sso_sessions = \<lparr>mg_version = 7, mg_name = ''drop_unreachable_sso_sessions'',
   mg_sqlite =
   [DeleteFrom ''sessions'' (Both (Equals ''sso_sid'' (VText ''''))
      (InSelect ''user_id'' ''users'' ''id'' (Differs ''sso_provider'' (VText ''local'')))),
    DeleteFrom ''device_pairings''
      (InSelect ''user_id'' ''users'' ''id'' (Differs ''sso_provider'' (VText ''local''))),
    AddColumn False ''device_pairings'' (defaulted ''sso_sid'' TEXT (VText ''''))],
   mg_postgres =
   [DeleteFrom ''sessions'' (Both (Equals ''sso_sid'' (VText ''''))
      (InSelect ''user_id'' ''users'' ''id'' (Differs ''sso_provider'' (VText ''local'')))),
    DeleteFrom ''device_pairings''
      (InSelect ''user_id'' ''users'' ''id'' (Differs ''sso_provider'' (VText ''local''))),
    AddColumn True ''device_pairings'' (defaulted ''sso_sid'' TEXT (VText ''''))]\<rparr>"

definition drop_device_pairings :: migration where
  "drop_device_pairings = \<lparr>mg_version = 8, mg_name = ''drop_device_pairings'',
   mg_sqlite =
   [DropTable ''device_pairings''],
   mg_postgres =
   [DropTable ''device_pairings'']\<rparr>"

definition scim_scope :: migration where
  "scim_scope = \<lparr>mg_version = 9, mg_name = ''scim_scope'',
   mg_sqlite =
   [AddColumn False ''users'' (defaulted ''scim_managed'' INTEGER (VInt 0)),
    UpdateSet ''users'' ''scim_managed'' (VInt 1) (Equals ''sso_provider'' (VText ''scim''))],
   mg_postgres =
   [AddColumn True ''users'' (defaulted ''scim_managed'' BOOLEAN (VBool False)),
    UpdateSet ''users'' ''scim_managed'' (VBool True) (Equals ''sso_provider'' (VText ''scim''))]\<rparr>"

definition directory_event_order :: migration where
  "directory_event_order = \<lparr>mg_version = 10, mg_name = ''directory_event_order'',
   mg_sqlite =
   [CreateTable True ''sso_directory_events''
     [required ''provider'' TEXT,
      required ''subject'' TEXT,
      required ''last_timestamp'' INTEGER]
     [''provider'', ''subject'']],
   mg_postgres =
   [CreateTable True ''sso_directory_events''
     [required ''provider'' TEXT,
      required ''subject'' TEXT,
      required ''last_timestamp'' BIGINT]
     [''provider'', ''subject'']]\<rparr>"

definition registry :: "migration list" where
  "registry =
     [initial_schema,
      one_time_auth_challenges,
      totp_last_counter,
      mfa_credential_snapshot,
      pairing_secret_only,
      backchannel_logout,
      drop_unreachable_sso_sessions,
      drop_device_pairings,
      scim_scope,
      directory_event_order]"

section \<open>Running the pending migrations\<close>

definition schema_migrations :: "bool \<Rightarrow> ddl" where
  "schema_migrations pg =
     CreateTable True ''schema_migrations''
       [nullable ''version'' INTEGER,
        required ''name'' (if pg then VARCHAR 255 else TEXT),
        required ''applied_at'' (if pg then TIMESTAMPTZ else DATETIME)]
       [''version'']"

definition version_rows :: "int \<Rightarrow> catalog \<Rightarrow> nat option" where
  "version_rows v c =
     map_option (\<lambda>tb. length (filter (\<lambda>r. r ''version'' = VInt v) (tb_rows tb)))
       (cat_tables c ''schema_migrations'')"

text \<open>The check is tried with \<^verbatim>\<open>$1\<close>, then with \<^verbatim>\<open>?\<close>.\<close>

definition check_version :: "migration \<Rightarrow> (nat, 'z) ires" where
  "check_version m = do {
     r \<leftarrow> read_catalog (\<lambda>E. version_rows (mg_version m));
     case r of
       Inr n \<Rightarrow> ret (Inr n)
     | Inl _ \<Rightarrow> wrap (''failed to check migration version '' @ itoa (mg_version m))
                 (read_catalog (\<lambda>E. version_rows (mg_version m))) }"

definition version_row :: "migration \<Rightarrow> time \<Rightarrow> row" where
  "version_row m t =
     (\<lambda>_. VNull)(''version'' := VInt (mg_version m), ''name'' := VText (mg_name m),
       ''applied_at'' := VTime t)"

definition ddl_of :: "bool \<Rightarrow> migration \<Rightarrow> ddl list" where
  "ddl_of pg m = (if pg then mg_postgres m else mg_sqlite m)"

definition apply_migration :: "bool \<Rightarrow> migration \<Rightarrow> (unit, 'z) ires" where
  "apply_migration pg m =
     check (check_version m) (\<lambda>n.
       if n > 0 then ret (Inr ())
       else catalog_tx (''failed to begin migration tx for v'' @ itoa (mg_version m))
         (''failed to commit migration v'' @ itoa (mg_version m))
         (check (wrap (''failed executing migration v'' @ itoa (mg_version m) @ '' ('' @ mg_name m @ '')'')
                   (change (\<lambda>E. run_ddls E (ddl_of pg m)))) (\<lambda>_. do {
            now \<leftarrow> time_Now;
            wrap (''failed to record migration v'' @ itoa (mg_version m))
              (change (\<lambda>E. insert_row ''schema_migrations'' (version_row m now))) })))"

fun apply_migrations :: "bool \<Rightarrow> migration list \<Rightarrow> (unit, 'z) ires" where
  "apply_migrations pg [] = ret (Inr ())"
| "apply_migrations pg (m # ms) = check (apply_migration pg m) (\<lambda>_. apply_migrations pg ms)"

definition is_postgres :: "string \<Rightarrow> bool" where
  "is_postgres drv \<longleftrightarrow> to_lower drv \<in> {''postgres'', ''postgresql''}"

definition Run :: "string \<Rightarrow> (unit, 'z) ires" where
  "Run drv =
     check (wrap ''failed to init schema_migrations''
              (change (\<lambda>E. run_ddl E (schema_migrations (is_postgres drv))))) (\<lambda>_.
       apply_migrations (is_postgres drv) registry)"

section \<open>The index on usernames in any letter case\<close>

fun text_of :: "sql_value \<Rightarrow> string option" where
  "text_of (VText s) = Some s"
| "text_of _ = None"

definition usernames :: "catalog \<Rightarrow> string list option" where
  "usernames c =
     (case cat_tables c ''users'' of
        None \<Rightarrow> None
      | Some tb \<Rightarrow> those (map (\<lambda>r. text_of (r ''username'')) (tb_rows tb)))"

text \<open>The query: the names some other name equals under \<^verbatim>\<open>LOWER\<close>, sorted.\<close>

definition clashing :: "engine \<Rightarrow> string list \<Rightarrow> string list" where
  "clashing E ns =
     sort_key (sql_lower E) (sort
       (filter (\<lambda>n. length (filter (\<lambda>x. sql_lower E x = sql_lower E n) ns) > 1) ns))"

text \<open>One pass over the rows: a name joins the group of its lower-case form, or opens a new one.\<close>

fun add_name :: "string \<Rightarrow> (string \<times> string list) list \<Rightarrow> (string \<times> string list) list" where
  "add_name n [] = [(to_lower n, [n])]"
| "add_name n ((k, ns) # gs) =
     (if k = to_lower n then (k, ns @ [n]) # gs else (k, ns) # add_name n gs)"

definition group_names :: "string list \<Rightarrow> string list list" where
  "group_names ns = map snd (fold add_name ns [])"

definition idx_users_username_ci :: table_index where
  "idx_users_username_ci = \<lparr>ix_name = ''idx_users_username_ci'', ix_table = ''users'',
     ix_keys = [LowerKey ''username''], ix_where = Always, ix_unique = True\<rparr>"

definition EnsureUsernameIndex :: "(string list list, 'z) ires" where
  "EnsureUsernameIndex =
     check (read_catalog (\<lambda>E c. map_option (clashing E) (usernames c))) (\<lambda>names.
       let clashes = group_names names
       in if clashes \<noteq> [] then ret (Inr clashes)
          else check (change (\<lambda>E. run_ddl E (CreateIndex True idx_users_username_ci)))
                 (\<lambda>_. ret (Inr [])))"

end
