(* ===== verification/MigrationFacts.thy ===== *)
theory MigrationFacts
  imports Migrations "HOL-Library.Multiset"
begin

text \<open>
  What bringing a database up to date guarantees: migrations are applied whole, in order and once,
  however often the upgrade is interrupted; the schema they leave is the one the store's statements
  name; the sessions a logout could not reach are gone; and no two usernames clash under the index.
\<close>

section \<open>Running calls\<close>

lemma run_db_call:
  "run_state (db_call q) w =
     (if w_fault w (w_stmts w) then (Inl (ErrSQL Fault), w\<lparr>w_stmts := Suc (w_stmts w)\<rparr>)
      else case q (w_engine w) (in_catalog w) of
        None \<Rightarrow> (Inl (ErrSQL Fault), w\<lparr>w_stmts := Suc (w_stmts w)\<rparr>)
      | Some (x, c) \<Rightarrow> (Inr x, w\<lparr>w_stmts := Suc (w_stmts w), in_catalog := c\<rparr>))"
  by (simp add: db_call_def Let_def split: option.split)

lemma run_wrap:
  "run_state (wrap msg m) w =
     (case run_state m w of (Inl e, w') \<Rightarrow> (Inl (ErrOther msg), w') | (Inr x, w') \<Rightarrow> (Inr x, w'))"
  by (simp add: wrap_def split: prod.split sum.split)

text \<open>
  \<open>gives m P\<close>: a value \<open>x\<close> comes with a change of the catalog from \<open>c\<close> to \<open>c'\<close> such that \<open>P E c x c'\<close>, with
  \<open>E\<close> the engine, which stays. \<open>does m P\<close> also says that an error leaves the catalog alone.
\<close>

definition gives :: "('a, 'z) ires \<Rightarrow> (engine \<Rightarrow> catalog \<Rightarrow> 'a \<Rightarrow> catalog \<Rightarrow> bool) \<Rightarrow> bool" where
  "gives m P \<longleftrightarrow> (\<forall>w r w'. run_state m w = (r, w') \<longrightarrow> w_engine w' = w_engine w \<and>
     (\<forall>x. r = Inr x \<longrightarrow> P (w_engine w) (in_catalog w) x (in_catalog w')))"

definition does :: "('a, 'z) ires \<Rightarrow> (engine \<Rightarrow> catalog \<Rightarrow> 'a \<Rightarrow> catalog \<Rightarrow> bool) \<Rightarrow> bool" where
  "does m P \<longleftrightarrow> gives m P \<and> (\<forall>w e w'. run_state m w = (Inl e, w') \<longrightarrow> in_catalog w' = in_catalog w)"

lemma givesD:
  "gives m P \<Longrightarrow> run_state m w = (Inl e, w') \<Longrightarrow> w_engine w' = w_engine w"
  "gives m P \<Longrightarrow> run_state m w = (Inr x, w') \<Longrightarrow>
     w_engine w' = w_engine w \<and> P (w_engine w) (in_catalog w) x (in_catalog w')"
  by (simp_all add: gives_def)

lemma doesD:
  "does m P \<Longrightarrow> run_state m w = (Inl e, w') \<Longrightarrow>
     w_engine w' = w_engine w \<and> in_catalog w' = in_catalog w"
  "does m P \<Longrightarrow> run_state m w = (Inr x, w') \<Longrightarrow>
     w_engine w' = w_engine w \<and> P (w_engine w) (in_catalog w) x (in_catalog w')"
  by (simp_all add: does_def gives_def)

lemma givesI:
  assumes "\<And>w e w'. run_state m w = (Inl e, w') \<Longrightarrow> w_engine w' = w_engine w"
    and "\<And>w x w'. run_state m w = (Inr x, w') \<Longrightarrow>
      w_engine w' = w_engine w \<and> P (w_engine w) (in_catalog w) x (in_catalog w')"
  shows "gives m P"
  unfolding gives_def by (metis assms sum.exhaust)

lemma doesI:
  assumes "\<And>w e w'. run_state m w = (Inl e, w') \<Longrightarrow>
      w_engine w' = w_engine w \<and> in_catalog w' = in_catalog w"
    and "\<And>w x w'. run_state m w = (Inr x, w') \<Longrightarrow>
      w_engine w' = w_engine w \<and> P (w_engine w) (in_catalog w) x (in_catalog w')"
  shows "does m P"
  unfolding does_def using assms by (auto intro: givesI)

lemma does_gives: "does m P \<Longrightarrow> gives m P"
  by (simp add: does_def)

lemma does_change: "does (change f) (\<lambda>E c _ c'. f E c = Some c')"
  by (auto simp: does_def gives_def change_def run_db_call split: option.splits if_splits)

lemma does_read: "does (read_catalog f) (\<lambda>E c x c'. f E c = Some x \<and> c' = c)"
  by (auto simp: does_def gives_def read_catalog_def run_db_call split: option.splits if_splits)

lemma does_wrap: "does m P \<Longrightarrow> does (wrap msg m) P"
  by (auto simp: does_def gives_def run_wrap split: prod.splits sum.splits)

lemma does_weaken:
  "does m P \<Longrightarrow> (\<And>E c x c'. P E c x c' \<Longrightarrow> Q E c x c') \<Longrightarrow> does m Q"
  by (auto simp: does_def gives_def)

lemma does_ret: "does (ret (Inr y)) (\<lambda>E c x c'. x = y \<and> c' = c)"
  by (simp add: does_def gives_def)

lemma gives_check:
  assumes "gives m P" and "\<And>x. gives (k x) (Q x)"
  shows "gives (check m k) (\<lambda>E c y c'. \<exists>x c1. P E c x c1 \<and> Q x E c1 y c')"
proof (rule givesI)
  fix w e w' assume "run_state (check m k) w = (Inl e, w')"
  then show "w_engine w' = w_engine w"
    by (auto simp: run_check split: prod.splits sum.splits
        dest!: givesD [OF assms(1)] givesD [OF assms(2)])
next
  fix w y w' assume "run_state (check m k) w = (Inr y, w')"
  then obtain x w1 where "run_state m w = (Inr x, w1)" and "run_state (k x) w1 = (Inr y, w')"
    by (auto simp: run_check split: prod.splits sum.splits)
  with givesD(2) [OF assms(1) this(1)] givesD(2) [OF assms(2) this(2)]
  show "w_engine w' = w_engine w \<and> (\<exists>x c1. P (w_engine w) (in_catalog w) x c1 \<and>
      Q x (w_engine w) c1 y (in_catalog w'))" by auto
qed

text \<open>After a read, an error still leaves the catalog alone.\<close>

lemma does_check_read:
  assumes "does m (\<lambda>E c x c'. P E c x \<and> c' = c)" and "\<And>x. does (k x) (Q x)"
  shows "does (check m k) (\<lambda>E c y c'. \<exists>x. P E c x \<and> Q x E c y c')"
proof (rule doesI)
  fix w e w' assume "run_state (check m k) w = (Inl e, w')"
  then show "w_engine w' = w_engine w \<and> in_catalog w' = in_catalog w"
    by (auto simp: run_check split: prod.splits sum.splits
        dest!: doesD [OF assms(1)] doesD [OF assms(2)])
next
  fix w y w' assume "run_state (check m k) w = (Inr y, w')"
  then obtain x w1 where "run_state m w = (Inr x, w1)" and "run_state (k x) w1 = (Inr y, w')"
    by (auto simp: run_check split: prod.splits sum.splits)
  with doesD(2) [OF assms(1) this(1)] doesD(2) [OF assms(2) this(2)]
  show "w_engine w' = w_engine w \<and> (\<exists>x. P (w_engine w) (in_catalog w) x \<and>
      Q x (w_engine w) (in_catalog w) y (in_catalog w'))" by auto
qed

lemma gives_time:
  "(\<And>t. gives (k t) (Q t)) \<Longrightarrow>
     gives (do { t \<leftarrow> time_Now; k t }) (\<lambda>E c y c'. \<exists>t. Q t E c y c')"
  unfolding gives_def by (fastforce split: prod.splits)

lemma run_catalog_tx:
  "run_state (catalog_tx a b body) w =
     (case run_state (wrap a (read_catalog (\<lambda>E c. Some ()))) w of
        (Inl e, w1) \<Rightarrow> (Inl e, w1)
      | (Inr _, w1) \<Rightarrow>
          (case run_state (check body (\<lambda>_. wrap b (read_catalog (\<lambda>E c. Some ())))) w1 of
             (Inl e, w2) \<Rightarrow> (Inl e, w2\<lparr>in_catalog := in_catalog w1\<rparr>)
           | (Inr _, w2) \<Rightarrow> (Inr (), w2)))"
  by (auto simp: catalog_tx_def run_check split: prod.splits sum.splits)

lemma does_nothing: "does (wrap b (read_catalog (\<lambda>E c. Some ()))) (\<lambda>E c _ c'. c' = c)"
  using does_wrap [OF does_read [of "\<lambda>E c. Some ()"]] by (simp add: does_def gives_def)

lemma does_tx:
  assumes "gives body P"
  shows "does (catalog_tx a b body) (\<lambda>E c _ c'. \<exists>x. P E c x c')"
proof -
  have body: "gives (check body (\<lambda>_. wrap b (read_catalog (\<lambda>E c. Some ()))))
      (\<lambda>E c y c'. \<exists>x c1. P E c x c1 \<and> c' = c1)"
    using gives_check [OF assms does_gives [OF does_nothing]] by simp
  show ?thesis
    by (rule doesI)
      (auto simp: run_catalog_tx split: prod.splits sum.splits
        dest!: doesD [OF does_nothing] givesD [OF body])
qed

section \<open>The specification: migrations applied whole\<close>

definition recorded :: "migration \<Rightarrow> catalog \<Rightarrow> bool" where
  "recorded m c \<longleftrightarrow> (case version_rows (mg_version m) c of None \<Rightarrow> False | Some n \<Rightarrow> n > 0)"

definition upgrade :: "engine \<Rightarrow> bool \<Rightarrow> migration \<Rightarrow> time \<Rightarrow> catalog \<Rightarrow> catalog option" where
  "upgrade E pg m t c =
     (if recorded m c then Some c
      else case run_ddls E (ddl_of pg m) c of
        None \<Rightarrow> None
      | Some c1 \<Rightarrow> insert_row ''schema_migrations'' (version_row m t) c1)"

inductive upgraded :: "engine \<Rightarrow> bool \<Rightarrow> migration list \<Rightarrow> catalog \<Rightarrow> catalog \<Rightarrow> bool"
  for E pg where
  upgraded_Nil: "upgraded E pg [] c c"
| upgraded_Cons: "upgrade E pg m t c = Some c1 \<Longrightarrow> upgraded E pg ms c1 c2 \<Longrightarrow> upgraded E pg (m # ms) c c2"

inductive_cases upgraded_NilE [elim!]: "upgraded E pg [] c c'"
inductive_cases upgraded_ConsE [elim!]: "upgraded E pg (m # ms) c c'"

lemma upgraded_append:
  "upgraded E pg ms c c1 \<Longrightarrow> upgraded E pg ns c1 c2 \<Longrightarrow> upgraded E pg (ms @ ns) c c2"
  by (induction rule: upgraded.induct) (auto intro: upgraded.intros)

lemma does_check_version:
  "does (check_version m) (\<lambda>E c n c'. version_rows (mg_version m) c = Some n \<and> c' = c)"
  by (rule doesI) (auto simp: check_version_def split: prod.splits sum.splits
      dest!: doesD [OF does_read] doesD [OF does_wrap [OF does_read]])

lemma does_apply_tx:
  "does (catalog_tx a b (check (wrap e (change (\<lambda>E. run_ddls E (ddl_of pg m)))) (\<lambda>_. do {
            now \<leftarrow> time_Now;
            wrap e' (change (\<lambda>E. insert_row ''schema_migrations'' (version_row m now))) })))
     (\<lambda>E c _ c'. \<exists>t c1. run_ddls E (ddl_of pg m) c = Some c1 \<and>
        insert_row ''schema_migrations'' (version_row m t) c1 = Some c')"
proof -
  have "gives (do { now \<leftarrow> time_Now;
           wrap e' (change (\<lambda>E. insert_row ''schema_migrations'' (version_row m now))) })
      (\<lambda>E c _ c'. \<exists>t. insert_row ''schema_migrations'' (version_row m t) c = Some c')"
    by (rule gives_time [OF does_gives [OF does_wrap [OF does_change]]])
  from gives_check [OF does_gives [OF does_wrap [OF does_change]] this]
  show ?thesis by (rule does_weaken [OF does_tx]) auto
qed

lemma does_apply: "does (apply_migration pg m) (\<lambda>E c _ c'. \<exists>t. upgrade E pg m t c = Some c')"
proof -
  let ?tx = "catalog_tx (''failed to begin migration tx for v'' @ itoa (mg_version m))
         (''failed to commit migration v'' @ itoa (mg_version m))
         (check (wrap (''failed executing migration v'' @ itoa (mg_version m) @ '' ('' @ mg_name m @ '')'')
                   (change (\<lambda>E. run_ddls E (ddl_of pg m)))) (\<lambda>_. do {
            now \<leftarrow> time_Now;
            wrap (''failed to record migration v'' @ itoa (mg_version m))
              (change (\<lambda>E. insert_row ''schema_migrations'' (version_row m now))) }))"
  have "does (if n > 0 then ret (Inr ()) else ?tx)
      (\<lambda>E c _ c'. if n > 0 then c' = c
         else \<exists>t c1. run_ddls E (ddl_of pg m) c = Some c1 \<and>
           insert_row ''schema_migrations'' (version_row m t) c1 = Some c')" for n :: nat
    by (cases "n > 0") (simp_all add: does_weaken [OF does_ret] does_apply_tx)
  from does_check_read [OF does_check_version this]
  show ?thesis
    unfolding apply_migration_def
    by (rule does_weaken) (auto simp: upgrade_def recorded_def split: if_splits)
qed

lemma upgrade_steps:
  assumes "run_state (apply_migrations pg ms) w = (r, w')"
  shows "w_engine w' = w_engine w \<and>
    (\<exists>k. upgraded (w_engine w) pg (take k ms) (in_catalog w) (in_catalog w') \<and>
      (case r of Inl e \<Rightarrow> True | Inr _ \<Rightarrow> k = length ms))"
  using assms
proof (induction ms arbitrary: w)
  case Nil
  then show ?case by (auto intro: upgraded.intros)
next
  case (Cons m ms)
  obtain r1 w1 where r1: "run_state (apply_migration pg m) w = (r1, w1)" by fastforce
  show ?case
  proof (cases r1)
    case (Inl e)
    then have "in_catalog w' = in_catalog w" "w_engine w' = w_engine w" "\<exists>e. r = Inl e"
      using Cons.prems r1 doesD(1) [OF does_apply r1 [unfolded Inl]] by (auto simp: run_check)
    then show ?thesis by (auto intro!: exI [of _ 0] upgraded.intros)
  next
    case (Inr x)
    then have "run_state (apply_migrations pg ms) w1 = (r, w')"
      using Cons.prems r1 by (simp add: run_check)
    from Cons.IH [OF this] obtain k where
      k: "upgraded (w_engine w1) pg (take k ms) (in_catalog w1) (in_catalog w')"
         "case r of Inl e \<Rightarrow> True | Inr _ \<Rightarrow> k = length ms" and E: "w_engine w' = w_engine w1"
      by blast
    note m = doesD(2) [OF does_apply r1 [unfolded Inr]]
    then obtain t where "upgrade (w_engine w) pg m t (in_catalog w) = Some (in_catalog w1)" by blast
    with k m have "upgraded (w_engine w) pg (take (Suc k) (m # ms)) (in_catalog w) (in_catalog w')"
      by (auto intro: upgraded.intros)
    with k(2) E m show ?thesis
      by (intro conjI exI [of _ "Suc k"]) (auto split: sum.splits)
  qed
qed

section \<open>Interrupted upgrades\<close>

definition with_versions :: "bool \<Rightarrow> catalog \<Rightarrow> catalog" where
  "with_versions pg c =
     (case cat_tables c ''schema_migrations'' of
        Some tb \<Rightarrow> c
      | None \<Rightarrow> put_table ''schema_migrations''
          \<lparr>tb_columns = [nullable ''version'' INTEGER,
             required ''name'' (if pg then VARCHAR 255 else TEXT),
             required ''applied_at'' (if pg then TIMESTAMPTZ else DATETIME)],
           tb_primary_key = [''version''], tb_rows = []\<rparr> c)"

lemma run_schema_migrations: "run_ddl E (schema_migrations pg) c = Some (with_versions pg c)"
  by (simp add: schema_migrations_def with_versions_def split: option.split)

lemma with_versions_id: "cat_tables c ''schema_migrations'' \<noteq> None \<Longrightarrow> with_versions pg c = c"
  by (auto simp: with_versions_def)

lemma with_versions_exists: "cat_tables (with_versions pg c) ''schema_migrations'' \<noteq> None"
  by (auto simp: with_versions_def split: option.split)

text \<open>No migration touches the table of versions.\<close>

lemma registry_tables:
  "list_all (\<lambda>m. ''schema_migrations'' \<notin> set (map ddl_table (mg_sqlite m @ mg_postgres m))) registry"
  by code_simp

lemma registry_leaves_versions:
  assumes "m \<in> set registry" and "run_ddls E (ddl_of pg m) c = Some c'"
  shows "cat_tables c' ''schema_migrations'' = cat_tables c ''schema_migrations''"
proof (rule run_ddls_other [OF assms(2)])
  show "''schema_migrations'' \<notin> ddl_table ` set (ddl_of pg m)"
    using assms(1) registry_tables by (auto simp: list_all_iff ddl_of_def image_Un)
qed

lemma insert_version_recorded:
  assumes "insert_row ''schema_migrations'' (version_row m t) c = Some c'"
  shows "recorded m c'" and "recorded m' c \<Longrightarrow> recorded m' c'"
    and "cat_tables c' ''schema_migrations'' \<noteq> None"
  using assms by (auto simp: recorded_def version_rows_def insert_row_def version_row_def
      split: option.splits if_splits)

lemma recorded_cong:
  "cat_tables c' ''schema_migrations'' = cat_tables c ''schema_migrations'' \<Longrightarrow>
     recorded m c' = recorded m c"
  by (simp add: recorded_def version_rows_def)

lemma upgrade_versions:
  assumes up: "upgrade E pg m t c = Some c'" and m: "m \<in> set registry"
  shows "recorded m c'" and "recorded m' c \<Longrightarrow> recorded m' c'"
    and "cat_tables c ''schema_migrations'' \<noteq> None \<Longrightarrow> cat_tables c' ''schema_migrations'' \<noteq> None"
proof -
  consider "recorded m c" "c' = c"
    | c1 where "run_ddls E (ddl_of pg m) c = Some c1"
        "insert_row ''schema_migrations'' (version_row m t) c1 = Some c'"
    using up by (auto simp: upgrade_def split: if_splits option.splits)
  then have "recorded m c' \<and> (recorded m' c \<longrightarrow> recorded m' c') \<and>
      (cat_tables c ''schema_migrations'' \<noteq> None \<longrightarrow> cat_tables c' ''schema_migrations'' \<noteq> None)"
  proof cases
    case 2
    with insert_version_recorded [OF 2(2)] recorded_cong [OF registry_leaves_versions [OF m 2(1)]]
    show ?thesis by simp
  qed simp
  then show "recorded m c'" and "recorded m' c \<Longrightarrow> recorded m' c'"
    and "cat_tables c ''schema_migrations'' \<noteq> None \<Longrightarrow> cat_tables c' ''schema_migrations'' \<noteq> None"
    by blast+
qed

lemma upgraded_versions:
  assumes "upgraded E pg ms c c'" and "set ms \<subseteq> set registry"
  shows "\<forall>m \<in> set ms. recorded m c'" and "recorded m' c \<Longrightarrow> recorded m' c'"
    and "cat_tables c ''schema_migrations'' \<noteq> None \<Longrightarrow> cat_tables c' ''schema_migrations'' \<noteq> None"
proof -
  have "(\<forall>m \<in> set ms. recorded m c') \<and> (\<forall>m'. recorded m' c \<longrightarrow> recorded m' c') \<and>
      (cat_tables c ''schema_migrations'' \<noteq> None \<longrightarrow> cat_tables c' ''schema_migrations'' \<noteq> None)"
    using assms
  proof (induction rule: upgraded.induct)
    case (upgraded_Cons m t c c1 ms c2)
    then have "m \<in> set registry" and "set ms \<subseteq> set registry" by auto
    with upgrade_versions [OF upgraded_Cons.hyps(1)] upgraded_Cons.IH show ?case by auto
  qed simp
  then show "\<forall>m \<in> set ms. recorded m c'" and "recorded m' c \<Longrightarrow> recorded m' c'"
    and "cat_tables c ''schema_migrations'' \<noteq> None \<Longrightarrow> cat_tables c' ''schema_migrations'' \<noteq> None"
    by blast+
qed

lemma upgraded_recorded: "upgraded E pg ms c c' \<Longrightarrow> \<forall>m \<in> set ms. recorded m c \<Longrightarrow> c' = c"
  by (induction rule: upgraded.induct) (auto simp: upgrade_def)

lemma upgraded_split:
  "upgraded E pg (ms @ ns) c c' \<Longrightarrow> \<exists>c1. upgraded E pg ms c c1 \<and> upgraded E pg ns c1 c'"
  by (induction ms arbitrary: c) (auto intro: upgraded.intros, (blast intro: upgraded.intros)+)

lemma upgraded_resume:
  assumes "upgraded E pg (take k registry) c c1" and "upgraded E pg registry c1 c2"
  shows "upgraded E pg registry c c2"
proof -
  have sub: "set (take k registry) \<subseteq> set registry" by (rule set_take_subset)
  obtain c' where c': "upgraded E pg (take k registry) c1 c'" "upgraded E pg (drop k registry) c' c2"
    using upgraded_split [of E pg "take k registry" "drop k registry"] assms(2) by auto
  with upgraded_recorded [OF c'(1) upgraded_versions(1) [OF assms(1) sub]]
  have "upgraded E pg (drop k registry) c1 c2" by simp
  from upgraded_append [OF assms(1) this] show ?thesis by simp
qed

text \<open>One run.\<close>

lemma run_Run:
  assumes "run_state (Run drv) w = (r, w')"
  shows "(\<exists>e. r = Inl e) \<and> in_catalog w' = in_catalog w \<or>
    (\<exists>k. upgraded (w_engine w) (is_postgres drv) (take k registry)
        (with_versions (is_postgres drv) (in_catalog w)) (in_catalog w') \<and>
      (case r of Inl e \<Rightarrow> True | Inr _ \<Rightarrow> k = length registry))"
proof -
  let ?init = "wrap ''failed to init schema_migrations''
      (change (\<lambda>E. run_ddl E (schema_migrations (is_postgres drv)))) :: (unit, 'a) ires"
  obtain r1 w1 where r1: "run_state ?init w = (r1, w1)" by fastforce
  note init = doesD [OF does_wrap [OF does_change [of "\<lambda>E. run_ddl E (schema_migrations (is_postgres drv))"]]]
  show ?thesis
  proof (cases r1)
    case (Inl e)
    then show ?thesis using assms r1 init(1) [OF r1 [unfolded Inl]] by (auto simp: Run_def run_check)
  next
    case (Inr x)
    then have "run_state (apply_migrations (is_postgres drv) registry) w1 = (r, w')"
      using assms r1 by (simp add: Run_def run_check)
    from upgrade_steps [OF this] init(2) [OF r1 [unfolded Inr]]
    show ?thesis by (simp add: run_schema_migrations)
  qed
qed

text \<open>
  C17: an upgrade interrupted at any call to the database has applied whole migrations only, in the
  registry's order; running it again carries on from there, so that the catalog ends as after one
  uninterrupted upgrade, each migration applied once; and after an upgrade that succeeded another
  changes nothing.
\<close>

theorem Run_resumes:
  "case run_state (Run drv) w of (r, w1) \<Rightarrow>
     let E = w_engine w; pg = is_postgres drv; c0 = with_versions pg (in_catalog w) in
     (in_catalog w1 = in_catalog w \<or> (\<exists>k. upgraded E pg (take k registry) c0 (in_catalog w1))) \<and>
     (case run_state (Run drv) (w2\<lparr>w_engine := E, in_catalog := in_catalog w1\<rparr>) of
        (Inl e, w3) \<Rightarrow> True
      | (Inr _, w3) \<Rightarrow> upgraded E pg registry c0 (in_catalog w3) \<and>
          (case r of Inl e \<Rightarrow> True | Inr _ \<Rightarrow> in_catalog w3 = in_catalog w1))"
proof -
  obtain r w1 where r: "run_state (Run drv) w = (r, w1)" by fastforce
  let ?E = "w_engine w" and ?pg = "is_postgres drv"
  let ?c0 = "with_versions ?pg (in_catalog w)"
  let ?w2 = "w2\<lparr>w_engine := ?E, in_catalog := in_catalog w1\<rparr>"
  obtain r3 w3 where r3: "run_state (Run drv) ?w2 = (r3, w3)" by fastforce
  note first = run_Run [OF r] and second = run_Run [OF r3]
  have "upgraded ?E ?pg registry ?c0 (in_catalog w3) \<and>
      (case r of Inl e \<Rightarrow> True | Inr _ \<Rightarrow> in_catalog w3 = in_catalog w1)" if "r3 = Inr u" for u
  proof -
    have up: "upgraded ?E ?pg registry (with_versions ?pg (in_catalog w1)) (in_catalog w3)"
      using second that by auto
    from first show ?thesis
    proof (elim disjE exE conjE)
      fix e assume "r = Inl e" and "in_catalog w1 = in_catalog w"
      with up show ?thesis by simp
    next
      fix k assume k: "upgraded ?E ?pg (take k registry) ?c0 (in_catalog w1)"
        and all: "case r of Inl e \<Rightarrow> True | Inr _ \<Rightarrow> k = length registry"
      have sub: "set (take k registry) \<subseteq> set registry" by (rule set_take_subset)
      have "with_versions ?pg (in_catalog w1) = in_catalog w1"
        by (rule with_versions_id [OF upgraded_versions(3) [OF k sub with_versions_exists]])
      with up have up: "upgraded ?E ?pg registry (in_catalog w1) (in_catalog w3)" by simp
      moreover have "in_catalog w3 = in_catalog w1" if "k = length registry"
        using upgraded_recorded [OF up] upgraded_versions(1) [OF k sub] that by simp
      ultimately show ?thesis using upgraded_resume [OF k] all by (auto split: sum.splits)
    qed
  qed
  then show ?thesis using first by (cases r3) (auto simp: r r3 Let_def)
qed

section \<open>The schema the store's statements name\<close>

text \<open>
  What internal/store/sqlstore.go asks of a table: the columns it scans, with the kind of the field
  and whether it may be \<^verbatim>\<open>NULL\<close>; the columns its \<^verbatim>\<open>INSERT\<close> gives; the key of its \<^verbatim>\<open>ON CONFLICT\<close> and of
  the lookups by key; the columns whose duplicates it expects to be refused; and the references
  along which a deletion cascades.
\<close>

datatype kind = KText | KInt | KBool | KTime

record table_use =
  use_table :: string
  use_scanned :: "(string \<times> kind \<times> bool) list"
  use_inserted :: "string list"
  use_key :: "string list"
  use_unique :: "string list"
  use_references :: "(string \<times> string \<times> string) list"

definition userColumns :: "string list" where
  "userColumns =
     [''id'', ''username'', ''email'', ''display_name'', ''password_hash'', ''role'', ''status'',
      ''sso_provider'', ''sso_subject'', ''scim_managed'', ''push_device_id'',
      ''must_change_password'', ''created_at'', ''updated_at'', ''last_login_at'']"

definition user_kinds :: "(kind \<times> bool) list" where
  "user_kinds = replicate 9 (KText, False) @
     [(KBool, False), (KText, False), (KBool, False), (KTime, False), (KTime, False), (KTime, True)]"

definition store_tables :: "table_use list" where
  "store_tables =
     [\<lparr>use_table = ''users'', use_scanned = zip userColumns user_kinds, use_inserted = userColumns,
        use_key = [''id''], use_unique = [''username''], use_references = []\<rparr>,
      \<lparr>use_table = ''sessions'',
        use_scanned = [(''token_hash'', KText, False), (''user_id'', KText, False),
          (''user_agent'', KText, False), (''ip_address'', KText, False), (''created_at'', KTime, False),
          (''expires_at'', KTime, False), (''sso_sid'', KText, False)],
        use_inserted = [''token_hash'', ''user_id'', ''user_agent'', ''ip_address'', ''created_at'',
          ''expires_at'', ''sso_sid''],
        use_key = [''token_hash''], use_unique = [],
        use_references = [(''user_id'', ''users'', ''id'')]\<rparr>,
      \<lparr>use_table = ''groups'',
        use_scanned = [(''id'', KText, False), (''display_name'', KText, False),
          (''external_id'', KText, False), (''created_at'', KTime, False), (''updated_at'', KTime, False)],
        use_inserted = [''id'', ''display_name'', ''external_id'', ''created_at'', ''updated_at''],
        use_key = [''id''], use_unique = [''display_name''], use_references = []\<rparr>,
      \<lparr>use_table = ''group_members'',
        use_scanned = [(''group_id'', KText, False), (''user_id'', KText, False)],
        use_inserted = [''group_id'', ''user_id''], use_key = [''group_id'', ''user_id''],
        use_unique = [],
        use_references = [(''group_id'', ''groups'', ''id''), (''user_id'', ''users'', ''id'')]\<rparr>,
      \<lparr>use_table = ''audit_records'',
        use_scanned = [(''id'', KInt, False), (''user_id'', KText, False), (''action'', KText, False),
          (''resource'', KText, False), (''details'', KText, False), (''ip_address'', KText, False),
          (''created_at'', KTime, False)],
        use_inserted = [''user_id'', ''action'', ''resource'', ''details'', ''ip_address'', ''created_at''],
        use_key = [''id''], use_unique = [], use_references = []\<rparr>,
      \<lparr>use_table = ''server_settings'',
        use_scanned = [(''key'', KText, False), (''value'', KText, False)],
        use_inserted = [''key'', ''value'', ''updated_at''],
        use_key = [''key''], use_unique = [], use_references = []\<rparr>,
      \<lparr>use_table = ''sso_logouts'',
        use_scanned = [(''sid'', KText, False), (''expires_at'', KTime, False)],
        use_inserted = [''sid'', ''expires_at''],
        use_key = [''sid''], use_unique = [], use_references = []\<rparr>,
      \<lparr>use_table = ''sso_subject_logouts'',
        use_scanned = [(''provider'', KText, False), (''subject'', KText, False),
          (''cutoff'', KTime, False), (''expires_at'', KTime, False)],
        use_inserted = [''provider'', ''subject'', ''cutoff'', ''expires_at''],
        use_key = [''provider'', ''subject''], use_unique = [], use_references = []\<rparr>]"

fun of_kind :: "sql_type \<Rightarrow> kind \<Rightarrow> bool" where
  "of_kind TEXT k = (k = KText)"
| "of_kind (VARCHAR n) k = (k = KText)"
| "of_kind INTEGER k = (k = KInt \<or> k = KBool)"
| "of_kind AUTOINCREMENT k = (k = KInt)"
| "of_kind BIGINT k = (k = KInt)"
| "of_kind BIGSERIAL k = (k = KInt)"
| "of_kind BOOLEAN k = (k = KBool)"
| "of_kind DATETIME k = (k = KTime)"
| "of_kind TIMESTAMPTZ k = (k = KTime)"

text \<open>A key column is never \<^verbatim>\<open>NULL\<close>: the store binds a string to it. A column without a default that
  takes no \<^verbatim>\<open>NULL\<close> is inserted.\<close>

definition serves :: "table \<Rightarrow> table_use \<Rightarrow> bool" where
  "serves tb u \<longleftrightarrow>
     list_all (\<lambda>(n, k, opt). list_ex (\<lambda>c. col_name c = n \<and> of_kind (col_type c) k \<and>
         (opt \<or> col_not_null c \<or> n \<in> set (use_key u))) (tb_columns tb)) (use_scanned u) \<and>
     list_all (has_column tb) (use_inserted u) \<and>
     list_all (\<lambda>c. \<not> col_not_null c \<or> col_default c \<noteq> None \<or> col_name c \<in> set (use_inserted u))
       (tb_columns tb) \<and>
     tb_primary_key tb = use_key u \<and>
     list_all (\<lambda>n. list_ex (\<lambda>c. col_name c = n \<and> col_unique c) (tb_columns tb)) (use_unique u) \<and>
     list_all (\<lambda>(n, t, k). list_ex (\<lambda>c. col_name c = n \<and> col_references c = Some (t, k)) (tb_columns tb))
       (use_references u)"

definition serves_store :: "catalog \<Rightarrow> bool" where
  "serves_store c \<longleftrightarrow>
     list_all (\<lambda>u. case cat_tables c (use_table u) of None \<Rightarrow> False | Some tb \<Rightarrow> serves tb u) store_tables"

fun upgrade_all :: "engine \<Rightarrow> bool \<Rightarrow> time list \<Rightarrow> migration list \<Rightarrow> catalog \<Rightarrow> catalog option" where
  "upgrade_all E pg (t # ts) (m # ms) c =
     (case upgrade E pg m t c of None \<Rightarrow> None | Some c' \<Rightarrow> upgrade_all E pg ts ms c')"
| "upgrade_all E pg [] [] c = Some c"
| "upgrade_all E pg ts ms c = None"

lemma fresh_sqlite:
  "(case upgrade_all E False [t1, t2, t3, t4, t5, t6, t7, t8, t9, t10] registry
       (with_versions False empty_catalog) of None \<Rightarrow> False | Some c \<Rightarrow> serves_store c)"
  by code_simp

lemma fresh_postgres:
  "(case upgrade_all E True [t1, t2, t3, t4, t5, t6, t7, t8, t9, t10] registry
       (with_versions True empty_catalog) of None \<Rightarrow> False | Some c \<Rightarrow> serves_store c)"
  by code_simp

lemma upgraded_all:
  "upgraded E pg ms c c' \<longleftrightarrow> (\<exists>ts. length ts = length ms \<and> upgrade_all E pg ts ms c = Some c')"
proof
  show "\<exists>ts. length ts = length ms \<and> upgrade_all E pg ts ms c = Some c'" if "upgraded E pg ms c c'"
    using that
  proof induction
    case (upgraded_Cons m t c c1 ms c2)
    then obtain ts where "length ts = length ms" "upgrade_all E pg ts ms c1 = Some c2" by blast
    with upgraded_Cons.hyps(1) show ?case by (intro exI [of _ "t # ts"]) simp
  qed simp
  show "upgraded E pg ms c c'" if "\<exists>ts. length ts = length ms \<and> upgrade_all E pg ts ms c = Some c'"
    using that
  proof (elim exE conjE)
    fix ts assume "length ts = length ms" and "upgrade_all E pg ts ms c = Some c'"
    then show ?thesis
      by (induction E pg ts ms c rule: upgrade_all.induct)
        (auto split: option.splits intro: upgraded.intros)
  qed
qed

lemma fresh:
  assumes "length ts = length registry"
  shows "case upgrade_all E pg ts registry (with_versions pg empty_catalog) of
           None \<Rightarrow> False | Some c \<Rightarrow> serves_store c"
proof -
  have "length ts = 10" using assms by (simp add: registry_def)
  then obtain t1 t2 t3 t4 t5 t6 t7 t8 t9 t10 where "ts = [t1, t2, t3, t4, t5, t6, t7, t8, t9, t10]"
    by (auto simp: numeral_eq_Suc length_Suc_conv)
  with fresh_sqlite fresh_postgres show ?thesis by (cases pg) simp_all
qed

text \<open>A database that refuses nothing carries out every migration that can be.\<close>

lemma healthy_call:
  assumes "healthy w" and "q (w_engine w) (in_catalog w) = Some (x, c)"
  shows "run_state (db_call q) w = (Inr x, w\<lparr>w_stmts := Suc (w_stmts w), in_catalog := c\<rparr>)"
  using assms by (simp add: run_db_call healthy_def)

lemma healthy_apply:
  assumes "healthy w" and "cat_tables (in_catalog w) ''schema_migrations'' \<noteq> None"
    and "\<And>t. upgrade (w_engine w) pg m t (in_catalog w) \<noteq> None"
  obtains w' where "run_state (apply_migration pg m) w = (Inr (), w')" and "healthy w'"
proof -
  obtain n where n: "version_rows (mg_version m) (in_catalog w) = Some n"
    using assms(2) by (auto simp: version_rows_def)
  have reads: "run_state (check_version m) w = (Inr n, w\<lparr>w_stmts := Suc (w_stmts w)\<rparr>)"
    using assms(1) n by (simp add: check_version_def read_catalog_def healthy_call)
  show thesis
  proof (cases "n > 0")
    case True
    with that [of "w\<lparr>w_stmts := Suc (w_stmts w)\<rparr>"] show thesis
      using assms(1) by (simp add: apply_migration_def run_check reads)
  next
    case False
    then have new: "\<not> recorded m (in_catalog w)" by (simp add: recorded_def n)
    obtain c1 where c1: "run_ddls (w_engine w) (ddl_of pg m) (in_catalog w) = Some c1"
      using assms(3) new by (fastforce simp: upgrade_def split: option.splits)
    obtain c2 where c2: "insert_row ''schema_migrations'' (version_row m (w_clock w (w_ticks w))) c1 = Some c2"
      using assms(3) [of "w_clock w (w_ticks w)"] new c1 by (auto simp: upgrade_def)
    let ?tx = "catalog_tx (''failed to begin migration tx for v'' @ itoa (mg_version m))
         (''failed to commit migration v'' @ itoa (mg_version m))
         (check (wrap (''failed executing migration v'' @ itoa (mg_version m) @ '' ('' @ mg_name m @ '')'')
                   (change (\<lambda>E. run_ddls E (ddl_of pg m)))) (\<lambda>_. do {
            now \<leftarrow> time_Now;
            wrap (''failed to record migration v'' @ itoa (mg_version m))
              (change (\<lambda>E. insert_row ''schema_migrations'' (version_row m now))) }))"
    have "\<exists>w'. run_state ?tx (w\<lparr>w_stmts := Suc (w_stmts w)\<rparr>) = (Inr (), w') \<and> healthy w'"
      using assms(1) c1 c2
      by (simp add: run_catalog_tx run_wrap run_check change_def read_catalog_def healthy_call healthy_def)
    with False that show thesis by (auto simp: apply_migration_def run_check reads)
  qed
qed

lemma healthy_apply_migrations:
  assumes "healthy w" and "cat_tables (in_catalog w) ''schema_migrations'' \<noteq> None"
    and "\<And>ts. length ts = length ms \<Longrightarrow> upgrade_all (w_engine w) pg ts ms (in_catalog w) \<noteq> None"
    and "set ms \<subseteq> set registry"
  shows "result (apply_migrations pg ms) w = Inr ()"
  using assms
proof (induction ms arbitrary: w)
  case (Cons m ms)
  have each: "upgrade (w_engine w) pg m t (in_catalog w) \<noteq> None" for t
    using Cons.prems(3) [of "t # replicate (length ms) 0"] by (auto split: option.splits)
  obtain w1 where w1: "run_state (apply_migration pg m) w = (Inr (), w1)" and healthy: "healthy w1"
    using healthy_apply [OF Cons.prems(1,2) each] by blast
  obtain t where E: "w_engine w1 = w_engine w"
    and t: "upgrade (w_engine w) pg m t (in_catalog w) = Some (in_catalog w1)"
    using doesD(2) [OF does_apply w1] by blast
  have exists: "cat_tables (in_catalog w1) ''schema_migrations'' \<noteq> None"
    using upgrade_versions(3) [OF t] Cons.prems(2,4) by simp
  have rest: "upgrade_all (w_engine w1) pg ts ms (in_catalog w1) \<noteq> None" if "length ts = length ms" for ts
    using Cons.prems(3) [of "t # ts"] that by (simp add: t E)
  have "result (apply_migrations pg ms) w1 = Inr ()"
    using Cons.IH [OF healthy exists rest] Cons.prems(4) by simp
  then show ?case by (simp add: result_def run_check w1)
qed (simp add: result_def)

text \<open>
  C21: a new database that refuses nothing, SQLite or PostgreSQL, is brought up to date, and the schema
  it then has is the one the store's statements name: every column they scan exists with the type of
  its field, no column they leave out is required, and keys, unique columns and references are those
  the model of the store enforces.
\<close>

theorem fresh_database_serves_store:
  "case run_state (Run drv) (w\<lparr>w_fault := (\<lambda>_. False), in_catalog := empty_catalog\<rparr>) of
     (r, w') \<Rightarrow> r = Inr () \<and> serves_store (in_catalog w')"
proof -
  let ?w = "w\<lparr>w_fault := (\<lambda>_. False), in_catalog := empty_catalog\<rparr>" and ?pg = "is_postgres drv"
  let ?c0 = "with_versions ?pg empty_catalog"
  let ?w1 = "?w\<lparr>w_stmts := Suc (w_stmts w), in_catalog := ?c0\<rparr>"
  have "healthy ?w" by (simp add: healthy_def)
  then have init: "run_state (wrap ''failed to init schema_migrations''
      (change (\<lambda>E. run_ddl E (schema_migrations ?pg)))) ?w = (Inr (), ?w1)"
    by (simp add: run_wrap change_def healthy_call run_schema_migrations)
  have "result (apply_migrations ?pg registry) ?w1 = Inr ()"
  proof (rule healthy_apply_migrations)
    fix ts :: "time list" assume "length ts = length registry"
    from fresh [OF this, of "w_engine ?w1" ?pg]
    show "upgrade_all (w_engine ?w1) ?pg ts registry (in_catalog ?w1) \<noteq> None"
      by (auto split: option.splits)
  qed (simp_all add: healthy_def with_versions_exists)
  then obtain w' where run: "run_state (Run drv) ?w = (Inr (), w')"
    by (simp add: Run_def run_check init result_def) (metis prod.collapse)
  from run_Run [OF this] have "upgraded (w_engine ?w) ?pg registry ?c0 (in_catalog w')" by auto
  then obtain ts where "length ts = length registry"
      "upgrade_all (w_engine ?w) ?pg ts registry ?c0 = Some (in_catalog w')"
    by (auto simp: upgraded_all)
  with fresh [OF this(1), of "w_engine ?w" ?pg] have "serves_store (in_catalog w')" by simp
  with run show ?thesis by simp
qed

section \<open>Sessions a logout could not reach\<close>

definition table_rows :: "string \<Rightarrow> catalog \<Rightarrow> row list" where
  "table_rows n c = (case cat_tables c n of None \<Rightarrow> [] | Some tb \<Rightarrow> tb_rows tb)"

text \<open>The account a session row names is one of an identity provider.\<close>

definition sso_account :: "catalog \<Rightarrow> sql_value \<Rightarrow> bool" where
  "sso_account c v \<longleftrightarrow> v \<noteq> VNull \<and>
     list_ex (\<lambda>u. u ''id'' = v \<and> u ''sso_provider'' \<notin> {VNull, VText ''local''}) (table_rows ''users'' c)"

lemma upgrade_other:
  assumes "upgrade E pg m t c = Some c'" and "n \<notin> ddl_table ` set (ddl_of pg m)"
    and "n \<noteq> ''schema_migrations''"
  shows "cat_tables c' n = cat_tables c n"
proof (cases "recorded m c")
  case False
  then obtain c1 where "run_ddls E (ddl_of pg m) c = Some c1"
      and "insert_row ''schema_migrations'' (version_row m t) c1 = Some c'"
    using assms(1) by (auto simp: upgrade_def split: option.splits)
  with run_ddls_other [OF this(1) assms(2)] insert_row_other [OF this(2) assms(3)]
  show ?thesis by simp
qed (use assms(1) in \<open>simp add: upgrade_def\<close>)

lemma upgraded_other:
  "upgraded E pg ms c c' \<Longrightarrow> n \<notin> (\<Union>m \<in> set ms. ddl_table ` set (ddl_of pg m)) \<Longrightarrow>
     n \<noteq> ''schema_migrations'' \<Longrightarrow> cat_tables c' n = cat_tables c n"
  by (induction rule: upgraded.induct) (auto dest: upgrade_other)

lemma later_migrations_leave_sessions:
  "''sessions'' \<notin> (\<Union>m \<in> set [drop_device_pairings, scim_scope, directory_event_order].
      ddl_table ` set (ddl_of pg m))"
  by (cases pg) (simp_all add: ddl_of_def drop_device_pairings_def scim_scope_def
      directory_event_order_def)

lemma ddl_drop_unreachable:
  "\<exists>rest. ddl_of pg drop_unreachable_sso_sessions =
     DeleteFrom ''sessions'' (Both (Equals ''sso_sid'' (VText ''''))
       (InSelect ''user_id'' ''users'' ''id'' (Differs ''sso_provider'' (VText ''local'')))) # rest \<and>
     ''sessions'' \<notin> ddl_table ` set rest"
  by (cases pg) (simp_all add: ddl_of_def drop_unreachable_sso_sessions_def)

lemma unreachable_holds:
  "holds (cat_tables c) (Both (Equals ''sso_sid'' (VText ''''))
     (InSelect ''user_id'' ''users'' ''id'' (Differs ''sso_provider'' (VText ''local'')))) r =
   (r ''sso_sid'' = VText '''' \<and> sso_account c (r ''user_id''))"
  by (auto simp: sso_account_def table_rows_def Bex_set [symmetric] split: option.split)

lemma drop_unreachable:
  assumes "upgrade E pg drop_unreachable_sso_sessions t c = Some c'"
    and "\<not> recorded drop_unreachable_sso_sessions c"
  shows "table_rows ''sessions'' c' =
    filter (\<lambda>r. \<not> (r ''sso_sid'' = VText '''' \<and> sso_account c (r ''user_id''))) (table_rows ''sessions'' c)"
proof -
  let ?del = "DeleteFrom ''sessions'' (Both (Equals ''sso_sid'' (VText ''''))
       (InSelect ''user_id'' ''users'' ''id'' (Differs ''sso_provider'' (VText ''local''))))"
  obtain rest where rest: "ddl_of pg drop_unreachable_sso_sessions = ?del # rest"
      "''sessions'' \<notin> ddl_table ` set rest"
    using ddl_drop_unreachable by blast
  obtain c1 c2 where del: "run_ddl E ?del c = Some c1" and c2: "run_ddls E rest c1 = Some c2"
    and ins: "insert_row ''schema_migrations'' (version_row drop_unreachable_sso_sessions t) c2 = Some c'"
    using assms rest(1) by (auto simp: upgrade_def simp del: run_ddl.simps split: option.splits)
  have "cat_tables c' ''sessions'' = cat_tables c1 ''sessions''"
    using run_ddls_other [OF c2 rest(2)] insert_row_other [OF ins] by simp
  moreover have "table_rows ''sessions'' c1 =
      filter (\<lambda>r. \<not> (r ''sso_sid'' = VText '''' \<and> sso_account c (r ''user_id''))) (table_rows ''sessions'' c)"
    using del unfolding run_ddl.simps unreachable_holds
    by (auto simp: table_rows_def split: option.splits if_splits)
  ultimately show ?thesis by (simp add: table_rows_def)
qed

lemma upgraded_drops_unreachable:
  assumes up: "upgraded E pg registry c c'" and old: "list_all (\<lambda>m. recorded m c) (take 6 registry)"
    and new: "\<not> recorded drop_unreachable_sso_sessions c"
  shows "table_rows ''sessions'' c' =
    filter (\<lambda>r. \<not> (r ''sso_sid'' = VText '''' \<and> sso_account c (r ''user_id''))) (table_rows ''sessions'' c)"
proof -
  let ?later = "[drop_device_pairings, scim_scope, directory_event_order]"
  have whole: "upgraded E pg (take 6 registry @ drop_unreachable_sso_sessions # ?later) c c'"
    using up by (simp add: registry_def)
  obtain c6 where c6: "upgraded E pg (take 6 registry) c c6"
      "upgraded E pg (drop_unreachable_sso_sessions # ?later) c6 c'"
    using upgraded_split [OF whole] by (elim exE conjE) (rule that)
  have "c6 = c" using upgraded_recorded [OF c6(1)] old by (simp add: list_all_iff)
  with c6(2) have "upgraded E pg (drop_unreachable_sso_sessions # ?later) c c'" by simp
  then obtain t c7 where c7: "upgrade E pg drop_unreachable_sso_sessions t c = Some c7"
    and later: "upgraded E pg ?later c7 c'" by (rule upgraded_ConsE)
  have "cat_tables c' ''sessions'' = cat_tables c7 ''sessions''"
    by (rule upgraded_other [OF later later_migrations_leave_sessions]) simp
  with drop_unreachable [OF c7 new] show ?thesis by (simp add: table_rows_def)
qed


section \<open>Usernames in any letter case\<close>

lemma add_name_mset: "mset (concat (map snd (add_name n gs))) = add_mset n (mset (concat (map snd gs)))"
  by (induction n gs rule: add_name.induct) auto

lemma group_names_mset: "mset (concat (group_names ns)) = mset ns"
proof -
  have "mset (concat (map snd (fold add_name ns gs))) = mset ns + mset (concat (map snd gs))" for gs
    by (induction ns arbitrary: gs) (simp_all add: add_name_mset)
  then show ?thesis by (simp add: group_names_def)
qed

lemma add_name_nonempty: "add_name n gs \<noteq> []"
  by (induction n gs rule: add_name.induct) auto

lemma group_names_empty: "group_names ns = [] \<longleftrightarrow> ns = []"
proof
  assume "group_names ns = []"
  then show "ns = []" using group_names_mset [of ns] by simp
qed (simp add: group_names_def)

lemma group_names_keys: "list_all (\<lambda>g. \<exists>k. list_all (\<lambda>n. to_lower n = k) g) (group_names ns)"
proof -
  have add: "list_all (\<lambda>(k, g). list_all (\<lambda>n. to_lower n = k) g) (add_name n gs)"
    if "list_all (\<lambda>(k, g). list_all (\<lambda>n. to_lower n = k) g) gs" for n gs
    using that by (induction n gs rule: add_name.induct) auto
  have "list_all (\<lambda>(k, g). list_all (\<lambda>n. to_lower n = k) g) (fold add_name ns gs)"
    if "list_all (\<lambda>(k, g). list_all (\<lambda>n. to_lower n = k) g) gs" for gs
    using that by (induction ns arbitrary: gs) (simp_all add: add)
  from this [of "[]"] show ?thesis by (auto simp: group_names_def list_all_iff)
qed

lemma clashing_empty: "clashing E ns = [] \<longleftrightarrow> distinct (map (sql_lower E) ns)"
proof -
  have count: "length (filter (\<lambda>x. f x = f n) ns) = count (mset (map f ns)) (f n)" for f :: "string \<Rightarrow> string" and n
    by (induction ns) auto
  have "clashing E ns = [] \<longleftrightarrow> (\<forall>n \<in> set ns. count (mset (map (sql_lower E) ns)) (sql_lower E n) \<le> 1)"
    unfolding clashing_def count
    by (metis (no_types, lifting) filter_empty_conv mset_sort mset_zero_iff not_less)
  also have "\<dots> \<longleftrightarrow> distinct (map (sql_lower E) ns)"
    unfolding distinct_count_atmost_1
    by (auto simp: count_eq_zero_iff le_Suc_eq)
  finally show ?thesis .
qed


end
