(* ===== verification/StoreOpen.thy ===== *)
theory StoreOpen
  imports MigrationFacts
begin

text \<open>
  Opening the store: internal/store/factory.go, and \<open>newSQLStore\<close> and \<open>rebind\<close> of
  internal/store/sqlstore.go. A connection is what \<^verbatim>\<open>sql.Open\<close> was given and how the pool was set up.
\<close>

section \<open>Placeholders\<close>

fun rebind_from :: "nat \<Rightarrow> string \<Rightarrow> string" where
  "rebind_from i [] = []"
| "rebind_from i (c # cs) =
     (if c = CHR ''?'' then CHR ''$'' # nat_str i @ rebind_from (Suc i) cs else c # rebind_from i cs)"

definition rebind :: "string \<Rightarrow> string \<Rightarrow> string" where
  "rebind drv q = (if drv \<noteq> ''postgres'' then q else rebind_from 1 q)"

text \<open>The pieces between the placeholders stay, and the placeholders are numbered from 1.\<close>

fun number_pieces :: "nat \<Rightarrow> string list \<Rightarrow> string" where
  "number_pieces i [] = []"
| "number_pieces i [p] = p"
| "number_pieces i (p # q # ps) = p @ CHR ''$'' # nat_str i @ number_pieces (Suc i) (q # ps)"

lemma rebind_numbers: "rebind ''postgres'' q = number_pieces 1 (split_on (CHR ''?'') q)"
proof -
  have "split_on d s \<noteq> []" for d s
    by (induction s) (auto split: list.split)
  then have pieces: "\<exists>p ps. split_on d s = p # ps" for d s
    by (metis neq_Nil_conv)
  have "rebind_from i q = number_pieces i (split_on (CHR ''?'') q)" for i
  proof (induction q arbitrary: i)
    case (Cons c cs)
    obtain p ps where "split_on (CHR ''?'') cs = p # ps" using pieces by blast
    then show ?case using Cons [of i] Cons [of "Suc i"] by (cases ps) auto
  qed simp
  then show ?thesis by (simp add: rebind_def)
qed

section \<open>The store\<close>

record connection =
  cn_driver :: string
  cn_dsn :: string
  cn_max_open :: int
  cn_max_idle :: int
  cn_max_lifetime :: "duration option"

type_synonym ('a, 'z) iio = "('z installation_scheme, 'a) state"

definition log_line :: "string \<Rightarrow> (unit, 'z) iio" where
  "log_line s = modifyS (\<lambda>w. w\<lparr>in_log := in_log w @ [s]\<rparr>)"

fun log_clashes :: "string list list \<Rightarrow> (unit, 'z) iio" where
  "log_clashes [] = ret ()"
| "log_clashes (names # rest) = do {
     log_line (''[STORE] usernames differ only in letter case: '' @ join_with '', '' names @
       ''. Sign-in picks one of them arbitrarily; rename or remove all but one. '' @
       ''New case-variant names are refused.'');
     log_clashes rest }"

definition newSQLStore :: "connection \<Rightarrow> (connection, 'z) ires" where
  "newSQLStore conn = (
     let drv = (if to_lower (cn_driver conn) = ''postgresql'' then ''postgres'' else to_lower (cn_driver conn))
     in check (wrap (''migration failure on driver '' @ drv) (Run drv)) (\<lambda>_.
        check (wrap ''case-insensitive username index'' EnsureUsernameIndex) (\<lambda>clashes. do {
          log_clashes clashes;
          ret (Inr (conn\<lparr>cn_driver := drv\<rparr>)) })))"

text \<open>\<^verbatim>\<open>sql.Open\<close> and \<^verbatim>\<open>PingContext\<close>: they work or they do not.\<close>

definition contact :: "(unit, 'z) ires" where
  "contact = read_catalog (\<lambda>E c. Some ())"

definition server_url_refusal :: string where
  "server_url_refusal =
     ''KY_DB_DSN is a server URL but the database driver is sqlite: set KY_DB_DRIVER=postgres '' @
     ''for PostgreSQL (under compose, in docker-compose.yml or an overlay: it pins sqlite), '' @
     ''or give a SQLite file path''"

definition sqlite_pragmas :: string where
  "sqlite_pragmas =
     ''_pragma=busy_timeout(5000)&_pragma=journal_mode(WAL)&_pragma=foreign_keys(ON)'' @
     ''&_pragma=synchronous(NORMAL)''"

definition with_pragmas :: "string \<Rightarrow> string" where
  "with_pragmas dsn =
     (if contains dsn ''_pragma'' then dsn
      else dsn @ (if contains dsn ''?'' then ''&'' else ''?'') @ sqlite_pragmas)"

definition make_directory :: "string \<Rightarrow> (unit, 'z) ires" where
  "make_directory dir =
     (if dir \<noteq> '''' \<and> dir \<noteq> ''.'' then do {
        r \<leftarrow> os_MkdirAll dir;
        ret (case r of
               Inl e \<Rightarrow> Inl (ErrOther (''failed to create sqlite directory '' @ dir))
             | Inr _ \<Rightarrow> Inr ()) }
      else ret (Inr ()))"

definition openSQLite :: "string \<Rightarrow> (connection, 'z) ires" where
  "openSQLite dsn = (
     let filePath = fst (cut_on (CHR ''?'') (trim_prefix dsn ''file:''))
     in if contains filePath ''://'' then ret (Inl (ErrOther server_url_refusal))
        else check (make_directory (path_Dir filePath)) (\<lambda>_.
          check (wrap ''failed to open sqlite database'' contact) (\<lambda>_.
          check (wrap ''failed to ping sqlite database'' contact) (\<lambda>_.
          newSQLStore \<lparr>cn_driver = ''sqlite'', cn_dsn = with_pragmas dsn, cn_max_open = 1,
            cn_max_idle = 1, cn_max_lifetime = None\<rparr>))))"

definition openPostgres :: "string \<Rightarrow> int \<Rightarrow> int \<Rightarrow> duration \<Rightarrow> (connection, 'z) ires" where
  "openPostgres dsn maxOpen maxIdle maxLifetime =
     check (wrap ''failed to open postgres database'' contact) (\<lambda>_.
       let maxOpen = (if maxOpen \<le> 0 then 25 else maxOpen);
           maxIdle = (if maxIdle \<le> 0 then 5 else maxIdle);
           maxLifetime = (if maxLifetime \<le> 0 then 15 * minute else maxLifetime)
       in check (wrap ''failed to ping postgres database'' contact) (\<lambda>_.
          newSQLStore \<lparr>cn_driver = ''postgres'', cn_dsn = dsn, cn_max_open = maxOpen,
            cn_max_idle = maxIdle, cn_max_lifetime = Some maxLifetime\<rparr>))"

text \<open>The quoted driver name in the refusal is left out.\<close>

definition Open :: "database_config \<Rightarrow> (connection, 'z) ires" where
  "Open cfg = (
     let drv = to_lower (c_driver cfg)
     in if drv \<in> {''sqlite'', ''sqlite3'', ''''} then openSQLite (c_dsn cfg)
        else if drv \<in> {''postgres'', ''postgresql'', ''pgx''}
        then openPostgres (c_dsn cfg) (c_max_open_conns cfg) (c_max_idle_conns cfg)
               (c_conn_max_lifetime cfg)
        else ret (Inl (ErrOther ''unsupported database driver (supported: sqlite, postgres)'')))"

section \<open>What an opened store rests on\<close>

text \<open>
  An opened store: every migration is recorded, the connection limits are positive, and SQLite is
  given the pragmas, foreign keys among them, unless the DSN brings its own.
\<close>

definition ready :: "database_config \<Rightarrow> connection \<Rightarrow> catalog \<Rightarrow> bool" where
  "ready cfg conn c \<longleftrightarrow>
     list_all (\<lambda>m. recorded m c) registry \<and>
     cn_max_open conn > 0 \<and> cn_max_idle conn > 0 \<and>
     (if cn_driver conn = ''sqlite''
      then contains (c_dsn cfg) ''_pragma'' \<or>
        cn_dsn conn = c_dsn cfg @ (if contains (c_dsn cfg) ''?'' then ''&'' else ''?'') @ sqlite_pragmas
      else cn_driver conn = ''postgres'' \<and> cn_dsn conn = c_dsn cfg)"

lemma log_clashes_catalog: "in_catalog (exec (log_clashes gs) w) = in_catalog w"
  by (induction gs arbitrary: w) (simp_all add: exec_def log_line_def split: prod.split)

lemma Run_records:
  assumes "run_state (Run drv) w = (Inr u, w')"
  shows "list_all (\<lambda>m. recorded m (in_catalog w')) registry"
proof -
  have "upgraded (w_engine w) (is_postgres drv) (take (length registry) registry)
      (with_versions (is_postgres drv) (in_catalog w)) (in_catalog w')"
    using run_Run [OF assms] by auto
  then show ?thesis using upgraded_versions(1) by (fastforce simp: list_all_iff)
qed

lemma run_checkE:
  assumes "run_state (check m k) w = (Inr y, w')"
  obtains x w1 where "run_state m w = (Inr x, w1)" and "run_state (k x) w1 = (Inr y, w')"
  using assms by (auto simp: run_check split: prod.splits sum.splits)

lemma EnsureUsernameIndex_tables:
  assumes "run_state EnsureUsernameIndex w = (Inr clashes, w')"
  shows "cat_tables (in_catalog w') = cat_tables (in_catalog w)"
proof -
  have index: "cat_tables c' = cat_tables c"
    if "run_ddl E (CreateIndex True idx_users_username_ci) c = Some c'" for E c c'
    using that by (auto split: if_splits option.splits)
  obtain names w1 where "run_state (read_catalog (\<lambda>E c. map_option (clashing E) (usernames c))) w = (Inr names, w1)"
    and rest: "run_state (let clashes = group_names names
       in if clashes \<noteq> [] then ret (Inr clashes)
          else check (change (\<lambda>E. run_ddl E (CreateIndex True idx_users_username_ci)))
                 (\<lambda>_. ret (Inr []))) w1 = (Inr clashes, w')"
    using assms unfolding EnsureUsernameIndex_def by (rule run_checkE)
  from doesD(2) [OF does_read this(1)] have "in_catalog w1 = in_catalog w" by simp
  moreover have "cat_tables (in_catalog w') = cat_tables (in_catalog w1)"
  proof (cases "group_names names = []")
    case True
    then have "run_state (check (change (\<lambda>E. run_ddl E (CreateIndex True idx_users_username_ci)))
                 (\<lambda>_. ret (Inr []))) w1 = (Inr clashes, w')"
      using rest by simp
    then obtain u w2 where run: "run_state (change (\<lambda>E. run_ddl E (CreateIndex True idx_users_username_ci))) w1 = (Inr u, w2)"
      and last: "run_state (ret (Inr [] :: err + string list list)) w2 = (Inr clashes, w')"
      by (rule run_checkE)
    from doesD(2) [OF does_change run]
    have "cat_tables (in_catalog w2) = cat_tables (in_catalog w1)" by (intro index) (rule conjunct2)
    with last show ?thesis by simp
  qed (use rest in \<open>simp add: Let_def\<close>)
  ultimately show ?thesis by simp
qed

lemma run_newSQLStore:
  assumes "run_state (newSQLStore conn) w = (Inr conn', w')"
  shows "list_all (\<lambda>m. recorded m (in_catalog w')) registry"
    and "conn' = conn\<lparr>cn_driver := (if to_lower (cn_driver conn) = ''postgresql'' then ''postgres''
            else to_lower (cn_driver conn))\<rparr>"
proof -
  let ?drv = "if to_lower (cn_driver conn) = ''postgresql'' then ''postgres'' else to_lower (cn_driver conn)"
  obtain u w1 where r1: "run_state (wrap (''migration failure on driver '' @ ?drv) (Run ?drv)) w = (Inr u, w1)"
    and r2: "run_state (check (wrap ''case-insensitive username index'' EnsureUsernameIndex) (\<lambda>clashes. do {
          log_clashes clashes;
          ret (Inr (conn\<lparr>cn_driver := ?drv\<rparr>)) })) w1 = (Inr conn', w')"
    using assms unfolding newSQLStore_def Let_def by (rule run_checkE)
  obtain clashes w2 where r3: "run_state (wrap ''case-insensitive username index'' EnsureUsernameIndex) w1 = (Inr clashes, w2)"
    and r4: "run_state (do { log_clashes clashes; ret (Inr (conn\<lparr>cn_driver := ?drv\<rparr>)) }) w2 =
      (Inr conn' :: err + connection, w')"
    using r2 by (rule run_checkE)
  have "run_state (Run ?drv) w = (Inr u, w1)"
    using r1 by (auto simp: run_wrap split: prod.splits sum.splits)
  from Run_records [OF this] have 1: "list_all (\<lambda>m. recorded m (in_catalog w1)) registry" .
  have "run_state EnsureUsernameIndex w1 = (Inr clashes, w2)"
    using r3 by (auto simp: run_wrap split: prod.splits sum.splits)
  from EnsureUsernameIndex_tables [OF this] have 2: "cat_tables (in_catalog w2) = cat_tables (in_catalog w1)" .
  have 3: "in_catalog w' = in_catalog w2" and conn: "conn' = conn\<lparr>cn_driver := ?drv\<rparr>"
    using r4 log_clashes_catalog [of clashes w2] by (auto simp: exec_def split: prod.splits)
  show "list_all (\<lambda>m. recorded m (in_catalog w')) registry"
    using 1 2 3 by (simp add: list_all_iff recorded_def version_rows_def)
  show "conn' = conn\<lparr>cn_driver := ?drv\<rparr>" by (fact conn)
qed

lemma openSQLite_opened:
  assumes "run_state (openSQLite dsn) w = (Inr conn, w')"
  obtains w1 where "run_state (newSQLStore \<lparr>cn_driver = ''sqlite'', cn_dsn = with_pragmas dsn,
      cn_max_open = 1, cn_max_idle = 1, cn_max_lifetime = None\<rparr>) w1 = (Inr conn, w')"
  using assms unfolding openSQLite_def Let_def
  by (cases "contains (fst (cut_on CHR ''?'' (trim_prefix dsn ''file:''))) ''://''")
    (simp, simp only: if_False, blast elim: run_checkE)

lemma openPostgres_opened:
  assumes "run_state (openPostgres dsn n i l) w = (Inr conn, w')"
  obtains w1 where "run_state (newSQLStore \<lparr>cn_driver = ''postgres'', cn_dsn = dsn,
      cn_max_open = (if n \<le> 0 then 25 else n), cn_max_idle = (if i \<le> 0 then 5 else i),
      cn_max_lifetime = Some (if l \<le> 0 then 15 * minute else l)\<rparr>) w1 = (Inr conn, w')"
  using assms unfolding openPostgres_def Let_def by (blast elim: run_checkE)

lemma lower_drivers:
  "to_lower ''sqlite'' = ''sqlite''" "to_lower ''postgres'' = ''postgres''"
  by code_simp+

lemma openSQLite_ready:
  assumes "run_state (openSQLite dsn) w = (Inr conn, w')"
  shows "list_all (\<lambda>m. recorded m (in_catalog w')) registry"
    and "conn = \<lparr>cn_driver = ''sqlite'', cn_dsn = with_pragmas dsn, cn_max_open = 1,
      cn_max_idle = 1, cn_max_lifetime = None\<rparr>"
proof -
  obtain w1 where "run_state (newSQLStore \<lparr>cn_driver = ''sqlite'', cn_dsn = with_pragmas dsn,
      cn_max_open = 1, cn_max_idle = 1, cn_max_lifetime = None\<rparr>) w1 = (Inr conn, w')"
    by (rule openSQLite_opened [OF assms])
  note opened = run_newSQLStore [OF this]
  show "list_all (\<lambda>m. recorded m (in_catalog w')) registry" by (fact opened(1))
  show "conn = \<lparr>cn_driver = ''sqlite'', cn_dsn = with_pragmas dsn, cn_max_open = 1,
      cn_max_idle = 1, cn_max_lifetime = None\<rparr>"
    using opened(2) by (simp add: lower_drivers)
qed

lemma openPostgres_ready:
  assumes "run_state (openPostgres dsn n i l) w = (Inr conn, w')"
  shows "list_all (\<lambda>m. recorded m (in_catalog w')) registry"
    and "conn = \<lparr>cn_driver = ''postgres'', cn_dsn = dsn,
      cn_max_open = (if n \<le> 0 then 25 else n), cn_max_idle = (if i \<le> 0 then 5 else i),
      cn_max_lifetime = Some (if l \<le> 0 then 15 * minute else l)\<rparr>"
proof -
  obtain w1 where "run_state (newSQLStore \<lparr>cn_driver = ''postgres'', cn_dsn = dsn,
      cn_max_open = (if n \<le> 0 then 25 else n), cn_max_idle = (if i \<le> 0 then 5 else i),
      cn_max_lifetime = Some (if l \<le> 0 then 15 * minute else l)\<rparr>) w1 = (Inr conn, w')"
    by (rule openPostgres_opened [OF assms])
  note opened = run_newSQLStore [OF this]
  show "list_all (\<lambda>m. recorded m (in_catalog w')) registry" by (fact opened(1))
  show "conn = \<lparr>cn_driver = ''postgres'', cn_dsn = dsn,
      cn_max_open = (if n \<le> 0 then 25 else n), cn_max_idle = (if i \<le> 0 then 5 else i),
      cn_max_lifetime = Some (if l \<le> 0 then 15 * minute else l)\<rparr>"
    using opened(2) by (simp add: lower_drivers)
qed

text \<open>
  C25: a store that opens is ready: every migration of the registry is recorded, the pool has
  connections, and SQLite runs with foreign keys and the other pragmas unless the DSN names its own.
  A server URL given to SQLite is refused before anything happens, with a message that does not
  repeat it.
\<close>

theorem Open_ready:
  "(case run_state (Open cfg) w of
      (Inl e, w') \<Rightarrow> True
    | (Inr conn, w') \<Rightarrow> ready cfg conn (in_catalog w')) \<and>
   (if to_lower (c_driver cfg) = ''sqlite'' \<and>
       contains (fst (cut_on (CHR ''?'') (trim_prefix (c_dsn cfg) ''file:''))) ''://''
    then run_state (Open cfg) w = (Inl (ErrOther server_url_refusal), w) else True)"
proof -
  have "ready cfg conn (in_catalog w')" if opened: "run_state (Open cfg) w = (Inr conn, w')" for conn w'
  proof -
    consider "run_state (openSQLite (c_dsn cfg)) w = (Inr conn, w')"
      | "run_state (openPostgres (c_dsn cfg) (c_max_open_conns cfg) (c_max_idle_conns cfg)
               (c_conn_max_lifetime cfg)) w = (Inr conn, w')"
      using opened by (auto simp: Open_def Let_def split: if_splits)
    then show ?thesis
    proof cases
      case 1
      from openSQLite_ready [OF this] show ?thesis by (auto simp: ready_def with_pragmas_def)
    next
      case 2
      from openPostgres_ready [OF this] show ?thesis by (simp add: ready_def)
    qed
  qed
  moreover have "run_state (Open cfg) w = (Inl (ErrOther server_url_refusal), w)"
    if "to_lower (c_driver cfg) = ''sqlite''"
      and "contains (fst (cut_on (CHR ''?'') (trim_prefix (c_dsn cfg) ''file:''))) ''://''"
    using that by (simp add: Open_def openSQLite_def)
  ultimately show ?thesis by (auto split: prod.split sum.split)
qed

end
