(* ===== verification/ServerMain.thy ===== *)
theory ServerMain
  imports StoreOpen Routes
begin

text \<open>
  cmd/server/main.go: the commands of the binary, over the state of the process. \<^verbatim>\<open>log.Fatalf\<close> and
  \<^verbatim>\<open>os.Exit\<close> end a command with a code and a message, without the text of the error behind it. Parsed
  flags are arguments, and so are what the library read from the standard input and, for \<^verbatim>\<open>%q\<close>, which
  code points are printable. Listening and shutting down are in \<open>Shutdown\<close>.
\<close>

section \<open>Commands\<close>

type_synonym ('a, 'z) proc = "('z installation_scheme, (int \<times> string) + 'a) state"

definition main_appVersion :: string where "main_appVersion = ''1.0.0''"

definition die :: "string \<Rightarrow> ('a, 'z) proc" where
  "die msg = ret (Inl (1, msg))"

definition or_die :: "string \<Rightarrow> ('z installation_scheme, 'e + 'a) state \<Rightarrow> ('a, 'z) proc" where
  "or_die msg m = do { r \<leftarrow> m; case r of Inl e \<Rightarrow> die msg | Inr x \<Rightarrow> ret (Inr x) }"

definition os_Getenv :: "string \<Rightarrow> (string, 'z) iio" where
  "os_Getenv k = do { w \<leftarrow> getS; ret (case h_env w k of None \<Rightarrow> '''' | Some v \<Rightarrow> v) }"

definition load_config :: "keyfile \<Rightarrow> (string \<Rightarrow> duration option) \<Rightarrow> (config, 'z) proc" where
  "load_config kf pd = do {
     w \<leftarrow> getS;
     or_die ''Failed to load configuration'' (LoadFromEnv kf pd (h_env w)) }"

text \<open>What every command that needs the database does first.\<close>

definition with_store ::
  "keyfile \<Rightarrow> (string \<Rightarrow> duration option) \<Rightarrow> (config \<Rightarrow> ('a, 'z) proc) \<Rightarrow> ('a, 'z) proc" where
  "with_store kf pd k =
     check (load_config kf pd) (\<lambda>cfg.
     check (or_die ''DB error'' (Open (cfg_database cfg))) (\<lambda>_. k cfg))"

section \<open>Administrators\<close>

definition new_admin :: "string \<Rightarrow> string \<Rightarrow> string \<Rightarrow> user" where
  "new_admin i name hash =
     \<lparr>u_id = ''usr_'' @ i, u_username = name, u_email = '''', u_display_name = ''Administrator'',
      u_password_hash = hash, u_role = ''admin'', u_status = ''active'', u_sso_provider = ''local'',
      u_sso_subject = '''', u_scim_managed = False, u_push_device_id = '''',
      u_must_change_password = True, u_created_at = 0, u_updated_at = 0, u_last_login_at = None\<rparr>"

definition bootstrap_admin :: "passwords \<Rightarrow> (unit, 'z) proc" where
  "bootstrap_admin P = do {
     counted \<leftarrow> countUsers;
     if (case counted of Inl e \<Rightarrow> 0 | Inr n \<Rightarrow> n) \<noteq> 0 then ret (Inr ())
     else do {
       given \<leftarrow> os_Getenv ''KY_ADMIN_PASSWORD'';
       adminPass \<leftarrow> (if given \<noteq> '''' then ret given
         else do {
           p \<leftarrow> RandomHex 12;
           log_line (''[SECURITY] Initial bootstrap: Created admin account. Username: admin | Password: '' @ p);
           ret p });
       salt \<leftarrow> random_bytes 16;
       case pw_Hash P salt adminPass of
         None \<Rightarrow> die ''Failed to hash bootstrap admin password''
       | Some hash \<Rightarrow> do {
           i \<leftarrow> RandomHex 12;
           or_die ''Failed to create bootstrap admin''
             (check (createUser (new_admin i ''admin'' hash)) (\<lambda>_. ret (Inr ()))) } } }"

text \<open>The two marks, in UTF-8.\<close>

definition tick_mark :: string where "tick_mark = [CHR 0xE2, CHR 0x9C, CHR 0x93]"
definition cross_mark :: string where "cross_mark = [CHR 0xE2, CHR 0x9C, CHR 0x97]"

definition existing_line :: "(nat \<Rightarrow> bool) \<Rightarrow> user \<Rightarrow> string" where
  "existing_line pr u = ''Existing account '' @ Quote pr (u_username u) @ '': role='' @ u_role u @
     '' status='' @ u_status u @ '' provider='' @ u_sso_provider u"

definition initAdmin :: "(nat \<Rightarrow> bool) \<Rightarrow> passwords \<Rightarrow> string \<Rightarrow> string \<Rightarrow> bool \<Rightarrow> (string, 'z) proc" where
  "initAdmin pr P username pass promote = do {
     salt \<leftarrow> random_bytes 16;
     case pw_Hash P salt pass of
       None \<Rightarrow> die ''password hashing error''
     | Some hash \<Rightarrow> do {
         found \<leftarrow> getUserByUsername username;
         case found of
           Inl e \<Rightarrow>
             if e \<noteq> ErrNotFound then die ''DB error''
             else do {
               i \<leftarrow> RandomHex 12;
               check (or_die ''failed to create admin'' (createUser (new_admin i username hash))) (\<lambda>_.
               ret (Inr (tick_mark @ '' Admin user '' @ Quote pr username @ '' created successfully''))) }
         | Inr existing \<Rightarrow> do {
             log_line (existing_line pr existing);
             if u_sso_provider existing \<noteq> ''local''
             then die (''refusing: '' @ Quote pr (u_username existing) @ '' is a '' @ u_sso_provider existing @
               '' account; init-admin manages local accounts only'')
             else if \<not> promote \<and> (u_role existing \<noteq> ''admin'' \<or> u_status existing \<noteq> ''active'')
             then die (''refusing: '' @ Quote pr (u_username existing) @
               '' is not an active administrator; check the username, or rerun with -promote to make it one'')
             else check (or_die ''failed to update admin'' (resetAdminPassword (u_id existing) hash)) (\<lambda>_.
               ret (Inr (tick_mark @ '' Admin user '' @ Quote pr (u_username existing) @
                 '' password successfully reset''))) } } }"

record init_flags =
  if_username :: string
  if_password :: string
  if_promote :: bool

definition runInitAdmin ::
  "(nat \<Rightarrow> bool) \<Rightarrow> passwords \<Rightarrow> keyfile \<Rightarrow> (string \<Rightarrow> duration option) \<Rightarrow> init_flags \<Rightarrow> (unit, 'z) proc"
where
  "runInitAdmin pr P kf pd fl =
     (if if_password fl = '''' \<or> length (if_password fl) < 12
      then die ''Error: -password is required and must be at least 12 characters''
      else with_store kf pd (\<lambda>cfg.
        check (initAdmin pr P (if_username fl) (if_password fl) (if_promote fl)) (\<lambda>msg. do {
          log_line msg; ret (Inr ()) })))"

section \<open>Backups\<close>

text \<open>The zero \<^verbatim>\<open>Result{}\<close>.\<close>

definition zero_result :: run_result where
  "zero_result = \<lparr>rr_manifest = \<lparr>mf_capsule_id = '''', mf_recovery_key_id = '''', mf_files = [],
     mf_recipe = AnyNil\<rparr>, rr_local_path = '''', rr_local_error = '''', rr_receipt = None,
     rr_size_bytes = 0, rr_json = []\<rparr>"

definition runBackup ::
  "('k, 'z installation_ext) lib \<Rightarrow> config \<Rightarrow> (run_result \<times> failure option, 'z) iio" where
  "runBackup L cfg =
     (case RunConfig L cfg main_appVersion of
        Inl e \<Rightarrow> ret (zero_result, Some e)
      | Inr rc \<Rightarrow> rl_Run L rc (settings_of L) (Collect L cfg main_appVersion))"

definition recordRun ::
  "('k, 'z installation_ext) lib \<Rightarrow> string \<Rightarrow> run_result \<Rightarrow> failure option \<Rightarrow> (unit, 'z) iio" where
  "recordRun L actor res err = (
     let (action, outcome, details) = rl_Outcome L res err
     in do {
       _ \<leftarrow> logAudit (new_audit actor action (mf_capsule_id (rr_manifest res))
              (AuditDetails L (with_outcome details outcome)) '''' 0);
       case err of
         Some e \<Rightarrow> log_line (''[BACKUP] '' @ actor @ '': '' @ rl_AuditSafe L (fl_text e))
       | None \<Rightarrow> log_line (''[BACKUP] '' @ actor @ '': capsule '' @ mf_capsule_id (rr_manifest res) @
           '' ('' @ itoa (rr_size_bytes res) @ '' bytes) local='' @
           Quote (rl_printable L) (rr_local_path res) @ '' deposited='' @
           (if rr_receipt res \<noteq> None then ''true'' else ''false'')) })"

definition never_configured :: "failure option \<Rightarrow> bool" where
  "never_configured err \<longleftrightarrow>
     (case err of None \<Rightarrow> False | Some e \<Rightarrow> errors_Is e NotPaired \<or> errors_Is e NoDestination)"

text \<open>One minute's tick of the scheduler.\<close>

definition backup_tick ::
  "('k, 'z installation_ext) lib \<Rightarrow> config \<Rightarrow> 'k run_config \<Rightarrow> (unit, 'z) iio" where
  "backup_tick L cfg rc = do {
     planned \<leftarrow> rl_NextRun L (c_deposit_interval (cfg_backup cfg)) (settings_of L);
     case planned of
       Inl e \<Rightarrow> log_line (''[BACKUP] schedule unreadable: '' @ rl_AuditSafe L (fl_text e))
     | Inr None \<Rightarrow> ret ()
     | Inr (Some next_run) \<Rightarrow> do {
         now \<leftarrow> time_Now;
         if now < next_run then ret ()
         else do {
           (res, err) \<leftarrow> rl_Run L rc (settings_of L) (Collect L cfg main_appVersion);
           if never_configured err then ret () else recordRun L ''system'' res err } } }"

text \<open>
  The loop over what wakes it: a tick, or the cancelled context, whichever \<^verbatim>\<open>select\<close> took. It answers
  whether \<open>done\<close> was closed; at the end of the list it is waiting.
\<close>

datatype wake = Tick | Cancelled

fun backup_ticks ::
  "('k, 'z installation_ext) lib \<Rightarrow> config \<Rightarrow> 'k run_config \<Rightarrow> wake list \<Rightarrow> (bool, 'z) iio" where
  "backup_ticks L cfg rc [] = ret False"
| "backup_ticks L cfg rc (Cancelled # ws) = ret True"
| "backup_ticks L cfg rc (Tick # ws) = do { backup_tick L cfg rc; backup_ticks L cfg rc ws }"

definition backupLoop :: "('k, 'z installation_ext) lib \<Rightarrow> config \<Rightarrow> wake list \<Rightarrow> (bool, 'z) iio" where
  "backupLoop L cfg ws =
     (case RunConfig L cfg main_appVersion of
        Inl e \<Rightarrow> do { log_line (''[BACKUP] scheduler disabled: '' @ fl_text e); ret True }
      | Inr rc \<Rightarrow> backup_ticks L cfg rc ws)"

text \<open>\<open>stamp\<close> prints a time (\<^verbatim>\<open>time.RFC3339\<close>).\<close>

definition runDeposit ::
  "('k, 'z installation_ext) lib \<Rightarrow> (time \<Rightarrow> string) \<Rightarrow> keyfile \<Rightarrow> (string \<Rightarrow> duration option) \<Rightarrow>
     (unit, 'z) proc" where
  "runDeposit L stamp kf pd = with_store kf pd (\<lambda>cfg. do {
     (res, err) \<leftarrow> runBackup L cfg;
     recordRun L ''cli'' res err;
     case err of
       Some e \<Rightarrow> die (''Backup: '' @ fl_text e)
     | None \<Rightarrow> do {
         (case rr_receipt res of
            None \<Rightarrow> ret ()
          | Some rcp \<Rightarrow> log_line (tick_mark @ '' Capsule '' @ mf_capsule_id (rr_manifest res) @
              '' deposited at '' @ stamp (rcp_deposited_at rcp) @ ''; digest '' @ rcp_digest rcp));
         ret (Inr ()) } })"

definition collectFiles :: "('k, 'z installation_ext) lib \<Rightarrow> config \<Rightarrow> (payload, 'z) proc" where
  "collectFiles L cfg = or_die ''Failed to collect backup files'' (Collect L cfg main_appVersion)"

fun print_checks :: "drill_check list \<Rightarrow> (unit, 'z) iio" where
  "print_checks [] = ret ()"
| "print_checks (c # cs) = do {
     log_line (''  ['' @ (if dc_passed c then tick_mark else cross_mark) @ ''] '' @ dc_name c @ '': '' @ dc_message c);
     print_checks cs }"

definition runBackupDrill ::
  "('k, 'z installation_ext) lib \<Rightarrow> keyfile \<Rightarrow> (string \<Rightarrow> duration option) \<Rightarrow> (unit, 'z) proc" where
  "runBackupDrill L kf pd = with_store kf pd (\<lambda>cfg.
     check (collectFiles L cfg) (\<lambda>p.
     check (or_die ''Drill execution error'' (RunDrill L cfg p)) (\<lambda>d. do {
       log_line (CHR 0x0A # ''=== Feature 0: KyBackup Restore Drill Summary ==='');
       log_line (''Status:   '' @ (if dr_passed d then ''PASSED (OK)'' else ''FAILED''));
       log_line (''Duration: '' @ itoa (dr_duration_ms d) @ '' ms'');
       print_checks (dr_checks d);
       log_line ''=================================================='';
       if \<not> dr_passed d then ret (Inl (1, '''')) else ret (Inr ()) })))"

definition runExportCapsule ::
  "('k, 'z installation_ext) lib \<Rightarrow> keyfile \<Rightarrow> (string \<Rightarrow> duration option) \<Rightarrow> string \<Rightarrow> (unit, 'z) proc" where
  "runExportCapsule L kf pd out = with_store kf pd (\<lambda>cfg.
     check (or_die ''Recovery key'' (rl_LoadRecoveryKey L (c_data_dir (cfg_database cfg)) (settings_of L))) (\<lambda>key.
     check (collectFiles L cfg) (\<lambda>p.
     check (or_die ''Seal'' (rl_Seal L p key)) (\<lambda>(raw, m). do {
       let path = (if out = '''' then rl_FilenameSafe L (mf_capsule_id m) @ ''.kycap'' else out);
       check (or_die ''Write'' (os_WriteFile path raw)) (\<lambda>_. do {
         log_line (tick_mark @ '' Capsule '' @ mf_capsule_id m @ '' sealed to recovery key '' @
           mf_recovery_key_id m @ '', written to '' @ path @ '' ('' @ nat_str (length raw) @ '' bytes)'');
         ret (Inr ()) }) }))))"

section \<open>Restoring\<close>

text \<open>
  \<open>sqlite_exec sql path t bytes\<close> is what SQLite makes of a database file that runs one statement with
  one time bound: the file's new bytes, or an error.
\<close>

type_synonym sqlite_exec = "string \<Rightarrow> time \<Rightarrow> string \<Rightarrow> failure + string"

definition deposits_off_sql :: string where
  "deposits_off_sql =
     ''INSERT INTO server_settings (key, value, updated_at) VALUES ('' @
     [CHR 0x27] @ ''backup_interval_sec'' @ [CHR 0x27] @ '', '' @ [CHR 0x27] @ ''0'' @ [CHR 0x27] @ '', ?)'' @
     [CHR 0x0A] @
     ''ON CONFLICT(key) DO UPDATE SET value = excluded.value, updated_at = excluded.updated_at''"

definition disableScheduledDeposits :: "sqlite_exec \<Rightarrow> string \<Rightarrow> (unit, 'z) sys" where
  "disableScheduledDeposits X p = do {
     now \<leftarrow> time_Now;
     h \<leftarrow> getS;
     case h_nodes h p of
       Some (Regular b) \<Rightarrow>
         (case X deposits_off_sql now b of
            Inl e \<Rightarrow> ret (Inl e)
          | Inr b' \<Rightarrow> os_WriteFile p b')
     | _ \<Rightarrow> ret (Inl (failed_with [] ''unable to open database file'')) }"

definition restored_database :: "string \<Rightarrow> string" where
  "restored_database targetDir = path_Join [targetDir, ''data'', ''ky_server.db'']"

definition restore ::
  "('k, 'z installation_ext) lib \<Rightarrow> sqlite_exec \<Rightarrow> string \<Rightarrow> string \<Rightarrow> string \<Rightarrow> string list \<Rightarrow>
     (unit, 'z installation_ext) sys" where
  "restore L X capsulePath targetDir expectService shares =
     check (rl_Restore L capsulePath targetDir expectService shares) (\<lambda>_. do {
       let p = restored_database targetDir;
       found \<leftarrow> os_Stat p;
       if (case found of Inl e \<Rightarrow> errors_Is e FileMissing | Inr _ \<Rightarrow> False) then ret (Inr ())
       else do {
         r \<leftarrow> disableScheduledDeposits X p;
         case r of
           Inl e \<Rightarrow> ret (Inl (failed_with (fl_is e)
             (''files restored, but scheduled deposits could not be turned off in '' @ p @
              '' (do not start it until they are): '' @ fl_text e)))
         | Inr _ \<Rightarrow> do {
             log_line (''Scheduled deposits are OFF in the restored copy. Turn them back on in '' @
               ''Backup & recovery once this server is the one in service.'');
             ret (Inr ()) } } })"

record restore_flags =
  rf_capsule :: string
  rf_to :: string
  rf_service :: string

definition runRestore ::
  "('k, 'z installation_ext) lib \<Rightarrow> sqlite_exec \<Rightarrow> restore_flags \<Rightarrow> (failure + string list) \<Rightarrow> (unit, 'z) proc" where
  "runRestore L X fl stdin = (
     if rf_capsule fl = '''' \<or> rf_to fl = '''' then ret (Inl (2, ''usage''))
     else do {
       name \<leftarrow> os_Getenv ''KY_APP_NAME'';
       let service = (if rf_service fl \<noteq> '''' then rf_service fl
                      else if name \<noteq> '''' then name else DefaultAppName);
       if service = '''' then die ''Error: -service is required when KY_APP_NAME is not set''
       else case stdin of
         Inl e \<Rightarrow> die ''Reading shares''
       | Inr shares \<Rightarrow>
           if shares = [] then die ''Error: no custodian shares on stdin''
           else or_die ''Restore failed'' (restore L X (rf_capsule fl) (rf_to fl) service shares) })"

section \<open>The server\<close>

text \<open>Up to the point where it listens.\<close>

definition start_server ::
  "passwords \<Rightarrow> keyfile \<Rightarrow> (string \<Rightarrow> duration option) \<Rightarrow> (config \<times> connection, 'z) proc" where
  "start_server P kf pd =
     check (load_config kf pd) (\<lambda>cfg. do {
       (if c_allow_private_recovery (cfg_backup cfg)
        then log_line (''[BACKUP] KY_BACKUP_ALLOW_PRIVATE_RECOVERY is on: RFC1918 and CGNAT '' @
          ''destinations admitted; loopback, link-local and other reserved addresses remain refused '' @
          ''(HTTPS still required)'') else ret ());
       (if has_prefix (to_lower (c_app_url (cfg_server cfg))) ''https://'' \<and>
           c_trusted_proxies (cfg_security cfg) = []
        then log_line (''[SECURITY] KY_APP_URL is https but KY_TRUSTED_PROXIES is empty: behind a '' @
          ''reverse proxy every client counts as the proxy'' @ [CHR 0x27] @ ''s address, so one client'' @
          [CHR 0x27] @ ''s failed sign-ins lock the account for everyone. Set KY_TRUSTED_PROXIES to the '' @
          ''proxy'' @ [CHR 0x27] @ ''s address.'') else ret ());
       check (or_die (''Failed to initialize database ('' @ c_driver (cfg_database cfg) @ '')'') (Open (cfg_database cfg))) (\<lambda>conn.
       check (bootstrap_admin P) (\<lambda>_. do {
         modifyS (NewServer cfg);
         ret (Inr (cfg, conn)) })) })"

section \<open>Dispatch\<close>

datatype command =
    InitAdmin "string list"
  | BackupDrill
  | ExportCapsule "string list"
  | Deposit
  | Restore "string list"
  | Version
  | Serve

fun command_of :: "string list \<Rightarrow> command" where
  "command_of (prog # c # args) =
     (if c = ''init-admin'' then InitAdmin args
      else if c = ''backup-drill'' then BackupDrill
      else if c = ''export-capsule'' then ExportCapsule args
      else if c = ''deposit'' then Deposit
      else if c = ''restore'' then Restore args
      else if c = ''version'' then Version
      else Serve)"
| "command_of args = Serve"

end
