(* ===== verification/ServerMainFacts.thy ===== *)
theory ServerMainFacts
  imports ServerMain BackupAudit
begin

text \<open>
  What the commands of the binary guarantee: who can become an administrator from the command line,
  what the start of the server adds, that a run of the scheduler or the CLI is on record, and that a
  restored copy does not deposit.
\<close>

section \<open>Who becomes an administrator\<close>

definition same_grants :: "user \<Rightarrow> user \<Rightarrow> bool" where
  "same_grants u u' \<longleftrightarrow> u_id u' = u_id u \<and> u_username u' = u_username u \<and> u_role u' = u_role u \<and>
     u_status u' = u_status u \<and> u_sso_provider u' = u_sso_provider u"

text \<open>At most the account \<open>i\<close>, local before and after, became an active administrator.\<close>

definition promotes :: "string \<Rightarrow> engine \<Rightarrow> db \<Rightarrow> db \<Rightarrow> bool" where
  "promotes i E d d' \<longleftrightarrow> (\<forall>u' \<in> set (t_users d').
     (\<exists>u \<in> set (t_users d). same_grants u u') \<or>
     (u_id u' = i \<and> u_role u' = ''admin'' \<and> u_status u' = ''active'' \<and> u_sso_provider u' = ''local'' \<and>
      (\<exists>u \<in> set (t_users d). u_id u = i \<and> u_sso_provider u = ''local'')))"

lemma same_grants_refl [simp]: "same_grants u u"
  by (simp add: same_grants_def)

interpretation kept_grants: db_frame "promotes i" for i
proof unfold_locales
  show "promotes i E d d" for E d unfolding promotes_def by (metis same_grants_refl)
  show "promotes i E d d''" if "promotes i E d d'" and "promotes i E d' d''" for E d d' d''
    using that unfolding promotes_def same_grants_def by (smt (verit, best))
qed

lemma promotes_statements:
  "promotes i E d (snd (update_users (\<lambda>r. u_id r = i \<and> u_sso_provider r = ''local'')
     (\<lambda>r. r\<lparr>u_password_hash := h', u_must_change_password := True,
            u_status := ''active'', u_role := ''admin'', u_updated_at := now\<rparr>) E d))"
  "promotes i E d (snd (delete_sessions S E d))"
  "promotes i E d (snd (insert_audit a E d))"
  by (auto simp: promotes_def same_grants_def update_users_def Let_def delete_sessions_def insert_audit_def)

lemma promotes_reset: "state_io_rel (db_rel (promotes i)) (resetAdminPassword i h)"
  by (intro kept_grants.rel_resetAdminPassword promotes_statements)

lemma createUser_error:
  assumes "run_state (createUser u) w = (Inl e, w')"
  shows "w_db w' = w_db w"
  using assms
  by (auto simp: createUser_def Let_def run_check split: prod.splits sum.splits dest: transaction_error)

lemma getUserByUsername_cases:
  assumes "run_state (getUserByUsername n) w = (r, w')"
  shows "w_db w' = w_db w" and "w_engine w' = w_engine w"
    and "r = Inl ErrNotFound \<Longrightarrow> \<not> list_ex (same_name n (w_engine w)) (t_users (w_db w))"
    and "r = Inr u \<Longrightarrow> u \<in> set (t_users (w_db w)) \<and> same_name n (w_engine w) u"
  using assms
  by (auto simp: getUserByUsername_def run_stmt select_user_def list_ex_iff find_None_iff
      split: if_splits option.splits dest: find_SomeD)

definition init_granted :: "string \<Rightarrow> bool \<Rightarrow> engine \<Rightarrow> user list \<Rightarrow> user \<Rightarrow> bool" where
  "init_granted name promote E us u' \<longleftrightarrow>
     (\<exists>u \<in> set us. u_id u = u_id u' \<and> u_role u = u_role u' \<and> u_status u = u_status u' \<and>
        u_sso_provider u = u_sso_provider u') \<or>
     (\<exists>u \<in> set us. promote \<and> u_id u = u_id u' \<and> same_name name E u \<and> u_sso_provider u = ''local'') \<or>
     (u_username u' = name \<and> u_sso_provider u' = ''local'' \<and> u_must_change_password u' \<and>
      \<not> list_ex (same_name name E) us)"

lemma init_granted_same: "w_db w' = w_db w \<Longrightarrow> list_all (init_granted n p E (t_users (w_db w))) (t_users (w_db w'))"
  by (auto simp: list_all_iff init_granted_def)

lemma run_or_die:
  "run_state (or_die msg m) w =
     (case run_state m w of (Inl e, w') \<Rightarrow> (Inl (1, msg), w') | (Inr x, w') \<Rightarrow> (Inr x, w'))"
  by (simp add: or_die_def die_def split: prod.split sum.split)

lemma initAdmin_existing:
  assumes found: "u \<in> set us" "same_name name E u" "u_sso_provider u = ''local''"
    and allowed: "promote \<or> u_role u = ''admin'' \<and> u_status u = ''active''"
    and reset: "promotes (u_id u) E d d'" and us: "us = t_users d"
  shows "list_all (init_granted name promote E us) (t_users d')"
proof -
  have "init_granted name promote E us u'" if u': "u' \<in> set (t_users d')" for u'
    using reset u' unfolding promotes_def us
  proof (elim ballE disjE bexE)
    fix x assume "x \<in> set (t_users d)" and "same_grants x u'"
    then show "init_granted name promote E (t_users d) u'"
      by (auto simp: init_granted_def same_grants_def)
  next
    assume "u_id u' = u_id u \<and> u_role u' = ''admin'' \<and> u_status u' = ''active'' \<and>
      u_sso_provider u' = ''local'' \<and>
      (\<exists>x \<in> set (t_users d). u_id x = u_id u \<and> u_sso_provider x = ''local'')"
    then show "init_granted name promote E (t_users d) u'"
      using found allowed us by (auto simp: init_granted_def)
  qed auto
  then show ?thesis by (simp add: list_all_iff)
qed

lemma initAdmin_new:
  assumes "run_state (createUser (new_admin i name hash)) w = (r, w')"
    and "\<not> list_ex (same_name name E) (t_users (w_db w))"
  shows "list_all (init_granted name promote E (t_users (w_db w))) (t_users (w_db w'))"
proof (cases r)
  case (Inl e)
  with createUser_error assms(1) show ?thesis by (intro init_granted_same) simp
next
  case (Inr v)
  with createUser_ok(1) createUser_appends assms
  have "v = stamp_times (w_clock w (w_ticks w)) (new_admin i name hash)"
    and "t_users (w_db w') = t_users (w_db w) @ [v]" by blast+
  with assms(2) init_granted_same [of w w name promote E] show ?thesis
    by (auto simp: init_granted_def stamp_times_def new_admin_def)
qed

text \<open>What the command does once it has looked for the account: with an answer \<open>Inl e\<close> it may create
  one, with \<open>Inr u\<close> it may reset \<open>u\<close>.\<close>

lemma initAdmin_cases:
  assumes run: "run_state (initAdmin pr P name pass promote) w = (r, w')"
    and found: "run_state (getUserByUsername name) (w\<lparr>w_draws := Suc (w_draws w)\<rparr>) = (found, w1)"
  obtains "w_db w' = w_db w"
  | hash i r' w2 where "found = Inl ErrNotFound" "w_db w2 = w_db w1"
      "run_state (createUser (new_admin i name hash)) w2 = (r', w')"
  | u hash r' w2 where "found = Inr u" "w_db w2 = w_db w1" "w_engine w2 = w_engine w1"
      "u_sso_provider u = ''local''" "promote \<or> u_role u = ''admin'' \<and> u_status u = ''active''"
      "run_state (resetAdminPassword (u_id u) hash) w2 = (r', w')"
proof (cases "pw_Hash P (map (w_rand w (w_draws w)) [0..<16]) pass")
  case None
  then show ?thesis using run by (intro that(1)) (auto simp: initAdmin_def die_def)
next
  case hash: (Some hash)
  note simps = initAdmin_def log_line_def RandomHex_def die_def run_check run_or_die
  note same = getUserByUsername_cases(1) [OF found]
  show ?thesis
  proof (cases found)
    case (Inl e)
    let ?w2 = "w1\<lparr>w_draws := Suc (w_draws w1)\<rparr>"
    let ?u = "new_admin (hex_encode (map (w_rand w1 (w_draws w1)) [0..<12])) name hash"
    obtain r' v where c: "run_state (createUser ?u) ?w2 = (r', v)" by force
    have "e = ErrNotFound \<Longrightarrow> w' = v" "e \<noteq> ErrNotFound \<Longrightarrow> w' = w1"
      using run found hash Inl c by (auto simp: simps split: sum.splits)
    with c same Inl that(1) that(2) [of ?w2] show ?thesis by (cases "e = ErrNotFound") simp_all
  next
    case (Inr u)
    let ?w2 = "w1\<lparr>in_log := in_log w1 @ [existing_line pr u]\<rparr>"
    obtain r' v where c: "run_state (resetAdminPassword (u_id u) hash) ?w2 = (r', v)" by force
    let ?ok = "u_sso_provider u = ''local'' \<and> (promote \<or> u_role u = ''admin'' \<and> u_status u = ''active'')"
    have "?ok \<Longrightarrow> w' = v" "\<not> ?ok \<Longrightarrow> w' = ?w2"
      using run found hash Inr c by (auto simp: simps split: if_splits sum.splits)
    with c same Inr that(1) that(3) [of u ?w2] show ?thesis by (cases ?ok) simp_all
  qed
qed


section \<open>The first administrator\<close>

definition bootstrapped :: "user list \<Rightarrow> user list \<Rightarrow> bool" where
  "bootstrapped us us' \<longleftrightarrow> (\<exists>u. us' = us @ [u] \<and> u_username u = ''admin'' \<and> u_role u = ''admin'' \<and>
     u_status u = ''active'' \<and> u_sso_provider u = ''local'' \<and> u_must_change_password u)"

lemma createUser_bootstraps:
  assumes "run_state (createUser (new_admin i ''admin'' hash)) w = (r, w')"
  shows "case r of Inl e \<Rightarrow> w_db w' = w_db w | Inr v \<Rightarrow> bootstrapped (t_users (w_db w)) (t_users (w_db w'))"
proof (cases r)
  case (Inr v)
  with assms have "v = stamp_times (w_clock w (w_ticks w)) (new_admin i ''admin'' hash)"
    and "t_users (w_db w') = t_users (w_db w) @ [v]"
    using createUser_ok(1) createUser_appends by blast+
  with Inr show ?thesis by (simp add: bootstrapped_def stamp_times_def new_admin_def)
qed (use assms createUser_error in simp)

lemma run_countUsers:
  "run_state countUsers w =
     (if w_fault w (w_stmts w) then Inl (ErrSQL Fault) else Inr (length (t_users (w_db w))),
      w\<lparr>w_stmts := Suc (w_stmts w)\<rparr>)"
  by (simp add: countUsers_def run_stmt count_users_def)

text \<open>
  C22: when the server starts it adds at most one account, an active local administrator that must
  change its password, and none when the database answers that it has accounts. (A count that fails
  is taken for an empty table: a start that then succeeds has added one, whatever accounts there are.)
\<close>

theorem bootstrap_adds_one:
  "case run_state (bootstrap_admin P) w of
     (r, w') \<Rightarrow>
       (t_users (w_db w') = t_users (w_db w) \<or> bootstrapped (t_users (w_db w)) (t_users (w_db w'))) \<and>
       (if w_fault w (w_stmts w)
        then (case r of Inl e \<Rightarrow> True | Inr _ \<Rightarrow> bootstrapped (t_users (w_db w)) (t_users (w_db w')))
        else if t_users (w_db w) \<noteq> [] then r = Inr () \<and> w_db w' = w_db w else True)"
proof -
  let ?counted = "if w_fault w (w_stmts w) then 0 else length (t_users (w_db w))"
  show ?thesis
  proof (cases "?counted = 0")
    case True
    then show ?thesis
      by (auto simp: bootstrap_admin_def run_countUsers os_Getenv_def RandomHex_def log_line_def
          die_def run_or_die run_check split: prod.split sum.split option.split if_splits
          dest!: createUser_bootstraps split: sum.splits)
  next
    case False
    then show ?thesis by (auto simp: bootstrap_admin_def run_countUsers)
  qed
qed

section \<open>Runs on record\<close>

lemma recordRun_last:
  assumes "healthy (snd (run_state (recordRun L actor res err) s))"
  shows "audited (Some (fst (rl_Outcome L res err))) actor ''''
    (w_db (snd (run_state (recordRun L actor res err) s)))"
  using assms
  by (auto simp: recordRun_def Let_def logAudit_def run_stmt insert_audit_def audited_def last_audit_def
      log_line_def new_audit_def time_IsZero_def healthy_def split: if_splits prod.splits option.splits)

text \<open>
  A minute's tick of the scheduler that finds no run due does nothing but read the schedule; one
  that runs a backup leaves a row under \<open>system\<close> as the last of the audit trail, whether the run
  succeeded or failed, unless backups were never configured, as long as the database takes it.
\<close>

lemma scheduled_runs_on_record:
  "case run_state (rl_NextRun L (c_deposit_interval (cfg_backup cfg)) (settings_of L)) s of
     (Inr (Some next_run), s1) \<Rightarrow>
       if w_clock s1 (w_ticks s1) < next_run
       then exec (backup_tick L cfg rc) s = s1\<lparr>w_ticks := Suc (w_ticks s1)\<rparr>
       else (case run_state (rl_Run L rc (settings_of L) (Collect L cfg main_appVersion))
                (s1\<lparr>w_ticks := Suc (w_ticks s1)\<rparr>) of
          ((res, err), s2) \<Rightarrow>
            if never_configured err then exec (backup_tick L cfg rc) s = s2
            else if healthy (exec (backup_tick L cfg rc) s)
            then audited (Some (fst (rl_Outcome L res err))) ''system'' ''''
                   (w_db (exec (backup_tick L cfg rc) s))
            else True)
   | (Inr None, s1) \<Rightarrow> exec (backup_tick L cfg rc) s = s1
   | (Inl e, s1) \<Rightarrow> w_db (exec (backup_tick L cfg rc) s) = w_db s1"
  by (auto simp: backup_tick_def exec_def log_line_def split: prod.split sum.split option.split
      intro: recordRun_last)

section \<open>Restored copies\<close>

lemma disable_ok:
  assumes "run_state (disableScheduledDeposits X p) h = (Inr u, h')"
  obtains b t b' where "h_nodes h p = Some (Regular b)" and "X deposits_off_sql t b = Inr b'"
    and "h_nodes h' p = Some (Regular b')"
  using assms
  by (auto simp: disableScheduledDeposits_def os_WriteFile_def run_syscall
      split: option.splits node.splits sum.splits if_splits)

lemma run_os_Stat:
  "run_state (os_Stat p) h =
     (if h_refused h (h_calls h) then Inl (failed_with [] ''input/output error'')
      else case h_nodes h p of
        None \<Rightarrow> Inl (failed_with [FileMissing] ''no such file or directory'') | Some x \<Rightarrow> Inr x,
      h\<lparr>h_calls := Suc (h_calls h)\<rparr>)"
  by (simp add: os_Stat_def run_syscall)

text \<open>
  A restore that reports success leaves a copy that does not deposit on schedule: either the
  capsule held no database, or the statement that turns the schedule off has run on it, whatever the
  file system refuses in between.
\<close>

lemma restore_turns_deposits_off:
  "case run_state (rl_Restore L capsulePath dir service shares) s of
     (r, s1) \<Rightarrow>
       (case run_state (restore L X capsulePath dir service shares) s of
          (Inl e, s') \<Rightarrow> True
        | (Inr _, s') \<Rightarrow>
            r = Inr () \<and>
            (case h_nodes s1 (restored_database dir) of
               None \<Rightarrow> h_nodes s' = h_nodes s1
             | Some n \<Rightarrow> (\<exists>b t b'. n = Regular b \<and> X deposits_off_sql t b = Inr b' \<and>
                 h_nodes s' (restored_database dir) = Some (Regular b'))))"
proof -
  obtain r s1 where r: "run_state (rl_Restore L capsulePath dir service shares) s = (r, s1)" by fastforce
  let ?p = "restored_database dir" and ?s2 = "s1\<lparr>h_calls := Suc (h_calls s1)\<rparr>"
  obtain r2 s2 where r2: "run_state (disableScheduledDeposits X ?p) ?s2 = (r2, s2)" by fastforce
  show ?thesis
  proof (cases r)
    case (Inl e)
    with r show ?thesis by (simp add: restore_def run_check)
  next
    case (Inr u)
    have "\<exists>b t b'. h_nodes s1 ?p = Some (Regular b) \<and> X deposits_off_sql t b = Inr b' \<and>
        h_nodes s2 ?p = Some (Regular b')" if "r2 = Inr v" for v
      using disable_ok [OF r2 [unfolded that]] by (metis host.select_convs(1) host.surjective host.update_convs(5))
    with Inr r r2 show ?thesis
      by (cases r2) (auto simp: restore_def run_check run_os_Stat Let_def log_line_def
          split: option.split)
  qed
qed

end
