(* ===== verification/Shutdown.thy ===== *)
theory Shutdown
  imports ServerMain
begin

text \<open>
  The end of the process: requests that outlive their connection register and leave through the
  counter of internal/api/server.go, \<open>WaitDetached\<close> waits on its condition variable, the scheduler
  closes its channel when it is between runs, and \<open>waitForBackupWork\<close> of cmd/server/main.go waits for
  both until its context expires. Each step below runs under the counter's mutex or takes one
  communication; any process may move at any time.
\<close>

section \<open>The processes\<close>

text \<open>A handler: not yet registered, registered, left but not yet broadcast, gone.\<close>

datatype handler_pc = Outside | Inside | Leaving | Gone

text \<open>The goroutine in \<open>WaitDetached\<close>: not started, holding the lock before the test of the loop,
  parked in \<^verbatim>\<open>Wait\<close>, returned.\<close>

datatype waiter_pc = NotWaiting | Testing | Parked | Returned

text \<open>\<open>runServer\<close>: serving, in the first \<^verbatim>\<open>select\<close>, in the second, returned (the store closes).\<close>

datatype main_pc = Serving | AwaitLoop | AwaitHandlers | Stopped

text \<open>\<open>sd_early\<close> remembers who was registered when the shutdown began.\<close>

record shutdown =
  sd_count :: int
  sd_handlers :: "handler_pc list"
  sd_waiter :: waiter_pc
  sd_loop_done :: bool
  sd_handlers_done :: bool
  sd_expired :: bool
  sd_main :: main_pc
  sd_abandoned_run :: bool
  sd_abandoned_handler :: bool
  sd_early :: "nat list"

definition sd_start :: "nat \<Rightarrow> shutdown" where
  "sd_start n = \<lparr>sd_count = 0, sd_handlers = replicate n Outside, sd_waiter = NotWaiting,
     sd_loop_done = False, sd_handlers_done = False, sd_expired = False, sd_main = Serving,
     sd_abandoned_run = False, sd_abandoned_handler = False, sd_early = []\<rparr>"

definition at_pc :: "handler_pc \<Rightarrow> nat \<Rightarrow> shutdown \<Rightarrow> bool" where
  "at_pc p i s \<longleftrightarrow> i < length (sd_handlers s) \<and> sd_handlers s ! i = p"

definition goto :: "nat \<Rightarrow> handler_pc \<Rightarrow> shutdown \<Rightarrow> shutdown" where
  "goto i p s = s\<lparr>sd_handlers := (sd_handlers s)[i := p]\<rparr>"

section \<open>The counter\<close>

definition sd_add :: "nat \<Rightarrow> shutdown \<Rightarrow> shutdown option" where
  "sd_add i s =
     (if at_pc Outside i s then Some (goto i Inside (s\<lparr>sd_count := sd_count s + 1\<rparr>)) else None)"

text \<open>\<open>done\<close> takes two steps: the count under the lock, then the broadcast.\<close>

definition sd_done :: "nat \<Rightarrow> shutdown \<Rightarrow> shutdown option" where
  "sd_done i s =
     (if at_pc Inside i s then Some (goto i Leaving (s\<lparr>sd_count := sd_count s - 1\<rparr>)) else None)"

definition sd_broadcast :: "nat \<Rightarrow> shutdown \<Rightarrow> shutdown option" where
  "sd_broadcast i s =
     (if at_pc Leaving i s
      then Some (goto i Gone (s\<lparr>sd_waiter := (if sd_waiter s = Parked then Testing else sd_waiter s)\<rparr>))
      else None)"

definition WaitDetached :: "shutdown \<Rightarrow> shutdown option" where
  "WaitDetached s =
     (if sd_waiter s = Testing
      then Some (s\<lparr>sd_waiter := (if sd_count s > 0 then Parked else Returned)\<rparr>)
      else None)"

section \<open>Waiting for backup work\<close>

text \<open>\<^verbatim>\<open>go func() { defer close(handlersDone); waitDetached() }()\<close>.\<close>

definition close_handlers :: "shutdown \<Rightarrow> shutdown option" where
  "close_handlers s =
     (if sd_waiter s = Returned then Some (s\<lparr>sd_handlers_done := True\<rparr>) else None)"

text \<open>
  What the main goroutine can do next: start the wait, find the loop done at once or block, and take
  whatever is ready of a channel and the context; with both ready, either.
\<close>

definition waitForBackupWork :: "shutdown \<Rightarrow> shutdown list" where
  "waitForBackupWork s =
     (case sd_main s of
        Serving \<Rightarrow>
          [s\<lparr>sd_waiter := Testing, sd_main := (if sd_loop_done s then AwaitHandlers else AwaitLoop),
             sd_early := filter (\<lambda>i. at_pc Inside i s) [0..<length (sd_handlers s)]\<rparr>]
      | AwaitLoop \<Rightarrow>
          (if sd_loop_done s then [s\<lparr>sd_main := AwaitHandlers\<rparr>] else []) @
          (if sd_expired s then [s\<lparr>sd_main := AwaitHandlers, sd_abandoned_run := True\<rparr>] else [])
      | AwaitHandlers \<Rightarrow>
          (if sd_handlers_done s then [s\<lparr>sd_main := Stopped\<rparr>] else []) @
          (if sd_expired s then [s\<lparr>sd_main := Stopped, sd_abandoned_handler := True\<rparr>] else [])
      | Stopped \<Rightarrow> [])"

inductive sd_step :: "shutdown \<Rightarrow> shutdown \<Rightarrow> bool" where
  step_add: "sd_add i s = Some t \<Longrightarrow> sd_step s t"
| step_done: "sd_done i s = Some t \<Longrightarrow> sd_step s t"
| step_broadcast: "sd_broadcast i s = Some t \<Longrightarrow> sd_step s t"
| step_wait: "WaitDetached s = Some t \<Longrightarrow> sd_step s t"
| step_close: "close_handlers s = Some t \<Longrightarrow> sd_step s t"
| step_loop: "sd_step s (s\<lparr>sd_loop_done := True\<rparr>)"
| step_expire: "sd_main s \<noteq> Serving \<Longrightarrow> sd_step s (s\<lparr>sd_expired := True\<rparr>)"
| step_main: "t \<in> set (waitForBackupWork s) \<Longrightarrow> sd_step s t"

inductive_cases sd_stepE: "sd_step s t"

inductive sd_reachable :: "nat \<Rightarrow> shutdown \<Rightarrow> bool" for n where
  reach_start: "sd_reachable n (sd_start n)"
| reach_step: "sd_reachable n s \<Longrightarrow> sd_step s t \<Longrightarrow> sd_reachable n t"

section \<open>The invariant\<close>

primrec inside :: "handler_pc list \<Rightarrow> int" where
  "inside [] = 0"
| "inside (p # ps) = of_bool (p = Inside) + inside ps"

lemma inside_update:
  "i < length ps \<Longrightarrow>
     inside (ps[i := p]) = inside ps - of_bool (ps ! i = Inside) + of_bool (p = Inside)"
  by (induction ps arbitrary: i) (auto simp: nth_Cons split: nat.splits)

lemma inside_nonneg: "0 \<le> inside ps"
  by (induction ps) auto

lemma inside_pos: "0 < inside ps \<longleftrightarrow> Inside \<in> set ps"
proof (induction ps)
  case (Cons p ps)
  then show ?case using inside_nonneg [of ps] by auto
qed simp

definition counted :: "shutdown \<Rightarrow> bool" where
  "counted s \<longleftrightarrow> sd_count s = inside (sd_handlers s)"

text \<open>A parked waiter has someone left who will broadcast.\<close>

definition wakeable :: "shutdown \<Rightarrow> bool" where
  "wakeable s \<longleftrightarrow> (sd_waiter s = Parked \<longrightarrow> Inside \<in> set (sd_handlers s) \<or> Leaving \<in> set (sd_handlers s))"

text \<open>When \<open>WaitDetached\<close> has returned, those registered before the shutdown have left.\<close>

definition waited :: "shutdown \<Rightarrow> bool" where
  "waited s \<longleftrightarrow>
     list_all (\<lambda>i. \<not> at_pc Outside i s) (sd_early s) \<and>
     (sd_handlers_done s \<longrightarrow> sd_waiter s = Returned) \<and>
     (sd_waiter s = Returned \<longrightarrow> list_all (\<lambda>i. \<not> at_pc Inside i s) (sd_early s)) \<and>
     (sd_main s = Serving \<longleftrightarrow> sd_waiter s = NotWaiting)"

definition reported :: "shutdown \<Rightarrow> bool" where
  "reported s \<longleftrightarrow>
     (sd_abandoned_run s \<or> sd_abandoned_handler s \<longrightarrow> sd_expired s) \<and>
     (sd_main s \<in> {AwaitHandlers, Stopped} \<longrightarrow> sd_loop_done s \<or> sd_abandoned_run s) \<and>
     (sd_main s = Stopped \<longrightarrow> sd_handlers_done s \<or> sd_abandoned_handler s)"

lemmas sd_defs = sd_add_def sd_done_def sd_broadcast_def WaitDetached_def close_handlers_def
  waitForBackupWork_def goto_def

lemma step_counted: "sd_step s t \<Longrightarrow> counted s \<Longrightarrow> counted t"
proof (erule sd_stepE)
  assume "t \<in> set (waitForBackupWork s)" and "counted s"
  then show "counted t"
    by (cases "sd_main s") (auto simp: counted_def waitForBackupWork_def split: if_splits)
qed (clarsimp simp: counted_def sd_defs at_pc_def inside_update simp del: if_split split: if_split_asm)+

lemma wait_reported: "t \<in> set (waitForBackupWork s) \<Longrightarrow> reported s \<Longrightarrow> reported t"
  by (cases "sd_main s") (auto simp: reported_def waitForBackupWork_def split: if_splits)

lemma reported_frame [simp]:
  "reported (s\<lparr>sd_count := n\<rparr>) = reported s"
  "reported (s\<lparr>sd_handlers := ps\<rparr>) = reported s"
  "reported (s\<lparr>sd_waiter := w\<rparr>) = reported s"
  by (simp_all add: reported_def)

lemma reported_more:
  "reported s \<Longrightarrow> reported (s\<lparr>sd_loop_done := True\<rparr>)"
  "reported s \<Longrightarrow> reported (s\<lparr>sd_expired := True\<rparr>)"
  "reported s \<Longrightarrow> reported (s\<lparr>sd_handlers_done := True\<rparr>)"
  by (simp_all add: reported_def)

lemma moves_reported:
  "sd_add i s = Some t \<Longrightarrow> reported s \<Longrightarrow> reported t"
  "sd_done i s = Some t \<Longrightarrow> reported s \<Longrightarrow> reported t"
  "sd_broadcast i s = Some t \<Longrightarrow> reported s \<Longrightarrow> reported t"
  "WaitDetached s = Some t \<Longrightarrow> reported s \<Longrightarrow> reported t"
  "close_handlers s = Some t \<Longrightarrow> reported s \<Longrightarrow> reported t"
  by (clarsimp simp: sd_add_def sd_done_def sd_broadcast_def WaitDetached_def close_handlers_def
      goto_def reported_more simp del: if_split split: if_split_asm)+

lemma step_reported: "sd_step s t \<Longrightarrow> reported s \<Longrightarrow> reported t"
  by (erule sd_stepE) (simp_all add: moves_reported reported_more wait_reported)

lemma step_wakeable: "sd_step s t \<Longrightarrow> counted s \<Longrightarrow> wakeable s \<Longrightarrow> wakeable t"
proof (erule sd_stepE)
  fix i assume "sd_add i s = Some t"
  then show "wakeable t" by (auto simp: sd_defs at_pc_def wakeable_def set_update_memI split: if_splits)
next
  fix i assume "sd_done i s = Some t"
  then show "wakeable t" by (auto simp: sd_defs at_pc_def wakeable_def set_update_memI split: if_splits)
next
  assume "counted s" and "WaitDetached s = Some t"
  then show "wakeable t" by (auto simp: WaitDetached_def counted_def wakeable_def inside_pos split: if_splits)
next
  assume "t \<in> set (waitForBackupWork s)" and "wakeable s"
  then show "wakeable t"
    by (cases "sd_main s") (auto simp: wakeable_def waitForBackupWork_def split: if_splits)
qed (auto simp: wakeable_def sd_broadcast_def close_handlers_def goto_def split: if_splits)

lemma step_waited: "sd_step s t \<Longrightarrow> counted s \<Longrightarrow> waited s \<Longrightarrow> waited t"
proof (erule sd_stepE)
  assume "counted s" and "waited s" and "WaitDetached s = Some t"
  then show "waited t"
    by (auto simp: WaitDetached_def counted_def waited_def at_pc_def list_all_iff inside_pos
        dest: nth_mem split: if_splits)
next
  assume "t \<in> set (waitForBackupWork s)" and "waited s"
  then show "waited t"
    by (cases "sd_main s")
      (auto simp: waited_def waitForBackupWork_def at_pc_def list_all_iff split: if_splits)
qed (auto simp: waited_def sd_add_def sd_done_def sd_broadcast_def close_handlers_def goto_def at_pc_def
    nth_list_update list_all_iff split: if_split_asm)

lemma start_inv:
  "counted (sd_start n)" "wakeable (sd_start n)" "waited (sd_start n)" "reported (sd_start n)"
proof -
  have "inside (replicate n Outside) = 0" by (induction n) simp_all
  then show "counted (sd_start n)" by (simp add: counted_def sd_start_def)
qed (simp_all add: wakeable_def waited_def reported_def sd_start_def)

lemma reachable_inv:
  "sd_reachable n s \<Longrightarrow> counted s \<and> wakeable s \<and> waited s \<and> reported s"
  by (induction rule: sd_reachable.induct)
    (simp_all add: start_inv, blast intro: step_counted step_wakeable step_waited step_reported)

section \<open>What the shutdown promises\<close>

text \<open>
  C18: when the process stops waiting and the store closes, the scheduler was between runs and every
  handler registered when the shutdown began has left its work, unless the deadline had passed and
  the log says which of the two was abandoned.
\<close>

theorem shutdown_waits:
  assumes "sd_reachable n s" and "sd_main s = Stopped"
  shows "(sd_loop_done s \<or> sd_abandoned_run s) \<and>
    (sd_abandoned_handler s \<or> list_all (\<lambda>i. \<not> at_pc Inside i s) (sd_early s)) \<and>
    (if sd_abandoned_run s \<or> sd_abandoned_handler s then sd_expired s else True)"
  using reachable_inv [OF assms(1)] assms(2) by (auto simp: waited_def reported_def)

text \<open>
  C23: no wakeup is lost: whenever \<open>WaitDetached\<close> is parked somebody is left who will broadcast; so once
  everyone registered is gone, it has returned or its next test lets it.
\<close>

theorem no_lost_wakeup:
  assumes "sd_reachable n s" and "sd_main s \<noteq> Serving"
    and "list_all (\<lambda>p. p = Outside \<or> p = Gone) (sd_handlers s)"
  shows "sd_waiter s = Returned \<or>
    (case WaitDetached s of None \<Rightarrow> False | Some t \<Rightarrow> sd_waiter t = Returned)"
proof -
  have none: "Inside \<notin> set (sd_handlers s)" "Leaving \<notin> set (sd_handlers s)"
    using assms(3) by (auto simp: list_all_iff)
  moreover have "\<not> 0 < sd_count s"
    using reachable_inv [OF assms(1)] none(1) by (simp add: counted_def inside_pos)
  ultimately show ?thesis
    using reachable_inv [OF assms(1)] assms(2)
    by (cases "sd_waiter s") (auto simp: wakeable_def waited_def WaitDetached_def)
qed

section \<open>How far the main goroutine is\<close>

fun main_rank :: "main_pc \<Rightarrow> nat" where
  "main_rank Serving = 0"
| "main_rank AwaitLoop = 1"
| "main_rank AwaitHandlers = 2"
| "main_rank Stopped = 3"

instantiation main_pc :: linorder
begin

definition less_eq_main_pc :: "main_pc \<Rightarrow> main_pc \<Rightarrow> bool" where
  "less_eq_main_pc p q \<longleftrightarrow> main_rank p \<le> main_rank q"

definition less_main_pc :: "main_pc \<Rightarrow> main_pc \<Rightarrow> bool" where
  "less_main_pc p q \<longleftrightarrow> main_rank p < main_rank q"

instance
proof
  fix p q :: main_pc
  assume "p \<le> q" and "q \<le> p"
  then show "p = q" unfolding less_eq_main_pc_def by (cases p; cases q) simp_all
qed (auto simp: less_eq_main_pc_def less_main_pc_def)

end

lemma others_keep_main:
  "sd_add i s = Some t \<Longrightarrow> sd_main t = sd_main s" "sd_done i s = Some t \<Longrightarrow> sd_main t = sd_main s"
  "sd_broadcast i s = Some t \<Longrightarrow> sd_main t = sd_main s" "WaitDetached s = Some t \<Longrightarrow> sd_main t = sd_main s"
  "close_handlers s = Some t \<Longrightarrow> sd_main t = sd_main s"
  by (clarsimp simp: sd_add_def sd_done_def sd_broadcast_def WaitDetached_def close_handlers_def
      goto_def simp del: if_split split: if_split_asm)+

lemma wait_advances: "t \<in> set (waitForBackupWork s) \<Longrightarrow> sd_main s < sd_main t"
  by (cases "sd_main s") (auto simp: waitForBackupWork_def less_main_pc_def split: if_splits)

lemma step_advances: "sd_step s t \<Longrightarrow> sd_main s \<le> sd_main t"
  by (erule sd_stepE) (auto simp: others_keep_main dest: wait_advances)

text \<open>A run in which the main goroutine takes \<open>k\<close> of the steps.\<close>

inductive sd_run :: "nat \<Rightarrow> shutdown \<Rightarrow> shutdown \<Rightarrow> bool" where
  run_start: "sd_run 0 s s"
| run_other: "sd_run k s t \<Longrightarrow> sd_step t u \<Longrightarrow> sd_run k s u"
| run_main: "sd_run k s t \<Longrightarrow> u \<in> set (waitForBackupWork t) \<Longrightarrow> sd_run (Suc k) s u"

lemma run_rank: "sd_run k s t \<Longrightarrow> main_rank (sd_main s) + k \<le> main_rank (sd_main t)"
proof (induction rule: sd_run.induct)
  case (run_other k s t u)
  then show ?case using step_advances [of t u] by (simp add: less_eq_main_pc_def)
next
  case (run_main k s t u)
  then show ?case using wait_advances [of u t] by (simp add: less_main_pc_def)
qed simp

lemma rank_le: "main_rank p \<le> 3"
  by (cases p) simp_all


section \<open>A shutdown\<close>

text \<open>One handler, registered before the signal and done before the deadline.\<close>

definition demo_stop :: shutdown where
  "demo_stop = \<lparr>sd_count = 0, sd_handlers = [Gone], sd_waiter = Returned, sd_loop_done = True,
     sd_handlers_done = True, sd_expired = False, sd_main = Stopped, sd_abandoned_run = False,
     sd_abandoned_handler = False, sd_early = [0]\<rparr>"

lemma demo_stop_reachable:
  "sd_reachable 1 (demo_stop\<lparr>sd_main := AwaitHandlers\<rparr>)" "sd_reachable 1 demo_stop"
proof -
  note defs = sd_defs at_pc_def sd_start_def demo_stop_def
  let ?s0 = "sd_start 1"
  let ?s1 = "?s0\<lparr>sd_handlers := [Inside], sd_count := 1\<rparr>"
  let ?s2 = "?s1\<lparr>sd_waiter := Testing, sd_main := AwaitLoop, sd_early := [0]\<rparr>"
  let ?s3 = "?s2\<lparr>sd_waiter := Parked\<rparr>"
  let ?s4 = "?s3\<lparr>sd_handlers := [Leaving], sd_count := 0\<rparr>"
  let ?s5 = "?s4\<lparr>sd_handlers := [Gone], sd_waiter := Testing\<rparr>"
  let ?s6 = "?s5\<lparr>sd_waiter := Returned\<rparr>"
  let ?s7 = "?s6\<lparr>sd_handlers_done := True\<rparr>"
  let ?s8 = "?s7\<lparr>sd_loop_done := True\<rparr>"
  have "sd_reachable 1 ?s0" by (rule reach_start)
  then have "sd_reachable 1 ?s1" by (rule reach_step) (rule step_add [of 0], simp add: defs)
  then have "sd_reachable 1 ?s2" by (rule reach_step) (rule step_main, simp add: defs)
  then have "sd_reachable 1 ?s3" by (rule reach_step) (rule step_wait, simp add: defs)
  then have "sd_reachable 1 ?s4" by (rule reach_step) (rule step_done [of 0], simp add: defs)
  then have "sd_reachable 1 ?s5" by (rule reach_step) (rule step_broadcast [of 0], simp add: defs)
  then have "sd_reachable 1 ?s6" by (rule reach_step) (rule step_wait, simp add: defs)
  then have "sd_reachable 1 ?s7" by (rule reach_step) (rule step_close, simp add: defs)
  then have "sd_reachable 1 ?s8" by (rule reach_step) (rule step_loop)
  then show 9: "sd_reachable 1 (demo_stop\<lparr>sd_main := AwaitHandlers\<rparr>)"
    by (rule reach_step) (rule step_main, simp add: defs)
  show "sd_reachable 1 demo_stop"
    by (rule reach_step [OF 9]) (rule step_main, simp add: defs)
qed

theorem shutdown_waits_witness: "sd_early demo_stop = [0] \<and> \<not> at_pc Inside 0 demo_stop"
  using shutdown_waits [OF demo_stop_reachable(2)] by (simp add: demo_stop_def)

theorem no_lost_wakeup_witness: "sd_waiter demo_stop = Returned"
  using no_lost_wakeup [OF demo_stop_reachable(2)] by (simp add: demo_stop_def WaitDetached_def)


end
